(* ===== verification/Prelude.thy ===== *)
theory Prelude
  imports Complex_Main "HOL-Library.List_Lexorder" "HOL-Library.Char_ord" "HOL-Library.Sublist"
    "HOL-Library.Multiset"
begin

text \<open>
  What every component shares: the collections of rewrite rules, the machine arithmetic of Go's
  64-bit integers, the comparisons of a float64, byte strings with the operations of Go's
  packages strings, strconv and path that the source calls, and lemmas on lists and sorting.

  A Go string is a list of bytes, so it is a \<open>string\<close> here. The letter case and white space of
  package strings are the ASCII ones: a byte above 127 is left as it is.
\<close>

named_theorems go_consts \<open>the literal values of the source's constants\<close>
named_theorems go_defs \<open>definitions of small operations, unfolded together\<close>

section \<open>64-bit integers\<close>

definition wrap64 :: "int \<Rightarrow> int" where
  "wrap64 x = (x + 2 ^ 63) mod 2 ^ 64 - 2 ^ 63"

definition int64 :: "int \<Rightarrow> bool" where
  "int64 x \<longleftrightarrow> - (2 ^ 63) \<le> x \<and> x < 2 ^ 63"

lemma wrap64_id [simp]: "int64 x \<Longrightarrow> wrap64 x = x"
  by (simp add: wrap64_def int64_def)

lemma int64_wrap64 [simp]: "int64 (wrap64 x)"
proof -
  have "0 \<le> (x + 2 ^ 63) mod 2 ^ 64" and "(x + 2 ^ 63) mod 2 ^ 64 < 2 ^ 64"
    by (rule pos_mod_sign, simp) (rule pos_mod_bound, simp)
  then show ?thesis by (simp add: wrap64_def int64_def)
qed

text \<open>Go's integer division and conversion of a quotient truncate towards zero.\<close>

definition quot :: "int \<Rightarrow> int \<Rightarrow> int" where
  "quot a b = sgn a * sgn b * (\<bar>a\<bar> div \<bar>b\<bar>)"

lemma quot_nonneg: "0 \<le> a \<Longrightarrow> 0 < b \<Longrightarrow> quot a b = a div b"
  by (cases "a = 0") (simp_all add: quot_def)

section \<open>float64\<close>

text \<open>
  A float64 is a finite rational, an infinity or NaN. Ordered comparison is false as soon as one
  side is NaN. Negative zero compares equal to zero and is identified with it.
\<close>

datatype float64 = NaN | NegInf | PosInf | Fin rat

fun flt_less :: "float64 \<Rightarrow> float64 \<Rightarrow> bool" where
  "flt_less NaN _ = False"
| "flt_less _ NaN = False"
| "flt_less _ NegInf = False"
| "flt_less NegInf _ = True"
| "flt_less PosInf _ = False"
| "flt_less _ PosInf = True"
| "flt_less (Fin a) (Fin b) = (a < b)"

fun is_finite :: "float64 \<Rightarrow> bool" where
  "is_finite (Fin _) = True"
| "is_finite _ = False"

section \<open>Byte strings\<close>

definition is_digit :: "char \<Rightarrow> bool" where
  "is_digit c \<longleftrightarrow> 48 \<le> (of_char c :: nat) \<and> (of_char c :: nat) \<le> 57"

definition digit_val :: "char \<Rightarrow> int" where
  "digit_val c = of_char c - 48"

definition lower_char :: "char \<Rightarrow> char" where
  "lower_char c =
     (if 65 \<le> (of_char c :: nat) \<and> (of_char c :: nat) \<le> 90 then char_of (of_char c + 32 :: nat) else c)"

definition ToLower :: "string \<Rightarrow> string" where
  "ToLower s = map lower_char s"

definition is_space :: "char \<Rightarrow> bool" where
  "is_space c \<longleftrightarrow> (of_char c :: nat) \<in> {9, 10, 11, 12, 13, 32}"

definition TrimSpace :: "string \<Rightarrow> string" where
  "TrimSpace s = rev (dropWhile is_space (rev (dropWhile is_space s)))"

text \<open>strconv.ParseInt(s, 10, 64): an optional sign, one or more digits, in the range.\<close>

definition digits_val :: "string \<Rightarrow> int" where
  "digits_val s = foldl (\<lambda>a c. a * 10 + digit_val c) 0 s"

definition ParseInt64 :: "string \<Rightarrow> int option" where
  "ParseInt64 s =
     (let (neg, ds) =
        (case s of [] \<Rightarrow> (False, [])
         | c # cs \<Rightarrow> if c = CHR ''-'' then (True, cs) else if c = CHR ''+'' then (False, cs) else (False, s));
      v = (if neg then - digits_val ds else digits_val ds)
      in if ds \<noteq> [] \<and> list_all is_digit ds \<and> int64 v then Some v else None)"

lemma ParseInt64_range: "ParseInt64 s = Some v \<Longrightarrow> int64 v"
  by (auto simp: ParseInt64_def Let_def split: list.splits if_splits prod.splits)

text \<open>The verb \<open>%d\<close> of package fmt.\<close>

fun show_nat :: "nat \<Rightarrow> string" where
  "show_nat n = (if n < 10 then [char_of (48 + n)] else show_nat (n div 10) @ [char_of (48 + n mod 10)])"

declare show_nat.simps [simp del]

definition show_int :: "int \<Rightarrow> string" where
  "show_int i = (if i < 0 then CHR ''-'' # show_nat (nat (- i)) else show_nat (nat i))"

text \<open>
  The verb \<open>%q\<close>: quotes and backslashes are escaped, control characters become their escapes. Bytes
  above 127 are kept, as Go keeps the printable characters of valid UTF-8.
\<close>

definition hex_digit :: "nat \<Rightarrow> char" where
  "hex_digit n = char_of (if n < 10 then 48 + n else 87 + n)"

definition quote_char :: "char \<Rightarrow> string" where
  "quote_char c =
     (let n = (of_char c :: nat) in
      if n = 34 \<or> n = 92 then [CHR 0x5C, c]
      else (case map_of (zip [7, 8, 12, 10, 13, 9, 11] ''abfnrtv'') n of
              Some e \<Rightarrow> [CHR 0x5C, e]
            | None \<Rightarrow> if n < 32 \<or> n = 127 then [CHR 0x5C, CHR ''x'', hex_digit (n div 16), hex_digit (n mod 16)]
                      else [c]))"

definition Quote :: "string \<Rightarrow> string" where
  "Quote s = CHR 0x22 # concat (map quote_char s) @ [CHR 0x22]"

text \<open>strings.Cut(s, sep) for a separator of one byte.\<close>

definition Cut :: "string \<Rightarrow> char \<Rightarrow> (string \<times> string) option" where
  "Cut s c = (if c \<in> set s then Some (takeWhile (\<lambda>d. d \<noteq> c) s, tl (dropWhile (\<lambda>d. d \<noteq> c) s)) else None)"

lemma Cut_Some: "Cut s c = Some (a, b) \<longleftrightarrow> s = a @ c # b \<and> c \<notin> set a"
proof
  assume h: "Cut s c = Some (a, b)"
  then have c: "c \<in> set s" and a: "a = takeWhile (\<lambda>d. d \<noteq> c) s"
    and b: "b = tl (dropWhile (\<lambda>d. d \<noteq> c) s)"
    by (auto simp: Cut_def split: if_splits)
  from c have ne: "dropWhile (\<lambda>d. d \<noteq> c) s \<noteq> []" by (simp add: dropWhile_eq_Nil_conv)
  then have "hd (dropWhile (\<lambda>d. d \<noteq> c) s) = c" using hd_dropWhile [of "\<lambda>d. d \<noteq> c" s] by simp
  with ne b have "dropWhile (\<lambda>d. d \<noteq> c) s = c # b"
    by (cases "dropWhile (\<lambda>d. d \<noteq> c) s") simp_all
  with a have "s = a @ c # b" by (metis takeWhile_dropWhile_id)
  moreover from a have "c \<notin> set a" by (auto dest: set_takeWhileD)
  ultimately show "s = a @ c # b \<and> c \<notin> set a" by blast
next
  assume h: "s = a @ c # b \<and> c \<notin> set a"
  then have "takeWhile (\<lambda>d. d \<noteq> c) s = a" and "dropWhile (\<lambda>d. d \<noteq> c) s = c # b"
    by (auto simp: takeWhile_append dropWhile_append)
  with h show "Cut s c = Some (a, b)" by (simp add: Cut_def)
qed

text \<open>strings.Split and strings.Join for a separator of one element.\<close>

fun Split :: "'a \<Rightarrow> 'a list \<Rightarrow> 'a list list" where
  "Split c [] = [[]]"
| "Split c (d # s) =
     (if d = c then [] # Split c s
      else (case Split c s of [] \<Rightarrow> [[d]] | t # ts \<Rightarrow> (d # t) # ts))"

fun Join :: "'a list \<Rightarrow> 'a list list \<Rightarrow> 'a list" where
  "Join sep [] = []"
| "Join sep [x] = x"
| "Join sep (x # y # xs) = x @ sep @ Join sep (y # xs)"

lemma Split_ne [simp]: "Split c s \<noteq> []"
  by (cases s) (auto split: list.splits)

lemma Join_Cons: "xs \<noteq> [] \<Longrightarrow> Join sep (x # xs) = x @ sep @ Join sep xs"
  by (cases xs) simp_all

lemma Join_Split [simp]: "Join [c] (Split c s) = s"
proof (induction s)
  case (Cons d s)
  then show ?case by (cases "Split c s"; cases "tl (Split c s)") (auto simp: Join_Cons)
qed simp

lemma Split_no_sep: "c \<notin> set s \<Longrightarrow> Split c s = [s]"
  by (induction s) auto

lemma Split_append_sep: "c \<notin> set s \<Longrightarrow> Split c (s @ c # t) = s # Split c t"
  by (induction s) auto

lemma Split_elem_no_sep: "t \<in> set (Split c s) \<Longrightarrow> c \<notin> set t"
proof (induction s arbitrary: t)
  case (Cons d s)
  then show ?case by (cases "Split c s") (auto split: if_splits)
qed simp

lemma Split_Join:
  "xs \<noteq> [] \<Longrightarrow> \<forall>x\<in>set xs. c \<notin> set x \<Longrightarrow> Split c (Join [c] xs) = xs"
proof (induction "[c]" xs rule: Join.induct)
  case (2 x)
  then show ?case by (simp add: Split_no_sep)
next
  case (3 x y xs)
  then show ?case by (simp add: Split_append_sep)
qed simp

section \<open>Lists, options and sorting\<close>

lemma option_eqI: "(\<And>x. a = Some x \<longleftrightarrow> b = Some x) \<Longrightarrow> a = b"
  by (cases a; cases b) auto

lemma not_image: "y \<notin> f ` A \<Longrightarrow> x \<in> A \<Longrightarrow> f x \<noteq> y"
  by blast

lemma sort_key_perm_unique:
  assumes "mset xs = mset ys" and "distinct (map f xs)"
  shows "sort_key f xs = sort_key f ys"
proof -
  have m: "mset (map f xs) = mset (map f ys)" using assms(1) by simp
  then have d: "distinct (map f ys)" using assms(2) by (metis mset_eq_imp_distinct_iff)
  have s: "set xs = set ys" using assms(1) by (rule mset_eq_setD)
  have dk: "distinct (map f (sort_key f zs))" if "distinct (map f zs)" for zs
    using that by (simp add: distinct_map)
  show ?thesis
    by (rule map_sorted_distinct_set_unique [of f])
      (use assms(2) d s dk in \<open>simp_all add: distinct_map\<close>)
qed

lemma find_distinct:
  assumes "distinct (map f xs)" and "x \<in> set xs"
  shows "find (\<lambda>y. f y = f x) xs = Some x"
  using assms by (induction xs) (auto simp: image_iff)

end
