(* ===== verification/Errs.thy ===== *)
theory Errs
  imports Prelude
begin

text \<open>
  Go error values: the sentinels every package exports, the envelope of internal/errs that carries
  an operation, a message, the wrapped error and a stack, and the standard library's ways to build
  and to search a chain (errors.New, fmt.Errorf with a wrapped error, errors.Join, errors.Is).
  A nil error is \<open>None\<close> of \<open>goerr option\<close>.
\<close>

section \<open>Sentinels\<close>

datatype sentinel =
  StoreErrNotFound | StoreErrMissingExpiry
| SandboxErrInvalidState | SandboxErrInvalidStateTransition | SandboxErrInvalidSpec
| SandboxErrSandboxNotRunning
| RuntimeErrNotFound | RuntimeErrImageMissing | RuntimeErrInvalidSandboxID | RuntimeErrInvalidSpec
| RuntimeErrInvalidPath | RuntimeErrPathNotFound | RuntimeErrFileTooLarge
| RuntimeErrTotalFilesTooLarge | RuntimeErrExecTimeout | RuntimeErrExecNotKilled
| EventsErrInvalidEvent | ControlErrInternal
| HttpErrInternal | HttpErrInvalidRequest | HttpErrNotFound
| ReconcilerErrPassInFlight
| ContextCanceled | ContextDeadlineExceeded

fun sentinel_text :: "sentinel \<Rightarrow> string" where
  "sentinel_text StoreErrNotFound = ''sandbox not found''"
| "sentinel_text StoreErrMissingExpiry = ''sandbox expiry is missing''"
| "sentinel_text SandboxErrInvalidState = ''invalid state''"
| "sentinel_text SandboxErrInvalidStateTransition = ''invalid state transition''"
| "sentinel_text SandboxErrInvalidSpec = ''invalid sandbox spec''"
| "sentinel_text SandboxErrSandboxNotRunning = ''sandbox not in running state''"
| "sentinel_text RuntimeErrNotFound = ''sandbox not found''"
| "sentinel_text RuntimeErrImageMissing = ''image not found''"
| "sentinel_text RuntimeErrInvalidSandboxID = ''invalid sandbox id''"
| "sentinel_text RuntimeErrInvalidSpec = ''invalid sandbox spec''"
| "sentinel_text RuntimeErrInvalidPath = ''invalid path''"
| "sentinel_text RuntimeErrPathNotFound = ''path not found in sandbox''"
| "sentinel_text RuntimeErrFileTooLarge = ''file exceeds file cap''"
| "sentinel_text RuntimeErrTotalFilesTooLarge = ''total files exceeds file total cap''"
| "sentinel_text RuntimeErrExecTimeout = ''exec deadline exceeded''"
| "sentinel_text RuntimeErrExecNotKilled = ''exec could not be stopped and may still be running''"
| "sentinel_text EventsErrInvalidEvent = ''invalid event''"
| "sentinel_text ControlErrInternal = ''internal failure''"
| "sentinel_text HttpErrInternal = ''internal failure''"
| "sentinel_text HttpErrInvalidRequest = ''invalid request''"
| "sentinel_text HttpErrNotFound = ''not found''"
| "sentinel_text ReconcilerErrPassInFlight = ''reconcile pass already in flight''"
| "sentinel_text ContextCanceled = ''context canceled''"
| "sentinel_text ContextDeadlineExceeded = ''context deadline exceeded''"

section \<open>Error values\<close>

text \<open>
  The phantom tag of \<open>errs.Error[T]\<close> is the owning package. \<open>Foreign\<close> is an error that no
  package of the repository declares (a driver's, the daemon's, an \<open>errors.New\<close> in a function).
\<close>

datatype pkg = PkgStore | PkgSandbox | PkgRuntime | PkgEvents | PkgControl | PkgHttp | PkgReconciler

datatype goerr =
  Sentinel sentinel
| Foreign string
| Envelope pkg string string "goerr option" bool
| Errorf string goerr
| Joined "goerr list"

definition errs_E :: "pkg \<Rightarrow> string \<Rightarrow> string \<Rightarrow> goerr option \<Rightarrow> goerr" where
  "errs_E p opn msg e = Envelope p opn msg e True"

definition errs_Wrap :: "pkg \<Rightarrow> string \<Rightarrow> string \<Rightarrow> goerr option \<Rightarrow> goerr" where
  "errs_Wrap p opn msg e = Envelope p opn msg e False"

text \<open>errors.Join drops the nil errors and is nil when nothing is left.\<close>

definition errors_Join :: "goerr option list \<Rightarrow> goerr option" where
  "errors_Join es =
     (case List.map_filter (\<lambda>e. e) es of [] \<Rightarrow> None | es' \<Rightarrow> Some (Joined es'))"

definition unwrap :: "goerr \<Rightarrow> goerr list" where
  "unwrap e = (case e of
       Envelope _ _ _ (Some e') _ \<Rightarrow> [e']
     | Errorf _ e' \<Rightarrow> [e']
     | Joined es \<Rightarrow> es
     | _ \<Rightarrow> [])"

fun errors_Is :: "goerr \<Rightarrow> sentinel \<Rightarrow> bool" where
  "errors_Is (Sentinel s) t = (s = t)"
| "errors_Is (Foreign _) t = False"
| "errors_Is (Envelope _ _ _ e _) t = (case e of None \<Rightarrow> False | Some e' \<Rightarrow> errors_Is e' t)"
| "errors_Is (Errorf _ e) t = errors_Is e t"
| "errors_Is (Joined es) t = (\<exists>e\<in>set es. errors_Is e t)"

fun Error :: "goerr \<Rightarrow> string" where
  "Error (Sentinel s) = sentinel_text s"
| "Error (Foreign s) = s"
| "Error (Envelope _ opn msg e _) =
     Join '': '' ((if opn \<noteq> [] then [opn] else []) @ (if msg \<noteq> [] then [msg] else [])
       @ (case e of None \<Rightarrow> [] | Some e' \<Rightarrow> [Error e']))"
| "Error (Errorf msg e) = msg @ '': '' @ Error e"
| "Error (Joined es) = Join [CHR 0x0A] (map Error es)"

text \<open>The stacks a chain carries: the envelope's comment promises at most one.\<close>

fun stacks :: "goerr \<Rightarrow> nat" where
  "stacks (Envelope _ _ _ e st) = (if st then 1 else 0) + (case e of None \<Rightarrow> 0 | Some e' \<Rightarrow> stacks e')"
| "stacks (Errorf _ e) = stacks e"
| "stacks (Joined es) = sum_list (map stacks es)"
| "stacks _ = 0"

fun top_op :: "pkg \<Rightarrow> goerr \<Rightarrow> string option"
  and top_ops :: "pkg \<Rightarrow> goerr list \<Rightarrow> string option" where
  "top_op p (Envelope q opn _ e _) =
     (if p = q then Some opn else (case e of None \<Rightarrow> None | Some e' \<Rightarrow> top_op p e'))"
| "top_op p (Errorf _ e) = top_op p e"
| "top_op p (Joined es) = top_ops p es"
| "top_op p _ = None"
| "top_ops p [] = None"
| "top_ops p (e # es) = (case top_op p e of Some r \<Rightarrow> Some r | None \<Rightarrow> top_ops p es)"

section \<open>The laws of the envelope\<close>

lemma errors_Is_E [simp]:
  "errors_Is (errs_E p opn msg e) t \<longleftrightarrow> (\<exists>e'. e = Some e' \<and> errors_Is e' t)"
  by (auto simp: errs_E_def split: option.splits)

lemma errors_Is_Wrap [simp]:
  "errors_Is (errs_Wrap p opn msg e) t \<longleftrightarrow> (\<exists>e'. e = Some e' \<and> errors_Is e' t)"
  by (auto simp: errs_Wrap_def split: option.splits)

lemma errors_Join_two [simp]: "errors_Join [Some a, Some b] = Some (Joined [a, b])"
  by (simp add: errors_Join_def List.map_filter_simps)

lemma set_map_filter_id: "set (List.map_filter (\<lambda>e. e) es) = {e. Some e \<in> set es}"
  by (induction es) (auto simp: List.map_filter_simps split: option.splits)

lemma errors_Is_Join:
  "errors_Join es = Some j \<Longrightarrow> errors_Is j t \<longleftrightarrow> (\<exists>e. Some e \<in> set es \<and> errors_Is e t)"
  using set_map_filter_id [of es]
  by (cases "List.map_filter (\<lambda>e. e) es") (auto simp: errors_Join_def)

lemma stacks_E [simp]: "stacks (errs_E p opn msg e) = 1 + (case e of None \<Rightarrow> 0 | Some e' \<Rightarrow> stacks e')"
  by (simp add: errs_E_def)

lemma stacks_Wrap [simp]: "stacks (errs_Wrap p opn msg e) = (case e of None \<Rightarrow> 0 | Some e' \<Rightarrow> stacks e')"
  by (simp add: errs_Wrap_def)

end
