(* ===== verification/RuntimeSpec.thy ===== *)
theory RuntimeSpec
  imports Errs
begin

text \<open>
  Package runtime (internal/runtime): the backend-neutral contract. The resolved spec and the
  floors its limits are validated against, the observed state of a sandbox, the path checks of
  file_info.go over Go's \<open>path.Clean\<close>, and the sandbox ids of ids.go. The uuid package is not part
  of the repository: its \<open>Parse\<close>, \<open>String\<close> and \<open>Nil\<close> are arguments.
\<close>

section \<open>Times and durations\<close>

text \<open>
  A \<open>time.Duration\<close> is a 64-bit count of nanoseconds. A \<open>time.Time\<close> is a count of nanoseconds
  from Go's zero time, which is 0, so \<open>IsZero\<close> is a comparison with 0.
\<close>

type_synonym duration = int
type_synonym gotime = int

definition Second :: duration where "Second = 1000000000"
definition Minute :: duration where "Minute = 60 * Second"
definition Hour :: duration where "Hour = 60 * Minute"

declare Second_def [go_consts] Minute_def [go_consts] Hour_def [go_consts]

definition IsZero :: "gotime \<Rightarrow> bool" where
  "IsZero t \<longleftrightarrow> t = 0"

definition After :: "gotime \<Rightarrow> gotime \<Rightarrow> bool" where
  "After t u \<longleftrightarrow> u < t"

declare IsZero_def [go_defs] After_def [go_defs]

section \<open>The resolved spec\<close>

type_synonym env = "(string \<times> string) list"

record Spec =
  spec_image :: string
  spec_env :: env
  spec_cpu :: float64
  spec_memory :: int
  spec_pids :: int
  spec_network :: bool

definition NewSpec :: "string \<Rightarrow> env \<Rightarrow> float64 \<Rightarrow> int \<Rightarrow> int \<Rightarrow> bool \<Rightarrow> Spec" where
  "NewSpec img en cpuLimit memoryLimit pidsLimit allowNetwork =
     \<lparr>spec_image = img, spec_env = en, spec_cpu = cpuLimit, spec_memory = memoryLimit,
      spec_pids = pidsLimit, spec_network = allowNetwork\<rparr>"

definition MinMemoryLimit :: int where "MinMemoryLimit = 6 * 1024 * 1024"

text \<open>The float64 nearest to 0.01.\<close>

definition MinCPULimit :: float64 where
  "MinCPULimit = Fin (5764607523034235 / 576460752303423488)"

declare MinMemoryLimit_def [go_consts] MinCPULimit_def [go_consts]

definition runtime_invalid :: "string \<Rightarrow> goerr" where
  "runtime_invalid msg = errs_E PkgRuntime ''runtime.Spec.Validate'' msg (Some (Sentinel RuntimeErrInvalidSpec))"

text \<open>The two float64 values that the CPU message prints with \<open>%g\<close> are left out of its text.\<close>

definition Spec_Validate :: "Spec \<Rightarrow> goerr option" where
  "Spec_Validate s =
     (if spec_image s = [] then Some (runtime_invalid ''image is required'')
      else if flt_less (spec_cpu s) MinCPULimit then Some (runtime_invalid ''cpu limit is below the minimum'')
      else if spec_memory s < MinMemoryLimit then Some (runtime_invalid
        (''memory limit '' @ show_int (spec_memory s) @ '' bytes is below the minimum '' @ show_int MinMemoryLimit))
      else if spec_pids s < 1 then Some (runtime_invalid
        (''pids limit '' @ show_int (spec_pids s) @ '' must be positive''))
      else None)"

lemma Spec_Validate_None:
  "Spec_Validate s = None \<longleftrightarrow>
     spec_image s \<noteq> [] \<and> \<not> flt_less (spec_cpu s) MinCPULimit \<and> MinMemoryLimit \<le> spec_memory s
     \<and> 1 \<le> spec_pids s"
  by (auto simp: Spec_Validate_def)

lemma Spec_Validate_Some:
  "Spec_Validate s = Some e \<Longrightarrow> errors_Is e t \<longleftrightarrow> t = RuntimeErrInvalidSpec"
  by (auto simp: Spec_Validate_def runtime_invalid_def split: if_splits)

section \<open>Observed sandboxes\<close>

type_synonym rt_state = string

definition StateRunning :: rt_state where "StateRunning = ''running''"
definition StateStopped :: rt_state where "StateStopped = ''stopped''"

declare StateRunning_def [go_consts] StateStopped_def [go_consts]

record Info =
  info_id :: string
  info_state :: rt_state
  info_created :: gotime

definition NewInfo :: "string \<Rightarrow> rt_state \<Rightarrow> gotime \<Rightarrow> Info" where
  "NewInfo i st createdAt = \<lparr>info_id = i, info_state = st, info_created = createdAt\<rparr>"

section \<open>Exec\<close>

record ExecOpts =
  exec_env :: env
  exec_workdir :: string
  exec_timeout :: duration

record ExecResult =
  res_exit :: int
  res_stdout :: string
  res_stderr :: string
  res_stdout_truncated :: bool
  res_stderr_truncated :: bool

definition DefaultExecTimeout :: duration where "DefaultExecTimeout = 30 * Second"
definition MaxStreamBytes :: nat where "MaxStreamBytes = 2 ^ 20"

declare DefaultExecTimeout_def [go_consts] MaxStreamBytes_def [go_consts]

section \<open>Paths\<close>

definition slash :: char where "slash = CHR ''/''"

definition IsAbs :: "string \<Rightarrow> bool" where
  "IsAbs p \<longleftrightarrow> (case p of [] \<Rightarrow> False | c # _ \<Rightarrow> c = slash)"

text \<open>
  \<open>path.Clean\<close> of the standard library: empty elements and \<open>.\<close> are dropped, an inner \<open>..\<close>
  removes the element before it, a leading \<open>..\<close> is dropped from a rooted path and kept in another;
  the empty result is \<open>.\<close>.
\<close>

fun clean_elems :: "bool \<Rightarrow> string list \<Rightarrow> string list \<Rightarrow> string list" where
  "clean_elems rooted out [] = rev out"
| "clean_elems rooted out (e # es) =
     (if e = [] \<or> e = ''.'' then clean_elems rooted out es
      else if e = ''..'' then
        (case out of
           [] \<Rightarrow> clean_elems rooted (if rooted then [] else [''..'']) es
         | o1 # os \<Rightarrow> if o1 = ''..'' then clean_elems rooted (''..'' # out) es else clean_elems rooted os es)
      else clean_elems rooted (e # out) es)"

definition Clean :: "string \<Rightarrow> string" where
  "Clean p =
     (if p = [] then ''.''
      else let rooted = IsAbs p; es = clean_elems rooted [] (Split slash p);
               body = Join [slash] es
           in if rooted then slash # body else if body = [] then ''.'' else body)"

record FileInfo =
  fi_path :: string
  fi_size :: int
  fi_mode :: int
  fi_isdir :: bool

definition MaxFileSize :: nat where "MaxFileSize = 10 * 2 ^ 20"
definition MaxTotalFiles :: nat where "MaxTotalFiles = 1000"

declare MaxFileSize_def [go_consts] MaxTotalFiles_def [go_consts]

definition ValidatePath :: "string \<Rightarrow> goerr option" where
  "ValidatePath p =
     (if p = [] then Some (Sentinel RuntimeErrInvalidPath)
      else if \<not> IsAbs p then Some (Sentinel RuntimeErrInvalidPath)
      else if p \<noteq> Clean p then Some (Sentinel RuntimeErrInvalidPath)
      else None)"

definition ValidateRead :: "string \<Rightarrow> goerr option" where
  "ValidateRead filePath =
     (case ValidatePath filePath of
        Some e \<Rightarrow> Some e
      | None \<Rightarrow> if filePath = [slash] then Some (Sentinel RuntimeErrInvalidPath) else None)"

definition ValidateRemove :: "string \<Rightarrow> goerr option" where
  "ValidateRemove p = ValidateRead p"

definition ValidateWrite :: "string \<Rightarrow> string \<Rightarrow> goerr option" where
  "ValidateWrite filePath content =
     (case ValidateRead filePath of
        Some e \<Rightarrow> Some e
      | None \<Rightarrow> if length content > MaxFileSize then Some (Sentinel RuntimeErrFileTooLarge) else None)"

subsection \<open>What a validated path looks like\<close>

definition plain_elem :: "string \<Rightarrow> bool" where
  "plain_elem e \<longleftrightarrow> e \<noteq> [] \<and> e \<noteq> ''.'' \<and> e \<noteq> ''..'' \<and> slash \<notin> set e"

lemma clean_elems_plain:
  "\<forall>e\<in>set es. plain_elem e \<Longrightarrow> clean_elems r out es = rev out @ es"
  by (induction r out es rule: clean_elems.induct) (auto simp: plain_elem_def)

lemma clean_elems_rooted_plain:
  "\<forall>e\<in>set es. slash \<notin> set e \<Longrightarrow> \<forall>e\<in>set out. plain_elem e
     \<Longrightarrow> \<forall>e\<in>set (clean_elems True out es). plain_elem e"
proof (induction es arbitrary: out)
  case (Cons e es)
  show ?case
  proof (cases "e = ''..''")
    case True
    show ?thesis
    proof (cases out)
      case Nil
      with True Cons.prems Cons.IH [of "[]"] show ?thesis by simp
    next
      case (Cons o1 os)
      with Cons.prems have "o1 \<noteq> ''..''" and "\<forall>e\<in>set os. plain_elem e"
        by (simp_all add: plain_elem_def)
      with True Cons Cons.prems(1) Cons.IH [of os] show ?thesis by simp
    qed
  next
    case False
    show ?thesis
    proof (cases "e = [] \<or> e = ''.''")
      case True
      then show ?thesis using Cons.prems Cons.IH [of out] by auto
    next
      case neither: False
      with False Cons.prems have "plain_elem e" by (simp add: plain_elem_def)
      with neither False Cons.prems Cons.IH [of "e # out"] show ?thesis by simp
    qed
  qed
qed simp

lemma IsAbs_Cons [simp]: "IsAbs (c # p) \<longleftrightarrow> c = slash"
  by (simp add: IsAbs_def)

lemma Clean_plain:
  assumes "\<forall>e\<in>set es. plain_elem e"
  shows "Clean (slash # Join [slash] es) = slash # Join [slash] es"
proof (cases "es = []")
  case True
  then show ?thesis by (simp add: Clean_def Let_def)
next
  case False
  with assms have "Split slash (Join [slash] es) = es"
    by (intro Split_Join) (auto simp: plain_elem_def)
  with assms show ?thesis by (simp add: Clean_def Let_def clean_elems_plain)
qed

lemma Clean_rooted:
  assumes "IsAbs p"
  shows "\<exists>es. (\<forall>e\<in>set es. plain_elem e) \<and> Clean p = slash # Join [slash] es"
proof -
  from assms have "p \<noteq> []" by (auto simp: IsAbs_def)
  moreover have "\<forall>e\<in>set (clean_elems True [] (Split slash p)). plain_elem e"
    by (rule clean_elems_rooted_plain) (auto dest: Split_elem_no_sep)
  ultimately show ?thesis using assms by (auto simp: Clean_def Let_def)
qed

lemma Clean_idem_rooted: "IsAbs p \<Longrightarrow> Clean (Clean p) = Clean p"
  using Clean_rooted [of p] by (auto simp: Clean_plain)

lemma ValidatePath_cases: "ValidatePath p \<in> {None, Some (Sentinel RuntimeErrInvalidPath)}"
  by (simp add: ValidatePath_def)

lemma ValidatePath_None:
  "ValidatePath p = None \<longleftrightarrow>
     (\<exists>es. (\<forall>e\<in>set es. plain_elem e) \<and> p = slash # Join [slash] es)"
proof
  assume "ValidatePath p = None"
  then have "IsAbs p" and "p = Clean p" by (auto simp: ValidatePath_def split: if_splits)
  with Clean_rooted [of p] show "\<exists>es. (\<forall>e\<in>set es. plain_elem e) \<and> p = slash # Join [slash] es" by auto
qed (auto simp: ValidatePath_def Clean_plain)

lemma ValidateRead_None:
  "ValidateRead p = None \<longleftrightarrow>
     (\<exists>es. es \<noteq> [] \<and> (\<forall>e\<in>set es. plain_elem e) \<and> p = slash # Join [slash] es)"
proof -
  have ne: "Join [slash] es \<noteq> []" if "es \<noteq> []" and "\<forall>e\<in>set es. plain_elem e" for es
    using that by (cases es; cases "tl es") (auto simp: plain_elem_def)
  have "ValidateRead p = None \<longleftrightarrow> ValidatePath p = None \<and> p \<noteq> [slash]"
    by (simp add: ValidateRead_def split: option.splits)
  also have "\<dots> \<longleftrightarrow> (\<exists>es. es \<noteq> [] \<and> (\<forall>e\<in>set es. plain_elem e) \<and> p = slash # Join [slash] es)"
    unfolding ValidatePath_None using ne by (metis Join.simps(1) list.inject)
  finally show ?thesis .
qed

section \<open>Sandbox ids\<close>

record 'u uuid_pkg =
  uuid_Parse :: "string \<Rightarrow> 'u option"
  uuid_String :: "'u \<Rightarrow> string"
  uuid_Nil :: 'u

definition sandboxIDPrefix :: string where "sandboxIDPrefix = ''sbx_''"

text \<open>\<open>NewSandboxID\<close> of the uuid that the uuid package drew.\<close>

definition NewSandboxID :: "string \<Rightarrow> string" where
  "NewSandboxID u = sandboxIDPrefix @ u"

definition CutPrefix :: "string \<Rightarrow> string \<Rightarrow> string option" where
  "CutPrefix s pre = (if prefix pre s then Some (drop (length pre) s) else None)"

definition ValidateSandboxID :: "'u uuid_pkg \<Rightarrow> string \<Rightarrow> goerr option" where
  "ValidateSandboxID U i =
     (case CutPrefix i sandboxIDPrefix of
        None \<Rightarrow> Some (Sentinel RuntimeErrInvalidSandboxID)
      | Some uid \<Rightarrow>
          (case uuid_Parse U uid of
             None \<Rightarrow> Some (Sentinel RuntimeErrInvalidSandboxID)
           | Some v \<Rightarrow>
               if v = uuid_Nil U \<or> uuid_String U v \<noteq> uid
               then Some (Sentinel RuntimeErrInvalidSandboxID) else None))"

end
