(* ===== verification/Sandbox.thy ===== *)
theory Sandbox
  imports RuntimeSpec
begin

text \<open>
  Package sandbox (internal/sandbox): the task states and their transitions, the time to live, the
  sandbox record, the spec document with its defaults and its resolution into the spec the
  runtime enforces, and the memory limit parser.
\<close>

section \<open>Task states\<close>

type_synonym task_state = string

definition Pending :: task_state where "Pending = ''pending''"
definition Running :: task_state where "Running = ''running''"
definition Failed :: task_state where "Failed = ''failed''"
definition Stopping :: task_state where "Stopping = ''stopping''"
definition Stopped :: task_state where "Stopped = ''stopped''"

lemmas state_defs [go_consts] = Pending_def Running_def Failed_def Stopping_def Stopped_def

lemma states_distinct [simp]:
  "Pending \<noteq> Running" "Pending \<noteq> Failed" "Pending \<noteq> Stopping" "Pending \<noteq> Stopped"
  "Running \<noteq> Pending" "Running \<noteq> Failed" "Running \<noteq> Stopping" "Running \<noteq> Stopped"
  "Failed \<noteq> Pending" "Failed \<noteq> Running" "Failed \<noteq> Stopping" "Failed \<noteq> Stopped"
  "Stopping \<noteq> Pending" "Stopping \<noteq> Running" "Stopping \<noteq> Failed" "Stopping \<noteq> Stopped"
  "Stopped \<noteq> Pending" "Stopped \<noteq> Running" "Stopped \<noteq> Failed" "Stopped \<noteq> Stopping"
  by (simp_all add: state_defs)

lemma states_nonempty [simp]:
  "Pending \<noteq> []" "Running \<noteq> []" "Failed \<noteq> []" "Stopping \<noteq> []" "Stopped \<noteq> []"
  "[] \<noteq> Pending" "[] \<noteq> Running" "[] \<noteq> Failed" "[] \<noteq> Stopping" "[] \<noteq> Stopped"
  by (simp_all add: state_defs)

definition validTransitions :: "(task_state \<times> task_state list) list" where
  "validTransitions =
     [(Pending, [Running, Failed]), (Running, [Failed, Stopping]), (Failed, []),
      (Stopping, [Stopped]), (Stopped, [])]"

definition valid :: "task_state \<Rightarrow> bool" where
  "valid s \<longleftrightarrow> map_of validTransitions s \<noteq> None"

definition CanTransition :: "task_state \<Rightarrow> task_state \<Rightarrow> goerr option" where
  "CanTransition fr to =
     (if \<not> valid fr \<or> \<not> valid to then Some (Sentinel SandboxErrInvalidState)
      else if to \<notin> set (the (map_of validTransitions fr))
      then Some (Sentinel SandboxErrInvalidStateTransition)
      else None)"

definition terminal :: "task_state \<Rightarrow> bool" where
  "terminal s \<longleftrightarrow> s = Stopped \<or> s = Failed"

lemma valid_iff: "valid s \<longleftrightarrow> s \<in> {Pending, Running, Failed, Stopping, Stopped}"
  by (auto simp: valid_def validTransitions_def)

lemma CanTransition_None:
  "CanTransition fr to = None \<longleftrightarrow>
     (fr, to) \<in> {(Pending, Running), (Pending, Failed), (Running, Failed), (Running, Stopping),
                 (Stopping, Stopped)}"
  by (auto simp: CanTransition_def valid_iff validTransitions_def split: if_splits)

text \<open>The lifecycle moves strictly up in this rank, so it has no cycle.\<close>

definition state_rank :: "task_state \<Rightarrow> nat" where
  "state_rank s = (if s = Pending then 0 else if s = Running then 1 else if s = Stopping then 2 else 3)"

lemma CanTransition_rank: "CanTransition fr to = None \<Longrightarrow> state_rank fr < state_rank to"
  by (auto simp: CanTransition_None state_rank_def)

lemma terminal_no_transition: "terminal fr \<Longrightarrow> CanTransition fr to \<noteq> None"
  by (auto simp: CanTransition_None terminal_def)

section \<open>Time to live\<close>

definition DefaultTTL :: duration where "DefaultTTL = 15 * Minute"
definition MaxTTL :: duration where "MaxTTL = 24 * Hour"

declare DefaultTTL_def [go_consts] MaxTTL_def [go_consts]

definition ResolveTTL :: "duration \<Rightarrow> goerr + duration" where
  "ResolveTTL requested =
     (if requested = 0 then Inr DefaultTTL
      else if requested < 0 \<or> requested > MaxTTL
      then Inl (errs_E PkgSandbox ''sandbox.ResolveTTL'' ''ttl is outside (0, 24h0m0s]''
                  (Some (Sentinel SandboxErrInvalidSpec)))
      else Inr requested)"

lemma ResolveTTL_Inr: "ResolveTTL d = Inr t \<Longrightarrow> 0 < t \<and> t \<le> MaxTTL"
  by (auto simp: ResolveTTL_def go_consts split: if_splits)

lemma ResolveTTL_Inl: "ResolveTTL d = Inl e \<Longrightarrow> errors_Is e t \<longleftrightarrow> t = SandboxErrInvalidSpec"
  by (auto simp: ResolveTTL_def split: if_splits)

section \<open>The spec document\<close>

text \<open>An optional field is a Go pointer, so absent and an explicit zero stay apart.\<close>

record SpecFile =
  file_image :: "string option"
  file_env :: env
  file_cpus :: "float64 option"
  file_memory :: "string option"
  file_pids :: "int option"
  file_network :: "bool option"

definition empty_SpecFile :: SpecFile where
  "empty_SpecFile = \<lparr>file_image = None, file_env = [], file_cpus = None, file_memory = None,
     file_pids = None, file_network = None\<rparr>"

text \<open>
  The methods take a pointer, so the receiver is an option. JSON is the standard library's: the
  document stands for its text, and marshalling fails exactly where encoding/json does on these
  field types, at a float64 that is not finite.
\<close>

definition SpecFile_ToJSON :: "SpecFile option \<Rightarrow> goerr + SpecFile" where
  "SpecFile_ToJSON s =
     (case s of
        None \<Rightarrow> Inl (errs_E PkgSandbox ''sandbox.SpecFile.ToJSON'' ''serializing spec''
                      (Some (Sentinel SandboxErrInvalidSpec)))
      | Some f \<Rightarrow>
          (case file_cpus f of
             Some c \<Rightarrow> if is_finite c then Inr f
                       else Inl (errs_E PkgSandbox ''sandbox.SpecFile.ToJSON'' ''marshaling spec to json''
                                   (Some (Foreign ''json: unsupported value'')))
           | None \<Rightarrow> Inr f))"

definition SpecFile_Validate :: "SpecFile option \<Rightarrow> goerr option" where
  "SpecFile_Validate s =
     (case s of
        None \<Rightarrow> Some (errs_E PkgSandbox ''sandbox.SpecFile.Validate'' ''spec is nil''
                       (Some (Sentinel SandboxErrInvalidSpec)))
      | Some _ \<Rightarrow> None)"

record Sandbox =
  sb_id :: nat
  sb_version :: int
  sb_sandbox_id :: string
  sb_state :: task_state
  sb_spec :: SpecFile
  sb_expires :: gotime
  sb_created :: gotime
  sb_updated :: gotime

record IdempotencyKey =
  ik_id :: nat
  ik_sandbox_id :: string
  ik_key :: string
  ik_created :: gotime
  ik_updated :: gotime

section \<open>Resolution\<close>

definition DefaultCPUs :: float64 where "DefaultCPUs = Fin 1"
definition DefaultMemory :: string where "DefaultMemory = ''512m''"
definition DefaultPidsLimit :: int where "DefaultPidsLimit = 256"
definition DefaultImage :: string where "DefaultImage = ''alpine:3.20''"

declare DefaultCPUs_def [go_consts] DefaultMemory_def [go_consts] DefaultPidsLimit_def [go_consts]
  DefaultImage_def [go_consts]

definition orDefault :: "'a option \<Rightarrow> 'a \<Rightarrow> 'a" where
  "orDefault v fallback = (case v of Some x \<Rightarrow> x | None \<Rightarrow> fallback)"

lemma orDefault_simps [simp]: "orDefault (Some x) d = x" "orDefault None d = d"
  by (simp_all add: orDefault_def)

definition memoryUnits :: "(char \<times> int) list" where
  "memoryUnits = [(CHR ''b'', 1), (CHR ''k'', 2 ^ 10), (CHR ''m'', 2 ^ 20), (CHR ''g'', 2 ^ 30)]"

text \<open>The product is taken in 64 bits.\<close>

definition parseMemory :: "string \<Rightarrow> goerr + int" where
  "parseMemory v =
     (let trimmed = TrimSpace (ToLower v) in
      if trimmed = [] then Inl (Foreign (''invalid memory limit '' @ Quote v @ '': expected a size like 512m''))
      else
        let (multiplier, digs) =
              (case map_of memoryUnits (last trimmed) of
                 Some u \<Rightarrow> (u, butlast trimmed) | None \<Rightarrow> (1, trimmed))
        in (case ParseInt64 digs of
              None \<Rightarrow> Inl (Foreign (''invalid memory limit '' @ Quote v @ '': expected a whole number with an optional b/k/m/g suffix''))
            | Some digits \<Rightarrow>
                if digits > quot (2 ^ 62) multiplier then Inl (Foreign (''invalid memory limit '' @ Quote v @ '': too large''))
                else Inr (wrap64 (digits * multiplier))))"

definition Resolve :: "SpecFile option \<Rightarrow> goerr + Spec" where
  "Resolve s =
     (case s of
        None \<Rightarrow> Inl (errs_E PkgSandbox ''sandbox.SpecFile.Resolve'' ''spec is nil''
                      (Some (Sentinel SandboxErrInvalidSpec)))
      | Some f \<Rightarrow>
          (case parseMemory (orDefault (file_memory f) DefaultMemory) of
             Inl e \<Rightarrow> Inl (errs_E PkgSandbox ''sandbox.SpecFile.Resolve'' (Error e)
                            (Some (Sentinel SandboxErrInvalidSpec)))
           | Inr memoryBytes \<Rightarrow>
               Inr (NewSpec (orDefault (file_image f) DefaultImage) (file_env f)
                      (orDefault (file_cpus f) DefaultCPUs) memoryBytes
                      (orDefault (file_pids f) DefaultPidsLimit) (orDefault (file_network f) False))))"

definition ResolveValidated :: "SpecFile option \<Rightarrow> goerr + Spec" where
  "ResolveValidated s =
     (case Resolve s of
        Inl e \<Rightarrow> Inl e
      | Inr resolved \<Rightarrow>
          (case Spec_Validate resolved of Some e \<Rightarrow> Inl e | None \<Rightarrow> Inr resolved))"

end
