(* ===== verification/DockerParts.thy ===== *)
theory DockerParts
  imports RuntimeSpec "HOL-Library.Log_Nat"
begin

text \<open>
  The receiver-free parts of the Docker backend (internal/runtime/docker): the labels of labels.go,
  the translations of translate.go, the capped writer of stream.go, the container configuration and
  the error classifiers of docker.go, and the pattern given to pkill. What Go keeps in a map is an
  association list with distinct keys, whose order no function here depends on.
\<close>

section \<open>Labels\<close>

type_synonym labels = "(string \<times> string) list"

definition labelPrefix :: string where "labelPrefix = ''quickspin.''"
definition labelSandboxID :: string where "labelSandboxID = labelPrefix @ ''id''"
definition labelManaged :: string where "labelManaged = labelPrefix @ ''managed''"
definition labelManagedValue :: string where "labelManagedValue = ''true''"

declare labelPrefix_def [go_consts] labelSandboxID_def [go_consts] labelManaged_def [go_consts]
  labelManagedValue_def [go_consts]

text \<open>\<open>m[k]\<close> is the empty string for an absent key.\<close>

definition label_at :: "labels \<Rightarrow> string \<Rightarrow> string" where
  "label_at m k = (case map_of m k of Some v \<Rightarrow> v | None \<Rightarrow> [])"

definition managedLabels :: "string \<Rightarrow> labels" where
  "managedLabels i = [(labelSandboxID, i), (labelManaged, labelManagedValue)]"

definition isManaged :: "labels \<Rightarrow> bool" where
  "isManaged m \<longleftrightarrow> label_at m labelManaged = labelManagedValue"

definition managedMarkerLabels :: labels where
  "managedMarkerLabels = [(labelManaged, labelManagedValue)]"

definition sandboxIDFromLabels :: "'u uuid_pkg \<Rightarrow> labels \<Rightarrow> goerr + string" where
  "sandboxIDFromLabels U m =
     (let i = label_at m labelSandboxID in
      case ValidateSandboxID U i of Some e \<Rightarrow> Inl e | None \<Rightarrow> Inr i)"

definition managedSandboxID :: "'u uuid_pkg \<Rightarrow> labels \<Rightarrow> string option" where
  "managedSandboxID U m =
     (if \<not> isManaged m then None
      else case sandboxIDFromLabels U m of Inl _ \<Rightarrow> None | Inr i \<Rightarrow> Some i)"

text \<open>The values of the filter term \<open>label\<close> that \<open>labelFilter\<close> sends.\<close>

definition labelFilter :: "labels \<Rightarrow> string list" where
  "labelFilter m = map (\<lambda>(k, v). k @ ''='' @ v) m"

lemma label_names [simp]: "labelSandboxID \<noteq> labelManaged" "labelManaged \<noteq> labelSandboxID"
  by (simp_all add: go_consts)

lemma managedSandboxID_Some:
  "managedSandboxID U m = Some i \<longleftrightarrow>
     isManaged m \<and> label_at m labelSandboxID = i \<and> ValidateSandboxID U i = None"
  by (auto simp: managedSandboxID_def sandboxIDFromLabels_def Let_def split: option.splits)

lemma managedLabels_id [simp]:
  "ValidateSandboxID U i = None \<Longrightarrow> managedSandboxID U (managedLabels i) = Some i"
  by (simp add: managedSandboxID_Some managedLabels_def isManaged_def label_at_def)

lemma managedLabels_other: "managedSandboxID U (managedLabels i) = Some j \<Longrightarrow> j = i"
  by (auto simp: managedSandboxID_Some managedLabels_def label_at_def)

text \<open>
  How the daemon reads a label filter, as its API documents it: the text before the first equal
  sign is the key, the rest the value the container must carry.
\<close>

definition filter_matches :: "labels \<Rightarrow> string \<Rightarrow> bool" where
  "filter_matches m f =
     (case Cut f (CHR ''='') of None \<Rightarrow> map_of m f \<noteq> None | Some (k, v) \<Rightarrow> map_of m k = Some v)"

lemma filter_matches_pair:
  "CHR ''='' \<notin> set k \<Longrightarrow> filter_matches m (k @ ''='' @ v) \<longleftrightarrow> map_of m k = Some v"
proof -
  assume "CHR ''='' \<notin> set k"
  then have "Cut (k @ ''='' @ v) (CHR ''='') = Some (k, v)" by (simp add: Cut_Some)
  then show ?thesis by (simp add: filter_matches_def)
qed

lemma labelSandboxID_plain [simp]: "CHR ''='' \<notin> set labelSandboxID"
  by (simp add: go_consts)

lemma labelManaged_plain [simp]: "CHR ''='' \<notin> set labelManaged"
  by (simp add: go_consts)

lemma marker_filter: "(\<forall>f\<in>set (labelFilter managedMarkerLabels). filter_matches m f) \<longleftrightarrow> isManaged m"
proof -
  have "labelManagedValue \<noteq> []" by (simp add: go_consts)
  then show ?thesis
    by (auto simp: labelFilter_def managedMarkerLabels_def filter_matches_pair isManaged_def label_at_def
        split: option.splits simp del: append.simps)
qed

lemma id_filter:
  assumes "ValidateSandboxID U i = None"
  shows "(\<forall>f\<in>set (labelFilter (managedLabels i)). filter_matches m f) \<longleftrightarrow> managedSandboxID U m = Some i"
proof -
  have "labelManagedValue \<noteq> []" "i \<noteq> []"
    using assms by (auto simp: go_consts ValidateSandboxID_def CutPrefix_def sandboxIDPrefix_def)
  with assms show ?thesis
    by (auto simp: labelFilter_def managedLabels_def filter_matches_pair managedSandboxID_Some
        isManaged_def label_at_def split: option.splits simp del: append.simps)
qed

section \<open>Translations\<close>

definition startedStates :: "string list" where
  "startedStates = [''running'', ''restarting'']"

definition stateFromContainerState :: "string \<Rightarrow> rt_state" where
  "stateFromContainerState s = (if s \<in> set startedStates then StateRunning else StateStopped)"

text \<open>
  \<open>time.Unix(sec, 0).UTC()\<close>: the Unix epoch is 62135596800 seconds after Go's zero time.
\<close>

definition unix_epoch :: gotime where "unix_epoch = 62135596800 * Second"

definition createdAtFromUnix :: "int \<Rightarrow> gotime" where
  "createdAtFromUnix sec = (if sec = 0 then 0 else unix_epoch + sec * Second)"

definition envToArgs :: "env \<Rightarrow> string list" where
  "envToArgs en =
     map (\<lambda>k. k @ ''='' @ (case map_of en k of Some v \<Rightarrow> v | None \<Rightarrow> [])) (sort (map fst en))"

lemma createdAtFromUnix_zero: "createdAtFromUnix sec = 0 \<longleftrightarrow> sec = 0 \<or> sec = - 62135596800"
  by (auto simp: createdAtFromUnix_def unix_epoch_def Second_def)

lemma envToArgs_unique:
  assumes "distinct (map fst e1)" and "distinct (map fst e2)" and "map_of e1 = map_of e2"
  shows "envToArgs e1 = envToArgs e2"
proof -
  have "set (map fst e1) = set (map fst e2)" using assms(3) by (metis dom_map_of_conv_image_fst set_map)
  with assms(1,2) have "sort (map fst e1) = sort (map fst e2)"
    by (metis sorted_list_of_set_sort_remdups distinct_remdups_id)
  with assms(3) show ?thesis by (simp add: envToArgs_def)
qed

section \<open>The capped writer\<close>

record cappedWriter =
  cw_buf :: string
  cw_limit :: int
  cw_truncated :: bool

definition newCappedWriter :: "int \<Rightarrow> cappedWriter" where
  "newCappedWriter cap = \<lparr>cw_buf = [], cw_limit = cap, cw_truncated = False\<rparr>"

definition cw_Write :: "cappedWriter \<Rightarrow> string \<Rightarrow> cappedWriter \<times> int" where
  "cw_Write w p =
     (let room = cw_limit w - int (length (cw_buf w));
          w1 = (if int (length p) > room then w\<lparr>cw_truncated := True\<rparr> else w);
          w2 = (if room > 0 then w1\<lparr>cw_buf := cw_buf w1 @ take (nat (min room (int (length p)))) p\<rparr> else w1)
      in (w2, int (length p)))"

text \<open>A writer after a series of writes, and what it must hold.\<close>

fun cw_writes :: "cappedWriter \<Rightarrow> string list \<Rightarrow> cappedWriter" where
  "cw_writes w [] = w"
| "cw_writes w (p # ps) = cw_writes (fst (cw_Write w p)) ps"

definition cw_holds :: "nat \<Rightarrow> string \<Rightarrow> cappedWriter \<Rightarrow> bool" where
  "cw_holds cap s w \<longleftrightarrow>
     cw_limit w = int cap \<and> cw_buf w = take cap s \<and> (cw_truncated w \<longleftrightarrow> cap < length s)"

lemma cw_holds_new: "cw_holds cap [] (newCappedWriter (int cap))"
  by (simp add: cw_holds_def newCappedWriter_def)

lemma cw_holds_Write: "cw_holds cap s w \<Longrightarrow> cw_holds cap (s @ p) (fst (cw_Write w p))"
  by (auto simp: cw_holds_def cw_Write_def Let_def min_def nat_diff_distrib)

lemma cw_Write_len [simp]: "snd (cw_Write w p) = int (length p)"
  by (simp add: cw_Write_def Let_def)

lemma cw_holds_writes: "cw_holds cap s w \<Longrightarrow> cw_holds cap (s @ concat ps) (cw_writes w ps)"
proof (induction ps arbitrary: s w)
  case (Cons p ps)
  from Cons.IH [OF cw_holds_Write [OF Cons.prems, of p]] show ?case by simp
qed simp

lemma cw_writes_eq:
  "cw_writes (newCappedWriter (int cap)) ps =
     \<lparr>cw_buf = take cap (concat ps), cw_limit = int cap, cw_truncated = (cap < length (concat ps))\<rparr>"
  using cw_holds_writes [OF cw_holds_new, of cap ps] by (simp add: cw_holds_def)

section \<open>The pattern of pkill\<close>

definition meta_chars :: string where
  "meta_chars = CHR 0x5C # ''.+*?()|[]{}^$''"

definition QuoteMeta :: "string \<Rightarrow> string" where
  "QuoteMeta s = concat (map (\<lambda>c. if c \<in> set meta_chars then [CHR 0x5C, c] else [c]) s)"

definition pkillCommand :: "string list \<Rightarrow> string list" where
  "pkillCommand cmd = [''pkill'', ''-f'', ''-x'', ''--'', QuoteMeta (Join '' '' cmd)]"

definition classifyPkillExit :: "int \<Rightarrow> string \<times> bool" where
  "classifyPkillExit exitCode =
     (if exitCode = 0 \<or> exitCode = 1 then ([], True)
      else if exitCode = 126 \<or> exitCode = 127 then (''pkill is not available in this image'', False)
      else (''pkill exited '' @ show_int exitCode, False))"

text \<open>
  A pattern that is literal, as an extended regular expression is read: every metacharacter is
  escaped. Its meaning under \<open>-x\<close> is then the one string it spells.
\<close>

fun literal_of :: "string \<Rightarrow> string option" where
  "literal_of [] = Some []"
| "literal_of (c # cs) =
     (if c = CHR 0x5C then
        (case cs of
           [] \<Rightarrow> None
         | d # ds \<Rightarrow> if d \<in> set meta_chars then map_option (\<lambda>r. d # r) (literal_of ds) else None)
      else if c \<in> set meta_chars then None
      else map_option (\<lambda>r. c # r) (literal_of cs))"

lemma backslash_meta: "CHR 0x5C \<in> set meta_chars"
  by (simp add: meta_chars_def)

lemma literal_QuoteMeta: "literal_of (QuoteMeta s) = Some s"
  by (induction s) (auto simp: QuoteMeta_def backslash_meta)

section \<open>The container configuration\<close>

record Config =
  cfg_Image :: string
  cfg_Entrypoint :: "string list"
  cfg_Env :: "string list"
  cfg_Labels :: labels

record HostConfig =
  hc_RestartPolicy :: string
  hc_PublishAllPorts :: bool
  hc_NetworkMode :: string
  hc_Runtime :: string
  hc_Memory :: int
  hc_NanoCPUs :: int
  hc_PidsLimit :: "int option"

text \<open>
  \<open>int64(spec.CPULimit * 1e9)\<close>: the product is rounded to the nearest float64, ties to even, and
  truncated. The rounding keeps 53 significant bits, fewer below the normal range; \<open>flt_exp\<close> is the
  exponent of the last bit kept. A product outside the int64 range, or NaN, converts to a value that
  Go leaves to the machine; it is the least int64 here, as on amd64.
\<close>

definition pow2 :: "int \<Rightarrow> rat" where
  "pow2 e = (if 0 \<le> e then 2 ^ nat e else 1 / 2 ^ nat (- e))"

definition flt_exp :: "rat \<Rightarrow> int" where
  "flt_exp q =
     (let (a, b) = quotient_of \<bar>q\<bar>; k = int (floorlog 2 (nat a)) - int (floorlog 2 (nat b))
      in max (if \<bar>q\<bar> < pow2 k then k - 53 else k - 52) (- 1074))"

definition round_even :: "rat \<Rightarrow> int" where
  "round_even q =
     (let f = \<lfloor>q\<rfloor>; r = q - of_int f in
      if r < 1 / 2 then f else if r > 1 / 2 then f + 1 else if even f then f else f + 1)"

definition flt_round :: "rat \<Rightarrow> rat" where
  "flt_round q = (if q = 0 then 0 else let u = pow2 (flt_exp q) in of_int (round_even (q / u)) * u)"

definition truncate_rat :: "rat \<Rightarrow> int" where
  "truncate_rat q = (if 0 \<le> q then \<lfloor>q\<rfloor> else \<lceil>q\<rceil>)"

fun nano_cpus :: "float64 \<Rightarrow> int" where
  "nano_cpus (Fin q) =
     (let t = truncate_rat (flt_round (q * 1000000000)) in if int64 t then t else - (2 ^ 63))"
| "nano_cpus _ = - (2 ^ 63)"

definition newContainerConfigs :: "Spec \<Rightarrow> string \<Rightarrow> string \<Rightarrow> goerr + Config \<times> HostConfig" where
  "newContainerConfigs spec sandboxID containerRuntime =
     (case Spec_Validate spec of
        Some e \<Rightarrow> Inl (errs_Wrap PkgRuntime ''docker.newContainerConfigs'' [] (Some e))
      | None \<Rightarrow>
          let networkMode = (if spec_network spec then ''bridge'' else ''none'')
          in Inr (\<lparr>cfg_Image = spec_image spec, cfg_Entrypoint = [''sleep'', ''infinity''],
                   cfg_Env = envToArgs (spec_env spec), cfg_Labels = managedLabels sandboxID\<rparr>,
                  \<lparr>hc_RestartPolicy = ''always'', hc_PublishAllPorts = True, hc_NetworkMode = networkMode,
                   hc_Runtime = containerRuntime, hc_Memory = spec_memory spec,
                   hc_NanoCPUs = nano_cpus (spec_cpu spec), hc_PidsLimit = Some (spec_pids spec)\<rparr>))"

lemma newContainerConfigs_Inl:
  "newContainerConfigs spec i rt = Inl e \<Longrightarrow> errors_Is e RuntimeErrInvalidSpec \<and> Spec_Validate spec \<noteq> None"
  using Spec_Validate_Some by (auto simp: newContainerConfigs_def Let_def split: option.splits)

lemma newContainerConfigs_Inr:
  "newContainerConfigs spec i rt = Inr (cfg, hc) \<Longrightarrow>
     Spec_Validate spec = None \<and> cfg_Labels cfg = managedLabels i \<and> cfg_Image cfg = spec_image spec
     \<and> hc_Runtime hc = rt \<and> hc_Memory hc = spec_memory spec \<and> hc_PidsLimit hc = Some (spec_pids spec)
     \<and> (hc_NetworkMode hc = ''bridge'' \<longleftrightarrow> spec_network spec)"
  by (auto simp: newContainerConfigs_def Let_def split: option.splits if_splits)

section \<open>Classified errors\<close>

text \<open>\<open>errdefs.IsNotFound\<close> belongs to containerd: it is the argument \<open>isNotFound\<close>.\<close>

definition classifyNotFound ::
  "(goerr \<Rightarrow> bool) \<Rightarrow> string \<Rightarrow> string \<Rightarrow> sentinel \<Rightarrow> goerr \<Rightarrow> goerr" where
  "classifyNotFound isNotFound opn message s err =
     (if isNotFound err
      then errs_E PkgRuntime opn (message @ '': '' @ Error err) (Some (Sentinel s))
      else errs_E PkgRuntime opn message (Some err))"

definition classifyExecDone ::
  "string \<Rightarrow> string \<Rightarrow> string \<Rightarrow> goerr option \<Rightarrow> goerr option \<Rightarrow> goerr" where
  "classifyExecDone opn timeoutMsg cancelMsg parentErr derivedErr =
     (case parentErr of
        Some e \<Rightarrow> errs_E PkgRuntime opn cancelMsg (Some e)
      | None \<Rightarrow>
          if (case derivedErr of None \<Rightarrow> False | Some e \<Rightarrow> errors_Is e ContextDeadlineExceeded)
          then errs_E PkgRuntime opn timeoutMsg (Some (Sentinel RuntimeErrExecTimeout))
          else errs_E PkgRuntime opn cancelMsg (Some (Foreign ''exec command cancelled'')))"

lemma classifyNotFound_Is:
  "errors_Is (classifyNotFound nf opn msg s err) t \<longleftrightarrow> (if nf err then t = s else errors_Is err t)"
  by (auto simp: classifyNotFound_def)

text \<open>A timeout is reported as such exactly when the caller's own context is still alive.\<close>

lemma classifyExecDone_timeout:
  "\<not> (\<exists>e. parentErr = Some e \<and> errors_Is e RuntimeErrExecTimeout) \<Longrightarrow>
     errors_Is (classifyExecDone opn tm cm parentErr derivedErr) RuntimeErrExecTimeout \<longleftrightarrow>
       parentErr = None \<and> (\<exists>e. derivedErr = Some e \<and> errors_Is e ContextDeadlineExceeded)"
  by (auto simp: classifyExecDone_def split: option.splits)

lemma classifyExecDone_parent:
  "parentErr = Some e \<Longrightarrow> errors_Is (classifyExecDone opn tm cm parentErr derivedErr) t \<longleftrightarrow> errors_Is e t"
  by (simp add: classifyExecDone_def)

section \<open>The container runtime\<close>

text \<open>\<open>os.LookupEnv\<close> of \<open>QUICKSPIN_DOCKER_RUNTIME\<close> and \<open>goruntime.GOOS\<close> are arguments.\<close>

definition gVisorRuntime :: string where "gVisorRuntime = ''runsc''"

definition defaultContainerRuntime :: "string option \<Rightarrow> string \<Rightarrow> string" where
  "defaultContainerRuntime env_value goos =
     (case env_value of
        Some name \<Rightarrow> name
      | None \<Rightarrow> if goos = ''linux'' then gVisorRuntime else [])"

end
