(* ===== verification/TarFiles.thy ===== *)
theory TarFiles
  imports RuntimeSpec
begin

text \<open>
  File transfer as tar archives (internal/runtime/docker/file_archive.go). An archive is the list of
  its entries; a stream being read is the list of the entries still to come and whether it then
  ends well. The functions of Go's path and archive/tar packages that the source calls are modelled
  here: \<open>Base\<close>, \<open>Dir\<close>, \<open>JoinPath\<close>, \<open>WriteHeader\<close>'s refusal and \<open>header.FileInfo().Mode()\<close>.
\<close>

section \<open>Package path\<close>

definition Base :: "string \<Rightarrow> string" where
  "Base p =
     (if p = [] then ''.''
      else let q = rev (dropWhile (\<lambda>c. c = slash) (rev p));
               b = rev (takeWhile (\<lambda>c. c \<noteq> slash) (rev q))
           in if b = [] then [slash] else b)"

text \<open>The part of a path up to and including its last slash.\<close>

definition dir_part :: "string \<Rightarrow> string" where
  "dir_part p = rev (dropWhile (\<lambda>c. c \<noteq> slash) (rev p))"

definition Dir :: "string \<Rightarrow> string" where
  "Dir p = Clean (dir_part p)"

definition JoinPath :: "string \<Rightarrow> string \<Rightarrow> string" where
  "JoinPath a b =
     (case filter (\<lambda>e. e \<noteq> []) [a, b] of [] \<Rightarrow> [] | es \<Rightarrow> Clean (Join [slash] es))"

section \<open>Archives\<close>

datatype typeflag = TypeReg | TypeDir | TypeSymlink | TypeChar | TypeBlock | TypeFifo | TypeOther

record tar_header =
  th_name :: string
  th_mode :: int
  th_size :: int
  th_flag :: typeflag

type_synonym tar_entry = "tar_header \<times> string"

text \<open>\<open>mode.Perm()\<close> keeps the nine permission bits.\<close>

definition Perm :: "int \<Rightarrow> int" where "Perm mode = mode mod 2 ^ 9"

text \<open>
  \<open>fs.FileMode\<close> of a header: the permission bits, then the bits that package fs gives setuid,
  setgid, sticky and the file types. The type comes from the mode and from the flag; \<open>type_bits\<close>
  lists what each sets.
\<close>

definition mode_type_bits :: "int \<Rightarrow> nat set" where
  "mode_type_bits mode =
     (let m = mode mod 2 ^ 32 - mode mod 2 ^ 12 in
      if m = 16384 then {31} else if m = 4096 then {25} else if m = 40960 then {27}
      else if m = 24576 then {26} else if m = 8192 then {26, 21} else if m = 49152 then {24}
      else {})"

fun flag_type_bits :: "typeflag \<Rightarrow> nat set" where
  "flag_type_bits TypeSymlink = {27}"
| "flag_type_bits TypeChar = {26, 21}"
| "flag_type_bits TypeBlock = {26}"
| "flag_type_bits TypeDir = {31}"
| "flag_type_bits TypeFifo = {25}"
| "flag_type_bits _ = {}"

definition FileInfo_Mode :: "tar_header \<Rightarrow> int" where
  "FileInfo_Mode h =
     Perm (th_mode h) + (\<Sum>b\<in>mode_type_bits (th_mode h) \<union> flag_type_bits (th_flag h)
        \<union> (if bit (th_mode h) 11 then {23} else {}) \<union> (if bit (th_mode h) 10 then {22} else {})
        \<union> (if bit (th_mode h) 9 then {20} else {}). 2 ^ b)"

text \<open>No tar format holds a name with a NUL byte; \<open>WriteHeader\<close> refuses it.\<close>

definition WriteHeader :: "tar_header \<Rightarrow> goerr option" where
  "WriteHeader h =
     (if CHR 0x00 \<in> set (th_name h) then Some (Foreign ''archive/tar: cannot encode header'') else None)"

section \<open>Writing\<close>

definition archiveDirMode :: int where "archiveDirMode = 488"

fun write_headers :: "string \<Rightarrow> tar_entry list \<Rightarrow> goerr + tar_entry list" where
  "write_headers filePath [] = Inr []"
| "write_headers filePath ((h, body) # es) =
     (case WriteHeader h of
        Some e \<Rightarrow> Inl (Errorf (''creating tar header for '' @ filePath) e)
      | None \<Rightarrow> (case write_headers filePath es of Inl e \<Rightarrow> Inl e | Inr out \<Rightarrow> Inr ((h, body) # out)))"

text \<open>\<open>filePath[1:]\<close> panics on an empty path, which the caller has rejected; \<open>tl\<close> gives \<open>[]\<close> there.\<close>

definition fileArchive :: "string \<Rightarrow> string \<Rightarrow> int \<Rightarrow> goerr + tar_entry list" where
  "fileArchive filePath content mode =
     (let name = tl filePath; tokens = Split slash name;
          dirs = map (\<lambda>i. (\<lparr>th_name = Join [slash] (take (i + 1) tokens) @ [slash], th_mode = archiveDirMode,
                            th_size = 0, th_flag = TypeDir\<rparr>, [])) [0..<length tokens - 1];
          file = (\<lparr>th_name = name, th_mode = Perm mode, th_size = int (length content), th_flag = TypeReg\<rparr>, content)
      in write_headers filePath (dirs @ [file]))"

section \<open>Reading\<close>

text \<open>A stream ends with io.EOF when \<open>ts_clean\<close>, with a parse error otherwise.\<close>

record tar_stream =
  ts_entries :: "tar_entry list"
  ts_clean :: bool

definition bad_headers :: goerr where "bad_headers = Foreign ''failed parsing tar stream headers''"

fun unarchive :: "string \<Rightarrow> tar_entry list \<Rightarrow> bool \<Rightarrow> goerr + string" where
  "unarchive base [] clean = Inl (if clean then Sentinel RuntimeErrPathNotFound else bad_headers)"
| "unarchive base ((h, body) # es) clean =
     (if th_flag h \<noteq> TypeReg \<or> th_name h \<noteq> base then unarchive base es clean
      else if th_size h > int MaxFileSize then Inl (Sentinel RuntimeErrFileTooLarge)
      else if int (length body) < th_size h
      then Inl (Errorf ''failed reading tar archive contents'' (Foreign ''unexpected EOF''))
      else Inr (take (nat (th_size h)) body))"

definition fileUnarchive :: "string \<Rightarrow> tar_stream \<Rightarrow> goerr + string" where
  "fileUnarchive filePath content = unarchive (Base filePath) (ts_entries content) (ts_clean content)"

fun list_dir :: "string \<Rightarrow> string \<Rightarrow> FileInfo list \<Rightarrow> tar_entry list \<Rightarrow> bool \<Rightarrow> goerr + FileInfo list" where
  "list_dir dirPath parent fileInfos [] clean = (if clean then Inr fileInfos else Inl bad_headers)"
| "list_dir dirPath parent fileInfos ((h, body) # es) clean =
     (let entryPath = JoinPath parent (th_name h); isDir = (th_flag h = TypeDir) in
      if isDir \<and> entryPath = dirPath then list_dir dirPath parent fileInfos es clean
      else
        let fileInfos' = fileInfos @ [\<lparr>fi_path = entryPath, fi_size = th_size h,
                                       fi_mode = FileInfo_Mode h, fi_isdir = isDir\<rparr>]
        in if length fileInfos' > MaxTotalFiles then Inl (Sentinel RuntimeErrTotalFilesTooLarge)
           else list_dir dirPath parent fileInfos' es clean)"

definition listDirectoryFromTarStream :: "string \<Rightarrow> tar_stream \<Rightarrow> goerr + FileInfo list" where
  "listDirectoryFromTarStream dirPath content =
     list_dir dirPath (Dir dirPath) [] (ts_entries content) (ts_clean content)"

section \<open>Paths built from their elements\<close>

lemma Join_append:
  "xs \<noteq> [] \<Longrightarrow> ys \<noteq> [] \<Longrightarrow> Join sep (xs @ ys) = Join sep xs @ sep @ Join sep ys"
proof (induction xs)
  case (Cons x xs)
  then show ?case by (cases "xs = []") (simp_all add: Join_Cons)
qed simp

lemma Split_append: "Split c (s @ c # t) = Split c s @ Split c t"
proof (induction s)
  case (Cons d s)
  then show ?case by (cases "Split c s") (auto split: list.splits)
qed simp

lemma clean_elems_filter:
  "\<forall>e\<in>set es. plain_elem e \<or> e = [] \<or> e = ''.'' \<Longrightarrow>
     clean_elems r out es = rev out @ filter (\<lambda>e. e \<noteq> [] \<and> e \<noteq> ''.'') es"
  by (induction r out es rule: clean_elems.induct) (auto simp: plain_elem_def)

lemma Clean_slash: "Clean (slash # s) = slash # Join [slash] (clean_elems True [] (Split slash s))"
  by (simp add: Clean_def Let_def)

lemma plain_no_slash: "plain_elem e \<Longrightarrow> slash \<notin> set e" "plain_elem e \<Longrightarrow> e \<noteq> []" "plain_elem e \<Longrightarrow> e \<noteq> ''.''"
  by (simp_all add: plain_elem_def)

lemma Split_Join_plain: "es \<noteq> [] \<Longrightarrow> \<forall>e\<in>set es. plain_elem e \<Longrightarrow> Split slash (Join [slash] es) = es"
  by (rule Split_Join) (simp_all add: plain_elem_def)

lemma filter_plain [simp]: "\<forall>e\<in>set es. plain_elem e \<Longrightarrow> filter (\<lambda>e. e \<noteq> [] \<and> e \<noteq> ''.'') es = es"
  by (simp add: filter_id_conv plain_elem_def)

lemma path_split:
  assumes "es \<noteq> []"
  obtains pre where "slash # Join [slash] es = pre @ slash # last es"
    "pre = (if butlast es = [] then [] else slash # Join [slash] (butlast es))"
proof
  show "slash # Join [slash] es
    = (if butlast es = [] then [] else slash # Join [slash] (butlast es)) @ slash # last es"
    using assms Join_append [of "butlast es" "[last es]" "[slash]"]
    by (cases es rule: rev_cases) auto
qed simp

lemma Base_plain:
  assumes "es \<noteq> []" and p: "\<forall>e\<in>set es. plain_elem e"
  shows "Base (slash # Join [slash] es) = last es"
proof -
  obtain pre where pre: "slash # Join [slash] es = pre @ slash # last es" by (rule path_split [OF assms(1)])
  have l: "plain_elem (last es)" using assms by simp
  then obtain c cs where c: "rev (last es) = c # cs" "c \<noteq> slash"
    by (cases "rev (last es)") (auto simp: plain_elem_def dest: arg_cong [of _ _ set])
  have "dropWhile (\<lambda>c. c = slash) (rev (pre @ slash # last es)) = rev (pre @ slash # last es)"
    using c by simp
  moreover have "takeWhile (\<lambda>c. c \<noteq> slash) (rev (pre @ slash # last es)) = rev (last es)"
    using plain_no_slash(1) [OF l] by (simp add: takeWhile_append)
  ultimately show ?thesis
    unfolding Base_def pre using plain_no_slash(2) [OF l] by (simp add: Let_def del: rev_append)
qed

lemma Dir_plain:
  assumes "\<forall>e\<in>set es. plain_elem e"
  shows "Dir (slash # Join [slash] es) = slash # Join [slash] (butlast es)"
proof (cases "es = []")
  case True
  then show ?thesis by (simp add: Dir_def dir_part_def Clean_slash)
next
  case False
  obtain pre where pre: "slash # Join [slash] es = pre @ slash # last es"
    "pre = (if butlast es = [] then [] else slash # Join [slash] (butlast es))" by (rule path_split [OF False])
  have l: "plain_elem (last es)" using assms False by simp
  then have d: "dir_part (slash # Join [slash] es) = pre @ [slash]"
    unfolding pre(1) using plain_no_slash(1) [OF l] by (simp add: dir_part_def dropWhile_append)
  have b: "\<forall>e\<in>set (butlast es). plain_elem e" using assms by (auto dest: in_set_butlastD)
  show ?thesis
  proof (cases "butlast es = []")
    case True
    with pre(2) show ?thesis unfolding Dir_def d by (simp add: Clean_slash)
  next
    case False
    have "Split slash (Join [slash] (butlast es) @ [slash]) = butlast es @ [[]]"
      using Split_append [of slash "Join [slash] (butlast es)" "[]"] Split_Join_plain [OF False b] by simp
    moreover have "clean_elems True [] (butlast es @ [[]]) = butlast es"
      using b by (subst clean_elems_filter) auto
    ultimately show ?thesis using False pre(2) unfolding Dir_def d by (simp add: Clean_slash)
  qed
qed

text \<open>
  An entry that the daemon names from the base of the listed directory gets its absolute path back.
\<close>

lemma JoinPath_entry:
  assumes es: "\<forall>e\<in>set es. plain_elem e" and name: "name \<noteq> []"
    and ns: "\<forall>e\<in>set (Split slash name). plain_elem e \<or> e = [] \<or> e = ''.''"
  shows "JoinPath (slash # Join [slash] es) name
    = slash # Join [slash] (es @ filter (\<lambda>e. e \<noteq> [] \<and> e \<noteq> ''.'') (Split slash name))"
proof -
  have "clean_elems True [] (Split slash (Join [slash] es @ slash # name))
      = es @ filter (\<lambda>e. e \<noteq> [] \<and> e \<noteq> ''.'') (Split slash name)"
  proof (cases "es = []")
    case True
    with ns show ?thesis by (simp add: clean_elems_filter)
  next
    case False
    have "\<forall>e\<in>set (es @ Split slash name). plain_elem e \<or> e = [] \<or> e = ''.''" using es ns by auto
    from clean_elems_filter [OF this, of True "[]"] False es show ?thesis
      by (simp add: Split_append Split_Join_plain)
  qed
  with name show ?thesis by (simp add: JoinPath_def Clean_slash)
qed

section \<open>What the transfers do\<close>

lemma write_headers_ok:
  "\<forall>x\<in>set es. CHR 0x00 \<notin> set (th_name (fst x)) \<Longrightarrow> write_headers p es = Inr es"
  by (induction p es rule: write_headers.induct) (simp_all add: WriteHeader_def)

lemma write_headers_Inr: "write_headers p es = Inr out \<Longrightarrow> out = es"
  by (induction p es arbitrary: out rule: write_headers.induct) (auto split: option.splits sum.splits)

lemma unarchive_find:
  "unarchive base es clean =
     (case find (\<lambda>(h, b). th_flag h = TypeReg \<and> th_name h = base) es of
        None \<Rightarrow> Inl (if clean then Sentinel RuntimeErrPathNotFound else bad_headers)
      | Some (h, body) \<Rightarrow>
          if th_size h > int MaxFileSize then Inl (Sentinel RuntimeErrFileTooLarge)
          else if int (length body) < th_size h
          then Inl (Errorf ''failed reading tar archive contents'' (Foreign ''unexpected EOF''))
          else Inr (take (nat (th_size h)) body))"
  by (induction base es clean rule: unarchive.induct) (simp_all split: prod.splits)

lemma list_dir_bound:
  "length fis \<le> MaxTotalFiles \<Longrightarrow> list_dir d p fis es clean = Inr out \<Longrightarrow> length out \<le> MaxTotalFiles"
  by (induction d p fis es clean rule: list_dir.induct) (auto simp: Let_def split: if_splits)

lemma list_dir_Inr:
  "list_dir d p fis es clean = Inr out \<Longrightarrow>
     clean \<and> map fi_path out = map fi_path fis @ map (\<lambda>(h, b). JoinPath p (th_name h))
       (filter (\<lambda>(h, b). \<not> (th_flag h = TypeDir \<and> JoinPath p (th_name h) = d)) es)"
  by (induction d p fis es clean rule: list_dir.induct) (auto simp: Let_def split: if_splits)

end
