(* ===== verification/SpecProps.thy ===== *)
theory SpecProps
  imports Sandbox DockerParts TarFiles
begin

text \<open>
  The properties of the spec document, of the path checks and of the receiver-free parts of the
  Docker backend.
\<close>

section \<open>Decimal numbers\<close>

lemma show_nat_unfold: "10 \<le> n \<Longrightarrow> show_nat n = show_nat (n div 10) @ [char_of (48 + n mod 10)]"
  by (subst show_nat.simps) simp

lemma show_nat_small: "n < 10 \<Longrightarrow> show_nat n = [char_of (48 + n)]"
  by (subst show_nat.simps) simp

lemma digit_char: "n < 10 \<Longrightarrow> is_digit (char_of (48 + n)) \<and> digit_val (char_of (48 + n)) = int n"
proof -
  assume n: "n < 10"
  have e: "(of_char c :: int) = int (of_char c)" for c by (cases c) (simp add: of_char_def)
  show ?thesis using n unfolding digit_val_def e by (simp add: is_digit_def)
qed

lemma div_less_dvd: "0 < m \<Longrightarrow> m dvd N \<Longrightarrow> (N div m < x) = (N < x * (m :: int))"
  by (auto elim!: dvdE simp: mult.commute)

lemma digits_val_snoc: "digits_val (xs @ [c]) = digits_val xs * 10 + digit_val c"
  by (simp add: digits_val_def)

lemma show_nat_digits: "show_nat n \<noteq> [] \<and> list_all is_digit (show_nat n) \<and> digits_val (show_nat n) = int n"
proof (induction n rule: less_induct)
  case (less n)
  show ?case
  proof (cases "n < 10")
    case True
    then show ?thesis using digit_char [OF True] by (simp add: show_nat_small digits_val_def)
  next
    case False
    then have "n div 10 < n" "n mod 10 < 10" by simp_all
    with less.IH [of "n div 10"] digit_char [of "n mod 10"] False show ?thesis
      by (simp add: show_nat_unfold digits_val_snoc zdiv_int zmod_int)
  qed
qed

lemma digit_not: "is_digit c \<Longrightarrow> c \<noteq> CHR ''-'' \<and> c \<noteq> CHR ''+'' \<and> lower_char c = c \<and> \<not> is_space c"
  by (auto simp: is_digit_def lower_char_def is_space_def)

lemma ParseInt64_show: "ParseInt64 (show_nat n) = (if int64 (int n) then Some (int n) else None)"
proof (cases "show_nat n")
  case (Cons c cs)
  with show_nat_digits [of n] digit_not [of c] show ?thesis by (auto simp: ParseInt64_def Let_def)
qed (use show_nat_digits [of n] in simp)

lemma unit_char: "map_of memoryUnits c = Some m \<Longrightarrow> lower_char c = c \<and> \<not> is_space c \<and> 0 < m"
  by (auto simp: memoryUnits_def lower_char_def is_space_def split: if_splits)

lemma map_lower_digits: "list_all is_digit s \<Longrightarrow> map lower_char s = s"
  using digit_not by (induction s) auto

lemma trimmed_memory:
  assumes "map_of memoryUnits c = Some m"
  shows "TrimSpace (ToLower (show_nat n @ [c])) = show_nat n @ [c]"
proof -
  obtain d ds where s: "show_nat n = d # ds" using show_nat_digits [of n] by (cases "show_nat n") auto
  then have d: "\<not> is_space d" using show_nat_digits [of n] digit_not [of d] by simp
  have "ToLower (show_nat n @ [c]) = show_nat n @ [c]"
    using unit_char [OF assms] map_lower_digits show_nat_digits by (simp add: ToLower_def)
  moreover have "TrimSpace (show_nat n @ [c]) = show_nat n @ [c]"
    using unit_char [OF assms] d by (simp add: TrimSpace_def s)
  ultimately show ?thesis by simp
qed

section \<open>Memory limits\<close>

text \<open>
  C22: A memory limit written as a decimal number with one of the units parses to exactly that number
  of units, in bytes and without overflow, up to 2 to the power 62 bytes; above that it is refused.
\<close>

theorem parseMemory_roundtrip:
  assumes "map_of memoryUnits c = Some m"
  shows "if int n * m \<le> 2 ^ 62 then parseMemory (show_nat n @ [c]) = Inr (int n * m)
    else \<exists>e. parseMemory (show_nat n @ [c]) = Inl e"
proof -
  have m: "0 < m" "m dvd 2 ^ 62" using assms by (auto simp: memoryUnits_def split: if_splits)
  have p: "parseMemory (show_nat n @ [c]) =
      (case (if int64 (int n) then Some (int n) else None) of
         None \<Rightarrow> Inl (Foreign (''invalid memory limit '' @ Quote (show_nat n @ [c])
                   @ '': expected a whole number with an optional b/k/m/g suffix''))
       | Some digits \<Rightarrow> if digits > quot (2 ^ 62) m
           then Inl (Foreign (''invalid memory limit '' @ Quote (show_nat n @ [c]) @ '': too large''))
           else Inr (wrap64 (digits * m)))"
    unfolding parseMemory_def trimmed_memory [OF assms] Let_def by (simp add: assms ParseInt64_show)
  have q: "int n > quot (2 ^ 62) m \<longleftrightarrow> \<not> int n * m \<le> 2 ^ 62"
    using div_less_dvd [OF m, of "int n"] m(1) by (simp add: quot_nonneg not_le)
  show ?thesis
  proof (cases "int n * m \<le> 2 ^ 62")
    case True
    moreover have "int n \<le> int n * m" using m(1) by (simp add: mult_le_cancel_left1)
    ultimately have "int64 (int n)" "int64 (int n * m)" using m(1) by (simp_all add: int64_def)
    with True q show ?thesis by (simp add: p)
  next
    case False
    with q show ?thesis by (simp add: p)
  qed
qed

lemma parseMemory_roundtrip_witness: "parseMemory (show_nat 512 @ ''m'') = Inr 536870912"
  using parseMemory_roundtrip [of "CHR ''m''" "2 ^ 20" 512] by (simp add: memoryUnits_def)

lemma ParseInt64_negative:
  "ParseInt64 (CHR ''-'' # show_nat n) = (if int64 (- int n) then Some (- int n) else None)"
  using show_nat_digits [of n] by (auto simp: ParseInt64_def Let_def)

lemma trimmed_negative:
  assumes "map_of memoryUnits c = Some m"
  shows "TrimSpace (ToLower (CHR ''-'' # show_nat n @ [c])) = CHR ''-'' # show_nat n @ [c]"
proof -
  have d: "lower_char CHR ''-'' = CHR ''-''" "\<not> is_space CHR ''-''" by code_simp+
  then have "ToLower (CHR ''-'' # show_nat n @ [c]) = CHR ''-'' # show_nat n @ [c]"
    using unit_char [OF assms] map_lower_digits show_nat_digits by (simp add: ToLower_def)
  moreover have "TrimSpace (CHR ''-'' # show_nat n @ [c]) = CHR ''-'' # show_nat n @ [c]"
    using unit_char [OF assms] d by (simp add: TrimSpace_def)
  ultimately show ?thesis by simp
qed

lemma unit_power: "map_of memoryUnits c = Some m \<Longrightarrow> 0 < m \<and> m dvd 2 ^ 64"
  by (auto simp: memoryUnits_def split: if_splits)

lemma parseMemory_negative:
  assumes "map_of memoryUnits c = Some m"
  shows "if int n \<le> 2 ^ 63 then parseMemory (''-'' @ show_nat n @ [c]) = Inr (wrap64 (- (int n * m)))
    else \<exists>e. parseMemory (''-'' @ show_nat n @ [c]) = Inl e"
proof -
  have "0 \<le> quot (2 ^ 62) m" using unit_power [OF assms] by (simp add: quot_nonneg pos_imp_zdiv_nonneg_iff)
  then have "\<not> - int n > quot (2 ^ 62) m" by linarith
  then show ?thesis
    unfolding parseMemory_def append_Cons append_Nil trimmed_negative [OF assms] Let_def
    by (simp add: assms ParseInt64_negative int64_def)
qed

text \<open>
  C24: The parser has no lower bound: the check guards only the upper side. Any negative number of
  units down to minus 2 to the power 63 is accepted and its product wraps around 64 bits, so every
  limit in kibi-, mebi- or gibibytes that is accepted as a positive number is also what some huge
  negative number of the same unit parses to.
\<close>

theorem parseMemory_negative_wraps:
  assumes "map_of memoryUnits c = Some m"
  shows "(if int n \<le> 2 ^ 63 then parseMemory (''-'' @ show_nat n @ [c]) = Inr (wrap64 (- (int n * m)))
      else \<exists>e. parseMemory (''-'' @ show_nat n @ [c]) = Inl e)
    \<and> (1 < m \<longrightarrow> int k * m \<le> 2 ^ 62 \<longrightarrow>
        parseMemory (''-'' @ show_nat (nat (2 ^ 64 div m) - k) @ [c]) = Inr (int k * m))"
proof (intro conjI impI)
  assume "1 < m" and k: "int k * m \<le> 2 ^ 62"
  from unit_power [OF assms] obtain q where q: "2 ^ 64 = m * q" and m: "0 < m" by (auto elim!: dvdE)
  have "0 < m * q" unfolding q [symmetric] by simp
  with m have q0: "0 < q" by (simp add: zero_less_mult_iff)
  have "int k * m \<le> q * m" using k q by (simp add: mult.commute)
  then have kq: "int k \<le> q" using m by simp
  let ?n = "nat (2 ^ 64 div m) - k"
  have n: "int ?n = q - int k" using kq q0 m unfolding q by simp
  have "2 * q \<le> 2 ^ 64" using \<open>1 < m\<close> q0 unfolding q by simp
  then have "q \<le> 2 ^ 63" by simp
  then have "int ?n \<le> 2 ^ 63" unfolding n by simp
  moreover have "wrap64 (- (int ?n * m)) = int k * m"
  proof -
    have "int ?n * m = (q - int k) * m" by (simp only: n)
    also have "\<dots> = 2 ^ 64 - int k * m" unfolding q by (simp add: algebra_simps)
    finally have "- (int ?n * m) + 2 ^ 63 = (int k * m + 2 ^ 63) + (- 1) * 2 ^ 64" by simp
    then have "wrap64 (- (int ?n * m)) = wrap64 (int k * m)" unfolding wrap64_def by (metis mod_mult_self1)
    moreover have "int64 (int k * m)" using k m by (simp add: int64_def order_trans [of _ 0])
    ultimately show ?thesis by simp
  qed
  ultimately show "parseMemory (''-'' @ show_nat ?n @ [c]) = Inr (int k * m)"
    using parseMemory_negative [OF assms, of ?n] by simp
qed (rule parseMemory_negative [OF assms])

lemma parseMemory_negative_wraps_witness:
  "parseMemory (''-'' @ show_nat (2 ^ 44 - 8) @ ''m'') = Inr 8388608"
  using parseMemory_negative_wraps [of "CHR ''m''" "2 ^ 20" 0 8] by (simp add: memoryUnits_def)

lemma flt_not_below: "\<not> flt_less x (Fin m) \<longleftrightarrow> x = NaN \<or> x = PosInf \<or> (\<exists>q\<ge>m. x = Fin q)"
  by (cases x) auto

lemma parseMemory_int64: "parseMemory v = Inr b \<Longrightarrow> int64 b"
  by (auto simp: parseMemory_def Let_def split: if_splits option.splits prod.splits)

text \<open>
  C21: A spec document is accepted exactly when its image is not empty, its memory limit, 512m by
  default, parses to at least six mebibytes, it allows at least one process, and its processor share is
  a number of at least a hundredth of a core, or NaN, or plus infinity, which the comparison of the
  check lets pass. What it resolves to is the document with its defaults filled in, network access off
  unless asked for, and the Docker backend accepts every such spec and hands the daemon these limits.
\<close>

theorem accepted_specs:
  "(ResolveValidated (Some f) = Inr sp \<longleftrightarrow>
      (\<exists>b. parseMemory (orDefault (file_memory f) DefaultMemory) = Inr b \<and> MinMemoryLimit \<le> b
        \<and> file_image f \<noteq> Some [] \<and> (\<forall>n. file_pids f = Some n \<longrightarrow> 1 \<le> n)
        \<and> (\<forall>x. file_cpus f = Some x \<longrightarrow> x = NaN \<or> x = PosInf \<or> (\<exists>q. x = Fin q \<and> 5764607523034235 / 576460752303423488 \<le> q))
        \<and> sp = \<lparr>spec_image = (case file_image f of None \<Rightarrow> DefaultImage | Some x \<Rightarrow> x), spec_env = file_env f,
             spec_cpu = (case file_cpus f of None \<Rightarrow> DefaultCPUs | Some x \<Rightarrow> x), spec_memory = b,
             spec_pids = (case file_pids f of None \<Rightarrow> DefaultPidsLimit | Some x \<Rightarrow> x),
             spec_network = (file_network f = Some True)\<rparr>))
   \<and> (ResolveValidated (Some f) = Inr sp \<longrightarrow> int64 (spec_memory sp)
      \<and> (\<exists>cfg hc. newContainerConfigs sp i rt = Inr (cfg, hc) \<and> cfg_Image cfg = spec_image sp
           \<and> hc_Memory hc = spec_memory sp \<and> hc_PidsLimit hc = Some (spec_pids sp)
           \<and> hc_NanoCPUs hc = nano_cpus (spec_cpu sp)
           \<and> hc_NetworkMode hc = (if spec_network sp then ''bridge'' else ''none'')))"
proof -
  let ?sp = "\<lambda>b. NewSpec (orDefault (file_image f) DefaultImage) (file_env f) (orDefault (file_cpus f) DefaultCPUs) b
        (orDefault (file_pids f) DefaultPidsLimit) (orDefault (file_network f) False)"
  have r: "ResolveValidated (Some f) = Inr sp \<longleftrightarrow>
      (\<exists>b. parseMemory (orDefault (file_memory f) DefaultMemory) = Inr b \<and> Spec_Validate (?sp b) = None \<and> sp = ?sp b)"
    by (auto simp: ResolveValidated_def Resolve_def split: sum.splits option.splits)
  have v: "Spec_Validate (?sp b) = None \<longleftrightarrow> MinMemoryLimit \<le> b \<and> file_image f \<noteq> Some []
      \<and> (\<forall>n. file_pids f = Some n \<longrightarrow> 1 \<le> n)
      \<and> (\<forall>x. file_cpus f = Some x \<longrightarrow> x = NaN \<or> x = PosInf \<or> (\<exists>q. x = Fin q \<and> 5764607523034235 / 576460752303423488 \<le> q))" for b
    unfolding Spec_Validate_None MinCPULimit_def flt_not_below
    by (auto simp: NewSpec_def orDefault_def DefaultImage_def DefaultCPUs_def DefaultPidsLimit_def split: option.splits)
  have e: "?sp b = \<lparr>spec_image = (case file_image f of None \<Rightarrow> DefaultImage | Some x \<Rightarrow> x), spec_env = file_env f,
             spec_cpu = (case file_cpus f of None \<Rightarrow> DefaultCPUs | Some x \<Rightarrow> x), spec_memory = b,
             spec_pids = (case file_pids f of None \<Rightarrow> DefaultPidsLimit | Some x \<Rightarrow> x),
             spec_network = (file_network f = Some True)\<rparr>" for b
    by (cases "file_network f") (auto simp: NewSpec_def orDefault_def)
  have c: "\<exists>cfg hc. newContainerConfigs sp i rt = Inr (cfg, hc) \<and> cfg_Image cfg = spec_image sp
           \<and> hc_Memory hc = spec_memory sp \<and> hc_PidsLimit hc = Some (spec_pids sp)
           \<and> hc_NanoCPUs hc = nano_cpus (spec_cpu sp)
           \<and> hc_NetworkMode hc = (if spec_network sp then ''bridge'' else ''none'')" if "Spec_Validate sp = None"
    using that by (simp add: newContainerConfigs_def Let_def)
  have m: "int64 (spec_memory sp) \<and> Spec_Validate sp = None" if "ResolveValidated (Some f) = Inr sp"
  proof -
    from that r obtain b where "parseMemory (orDefault (file_memory f) DefaultMemory) = Inr b"
      "Spec_Validate (?sp b) = None" "sp = ?sp b" by blast
    moreover have "spec_memory (?sp b) = b" by (simp add: e)
    ultimately show ?thesis using parseMemory_int64 by metis
  qed
  show ?thesis
  proof (intro conjI impI, goal_cases)
    case 1
    show ?case unfolding r v unfolding e by blast
  qed (use m c in blast)+
qed

lemma accepted_specs_witness:
  "\<exists>sp cfg hc. ResolveValidated (Some (empty_SpecFile\<lparr>file_cpus := Some NaN\<rparr>)) = Inr sp
     \<and> newContainerConfigs sp ''sbx_a1'' ''runsc'' = Inr (cfg, hc) \<and> hc_Memory hc = 536870912
     \<and> hc_NanoCPUs hc = - (2 ^ 63)"
proof -
  have p: "parseMemory DefaultMemory = Inr 536870912" by code_simp
  then obtain sp where r: "ResolveValidated (Some (empty_SpecFile\<lparr>file_cpus := Some NaN\<rparr>)) = Inr sp" "spec_cpu sp = NaN"
    by (simp add: ResolveValidated_def Resolve_def empty_SpecFile_def NewSpec_def Spec_Validate_def
        DefaultImage_def DefaultPidsLimit_def MinCPULimit_def MinMemoryLimit_def)
  from accepted_specs [of "empty_SpecFile\<lparr>file_cpus := Some NaN\<rparr>" sp "''sbx_a1''" "''runsc''"] r p show ?thesis
    by (auto simp: empty_SpecFile_def)
qed

section \<open>Paths\<close>

text \<open>
  C18: A path is accepted exactly when it is absolute and spelled with plain elements only: none is
  empty, a dot or a dot-dot, so no accepted path can climb out of the root. A listing also takes the
  root itself; reading, writing and removing need at least one element, and a write in addition a
  content of at most the maximal size.
\<close>

theorem accepted_paths:
  "(ValidatePath p = None \<longleftrightarrow> (\<exists>es. list_all plain_elem es \<and> p = slash # Join [slash] es))
   \<and> (ValidateRead p = None \<longleftrightarrow> (\<exists>es. es \<noteq> [] \<and> list_all plain_elem es \<and> p = slash # Join [slash] es))
   \<and> (ValidateRemove p = None \<longleftrightarrow> (\<exists>es. es \<noteq> [] \<and> list_all plain_elem es \<and> p = slash # Join [slash] es))
   \<and> (ValidateWrite p body = None \<longleftrightarrow> length body \<le> MaxFileSize
        \<and> (\<exists>es. es \<noteq> [] \<and> list_all plain_elem es \<and> p = slash # Join [slash] es))"
proof -
  have "ValidateWrite p body = None \<longleftrightarrow> length body \<le> MaxFileSize \<and> ValidateRead p = None"
    by (auto simp: ValidateWrite_def split: option.splits)
  then show ?thesis
    unfolding list_all_iff ValidateRemove_def ValidatePath_None [symmetric] ValidateRead_None [symmetric] by blast
qed

lemma Split_directory:
  assumes "es \<noteq> []" and "\<forall>e\<in>set es. plain_elem e"
  shows "Split slash (Join [slash] es @ [slash]) = es @ [[]]"
  using Split_Join_plain [OF assms] Split_append [of slash "Join [slash] es" "[]"] by simp

text \<open>
  C19: The archive a file write sends never names a path outside the one asked for. Read as the
  elements between the slashes, its entries are exactly the initial segments of the file's path,
  shortest first and none skipped, all of plain elements: every one but the last is an empty directory,
  named with a slash at its end, and the last is the file itself, under the name asked for, with its
  content and only permission bits.
\<close>

theorem archive_stays_inside:
  assumes "ValidateWrite p content = None" and "fileArchive p content mode = Inr ar"
  shows "\<exists>es. es \<noteq> [] \<and> list_all plain_elem es \<and> p = slash # Join [slash] es
    \<and> map (\<lambda>x. Split slash (th_name (fst x))) ar = map (\<lambda>i. take i es @ [[]]) [1..<length es] @ [es]
    \<and> list_all (\<lambda>x. th_flag (fst x) = TypeDir \<and> th_mode (fst x) = archiveDirMode \<and> th_size (fst x) = 0 \<and> snd x = [])
        (butlast ar)
    \<and> th_name (fst (last ar)) = tl p \<and> th_flag (fst (last ar)) = TypeReg \<and> snd (last ar) = content
    \<and> th_size (fst (last ar)) = int (length content) \<and> th_mode (fst (last ar)) = mode mod 512"
proof -
  have "ValidateRead p = None" using assms(1) by (auto simp: ValidateWrite_def split: option.splits)
  then obtain es where es: "es \<noteq> []" "\<forall>e\<in>set es. plain_elem e" "p = slash # Join [slash] es"
    by (auto simp: ValidateRead_None)
  have tok: "Split slash (tl p) = es" using es by (simp add: Split_Join_plain)
  have name: "tl p = Join [slash] es" using es by simp
  define dirs where "dirs = map (\<lambda>i. (\<lparr>th_name = Join [slash] (take (i + 1) es) @ [slash], th_mode = archiveDirMode,
    th_size = 0, th_flag = TypeDir\<rparr>, [] :: string)) [0..<length es - 1]"
  define h where "h = \<lparr>th_name = tl p, th_mode = Perm mode, th_size = int (length content), th_flag = TypeReg\<rparr>"
  have ar: "ar = dirs @ [(h, content)]"
    using assms(2) write_headers_Inr by (auto simp: fileArchive_def Let_def tok dirs_def h_def)
  have up: "[1..<length es] = map Suc [0..<length es - 1]" using es(1) by (simp add: map_Suc_upt)
  have "Split slash (Join [slash] (take (i + 1) es) @ [slash]) = take (i + 1) es @ [[]]" for i
    by (rule Split_directory) (use es in \<open>auto dest: in_set_takeD\<close>)
  then have "map (\<lambda>x. Split slash (th_name (fst x))) dirs = map (\<lambda>i. take i es @ [[]]) [1..<length es]"
    unfolding up dirs_def by (simp add: comp_def)
  moreover have "list_all (\<lambda>x. th_flag (fst x) = TypeDir \<and> th_mode (fst x) = archiveDirMode
      \<and> th_size (fst x) = 0 \<and> snd x = []) dirs" by (simp add: dirs_def list_all_iff)
  ultimately show ?thesis
    using es by (intro exI [of _ es]) (simp add: ar h_def tok name [symmetric] Perm_def list_all_iff)
qed

lemma archive_stays_inside_witness:
  "\<exists>ar. fileArchive ''/a/b.txt'' ''hi'' 420 = Inr ar \<and> th_name (fst (last ar)) = ''a/b.txt''"
proof -
  have "ValidateRead ''/a/b.txt'' = None" by code_simp
  then have v: "ValidateWrite ''/a/b.txt'' ''hi'' = None" by (simp add: ValidateWrite_def MaxFileSize_def)
  obtain ar where a: "fileArchive ''/a/b.txt'' ''hi'' 420 = Inr ar"
    by (simp add: fileArchive_def Let_def slash_def WriteHeader_def)
  from archive_stays_inside [OF v a] a show ?thesis by (auto simp: slash_def)
qed

section \<open>Listing\<close>

text \<open>
  How the daemon names the entries of an archive of the directory with the elements \<open>es\<close>: from the
  directory's own base name on, or from the root itself.
\<close>

definition named_below :: "string list \<Rightarrow> string \<Rightarrow> bool" where
  "named_below es name \<longleftrightarrow> name \<noteq> [] \<and> list_all (\<lambda>e. plain_elem e \<or> e = [] \<or> e = ''.'') (Split slash name)
     \<and> (es = [] \<or> (case filter (\<lambda>e. e \<noteq> [] \<and> e \<noteq> ''.'') (Split slash name) of [] \<Rightarrow> False | b # _ \<Rightarrow> b = last es))"

definition lies_below :: "string list \<Rightarrow> string \<Rightarrow> bool" where
  "lies_below es p \<longleftrightarrow> (\<exists>rest. list_all plain_elem rest \<and> p = slash # Join [slash] (es @ rest))"

lemma entry_lies_below:
  assumes es: "\<forall>e\<in>set es. plain_elem e" and n: "named_below es name"
  shows "lies_below es (JoinPath (Dir (slash # Join [slash] es)) name)"
proof -
  let ?ns = "filter (\<lambda>e. e \<noteq> [] \<and> e \<noteq> ''.'') (Split slash name)"
  have all: "\<forall>e\<in>set (Split slash name). plain_elem e \<or> e = [] \<or> e = ''.''" and "name \<noteq> []"
    using n by (auto simp: named_below_def list_all_iff)
  moreover have "\<forall>e\<in>set (butlast es). plain_elem e" using es by (auto dest: in_set_butlastD)
  ultimately have p: "JoinPath (Dir (slash # Join [slash] es)) name = slash # Join [slash] (butlast es @ ?ns)"
    by (simp add: Dir_plain [OF es] JoinPath_entry)
  have ns: "list_all plain_elem ?ns" using all by (auto simp: list_all_iff)
  show ?thesis
  proof (cases "es = []")
    case True
    with p ns show ?thesis by (auto simp: lies_below_def)
  next
    case False
    with n obtain rest where r: "?ns = last es # rest" by (auto simp: named_below_def split: list.splits)
    have "butlast es @ ?ns = es @ rest" unfolding r using False by simp
    then have "JoinPath (Dir (slash # Join [slash] es)) name = slash # Join [slash] (es @ rest)" using p by simp
    with ns r show ?thesis by (auto simp: lies_below_def)
  qed
qed

text \<open>
  C20: A listing of an accepted directory path reports only paths at or below that directory, spelled
  absolutely, whatever entries the daemon's stream holds as long as it names them from the directory's
  base, and it never returns more than the maximal number of files.
\<close>

theorem listing_below_directory:
  assumes "list_all plain_elem es"
    and "list_all (\<lambda>x. named_below es (th_name (fst x))) (ts_entries st)"
    and "listDirectoryFromTarStream (slash # Join [slash] es) st = Inr fis"
  shows "list_all (\<lambda>fi. lies_below es (fi_path fi)) fis \<and> length fis \<le> MaxTotalFiles"
proof -
  from assms(3) have l: "list_dir (slash # Join [slash] es) (Dir (slash # Join [slash] es)) [] (ts_entries st) (ts_clean st) = Inr fis"
    by (simp add: listDirectoryFromTarStream_def)
  have "p \<in> set (map fi_path fis) \<Longrightarrow> lies_below es p" for p
    using list_dir_Inr [OF l] assms(1,2) entry_lies_below [of es] by (auto simp: list_all_iff)
  moreover have "length fis \<le> MaxTotalFiles" using list_dir_bound [OF _ l] by simp
  ultimately show ?thesis by (auto simp: list_all_iff)
qed

lemma listing_below_directory_witness:
  "\<exists>fis. listDirectoryFromTarStream ''/w'' \<lparr>ts_entries = [(\<lparr>th_name = ''w/'', th_mode = 493, th_size = 0, th_flag = TypeDir\<rparr>, []),
      (\<lparr>th_name = ''w/a'', th_mode = 420, th_size = 2, th_flag = TypeReg\<rparr>, ''hi'')], ts_clean = True\<rparr> = Inr fis
    \<and> list_all (\<lambda>fi. lies_below [''w''] (fi_path fi)) fis"
proof -
  let ?st = "\<lparr>ts_entries = [(\<lparr>th_name = ''w/'', th_mode = 493, th_size = 0, th_flag = TypeDir\<rparr>, []),
      (\<lparr>th_name = ''w/a'', th_mode = 420, th_size = 2, th_flag = TypeReg\<rparr>, ''hi'')], ts_clean = True\<rparr> :: tar_stream"
  have w: "slash # Join [slash] [''w''] = ''/w''" by (simp add: slash_def)
  have e: "list_all plain_elem [''w'']" by (simp add: plain_elem_def slash_def)
  have n: "list_all (\<lambda>x. named_below [''w''] (th_name (fst x))) (ts_entries ?st)"
    by (simp add: named_below_def plain_elem_def slash_def)
  have j: "JoinPath (Dir ''/w'') ''w/'' = ''/w''" "JoinPath (Dir ''/w'') ''w/a'' = ''/w/a''" by code_simp+
  have "\<exists>fis. listDirectoryFromTarStream ''/w'' ?st = Inr fis"
    by (simp add: listDirectoryFromTarStream_def Let_def j MaxTotalFiles_def)
  then obtain fis where f: "listDirectoryFromTarStream (slash # Join [slash] [''w'']) ?st = Inr fis" unfolding w by blast
  from listing_below_directory [OF e n f] f show ?thesis unfolding w by blast
qed

section \<open>Captured output\<close>

text \<open>
  A capped writer holds exactly the first bytes of everything written to it, however the writes
  are cut, it says it was truncated exactly when something was dropped, and every write claims its
  full length, so the copy that feeds it never stops early.
\<close>

theorem capped_writer_exact:
  "cw_writes (newCappedWriter (int cap)) ps =
     \<lparr>cw_buf = take cap (concat ps), cw_limit = int cap, cw_truncated = (cap < length (concat ps))\<rparr>
   \<and> snd (cw_Write (cw_writes (newCappedWriter (int cap)) ps) p) = int (length p)"
  by (simp add: cw_writes_eq)

text \<open>
  The kill of an abandoned command can only hit processes whose whole command line is the one
  abandoned: the pattern given to pkill is literal, and what it spells is the argument vector joined
  with blanks.
\<close>

theorem pkill_pattern_literal:
  "\<exists>pat. pkillCommand cmd = [''pkill'', ''-f'', ''-x'', ''--'', pat] \<and> literal_of pat = Some (Join '' '' cmd)"
  by (simp add: pkillCommand_def literal_QuoteMeta)

end
