(* ===== verification/Events.thy ===== *)
theory Events
  imports Sandbox
begin

text \<open>
  Package events (internal/events): one immutable row per lifecycle transition, its presence
  check, and the replay of a history, which is the abstract specification the store is held to.
\<close>

record Event =
  ev_id :: nat
  ev_version :: int
  ev_sandbox_id :: string
  ev_from :: task_state
  ev_to :: task_state
  ev_at :: gotime
  ev_reason :: string

definition event_invalid :: "string \<Rightarrow> goerr" where
  "event_invalid msg = errs_E PkgEvents ''events.Event.Validate'' msg (Some (Sentinel EventsErrInvalidEvent))"

definition Event_Validate :: "Event option \<Rightarrow> goerr option" where
  "Event_Validate ev =
     (case ev of
        None \<Rightarrow> Some (event_invalid ''event is nil'')
      | Some e \<Rightarrow>
          if ev_sandbox_id e = [] then Some (event_invalid ''event has no sandbox id'')
          else if ev_version e < 1 then Some (event_invalid ''event has no version id'')
          else if ev_to e = [] then Some (event_invalid ''event has no to state'')
          else if ev_reason e = [] then Some (event_invalid ''event has no reason'')
          else None)"

lemma Event_Validate_None:
  "Event_Validate (Some e) = None \<longleftrightarrow>
     ev_sandbox_id e \<noteq> [] \<and> 1 \<le> ev_version e \<and> ev_to e \<noteq> [] \<and> ev_reason e \<noteq> []"
  by (auto simp: Event_Validate_def)

lemma Event_Validate_Is:
  "Event_Validate ev = Some err \<Longrightarrow> errors_Is err t \<longleftrightarrow> t = EventsErrInvalidEvent"
  by (auto simp: Event_Validate_def event_invalid_def split: option.splits if_splits)

section \<open>Replaying a history\<close>

text \<open>
  A replay starts from the empty state: the creation event comes from nothing and leads to
  pending, and every later event is a legal transition out of the state before it.
\<close>

definition legal_step :: "task_state \<Rightarrow> task_state \<Rightarrow> bool" where
  "legal_step fr to \<longleftrightarrow> (if fr = [] then to = Pending else CanTransition fr to = None)"

fun replay :: "task_state \<Rightarrow> Event list \<Rightarrow> task_state option" where
  "replay s [] = Some s"
| "replay s (e # es) = (if ev_from e = s \<and> legal_step s (ev_to e) then replay (ev_to e) es else None)"

lemma replay_append:
  "replay s (xs @ ys) = (case replay s xs of None \<Rightarrow> None | Some t \<Rightarrow> replay t ys)"
  by (induction xs arbitrary: s) auto

lemma replay_snoc:
  "replay s xs = Some t \<Longrightarrow> ev_from e = t \<Longrightarrow> legal_step t (ev_to e) \<Longrightarrow> replay s (xs @ [e]) = Some (ev_to e)"
  by (simp add: replay_append)

lemma legal_step_nonempty: "legal_step s t \<Longrightarrow> t \<noteq> [] \<and> valid t"
  by (auto simp: legal_step_def CanTransition_None valid_iff split: if_splits)

lemma legal_step_rank: "legal_step s t \<Longrightarrow> s \<noteq> [] \<Longrightarrow> state_rank s < state_rank t"
  by (auto simp: legal_step_def intro: CanTransition_rank)

lemma replay_rank:
  "replay s es = Some t \<Longrightarrow> s \<noteq> [] \<Longrightarrow> state_rank s + length es \<le> state_rank t"
proof (induction es arbitrary: s)
  case (Cons e es)
  then have step: "legal_step s (ev_to e)" and rest: "replay (ev_to e) es = Some t"
    by (auto split: if_splits)
  from step have "ev_to e \<noteq> []" by (simp add: legal_step_nonempty)
  with Cons.IH [OF rest] legal_step_rank [OF step Cons.prems(2)] show ?case by simp
qed simp

text \<open>A history holds at most four events: creation and three transitions.\<close>

lemma replay_length:
  assumes "replay [] es = Some t"
  shows "length es \<le> 4"
proof (cases es)
  case (Cons e es')
  with assms have step: "legal_step [] (ev_to e)" and rest: "replay (ev_to e) es' = Some t"
    by (auto split: if_splits)
  from replay_rank [OF rest] legal_step_nonempty [OF step]
  have "length es' \<le> state_rank t" by simp
  also have "state_rank t \<le> 3" by (simp add: state_rank_def)
  finally show ?thesis using Cons by simp
qed simp

end
