(* ===== verification/Store.thy ===== *)
theory Store
  imports Events
begin

text \<open>
  The SQLite store (internal/store, internal/store/sqlite). The tables of the migration are lists
  in rowid order with their AUTOINCREMENT counters; each SQL statement of the source is a function
  on them that checks the schema's UNIQUE and FOREIGN KEY constraints. The driver is not part of
  the repository: \<open>dbio\<close> says, for one call of the store, which of its round trips to the driver
  fails and with what, and \<open>now\<close> is what CURRENT_TIMESTAMP reads. A transaction works on a copy of
  the tables that replaces them at Commit; a deferred Rollback drops the copy.
\<close>

section \<open>Tables and statements\<close>

record db =
  sandboxes :: "Sandbox list"
  idem_keys :: "IdempotencyKey list"
  event_rows :: "Event list"
  sandbox_seq :: nat
  key_seq :: nat
  event_seq :: nat

definition empty_db :: db where
  "empty_db = \<lparr>sandboxes = [], idem_keys = [], event_rows = [], sandbox_seq = 0, key_seq = 0, event_seq = 0\<rparr>"

text \<open>Which driver call fails in one store operation; a text stands for the driver's error.\<close>

record dbio =
  io_key_read :: "string option"
  io_read :: "string option"
  io_begin :: "string option"
  io_stmt :: "string option"
  io_key_insert :: "string option"
  io_event :: "string option"
  io_commit :: "string option"

definition no_fault :: dbio where
  "no_fault = \<lparr>io_key_read = None, io_read = None, io_begin = None, io_stmt = None,
     io_key_insert = None, io_event = None, io_commit = None\<rparr>"

definition find_row :: "db \<Rightarrow> string \<Rightarrow> Sandbox option" where
  "find_row d i = find (\<lambda>r. sb_sandbox_id r = i) (sandboxes d)"

definition UpdateSandboxStateQuery ::
  "gotime \<Rightarrow> task_state \<Rightarrow> string \<Rightarrow> task_state \<Rightarrow> int \<Rightarrow> db \<Rightarrow> db \<times> Sandbox option" where
  "UpdateSandboxStateQuery now to pid fr ver d =
     (let hit = (\<lambda>r. sb_sandbox_id r = pid \<and> sb_state r = fr \<and> sb_version r = ver);
          upd = (\<lambda>r. r\<lparr>sb_state := to, sb_updated := now, sb_version := sb_version r + 1\<rparr>)
      in (d\<lparr>sandboxes := map (\<lambda>r. if hit r then upd r else r) (sandboxes d)\<rparr>,
          map_option upd (find hit (sandboxes d))))"

definition UpdateSandboxExpiryQuery ::
  "gotime \<Rightarrow> gotime \<Rightarrow> string \<Rightarrow> task_state list \<Rightarrow> db \<Rightarrow> db \<times> Sandbox option" where
  "UpdateSandboxExpiryQuery now expiresAt pid sts d =
     (let hit = (\<lambda>r. sb_sandbox_id r = pid \<and> sb_state r \<in> set sts);
          upd = (\<lambda>r. r\<lparr>sb_expires := expiresAt, sb_updated := now\<rparr>)
      in (d\<lparr>sandboxes := map (\<lambda>r. if hit r then upd r else r) (sandboxes d)\<rparr>,
          map_option upd (find hit (sandboxes d))))"

definition InsertSandboxQuery ::
  "gotime \<Rightarrow> task_state \<Rightarrow> SpecFile \<Rightarrow> string \<Rightarrow> gotime \<Rightarrow> db \<Rightarrow> string + db \<times> Sandbox" where
  "InsertSandboxQuery now st spec pid expiresAt d =
     (if find_row d pid \<noteq> None then Inl ''UNIQUE constraint failed: sandboxes.platform_id''
      else let r = \<lparr>sb_id = Suc (sandbox_seq d), sb_version = 1, sb_sandbox_id = pid, sb_state = st,
                    sb_spec = spec, sb_expires = expiresAt, sb_created = now, sb_updated = now\<rparr>
           in Inr (d\<lparr>sandboxes := sandboxes d @ [r], sandbox_seq := Suc (sandbox_seq d)\<rparr>, r))"

definition InsertIdempotencyKeyQuery ::
  "gotime \<Rightarrow> string \<Rightarrow> string \<Rightarrow> db \<Rightarrow> string + db \<times> IdempotencyKey" where
  "InsertIdempotencyKeyQuery now key pid d =
     (if \<exists>k\<in>set (idem_keys d). ik_key k = key
      then Inl ''UNIQUE constraint failed: idempotency_keys.idempotency_key''
      else if find_row d pid = None then Inl ''FOREIGN KEY constraint failed''
      else let k = \<lparr>ik_id = Suc (key_seq d), ik_sandbox_id = pid, ik_key = key, ik_created = now,
                    ik_updated = now\<rparr>
           in Inr (d\<lparr>idem_keys := idem_keys d @ [k], key_seq := Suc (key_seq d)\<rparr>, k))"

definition InsertEventQuery :: "Event \<Rightarrow> db \<Rightarrow> string + db" where
  "InsertEventQuery e d =
     (if \<exists>f\<in>set (event_rows d). ev_sandbox_id f = ev_sandbox_id e \<and> ev_version f = ev_version e
      then Inl ''UNIQUE constraint failed: events.sandbox_id, events.version_id''
      else if find_row d (ev_sandbox_id e) = None then Inl ''FOREIGN KEY constraint failed''
      else Inr (d\<lparr>event_rows := event_rows d @ [e\<lparr>ev_id := Suc (event_seq d)\<rparr>],
                  event_seq := Suc (event_seq d)\<rparr>))"

text \<open>\<open>scanRow\<close>: a failing driver call is wrapped at the scan, no row is the bare sentinel.\<close>

definition scan_failed :: "string \<Rightarrow> string \<Rightarrow> string \<Rightarrow> goerr" where
  "scan_failed opn msg e = errs_E PkgStore opn msg (Some (Foreign e))"

definition scanSandboxRow :: "string option \<Rightarrow> Sandbox option \<Rightarrow> goerr + Sandbox" where
  "scanSandboxRow io r =
     (case io of
        Some e \<Rightarrow> Inl (scan_failed ''sqlite.scanSandbox'' ''scanning sandbox row'' e)
      | None \<Rightarrow> (case r of None \<Rightarrow> Inl (Sentinel StoreErrNotFound) | Some s \<Rightarrow> Inr s))"

definition scanKeyRow :: "string option \<Rightarrow> IdempotencyKey option \<Rightarrow> goerr + IdempotencyKey" where
  "scanKeyRow io r =
     (case io of
        Some e \<Rightarrow> Inl (scan_failed ''sqlite.scanIdempotencyKey'' ''scanning idempotency key row'' e)
      | None \<Rightarrow> (case r of None \<Rightarrow> Inl (Sentinel StoreErrNotFound) | Some k \<Rightarrow> Inr k))"

section \<open>Operations\<close>

definition GetIdempotencyKey :: "dbio \<Rightarrow> db \<Rightarrow> string \<Rightarrow> goerr + IdempotencyKey option" where
  "GetIdempotencyKey io d key =
     (case scanKeyRow (io_key_read io) (find (\<lambda>k. ik_key k = key) (idem_keys d)) of
        Inl e \<Rightarrow> if errors_Is e StoreErrNotFound then Inr None
                 else Inl (errs_Wrap PkgStore ''sqlite.Store.GetIdempotencyKey''
                             (''reading idempotency key '' @ key) (Some e))
      | Inr k \<Rightarrow> Inr (Some k))"

definition CreateIdempotencyKey ::
  "dbio \<Rightarrow> gotime \<Rightarrow> db \<Rightarrow> string \<Rightarrow> string \<Rightarrow> db \<times> (goerr + IdempotencyKey)" where
  "CreateIdempotencyKey io now d key pid =
     (let failed = (\<lambda>e. (d, Inl (errs_Wrap PkgStore ''sqlite.Store.CreateIdempotencyKey''
                           (''recording idempotency key '' @ key)
                           (Some (scan_failed ''sqlite.scanIdempotencyKey'' ''scanning idempotency key row'' e)))))
      in (case io_key_insert io of
            Some e \<Rightarrow> failed e
          | None \<Rightarrow> (case InsertIdempotencyKeyQuery now key pid d of
                       Inl e \<Rightarrow> failed e | Inr (d', k) \<Rightarrow> (d', Inr k))))"

definition GetSandbox :: "dbio \<Rightarrow> db \<Rightarrow> string \<Rightarrow> goerr + Sandbox" where
  "GetSandbox io d pid =
     (case scanSandboxRow (io_read io) (find_row d pid) of
        Inl e \<Rightarrow> Inl (errs_Wrap PkgStore ''sqlite.Store.GetSandbox'' (''reading sandbox '' @ pid) (Some e))
      | Inr s \<Rightarrow> Inr s)"

definition GetSandboxes :: "dbio \<Rightarrow> db \<Rightarrow> goerr + Sandbox list" where
  "GetSandboxes io d =
     (case io_read io of
        Some e \<Rightarrow> Inl (errs_E PkgStore ''sqlite.Store.GetSandboxes'' ''listing sandboxes'' (Some (Foreign e)))
      | None \<Rightarrow> Inr (sandboxes d))"

definition GetSandboxEvents :: "dbio \<Rightarrow> db \<Rightarrow> string \<Rightarrow> goerr + Event list" where
  "GetSandboxEvents io d pid =
     (case io_read io of
        Some e \<Rightarrow> Inl (errs_E PkgStore ''sqlite.Store.GetSandboxEvents''
                         (''listing events for sandbox '' @ pid) (Some (Foreign e)))
      | None \<Rightarrow> Inr (sort_key ev_version (filter (\<lambda>e. ev_sandbox_id e = pid) (event_rows d))))"

definition appendEvent :: "dbio \<Rightarrow> Event \<Rightarrow> db \<Rightarrow> goerr + db" where
  "appendEvent io e d =
     (let opn = ''sqlite.Store.appendEvent'';
          msg = ''appending the '' @ ev_from e @ '' -> '' @ ev_to e @ '' event for sandbox '' @ ev_sandbox_id e
      in (case Event_Validate (Some e) of
            Some err \<Rightarrow> Inl (errs_Wrap PkgStore opn msg (Some err))
          | None \<Rightarrow>
              (case io_event io of
                 Some err \<Rightarrow> Inl (errs_Wrap PkgStore opn msg (Some (Foreign err)))
               | None \<Rightarrow>
                   (case InsertEventQuery e d of
                      Inl err \<Rightarrow> Inl (errs_Wrap PkgStore opn msg (Some (Foreign err)))
                    | Inr d' \<Rightarrow> Inr d'))))"

definition UpdateSandboxExpiry ::
  "dbio \<Rightarrow> gotime \<Rightarrow> db \<Rightarrow> string \<Rightarrow> gotime \<Rightarrow> db \<times> (goerr + Sandbox)" where
  "UpdateSandboxExpiry io now d pid expiresAt =
     (let failE = (\<lambda>e. (d, Inl (errs_E PkgStore ''sqlite.Store.UpdateSandboxExpiry''
                          (''updating the expiry for sandbox '' @ pid) (Some e))));
          failWrap = (\<lambda>e. (d, Inl (errs_Wrap PkgStore ''sqlite.Store.UpdateSandboxExpiry''
                          (''updating the expiry for sandbox '' @ pid) (Some e))))
      in if IsZero expiresAt then failE (Sentinel StoreErrMissingExpiry)
         else (case io_begin io of
             Some e \<Rightarrow> failE (Foreign e)
           | None \<Rightarrow>
               let (tx, hit) = UpdateSandboxExpiryQuery now expiresAt pid [Pending, Running] d
               in (case scanSandboxRow (io_stmt io) hit of
                     Inl err \<Rightarrow>
                       if errors_Is err StoreErrNotFound then
                         (case scanSandboxRow (io_read io) (find_row tx pid) of
                            Inl getErr \<Rightarrow> failWrap getErr
                          | Inr _ \<Rightarrow> failE (Sentinel SandboxErrInvalidStateTransition))
                       else failWrap err
                   | Inr sbx \<Rightarrow>
                       (case io_commit io of Some e \<Rightarrow> failE (Foreign e) | None \<Rightarrow> (tx, Inr sbx)))))"

definition UpdateSandboxState ::
  "dbio \<Rightarrow> gotime \<Rightarrow> db \<Rightarrow> string \<Rightarrow> task_state \<Rightarrow> task_state \<Rightarrow> string \<Rightarrow> int \<Rightarrow> db \<times> (goerr + Sandbox)" where
  "UpdateSandboxState io now d pid fr to reason ver =
     (let msg = ''transitioning sandbox '' @ pid @ '' from '' @ fr @ '' to '' @ to;
          failE = (\<lambda>e. (d, Inl (errs_E PkgStore ''sqlite.Store.UpdateSandboxState'' msg (Some e))));
          failWrap = (\<lambda>e. (d, Inl (errs_Wrap PkgStore ''sqlite.Store.UpdateSandboxState'' msg (Some e))))
      in (case CanTransition fr to of
            Some e \<Rightarrow> failE e
          | None \<Rightarrow>
        (case io_begin io of
            Some e \<Rightarrow> failE (Foreign e)
          | None \<Rightarrow>
        let (tx, hit) = UpdateSandboxStateQuery now to pid fr ver d
        in (case scanSandboxRow (io_stmt io) hit of
              Inl err \<Rightarrow>
                if errors_Is err StoreErrNotFound then
                  (case scanSandboxRow (io_read io) (find_row tx pid) of
                     Inl getErr \<Rightarrow> failWrap getErr
                   | Inr _ \<Rightarrow> failE (Sentinel SandboxErrInvalidStateTransition))
                else failWrap err
            | Inr sbx \<Rightarrow>
                (case appendEvent io \<lparr>ev_id = 0, ev_version = sb_version sbx,
                         ev_sandbox_id = sb_sandbox_id sbx, ev_from = fr, ev_to = to,
                         ev_at = sb_updated sbx, ev_reason = reason\<rparr> tx of
                   Inl err \<Rightarrow> failWrap err
                 | Inr tx' \<Rightarrow>
                     (case io_commit io of Some e \<Rightarrow> failE (Foreign e) | None \<Rightarrow> (tx', Inr sbx)))))))"

text \<open>
  CreateSandbox reads the key outside its transaction, so it is two steps: the checks and the
  lookup, which answer a repeated key, and the insertion of the row, its key and its first event.
\<close>

definition create_failed :: "string \<Rightarrow> goerr \<Rightarrow> goerr" where
  "create_failed key e = errs_Wrap PkgStore ''sqlite.Store.CreateSandbox''
     (''creating sandbox for idempotency key '' @ key) (Some e)"

definition create_failed_E :: "string \<Rightarrow> goerr \<Rightarrow> goerr" where
  "create_failed_E key e = errs_E PkgStore ''sqlite.Store.CreateSandbox''
     (''creating sandbox for idempotency key '' @ key) (Some e)"

definition create_lookup ::
  "dbio \<Rightarrow> db \<Rightarrow> string \<Rightarrow> SpecFile \<Rightarrow> gotime \<Rightarrow> goerr + Sandbox option" where
  "create_lookup io d key spec expiresAt =
     (case SpecFile_Validate (Some spec) of
        Some e \<Rightarrow> Inl (create_failed key e)
      | None \<Rightarrow>
          if IsZero expiresAt then Inl (create_failed_E key (Sentinel StoreErrMissingExpiry))
          else (case GetIdempotencyKey io d key of
                  Inl e \<Rightarrow> Inl (create_failed key e)
                | Inr (Some k) \<Rightarrow>
                    (case GetSandbox io d (ik_sandbox_id k) of
                       Inl e \<Rightarrow> Inl (create_failed key e) | Inr sbx \<Rightarrow> Inr (Some sbx))
                | Inr None \<Rightarrow>
                    (case SpecFile_ToJSON (Some spec) of
                       Inl e \<Rightarrow> Inl (create_failed key e) | Inr _ \<Rightarrow> Inr None)))"

definition create_insert ::
  "dbio \<Rightarrow> gotime \<Rightarrow> db \<Rightarrow> string \<Rightarrow> SpecFile \<Rightarrow> gotime \<Rightarrow> string \<Rightarrow> db \<times> (goerr + Sandbox)" where
  "create_insert io now d key spec expiresAt u =
     (let sandboxID = NewSandboxID u;
          failE = (\<lambda>e. (d, Inl (create_failed_E key e)));
          failWrap = (\<lambda>e. (d, Inl (create_failed key e)))
      in (case io_begin io of
            Some e \<Rightarrow> failE (Foreign e)
          | None \<Rightarrow>
        (case (case io_stmt io of Some e \<Rightarrow> Inl e
               | None \<Rightarrow> InsertSandboxQuery now Pending spec sandboxID expiresAt d) of
            Inl e \<Rightarrow> failWrap (scan_failed ''sqlite.scanSandbox'' ''scanning sandbox row'' e)
          | Inr (tx1, sbx) \<Rightarrow>
        (case (case io_key_insert io of Some e \<Rightarrow> Inl e
               | None \<Rightarrow> InsertIdempotencyKeyQuery now key (sb_sandbox_id sbx) tx1) of
            Inl e \<Rightarrow> failWrap (scan_failed ''sqlite.scanIdempotencyKey'' ''scanning idempotency key row'' e)
          | Inr (tx2, _) \<Rightarrow>
        (case appendEvent io \<lparr>ev_id = 0, ev_version = sb_version sbx, ev_sandbox_id = sb_sandbox_id sbx,
                 ev_from = [], ev_to = sb_state sbx, ev_at = sb_created sbx,
                 ev_reason = ''sandbox record created''\<rparr> tx2 of
            Inl e \<Rightarrow> failWrap e
          | Inr tx3 \<Rightarrow>
              (case io_commit io of Some e \<Rightarrow> failE (Foreign e) | None \<Rightarrow> (tx3, Inr sbx)))))))"

definition CreateSandbox ::
  "dbio \<Rightarrow> gotime \<Rightarrow> db \<Rightarrow> string \<Rightarrow> SpecFile \<Rightarrow> gotime \<Rightarrow> string \<Rightarrow> db \<times> (goerr + Sandbox)" where
  "CreateSandbox io now d key spec expiresAt u =
     (case create_lookup io d key spec expiresAt of
        Inl e \<Rightarrow> (d, Inl e)
      | Inr (Some sbx) \<Rightarrow> (d, Inr sbx)
      | Inr None \<Rightarrow> create_insert io now d key spec expiresAt u)"

end
