(* ===== verification/StoreLaws.thy ===== *)
theory StoreLaws
  imports Store
begin

text \<open>
  What the store guarantees. \<open>db_ok\<close> is the invariant of the tables: unique ids and keys, no dangling
  reference, and for every row a history whose versions are 1, 2, ..., the row's version and whose
  replay is the row's state. The lemmas give the exact effect of every operation, on success and on
  every failure, and that each keeps the invariant whatever the driver does.
\<close>

section \<open>The invariant\<close>

definition events_of :: "db \<Rightarrow> string \<Rightarrow> Event list" where
  "events_of d i = filter (\<lambda>e. ev_sandbox_id e = i) (event_rows d)"

definition history_ok :: "Sandbox \<Rightarrow> Event list \<Rightarrow> bool" where
  "history_ok r es \<longleftrightarrow> 1 \<le> sb_version r \<and> replay [] es = Some (sb_state r)
     \<and> map ev_version es = [1..sb_version r]"

definition db_ok :: "db \<Rightarrow> bool" where
  "db_ok d \<longleftrightarrow>
     distinct (map sb_sandbox_id (sandboxes d)) \<and> distinct (map ik_key (idem_keys d))
     \<and> (\<forall>k\<in>set (idem_keys d). find_row d (ik_sandbox_id k) \<noteq> None)
     \<and> (\<forall>e\<in>set (event_rows d). find_row d (ev_sandbox_id e) \<noteq> None)
     \<and> (\<forall>r\<in>set (sandboxes d). sb_sandbox_id r \<noteq> [] \<and> history_ok r (events_of d (sb_sandbox_id r)))"

lemma db_ok_empty: "db_ok empty_db"
  by (simp add: db_ok_def empty_db_def)

lemma history_ok_valid:
  assumes h: "history_ok r es"
  shows "valid (sb_state r)"
proof -
  from h have "map ev_version es \<noteq> []" by (auto simp: history_ok_def)
  then obtain es' e where es: "es = es' @ [e]" by (metis list.simps(8) rev_exhaust)
  with h obtain s where "replay [] es' = Some s" "legal_step s (ev_to e)" "sb_state r = ev_to e"
    by (auto simp: history_ok_def replay_append split: option.splits if_splits)
  then show ?thesis using legal_step_nonempty by simp
qed

section \<open>Finding rows\<close>

lemma find_row_mem: "find_row d i = Some r \<Longrightarrow> r \<in> set (sandboxes d) \<and> sb_sandbox_id r = i"
  by (auto simp: find_row_def find_Some_iff)

lemma find_row_id: "find_row d i = Some r \<Longrightarrow> sb_sandbox_id r = i"
  by (simp add: find_row_mem)

lemma find_row_None: "find_row d i = None \<longleftrightarrow> i \<notin> sb_sandbox_id ` set (sandboxes d)"
  by (auto simp: find_row_def find_None_iff)

lemma find_row_Some:
  assumes "db_ok d"
  shows "find_row d i = Some r \<longleftrightarrow> r \<in> set (sandboxes d) \<and> sb_sandbox_id r = i"
  using assms find_distinct [of sb_sandbox_id "sandboxes d"]
  by (auto simp: db_ok_def find_row_def dest: find_row_mem [unfolded find_row_def])

lemma find_map:
  "find P (map f xs) = map_option f (find (P \<circ> f) xs)"
  by (induction xs) auto

lemma find_row_map:
  assumes "\<And>r. sb_sandbox_id (f r) = sb_sandbox_id r"
  shows "find_row (d\<lparr>sandboxes := map f (sandboxes d)\<rparr>) i = map_option f (find_row d i)"
  using assms by (simp add: find_row_def find_map comp_def)

lemma find_row_more [simp]:
  "find_row (d\<lparr>event_rows := a\<rparr>) i = find_row d i"
  "find_row (d\<lparr>event_seq := n\<rparr>) i = find_row d i"
  "find_row (d\<lparr>idem_keys := ks\<rparr>) i = find_row d i"
  "find_row (d\<lparr>key_seq := n\<rparr>) i = find_row d i"
  "find_row (d\<lparr>sandbox_seq := n\<rparr>) i = find_row d i"
  by (simp_all add: find_row_def)

lemma find_guarded:
  assumes "distinct (map sb_sandbox_id rs)"
  shows "find (\<lambda>r. sb_sandbox_id r = i \<and> P r) rs =
    (case find (\<lambda>r. sb_sandbox_id r = i) rs of None \<Rightarrow> None | Some r \<Rightarrow> if P r then Some r else None)"
  using assms
proof (induction rs)
  case (Cons r rs)
  show ?case
  proof (cases "sb_sandbox_id r = i")
    case True
    with Cons.prems have "find (\<lambda>r. sb_sandbox_id r = i \<and> P r) rs = None"
      by (auto simp: find_None_iff image_iff)
    with True show ?thesis by simp
  next
    case False
    with Cons show ?thesis by simp
  qed
qed simp

section \<open>The transition\<close>

definition bump :: "gotime \<Rightarrow> task_state \<Rightarrow> Sandbox \<Rightarrow> Sandbox" where
  "bump now to r = r\<lparr>sb_state := to, sb_updated := now, sb_version := sb_version r + 1\<rparr>"

lemma bump_sel [simp]:
  "sb_sandbox_id (bump now to r) = sb_sandbox_id r" "sb_state (bump now to r) = to"
  "sb_version (bump now to r) = sb_version r + 1" "sb_updated (bump now to r) = now"
  "sb_expires (bump now to r) = sb_expires r" "sb_spec (bump now to r) = sb_spec r"
  by (simp_all add: bump_def)

definition transition_event :: "gotime \<Rightarrow> task_state \<Rightarrow> string \<Rightarrow> nat \<Rightarrow> Sandbox \<Rightarrow> Event" where
  "transition_event now to reason i r =
     \<lparr>ev_id = i, ev_version = sb_version r + 1, ev_sandbox_id = sb_sandbox_id r, ev_from = sb_state r,
      ev_to = to, ev_at = now, ev_reason = reason\<rparr>"

definition transition_rows :: "gotime \<Rightarrow> task_state \<Rightarrow> Sandbox \<Rightarrow> db \<Rightarrow> db" where
  "transition_rows now to r d =
     d\<lparr>sandboxes := map (\<lambda>r'. if r' = r then bump now to r' else r') (sandboxes d)\<rparr>"

definition apply_transition :: "gotime \<Rightarrow> task_state \<Rightarrow> string \<Rightarrow> Sandbox \<Rightarrow> db \<Rightarrow> db" where
  "apply_transition now to reason r d =
     (transition_rows now to r d)
       \<lparr>event_rows := event_rows d @ [transition_event now to reason (Suc (event_seq d)) r],
        event_seq := Suc (event_seq d)\<rparr>"

lemma find_row_transition_rows:
  "find_row (transition_rows now to r d) i =
     map_option (\<lambda>r'. if r' = r then bump now to r' else r') (find_row d i)"
  unfolding transition_rows_def by (rule find_row_map) auto

lemma find_row_apply_transition [simp]:
  "find_row (apply_transition now to reason r d) i =
     map_option (\<lambda>r'. if r' = r then bump now to r' else r') (find_row d i)"
  by (simp add: apply_transition_def find_row_transition_rows)

lemma UpdateSandboxStateQuery_hit:
  assumes ok: "db_ok d" and r: "find_row d pid = Some r" "sb_state r = fr" "sb_version r = ver"
  shows "UpdateSandboxStateQuery now to pid fr ver d = (transition_rows now to r d, Some (bump now to r))"
proof -
  have dist: "distinct (map sb_sandbox_id (sandboxes d))" using ok by (simp add: db_ok_def)
  have "(sb_sandbox_id r' = pid \<and> sb_state r' = fr \<and> sb_version r' = ver) = (r' = r)"
    if "r' \<in> set (sandboxes d)" for r'
    using that r ok find_row_Some [OF ok, of pid] by (metis option.inject)
  then show ?thesis
    using r find_guarded [OF dist, of pid "\<lambda>r. sb_state r = fr \<and> sb_version r = ver"]
    by (simp add: UpdateSandboxStateQuery_def Let_def transition_rows_def find_row_def bump_def
        cong: map_cong)
qed

lemma UpdateSandboxStateQuery_miss:
  assumes ok: "db_ok d"
    and miss: "\<nexists>r. find_row d pid = Some r \<and> sb_state r = fr \<and> sb_version r = ver"
  shows "UpdateSandboxStateQuery now to pid fr ver d = (d, None)"
proof -
  have dist: "distinct (map sb_sandbox_id (sandboxes d))" using ok by (simp add: db_ok_def)
  have "\<not> (sb_sandbox_id r' = pid \<and> sb_state r' = fr \<and> sb_version r' = ver)"
    if "r' \<in> set (sandboxes d)" for r'
    using that miss find_row_Some [OF ok, of pid r'] by auto
  then have "map (\<lambda>r. if sb_sandbox_id r = pid \<and> sb_state r = fr \<and> sb_version r = ver
      then r\<lparr>sb_state := to, sb_updated := now, sb_version := sb_version r + 1\<rparr> else r) (sandboxes d)
      = sandboxes d" by (intro map_idI) auto
  then show ?thesis
    using miss find_guarded [OF dist, of pid "\<lambda>r. sb_state r = fr \<and> sb_version r = ver"]
    by (auto simp: UpdateSandboxStateQuery_def Let_def find_row_def split: option.splits)
qed

lemma versions_bounded:
  assumes "db_ok d" and "find_row d i = Some r" and "e \<in> set (event_rows d)" and "ev_sandbox_id e = i"
  shows "ev_version e \<in> {1..sb_version r}"
proof -
  from assms(1,2) have "map ev_version (events_of d i) = [1..sb_version r]"
    by (auto simp: db_ok_def history_ok_def dest: find_row_mem)
  moreover from assms(3,4) have "ev_version e \<in> set (map ev_version (events_of d i))"
    by (auto simp: events_of_def)
  ultimately show ?thesis by simp
qed

lemma row_facts:
  assumes "db_ok d" and "find_row d i = Some r"
  shows "1 \<le> sb_version r" and "valid (sb_state r)" and "i \<noteq> []" and "history_ok r (events_of d i)"
proof -
  from assms have h: "history_ok r (events_of d i)" and i: "i \<noteq> []"
    by (auto simp: db_ok_def dest: find_row_mem)
  show "i \<noteq> []" by (rule i)
  show "history_ok r (events_of d i)" by (rule h)
  then show "1 \<le> sb_version r" and "valid (sb_state r)"
    by (simp add: history_ok_def) (rule history_ok_valid [OF h])
qed

section \<open>UpdateSandboxState\<close>

lemma InsertEventQuery_next:
  assumes ok: "db_ok d" and r: "find_row d pid = Some r" and d': "find_row d' pid \<noteq> None"
    and ev: "event_rows d' = event_rows d" "event_seq d' = event_seq d"
    and e: "ev_sandbox_id e = pid" "ev_version e = sb_version r + 1"
  shows "InsertEventQuery e d' =
    Inr (d'\<lparr>event_rows := event_rows d @ [e\<lparr>ev_id := Suc (event_seq d)\<rparr>], event_seq := Suc (event_seq d)\<rparr>)"
proof -
  have "\<not> (ev_sandbox_id f = ev_sandbox_id e \<and> ev_version f = ev_version e)"
    if "f \<in> set (event_rows d')" for f
    using that versions_bounded [OF ok r] ev e by fastforce
  with d' ev e show ?thesis by (auto simp: InsertEventQuery_def)
qed

lemma appendEvent_transition:
  assumes ok: "db_ok d" and r: "find_row d pid = Some r"
    and no: "io_event io = None" and re: "reason \<noteq> []" and to: "to \<noteq> []"
  shows "appendEvent io \<lparr>ev_id = 0, ev_version = sb_version (bump now to r),
       ev_sandbox_id = sb_sandbox_id (bump now to r), ev_from = sb_state r, ev_to = to,
       ev_at = sb_updated (bump now to r), ev_reason = reason\<rparr> (transition_rows now to r d)
     = Inr (apply_transition now to reason r d)"
proof -
  let ?e = "\<lparr>ev_id = 0, ev_version = sb_version r + 1, ev_sandbox_id = sb_sandbox_id r,
    ev_from = sb_state r, ev_to = to, ev_at = now, ev_reason = reason\<rparr>"
  have pid: "sb_sandbox_id r = pid" using r by (rule find_row_id)
  have "Event_Validate (Some ?e) = None"
    using row_facts [OF ok r] re to pid by (simp add: Event_Validate_None)
  moreover have "InsertEventQuery ?e (transition_rows now to r d) =
      Inr (apply_transition now to reason r d)"
    using InsertEventQuery_next [OF ok r, of "transition_rows now to r d" ?e] r pid
    by (simp add: find_row_transition_rows)
      (simp add: transition_rows_def apply_transition_def transition_event_def)
  ultimately show ?thesis using no by (simp add: appendEvent_def Let_def)
qed

lemma UpdateSandboxState_hit:
  assumes ok: "db_ok d" and r: "find_row d pid = Some r" "sb_state r = fr" "sb_version r = ver"
    and legal: "CanTransition fr to = None" and re: "reason \<noteq> []"
    and io: "io_begin io = None" "io_stmt io = None" "io_event io = None" "io_commit io = None"
  shows "UpdateSandboxState io now d pid fr to reason ver =
    (apply_transition now to reason r d, Inr (bump now to r))"
proof -
  have to: "to \<noteq> []" using legal by (auto simp: CanTransition_None)
  show ?thesis
    using UpdateSandboxStateQuery_hit [OF ok r, of now to]
      appendEvent_transition [OF ok r(1) io(3) re to, of now] io legal r(2)
    by (simp add: UpdateSandboxState_def Let_def scanSandboxRow_def)
qed

text \<open>A call that does not commit leaves the tables as they were.\<close>

lemma UpdateSandboxState_Inl: "UpdateSandboxState io now d pid fr to reason ver = (d', Inl e) \<Longrightarrow> d' = d"
  by (auto simp: UpdateSandboxState_def Let_def split: option.splits sum.splits prod.splits if_splits)

lemma UpdateSandboxState_stale:
  assumes ok: "db_ok d" and miss: "\<nexists>r. find_row d pid = Some r \<and> sb_state r = fr \<and> sb_version r = ver"
    and legal: "CanTransition fr to = None"
  shows "\<exists>e. UpdateSandboxState io now d pid fr to reason ver = (d, Inl e) \<and>
     (io_begin io = None \<and> io_stmt io = None \<and> io_read io = None \<longrightarrow>
        (\<forall>s. errors_Is e s \<longleftrightarrow>
           s = (if find_row d pid = None then StoreErrNotFound else SandboxErrInvalidStateTransition)))"
  using UpdateSandboxStateQuery_miss [OF ok miss, of now to] legal
  by (cases "find_row d pid")
    (auto simp: UpdateSandboxState_def Let_def scanSandboxRow_def scan_failed_def split: option.splits)

lemma UpdateSandboxState_Inr:
  assumes ok: "db_ok d" and h: "UpdateSandboxState io now d pid fr to reason ver = (d', Inr s)"
  obtains r where "find_row d pid = Some r" "sb_state r = fr" "sb_version r = ver"
    "CanTransition fr to = None" "reason \<noteq> []" "s = bump now to r"
    "d' = apply_transition now to reason r d"
proof -
  have legal: "CanTransition fr to = None"
    using h by (auto simp: UpdateSandboxState_def Let_def split: option.splits)
  have "\<exists>r. find_row d pid = Some r \<and> sb_state r = fr \<and> sb_version r = ver"
  proof (rule ccontr)
    assume "\<not> ?thesis"
    with UpdateSandboxState_stale [OF ok _ legal, of pid ver io now reason] h show False by auto
  qed
  then obtain r where r: "find_row d pid = Some r" "sb_state r = fr" "sb_version r = ver" by blast
  have io: "io_begin io = None" "io_stmt io = None" "io_event io = None" "io_commit io = None"
    and re: "reason \<noteq> []"
    using h UpdateSandboxStateQuery_hit [OF ok r, of now to] legal
    by (auto simp: UpdateSandboxState_def Let_def scanSandboxRow_def appendEvent_def Event_Validate_def
        scan_failed_def split: option.splits sum.splits if_splits)
  show thesis
    using that r legal re UpdateSandboxState_hit [OF ok r legal re io, of now] h by simp
qed

text \<open>The transition keeps the invariant.\<close>

lemma events_of_apply_transition:
  "events_of (apply_transition now to reason r d) i =
     (if i = sb_sandbox_id r
      then events_of d i @ [transition_event now to reason (Suc (event_seq d)) r] else events_of d i)"
  by (simp add: events_of_def apply_transition_def transition_event_def)

lemma apply_transition_rows:
  "sandboxes (apply_transition now to reason r d) =
     map (\<lambda>r'. if r' = r then bump now to r' else r') (sandboxes d)"
  "idem_keys (apply_transition now to reason r d) = idem_keys d"
  "event_rows (apply_transition now to reason r d) =
     event_rows d @ [transition_event now to reason (Suc (event_seq d)) r]"
  by (simp_all add: apply_transition_def transition_rows_def)

lemma apply_transition_ok:
  assumes ok: "db_ok d" and r: "find_row d pid = Some r" and legal: "CanTransition (sb_state r) to = None"
  shows "db_ok (apply_transition now to reason r d)"
proof -
  let ?d = "apply_transition now to reason r d"
  have rid: "sb_sandbox_id r = pid" using r by (rule find_row_id)
  have ids: "map sb_sandbox_id (sandboxes ?d) = map sb_sandbox_id (sandboxes d)"
    by (simp add: apply_transition_rows)
  have hist: "sb_sandbox_id r' \<noteq> [] \<and> history_ok r' (events_of ?d (sb_sandbox_id r'))"
    if "r' \<in> set (sandboxes ?d)" for r'
  proof -
    from that obtain q where q: "q \<in> set (sandboxes d)" "r' = (if q = r then bump now to q else q)"
      by (auto simp: apply_transition_rows)
    have qf: "find_row d (sb_sandbox_id q) = Some q" using q find_row_Some [OF ok] by blast
    note qfacts = row_facts [OF ok qf]
    show ?thesis
    proof (cases "q = r")
      case True
      have ne: "sb_state r \<noteq> []" using qfacts(2) True by (auto simp: valid_iff)
      have up: "[1..sb_version r + 1] = [1..sb_version r] @ [sb_version r + 1]"
        using qfacts(1) True by (metis add_increasing2 upto_rec2 add_diff_cancel_right' zero_le_one)
      show ?thesis
        using qfacts True q(2) legal ne up
        by (auto simp: history_ok_def events_of_apply_transition transition_event_def replay_append
            legal_step_def)
    next
      case False
      then have "sb_sandbox_id q \<noteq> pid" using qf r rid by auto
      with False q qfacts rid show ?thesis by (simp add: events_of_apply_transition)
    qed
  qed
  have ev: "find_row ?d (ev_sandbox_id e) \<noteq> None" if "e \<in> set (event_rows ?d)" for e
    using that ok r rid by (auto simp: apply_transition_rows transition_event_def db_ok_def)
  have dist: "distinct (map sb_sandbox_id (sandboxes ?d))"
    unfolding ids using ok by (simp add: db_ok_def)
  have keys: "distinct (map ik_key (idem_keys ?d))"
    "\<forall>k\<in>set (idem_keys ?d). find_row ?d (ik_sandbox_id k) \<noteq> None"
    using ok by (simp_all add: db_ok_def apply_transition_rows(2))
  show ?thesis
    unfolding db_ok_def using dist keys hist ev by blast
qed

lemma UpdateSandboxState_ok:
  assumes ok: "db_ok d"
  shows "db_ok (fst (UpdateSandboxState io now d pid fr to reason ver))"
proof (cases "UpdateSandboxState io now d pid fr to reason ver")
  case (Pair d' res)
  show ?thesis
  proof (cases res)
    case (Inl e)
    with Pair ok UpdateSandboxState_Inl show ?thesis by fastforce
  next
    case (Inr s)
    with Pair have h: "UpdateSandboxState io now d pid fr to reason ver = (d', Inr s)" by simp
    show ?thesis by (rule UpdateSandboxState_Inr [OF ok h]) (use ok Pair apply_transition_ok in auto)
  qed
qed

section \<open>UpdateSandboxExpiry\<close>

definition renew :: "gotime \<Rightarrow> gotime \<Rightarrow> Sandbox \<Rightarrow> Sandbox" where
  "renew now expiresAt r = r\<lparr>sb_expires := expiresAt, sb_updated := now\<rparr>"

lemma renew_sel [simp]:
  "sb_sandbox_id (renew now x r) = sb_sandbox_id r" "sb_state (renew now x r) = sb_state r"
  "sb_version (renew now x r) = sb_version r" "sb_expires (renew now x r) = x"
  "sb_spec (renew now x r) = sb_spec r"
  by (simp_all add: renew_def)

definition apply_renewal :: "gotime \<Rightarrow> gotime \<Rightarrow> Sandbox \<Rightarrow> db \<Rightarrow> db" where
  "apply_renewal now expiresAt r d =
     d\<lparr>sandboxes := map (\<lambda>r'. if r' = r then renew now expiresAt r' else r') (sandboxes d)\<rparr>"

lemma find_row_apply_renewal [simp]:
  "find_row (apply_renewal now x r d) i =
     map_option (\<lambda>r'. if r' = r then renew now x r' else r') (find_row d i)"
  unfolding apply_renewal_def by (rule find_row_map) auto

lemma UpdateSandboxExpiryQuery_hit:
  assumes ok: "db_ok d" and r: "find_row d pid = Some r" "sb_state r \<in> set sts"
  shows "UpdateSandboxExpiryQuery now x pid sts d = (apply_renewal now x r d, Some (renew now x r))"
proof -
  have dist: "distinct (map sb_sandbox_id (sandboxes d))" using ok by (simp add: db_ok_def)
  have "(sb_sandbox_id r' = pid \<and> sb_state r' \<in> set sts) = (r' = r)" if "r' \<in> set (sandboxes d)" for r'
    using that r ok find_row_Some [OF ok, of pid] by (metis option.inject)
  then show ?thesis
    using r find_guarded [OF dist, of pid "\<lambda>r. sb_state r \<in> set sts"]
    by (simp add: UpdateSandboxExpiryQuery_def Let_def apply_renewal_def find_row_def renew_def
        cong: map_cong)
qed

lemma UpdateSandboxExpiryQuery_miss:
  assumes ok: "db_ok d" and miss: "\<nexists>r. find_row d pid = Some r \<and> sb_state r \<in> set sts"
  shows "UpdateSandboxExpiryQuery now x pid sts d = (d, None)"
proof -
  have dist: "distinct (map sb_sandbox_id (sandboxes d))" using ok by (simp add: db_ok_def)
  have "\<not> (sb_sandbox_id r' = pid \<and> sb_state r' \<in> set sts)" if "r' \<in> set (sandboxes d)" for r'
    using that miss find_row_Some [OF ok, of pid r'] by auto
  then have "map (\<lambda>r. if sb_sandbox_id r = pid \<and> sb_state r \<in> set sts
      then r\<lparr>sb_expires := x, sb_updated := now\<rparr> else r) (sandboxes d) = sandboxes d"
    by (intro map_idI) auto
  then show ?thesis
    using miss find_guarded [OF dist, of pid "\<lambda>r. sb_state r \<in> set sts"]
    by (auto simp: UpdateSandboxExpiryQuery_def Let_def find_row_def split: option.splits)
qed

lemma UpdateSandboxExpiry_Inl: "UpdateSandboxExpiry io now d pid x = (d', Inl e) \<Longrightarrow> d' = d"
  by (auto simp: UpdateSandboxExpiry_def Let_def split: option.splits sum.splits prod.splits if_splits)

lemma UpdateSandboxExpiry_hit:
  assumes ok: "db_ok d" and r: "find_row d pid = Some r" "sb_state r = Pending \<or> sb_state r = Running"
    and x: "x \<noteq> 0" and io: "io_begin io = None" "io_stmt io = None" "io_commit io = None"
  shows "UpdateSandboxExpiry io now d pid x = (apply_renewal now x r d, Inr (renew now x r))"
  using UpdateSandboxExpiryQuery_hit [OF ok r(1), of "[Pending, Running]" now x] r(2) x io
  by (simp add: UpdateSandboxExpiry_def Let_def scanSandboxRow_def go_defs)

lemma UpdateSandboxExpiry_Inr:
  assumes ok: "db_ok d" and h: "UpdateSandboxExpiry io now d pid x = (d', Inr s)"
  obtains r where "find_row d pid = Some r" "sb_state r = Pending \<or> sb_state r = Running" "x \<noteq> 0"
    "s = renew now x r" "d' = apply_renewal now x r d"
proof -
  have x: "x \<noteq> 0" using h by (auto simp: UpdateSandboxExpiry_def Let_def go_defs split: if_splits)
  have "\<exists>r. find_row d pid = Some r \<and> sb_state r \<in> set [Pending, Running]"
  proof (rule ccontr)
    assume "\<not> ?thesis"
    with UpdateSandboxExpiryQuery_miss [OF ok, of pid "[Pending, Running]" now x] h show False
      by (auto simp: UpdateSandboxExpiry_def Let_def scanSandboxRow_def scan_failed_def
          split: option.splits sum.splits if_splits)
  qed
  then obtain r where r: "find_row d pid = Some r" "sb_state r \<in> set [Pending, Running]" by blast
  have "io_begin io = None" "io_stmt io = None" "io_commit io = None"
    using h x UpdateSandboxExpiryQuery_hit [OF ok r, of now x]
    by (auto simp: UpdateSandboxExpiry_def Let_def scanSandboxRow_def go_defs scan_failed_def
        split: option.splits sum.splits if_splits)
  with UpdateSandboxExpiry_hit [OF ok r(1) _ x] r h that [OF r(1) _ x] show thesis by auto
qed

lemma UpdateSandboxExpiry_reject:
  assumes ok: "db_ok d" and r: "find_row d pid = Some r" "sb_state r \<notin> {Pending, Running}"
    and x: "x \<noteq> 0" and io: "io_begin io = None" "io_stmt io = None" "io_read io = None"
  shows "\<exists>e. UpdateSandboxExpiry io now d pid x = (d, Inl e)
    \<and> (\<forall>s. errors_Is e s \<longleftrightarrow> s = SandboxErrInvalidStateTransition)"
  using UpdateSandboxExpiryQuery_miss [OF ok, of pid "[Pending, Running]" now x] r x io
  by (auto simp: UpdateSandboxExpiry_def Let_def scanSandboxRow_def go_defs)

lemma apply_renewal_ok:
  assumes ok: "db_ok d" and r: "find_row d pid = Some r"
  shows "db_ok (apply_renewal now x r d)"
proof -
  let ?d = "apply_renewal now x r d"
  have "map sb_sandbox_id (sandboxes ?d) = map sb_sandbox_id (sandboxes d)"
    by (simp add: apply_renewal_def)
  then have dist: "distinct (map sb_sandbox_id (sandboxes ?d))" using ok by (metis db_ok_def)
  have hist: "sb_sandbox_id q \<noteq> [] \<and> history_ok q (events_of ?d (sb_sandbox_id q))"
    if "q \<in> set (sandboxes ?d)" for q
    using that ok by (auto simp: apply_renewal_def db_ok_def history_ok_def events_of_def split: if_splits)
  have "idem_keys ?d = idem_keys d" "event_rows ?d = event_rows d" by (simp_all add: apply_renewal_def)
  then show ?thesis using ok dist hist by (auto simp: db_ok_def)
qed

lemma UpdateSandboxExpiry_ok:
  assumes ok: "db_ok d"
  shows "db_ok (fst (UpdateSandboxExpiry io now d pid x))"
proof (cases "UpdateSandboxExpiry io now d pid x")
  case (Pair d' res)
  show ?thesis
  proof (cases res)
    case (Inl e)
    with Pair ok UpdateSandboxExpiry_Inl show ?thesis by fastforce
  next
    case (Inr s)
    with Pair have h: "UpdateSandboxExpiry io now d pid x = (d', Inr s)" by simp
    show ?thesis by (rule UpdateSandboxExpiry_Inr [OF ok h]) (use ok Pair apply_renewal_ok in auto)
  qed
qed

section \<open>CreateSandbox\<close>

definition new_row :: "gotime \<Rightarrow> SpecFile \<Rightarrow> gotime \<Rightarrow> string \<Rightarrow> db \<Rightarrow> Sandbox" where
  "new_row now spec expiresAt u d =
     \<lparr>sb_id = Suc (sandbox_seq d), sb_version = 1, sb_sandbox_id = NewSandboxID u, sb_state = Pending,
      sb_spec = spec, sb_expires = expiresAt, sb_created = now, sb_updated = now\<rparr>"

definition inserted :: "gotime \<Rightarrow> string \<Rightarrow> SpecFile \<Rightarrow> gotime \<Rightarrow> string \<Rightarrow> db \<Rightarrow> db" where
  "inserted now key spec expiresAt u d =
     d\<lparr>sandboxes := sandboxes d @ [new_row now spec expiresAt u d], sandbox_seq := Suc (sandbox_seq d),
       idem_keys := idem_keys d @
         [\<lparr>ik_id = Suc (key_seq d), ik_sandbox_id = NewSandboxID u, ik_key = key, ik_created = now,
           ik_updated = now\<rparr>],
       key_seq := Suc (key_seq d),
       event_rows := event_rows d @
         [\<lparr>ev_id = Suc (event_seq d), ev_version = 1, ev_sandbox_id = NewSandboxID u, ev_from = [],
           ev_to = Pending, ev_at = now, ev_reason = ''sandbox record created''\<rparr>],
       event_seq := Suc (event_seq d)\<rparr>"

lemma NewSandboxID_ne [simp]: "NewSandboxID u \<noteq> []"
  by (simp add: NewSandboxID_def sandboxIDPrefix_def)

lemma find_row_append:
  "find_row (d\<lparr>sandboxes := sandboxes d @ [r]\<rparr>) i =
     (case find_row d i of Some q \<Rightarrow> Some q | None \<Rightarrow> if sb_sandbox_id r = i then Some r else None)"
proof -
  have "find P (xs @ [r]) = (case find P xs of Some q \<Rightarrow> Some q | None \<Rightarrow> if P r then Some r else None)"
    for P and xs :: "Sandbox list" by (induction xs) auto
  then show ?thesis by (simp add: find_row_def)
qed

lemma find_row_inserted [simp]:
  "find_row (inserted now key spec x u d) i =
     (case find_row d i of Some q \<Rightarrow> Some q
      | None \<Rightarrow> if i = NewSandboxID u then Some (new_row now spec x u d) else None)"
  using find_row_append [of d "new_row now spec x u d" i]
  by (simp add: inserted_def find_row_def new_row_def eq_commute)

lemma create_insert_Inl: "create_insert io now d key spec x u = (d', Inl e) \<Longrightarrow> d' = d"
  by (auto simp: create_insert_def Let_def split: option.splits sum.splits prod.splits)

lemma create_insert_key_taken:
  "k \<in> set (idem_keys d) \<Longrightarrow> ik_key k = key \<Longrightarrow> \<exists>e. create_insert io now d key spec x u = (d, Inl e)"
  by (auto simp: create_insert_def Let_def InsertIdempotencyKeyQuery_def InsertSandboxQuery_def
      split: option.splits sum.splits prod.splits if_splits)

lemma create_insert_hit:
  assumes ok: "db_ok d" and new: "find_row d (NewSandboxID u) = None"
    and key: "key \<notin> ik_key ` set (idem_keys d)"
    and io: "io_begin io = None" "io_stmt io = None" "io_key_insert io = None" "io_event io = None"
      "io_commit io = None"
  shows "create_insert io now d key spec x u =
    (inserted now key spec x u d, Inr (new_row now spec x u d))"
proof -
  have noev: "\<forall>f\<in>set (event_rows d). ev_sandbox_id f \<noteq> NewSandboxID u"
    using ok new by (auto simp: db_ok_def)
  have nokey: "\<not> (\<exists>k\<in>set (idem_keys d). ik_key k = key)" using key by blast
  have row: "find_row (d\<lparr>sandboxes := sandboxes d @ [new_row now spec x u d], sandbox_seq := Suc (sandbox_seq d)\<rparr>)
      (NewSandboxID u) = Some (new_row now spec x u d)"
    using new by (simp add: find_row_append) (simp add: new_row_def)
  show ?thesis
    using new noev nokey io row
    by (simp add: create_insert_def Let_def InsertSandboxQuery_def InsertIdempotencyKeyQuery_def
        appendEvent_def Event_Validate_def InsertEventQuery_def new_row_def [symmetric] inserted_def)
      (simp add: new_row_def)
qed

lemma create_insert_Inr:
  assumes ok: "db_ok d" and h: "create_insert io now d key spec x u = (d', Inr s)"
  shows "find_row d (NewSandboxID u) = None" and "key \<notin> ik_key ` set (idem_keys d)"
    and "d' = inserted now key spec x u d" and "s = new_row now spec x u d"
proof -
  have io: "io_begin io = None" "io_stmt io = None" "io_key_insert io = None" "io_event io = None"
      "io_commit io = None" and new: "find_row d (NewSandboxID u) = None"
    using h by (auto simp: create_insert_def Let_def InsertSandboxQuery_def appendEvent_def
        split: option.splits sum.splits prod.splits if_splits)
  show key: "key \<notin> ik_key ` set (idem_keys d)"
    using h create_insert_key_taken [of _ d key io now spec x u] by fastforce
  show "find_row d (NewSandboxID u) = None" by (rule new)
  show "d' = inserted now key spec x u d" and "s = new_row now spec x u d"
    using h create_insert_hit [OF ok new key io, of now spec x] by simp_all
qed

lemma inserted_ok:
  assumes ok: "db_ok d" and new: "find_row d (NewSandboxID u) = None"
    and key: "key \<notin> ik_key ` set (idem_keys d)"
  shows "db_ok (inserted now key spec x u d)"
proof -
  let ?d = "inserted now key spec x u d"
  have fresh: "NewSandboxID u \<notin> sb_sandbox_id ` set (sandboxes d)" using new by (simp add: find_row_None)
  have dist: "distinct (map sb_sandbox_id (sandboxes ?d))" "distinct (map ik_key (idem_keys ?d))"
    using ok fresh key by (auto simp: inserted_def db_ok_def new_row_def)
  have refs: "\<forall>k\<in>set (idem_keys ?d). find_row ?d (ik_sandbox_id k) \<noteq> None"
    "\<forall>e\<in>set (event_rows ?d). find_row ?d (ev_sandbox_id e) \<noteq> None"
    unfolding find_row_inserted using ok by (auto simp: db_ok_def inserted_def split: option.splits)
  have noev: "events_of d (NewSandboxID u) = []"
    using ok new by (auto simp: db_ok_def events_of_def filter_empty_conv)
  have hist: "sb_sandbox_id q \<noteq> [] \<and> history_ok q (events_of ?d (sb_sandbox_id q))"
    if "q \<in> set (sandboxes ?d)" for q
  proof (cases "q \<in> set (sandboxes d)")
    case True
    then have "sb_sandbox_id q \<noteq> NewSandboxID u" using fresh by (metis imageI)
    with True ok show ?thesis by (auto simp: db_ok_def events_of_def inserted_def)
  next
    case False
    with that have "q = new_row now spec x u d" by (simp add: inserted_def)
    with noev show ?thesis
      by (simp add: events_of_def inserted_def new_row_def history_ok_def legal_step_def)
  qed
  show ?thesis unfolding db_ok_def using dist refs hist by blast
qed

lemma create_insert_ok:
  assumes ok: "db_ok d"
  shows "db_ok (fst (create_insert io now d key spec x u))"
proof (cases "create_insert io now d key spec x u")
  case (Pair d' res)
  show ?thesis
  proof (cases res)
    case (Inl e)
    with Pair ok create_insert_Inl show ?thesis by fastforce
  next
    case (Inr s)
    with Pair have h: "create_insert io now d key spec x u = (d', Inr s)" by simp
    note c = create_insert_Inr [OF ok h]
    show ?thesis using Pair c inserted_ok [OF ok c(1,2)] by simp
  qed
qed

lemma CreateSandbox_ok: "db_ok d \<Longrightarrow> db_ok (fst (CreateSandbox io now d key spec x u))"
  by (simp add: CreateSandbox_def create_insert_ok split: sum.split option.split)

lemma CreateSandbox_Inl: "CreateSandbox io now d key spec x u = (d', Inl e) \<Longrightarrow> d' = d"
  by (auto simp: CreateSandbox_def dest: create_insert_Inl split: sum.splits option.splits)

lemma create_lookup_known:
  assumes ok: "db_ok d" and k: "k \<in> set (idem_keys d)" "ik_key k = key"
    and x: "x \<noteq> 0" and io: "io_key_read io = None" "io_read io = None"
  shows "\<exists>r. find_row d (ik_sandbox_id k) = Some r \<and> create_lookup io d key spec x = Inr (Some r)"
proof -
  have "find (\<lambda>k'. ik_key k' = ik_key k) (idem_keys d) = Some k"
    using ok k by (intro find_distinct) (auto simp: db_ok_def)
  moreover obtain r where "find_row d (ik_sandbox_id k) = Some r" using ok k by (auto simp: db_ok_def)
  ultimately show ?thesis
    using x io k by (simp add: create_lookup_def SpecFile_Validate_def go_defs GetIdempotencyKey_def
        scanKeyRow_def GetSandbox_def scanSandboxRow_def)
qed

section \<open>CreateIdempotencyKey\<close>

lemma CreateIdempotencyKey_ok:
  assumes ok: "db_ok d"
  shows "db_ok (fst (CreateIdempotencyKey io now d key pid))"
  using ok
  by (auto simp: CreateIdempotencyKey_def Let_def InsertIdempotencyKeyQuery_def db_ok_def events_of_def
      split: option.splits sum.splits)

section \<open>The store over time\<close>

text \<open>
  A step is one transaction of any client under any driver behaviour. The two halves of
  CreateSandbox are separate steps in effect: the lookup reads only, so an interleaving of creates
  is a sequence of \<open>create_insert\<close> steps whose lookups were answered by older tables.
\<close>

inductive db_step :: "db \<Rightarrow> db \<Rightarrow> bool" where
  step_insert: "db_step d (fst (create_insert io now d key spec x u))"
| step_key: "db_step d (fst (CreateIdempotencyKey io now d key pid))"
| step_expiry: "db_step d (fst (UpdateSandboxExpiry io now d pid x))"
| step_state: "db_step d (fst (UpdateSandboxState io now d pid fr to reason ver))"

inductive db_reachable :: "db \<Rightarrow> bool" where
  reach_empty: "db_reachable empty_db"
| reach_step: "db_reachable d \<Longrightarrow> db_step d d' \<Longrightarrow> db_reachable d'"

inductive db_steps :: "db \<Rightarrow> db \<Rightarrow> bool" where
  steps_refl: "db_steps d d"
| steps_step: "db_steps d d' \<Longrightarrow> db_step d' d'' \<Longrightarrow> db_steps d d''"

lemma db_step_ok: "db_step d d' \<Longrightarrow> db_ok d \<Longrightarrow> db_ok d'"
  by (induction rule: db_step.induct)
    (simp_all add: create_insert_ok CreateIdempotencyKey_ok UpdateSandboxExpiry_ok UpdateSandboxState_ok)

lemma db_steps_ok: "db_steps d d' \<Longrightarrow> db_ok d \<Longrightarrow> db_ok d'"
  by (induction rule: db_steps.induct) (auto intro: db_step_ok)

lemma db_reachable_ok: "db_reachable d \<Longrightarrow> db_ok d"
  by (induction rule: db_reachable.induct) (auto intro: db_step_ok db_ok_empty)

text \<open>No step deletes a row, lowers a version or changes a state without raising the version.\<close>

definition row_le :: "Sandbox \<Rightarrow> Sandbox \<Rightarrow> bool" where
  "row_le r r' \<longleftrightarrow> sb_version r \<le> sb_version r' \<and> sb_spec r = sb_spec r'
     \<and> (if sb_version r = sb_version r' then sb_state r = sb_state r'
        else state_rank (sb_state r) < state_rank (sb_state r'))"

lemma row_le_refl [simp]: "row_le r r"
  by (simp add: row_le_def)

lemma row_le_trans: "row_le a b \<Longrightarrow> row_le b c \<Longrightarrow> row_le a c"
  by (auto simp: row_le_def split: if_splits)

lemma row_le_bump: "CanTransition (sb_state r) to = None \<Longrightarrow> row_le r (bump now to r)"
  by (simp add: row_le_def CanTransition_rank)

lemma row_le_renew [simp]: "row_le r (renew now x r)"
  by (simp add: row_le_def)

lemma db_step_mono:
  assumes "db_step d d'" and ok: "db_ok d" and r: "find_row d i = Some r"
  shows "\<exists>r'. find_row d' i = Some r' \<and> row_le r r'"
  using assms(1)
proof cases
  case (step_insert io now key spec x u)
  show ?thesis
  proof (cases "snd (create_insert io now d key spec x u)")
    case (Inl e)
    with step_insert create_insert_Inl [of io now d key spec x u d' e] r show ?thesis
      by (metis prod.collapse row_le_refl)
  next
    case (Inr s)
    with step_insert have "create_insert io now d key spec x u = (d', Inr s)" by (simp add: prod_eq_iff)
    from create_insert_Inr(3) [OF ok this] r show ?thesis by simp
  qed
next
  case (step_key io now key pid)
  then show ?thesis using r
    by (auto simp: CreateIdempotencyKey_def Let_def InsertIdempotencyKeyQuery_def split: option.splits sum.splits)
next
  case (step_expiry io now pid x)
  show ?thesis
  proof (cases "snd (UpdateSandboxExpiry io now d pid x)")
    case (Inl e)
    with step_expiry UpdateSandboxExpiry_Inl [of io now d pid x d' e] r show ?thesis
      by (metis prod.collapse row_le_refl)
  next
    case (Inr s)
    with step_expiry have h: "UpdateSandboxExpiry io now d pid x = (d', Inr s)" by (simp add: prod_eq_iff)
    show ?thesis by (rule UpdateSandboxExpiry_Inr [OF ok h]) (use r in auto)
  qed
next
  case (step_state io now pid fr to reason ver)
  show ?thesis
  proof (cases "snd (UpdateSandboxState io now d pid fr to reason ver)")
    case (Inl e)
    with step_state UpdateSandboxState_Inl [of io now d pid fr to reason ver d' e] r show ?thesis
      by (metis prod.collapse row_le_refl)
  next
    case (Inr s)
    with step_state have h: "UpdateSandboxState io now d pid fr to reason ver = (d', Inr s)"
      by (simp add: prod_eq_iff)
    show ?thesis
      by (rule UpdateSandboxState_Inr [OF ok h]) (use r row_le_bump in auto)
  qed
qed

lemma db_steps_mono:
  assumes "db_steps d d'" and "db_ok d" and "find_row d i = Some r"
  shows "\<exists>r'. find_row d' i = Some r' \<and> row_le r r'"
  using assms
proof (induction rule: db_steps.induct)
  case (steps_step d d' d'')
  then obtain r' where r': "find_row d' i = Some r'" "row_le r r'" by blast
  have "db_ok d'" using steps_step db_steps_ok by blast
  with db_step_mono [OF steps_step.hyps(2) _ r'(1)] r'(2) show ?case by (blast intro: row_le_trans)
qed auto

end
