(* ===== verification/StoreSpec.thy ===== *)
theory StoreSpec
  imports StoreLaws
begin

text \<open>
  The store interface (internal/store/store.go) as the layers above use it. Its operations are a
  record of functions on a store state, as the Go interface is a table of methods. The locale
  \<open>store_contract\<close> states what each may do whatever faults occur, \<open>live_store\<close> what it does when
  none does. The SQLite model is interpreted in both: its state carries the tables and the
  environment of each call, which is the driver's faults, the clock and the uuid drawn.
\<close>

section \<open>The interface\<close>

record 's store_ops =
  so_GetIdempotencyKey :: "'s \<Rightarrow> string \<Rightarrow> 's \<times> (goerr + IdempotencyKey option)"
  so_CreateIdempotencyKey :: "'s \<Rightarrow> string \<Rightarrow> string \<Rightarrow> 's \<times> (goerr + IdempotencyKey)"
  so_CreateSandbox :: "'s \<Rightarrow> string \<Rightarrow> SpecFile \<Rightarrow> gotime \<Rightarrow> 's \<times> (goerr + Sandbox)"
  so_GetSandbox :: "'s \<Rightarrow> string \<Rightarrow> 's \<times> (goerr + Sandbox)"
  so_GetSandboxes :: "'s \<Rightarrow> 's \<times> (goerr + Sandbox list)"
  so_UpdateSandboxExpiry :: "'s \<Rightarrow> string \<Rightarrow> gotime \<Rightarrow> 's \<times> (goerr + Sandbox)"
  so_UpdateSandboxState ::
    "'s \<Rightarrow> string \<Rightarrow> task_state \<Rightarrow> task_state \<Rightarrow> string \<Rightarrow> int \<Rightarrow> 's \<times> (goerr + Sandbox)"
  so_GetSandboxEvents :: "'s \<Rightarrow> string \<Rightarrow> 's \<times> (goerr + Event list)"

text \<open>The SQLite store as a state: the tables and what the environment does at each call.\<close>

record sqlite =
  sq_db :: db
  sq_io :: "nat \<Rightarrow> dbio"
  sq_now :: "nat \<Rightarrow> gotime"
  sq_uuid :: "nat \<Rightarrow> string"
  sq_tick :: nat

definition sq_read :: "(dbio \<Rightarrow> db \<Rightarrow> 'r) \<Rightarrow> sqlite \<Rightarrow> sqlite \<times> 'r" where
  "sq_read f s = (s\<lparr>sq_tick := Suc (sq_tick s)\<rparr>, f (sq_io s (sq_tick s)) (sq_db s))"

definition sq_write :: "(dbio \<Rightarrow> gotime \<Rightarrow> db \<Rightarrow> db \<times> 'r) \<Rightarrow> sqlite \<Rightarrow> sqlite \<times> 'r" where
  "sq_write f s =
     (let (d, r) = f (sq_io s (sq_tick s)) (sq_now s (sq_tick s)) (sq_db s)
      in (s\<lparr>sq_db := d, sq_tick := Suc (sq_tick s)\<rparr>, r))"

definition sqlite_ops :: "sqlite store_ops" where
  "sqlite_ops = \<lparr>
     so_GetIdempotencyKey = (\<lambda>s key. sq_read (\<lambda>io d. GetIdempotencyKey io d key) s),
     so_CreateIdempotencyKey = (\<lambda>s key pid. sq_write (\<lambda>io now d. CreateIdempotencyKey io now d key pid) s),
     so_CreateSandbox = (\<lambda>s key spec x.
       sq_write (\<lambda>io now d. CreateSandbox io now d key spec x (sq_uuid s (sq_tick s))) s),
     so_GetSandbox = (\<lambda>s pid. sq_read (\<lambda>io d. GetSandbox io d pid) s),
     so_GetSandboxes = (\<lambda>s. sq_read GetSandboxes s),
     so_UpdateSandboxExpiry = (\<lambda>s pid x. sq_write (\<lambda>io now d. UpdateSandboxExpiry io now d pid x) s),
     so_UpdateSandboxState = (\<lambda>s pid fr to reason ver.
       sq_write (\<lambda>io now d. UpdateSandboxState io now d pid fr to reason ver) s),
     so_GetSandboxEvents = (\<lambda>s pid. sq_read (\<lambda>io d. GetSandboxEvents io d pid) s)\<rparr>"

definition sq_ok :: "sqlite \<Rightarrow> bool" where
  "sq_ok s \<longleftrightarrow> db_ok (sq_db s)"

definition sq_row :: "sqlite \<Rightarrow> string \<Rightarrow> Sandbox option" where
  "sq_row s = find_row (sq_db s)"

definition sq_calm :: "sqlite \<Rightarrow> bool" where
  "sq_calm s \<longleftrightarrow> (\<forall>n. sq_io s n = no_fault)"

lemmas sq_defs = sqlite_ops_def sq_read_def sq_write_def sq_ok_def sq_row_def sq_calm_def

section \<open>The contract under any fault\<close>

locale store_contract =
  fixes S :: "'s store_ops" and ok :: "'s \<Rightarrow> bool" and row :: "'s \<Rightarrow> string \<Rightarrow> Sandbox option"
  assumes row_id: "ok s \<Longrightarrow> row s i = Some r \<Longrightarrow> sb_sandbox_id r = i"
    and row_valid: "ok s \<Longrightarrow> row s i = Some r \<Longrightarrow> valid (sb_state r) \<and> i \<noteq> []"
    and get_frame: "ok s \<Longrightarrow> so_GetSandbox S s i = (s', res) \<Longrightarrow> ok s' \<and> row s' = row s"
    and get_Inr: "ok s \<Longrightarrow> so_GetSandbox S s i = (s', Inr r) \<Longrightarrow> row s i = Some r"
    and get_absent: "ok s \<Longrightarrow> so_GetSandbox S s i = (s', Inl e) \<Longrightarrow> errors_Is e StoreErrNotFound
        \<Longrightarrow> row s i = None"
    and list_frame: "ok s \<Longrightarrow> so_GetSandboxes S s = (s', lres) \<Longrightarrow> ok s' \<and> row s' = row s"
    and list_Inr: "ok s \<Longrightarrow> so_GetSandboxes S s = (s', Inr rs)
        \<Longrightarrow> distinct (map sb_sandbox_id rs) \<and> (\<forall>i r. row s i = Some r \<longleftrightarrow> r \<in> set rs \<and> sb_sandbox_id r = i)"
    and update_Inl: "ok s \<Longrightarrow> so_UpdateSandboxState S s i fr to re ver = (s', Inl e) \<Longrightarrow> ok s' \<and> row s' = row s"
    and update_Inr: "ok s \<Longrightarrow> so_UpdateSandboxState S s i fr to re ver = (s', Inr r')
        \<Longrightarrow> ok s' \<and> CanTransition fr to = None
            \<and> (\<exists>r now. row s i = Some r \<and> sb_state r = fr \<and> sb_version r = ver \<and> r' = bump now to r
                 \<and> row s' = (row s)(i \<mapsto> r'))"
    and expiry_Inl: "ok s \<Longrightarrow> so_UpdateSandboxExpiry S s i x = (s', Inl e) \<Longrightarrow> ok s' \<and> row s' = row s"
    and expiry_Inr: "ok s \<Longrightarrow> so_UpdateSandboxExpiry S s i x = (s', Inr r')
        \<Longrightarrow> ok s' \<and> x \<noteq> 0 \<and> (\<exists>r now. row s i = Some r \<and> sb_state r \<in> {Pending, Running}
                 \<and> r' = renew now x r \<and> row s' = (row s)(i \<mapsto> r'))"
    and create_Inl: "ok s \<Longrightarrow> so_CreateSandbox S s k f x = (s', Inl e) \<Longrightarrow> ok s' \<and> row s' = row s"
    and create_Inr: "ok s \<Longrightarrow> so_CreateSandbox S s k f x = (s', Inr r)
        \<Longrightarrow> ok s' \<and> row s' (sb_sandbox_id r) = Some r
            \<and> (row s' = row s
               \<or> row s (sb_sandbox_id r) = None \<and> row s' = (row s)(sb_sandbox_id r \<mapsto> r)
                 \<and> sb_state r = Pending \<and> sb_spec r = f \<and> sb_expires r = x)"
begin

text \<open>A version is spent by the first write that observed it.\<close>

lemma version_spent:
  assumes "ok s" and "so_UpdateSandboxState S s i fr to re ver = (s', Inr r)"
  shows "\<nexists>s'' r''. so_UpdateSandboxState S s' i fr2 to2 re2 ver = (s'', Inr r'')"
proof
  assume "\<exists>s'' r''. so_UpdateSandboxState S s' i fr2 to2 re2 ver = (s'', Inr r'')"
  then obtain s'' r'' where h: "so_UpdateSandboxState S s' i fr2 to2 re2 ver = (s'', Inr r'')" by blast
  from update_Inr [OF assms] have ok': "ok s'" and v: "\<exists>q. row s' i = Some q \<and> sb_version q = ver + 1"
    by (auto simp: fun_upd_def)
  from update_Inr [OF ok' h] v show False by auto
qed

text \<open>A terminal row takes no state write.\<close>

lemma terminal_stays:
  assumes "ok s" and "row s i = Some r" and "terminal (sb_state r)"
    and "so_UpdateSandboxState S s i fr to re ver = (s', res)"
  shows "row s' = row s"
proof (cases res)
  case (Inl e)
  with assms update_Inl show ?thesis by blast
next
  case (Inr r')
  with assms update_Inr [of s i fr to re ver s' r'] terminal_no_transition [of fr to] show ?thesis by auto
qed

text \<open>A state write touches the row it names and no other.\<close>

lemma update_other:
  assumes "ok s" and "so_UpdateSandboxState S s i fr to re ver = (s', res)" and "j \<noteq> i"
  shows "row s' j = row s j"
  using assms update_Inl [of s i fr to re ver s'] update_Inr [of s i fr to re ver s']
  by (cases res) auto

end

text \<open>
  The contract of a store whose driver fails no call: reads answer, and a write whose guard holds
  commits.
\<close>

locale live_store = store_contract S ok row
  for S :: "'s store_ops" and ok :: "'s \<Rightarrow> bool" and row :: "'s \<Rightarrow> string \<Rightarrow> Sandbox option" +
  fixes calm :: "'s \<Rightarrow> bool"
  assumes calm_get: "calm s \<Longrightarrow> so_GetSandbox S s i = (s', res) \<Longrightarrow> calm s'"
    and calm_list: "calm s \<Longrightarrow> so_GetSandboxes S s = (s', lres) \<Longrightarrow> calm s'"
    and calm_update: "calm s \<Longrightarrow> so_UpdateSandboxState S s i fr to re ver = (s', res) \<Longrightarrow> calm s'"
    and live_get: "ok s \<Longrightarrow> calm s \<Longrightarrow> row s i = Some r \<Longrightarrow> \<exists>s'. so_GetSandbox S s i = (s', Inr r)"
    and live_get_absent: "ok s \<Longrightarrow> calm s \<Longrightarrow> row s i = None
        \<Longrightarrow> \<exists>s' e. so_GetSandbox S s i = (s', Inl e) \<and> errors_Is e StoreErrNotFound"
    and live_list: "ok s \<Longrightarrow> calm s \<Longrightarrow> \<exists>s' rs. so_GetSandboxes S s = (s', Inr rs)"
    and live_update: "ok s \<Longrightarrow> calm s \<Longrightarrow> row s i = Some r \<Longrightarrow> CanTransition (sb_state r) to = None
        \<Longrightarrow> re \<noteq> [] \<Longrightarrow> \<exists>s' r'. so_UpdateSandboxState S s i (sb_state r) to re (sb_version r) = (s', Inr r')"
    and live_update_stale: "ok s \<Longrightarrow> calm s \<Longrightarrow> row s i = Some r \<Longrightarrow> sb_state r \<noteq> fr
        \<Longrightarrow> CanTransition fr to = None
        \<Longrightarrow> \<exists>s' e. so_UpdateSandboxState S s i fr to re ver = (s', Inl e)
                  \<and> errors_Is e SandboxErrInvalidStateTransition"

section \<open>SQLite keeps the contract\<close>

lemma CreateSandbox_Inr:
  assumes ok: "db_ok d" and h: "CreateSandbox io now d key spec x u = (d', Inr s)"
  shows "(d' = d \<and> find_row d (sb_sandbox_id s) = Some s)
    \<or> (d' = inserted now key spec x u d \<and> s = new_row now spec x u d \<and> find_row d (NewSandboxID u) = None)"
proof (cases "create_lookup io d key spec x")
  case (Inl e)
  with h show ?thesis by (simp add: CreateSandbox_def)
next
  case (Inr known)
  show ?thesis
  proof (cases known)
    case None
    with Inr h have "create_insert io now d key spec x u = (d', Inr s)" by (simp add: CreateSandbox_def)
    from create_insert_Inr [OF ok this] show ?thesis by blast
  next
    case (Some r)
    with Inr h have d: "d' = d" "s = r" by (simp_all add: CreateSandbox_def)
    from Inr Some obtain k where "GetSandbox io d k = Inr r"
      by (auto simp: create_lookup_def split: option.splits sum.splits if_splits)
    then have "find_row d k = Some r"
      by (auto simp: GetSandbox_def scanSandboxRow_def split: option.splits sum.splits)
    with d find_row_id show ?thesis by fastforce
  qed
qed

lemma find_row_apply_transition_upd:
  assumes ok: "db_ok d" and r: "find_row d i = Some r"
  shows "find_row (apply_transition now to re r d) = (find_row d)(i \<mapsto> bump now to r)"
proof
  fix j
  show "find_row (apply_transition now to re r d) j = ((find_row d)(i \<mapsto> bump now to r)) j"
    using r find_row_id [of d i r] find_row_id [of d j] by (cases "find_row d j") auto
qed

lemma find_row_apply_renewal_upd:
  assumes ok: "db_ok d" and r: "find_row d i = Some r"
  shows "find_row (apply_renewal now x r d) = (find_row d)(i \<mapsto> renew now x r)"
proof
  fix j
  show "find_row (apply_renewal now x r d) j = ((find_row d)(i \<mapsto> renew now x r)) j"
    using r find_row_id [of d i r] find_row_id [of d j] by (cases "find_row d j") auto
qed

lemma find_row_inserted_upd:
  "find_row d (NewSandboxID u) = None \<Longrightarrow>
     find_row (inserted now key spec x u d) = (find_row d)(NewSandboxID u \<mapsto> new_row now spec x u d)"
  by (rule ext) (auto split: option.splits)

lemma scan_failed_Is [simp]: "\<not> errors_Is (scan_failed a b c) t"
  by (simp add: scan_failed_def)

interpretation sql: store_contract sqlite_ops sq_ok sq_row
proof (unfold_locales, goal_cases)
  case (1 s i r)
  then show ?case by (simp add: sq_row_def find_row_id)
next
  case (2 s i r)
  then show ?case using row_facts [of "sq_db s" i r] by (simp add: sq_ok_def sq_row_def)
next
  case (3 s i s' res)
  then show ?case by (auto simp: sq_defs)
next
  case (4 s i s' r)
  then show ?case
    by (auto simp: sq_defs GetSandbox_def scanSandboxRow_def split: option.splits sum.splits)
next
  case (5 s i s' e)
  then show ?case
    by (auto simp: sq_defs GetSandbox_def scanSandboxRow_def split: option.splits sum.splits)
next
  case (6 s s' lres)
  then show ?case by (auto simp: sq_defs)
next
  case (7 s s' rs)
  then have "rs = sandboxes (sq_db s)" and ok: "db_ok (sq_db s)"
    by (auto simp: sq_defs GetSandboxes_def split: option.splits)
  moreover from ok have "distinct (map sb_sandbox_id (sandboxes (sq_db s)))" by (simp add: db_ok_def)
  ultimately show ?case using find_row_Some [OF ok] by (simp add: sq_row_def)
next
  case (8 s i fr to re ver s' e)
  then obtain d where d: "UpdateSandboxState (sq_io s (sq_tick s)) (sq_now s (sq_tick s)) (sq_db s) i fr to re ver = (d, Inl e)"
      "s' = s\<lparr>sq_db := d, sq_tick := Suc (sq_tick s)\<rparr>"
    by (auto simp: sq_defs Let_def split: prod.splits)
  with UpdateSandboxState_Inl [OF d(1)] 8 show ?case by (simp add: sq_ok_def sq_row_def)
next
  case (9 s i fr to re ver s' r')
  then obtain d where d: "UpdateSandboxState (sq_io s (sq_tick s)) (sq_now s (sq_tick s)) (sq_db s) i fr to re ver
      = (d, Inr r')" "s' = s\<lparr>sq_db := d, sq_tick := Suc (sq_tick s)\<rparr>"
    by (auto simp: sq_defs Let_def split: prod.splits)
  from 9 have ok: "db_ok (sq_db s)" by (simp add: sq_ok_def)
  show ?case
    by (rule UpdateSandboxState_Inr [OF ok d(1)])
      (use d ok apply_transition_ok find_row_apply_transition_upd in
        \<open>auto simp: sq_ok_def sq_row_def find_row_id\<close>)
next
  case (10 s i x s' e)
  then obtain d where d: "UpdateSandboxExpiry (sq_io s (sq_tick s)) (sq_now s (sq_tick s)) (sq_db s) i x = (d, Inl e)"
      "s' = s\<lparr>sq_db := d, sq_tick := Suc (sq_tick s)\<rparr>"
    by (auto simp: sq_defs Let_def split: prod.splits)
  with UpdateSandboxExpiry_Inl [OF d(1)] 10 show ?case by (simp add: sq_ok_def sq_row_def)
next
  case (11 s i x s' r')
  then obtain d where d: "UpdateSandboxExpiry (sq_io s (sq_tick s)) (sq_now s (sq_tick s)) (sq_db s) i x
      = (d, Inr r')" "s' = s\<lparr>sq_db := d, sq_tick := Suc (sq_tick s)\<rparr>"
    by (auto simp: sq_defs Let_def split: prod.splits)
  from 11 have ok: "db_ok (sq_db s)" by (simp add: sq_ok_def)
  show ?case
    by (rule UpdateSandboxExpiry_Inr [OF ok d(1)])
      (use d ok apply_renewal_ok find_row_apply_renewal_upd in
        \<open>auto simp: sq_ok_def sq_row_def find_row_id\<close>)
next
  case (12 s k f x s' e)
  then obtain d where d: "CreateSandbox (sq_io s (sq_tick s)) (sq_now s (sq_tick s)) (sq_db s) k f x (sq_uuid s (sq_tick s)) = (d, Inl e)"
      "s' = s\<lparr>sq_db := d, sq_tick := Suc (sq_tick s)\<rparr>"
    by (auto simp: sq_defs Let_def split: prod.splits)
  with CreateSandbox_Inl [OF d(1)] 12 show ?case by (simp add: sq_ok_def sq_row_def)
next
  case (13 s k f x s' r)
  then obtain d where d: "CreateSandbox (sq_io s (sq_tick s)) (sq_now s (sq_tick s)) (sq_db s) k f x
        (sq_uuid s (sq_tick s)) = (d, Inr r)" "s' = s\<lparr>sq_db := d, sq_tick := Suc (sq_tick s)\<rparr>"
    by (auto simp: sq_defs Let_def split: prod.splits)
  from 13 have ok: "db_ok (sq_db s)" by (simp add: sq_ok_def)
  have okd: "db_ok d" using CreateSandbox_ok [OF ok] d(1) by (metis fst_conv)
  from CreateSandbox_Inr [OF ok d(1)] show ?case
    using d(2) okd find_row_inserted_upd
    by (auto simp: sq_ok_def sq_row_def new_row_def)
qed

interpretation sql_live: live_store sqlite_ops sq_ok sq_row sq_calm
proof (unfold_locales, goal_cases)
  case (1 s i s' res)
  then show ?case by (auto simp: sq_defs)
next
  case (2 s s' lres)
  then show ?case by (auto simp: sq_defs)
next
  case (3 s i fr to re ver s' res)
  then show ?case by (auto simp: sq_defs Let_def split: prod.splits)
next
  case (4 s i r)
  then show ?case
    by (auto simp: sq_defs GetSandbox_def scanSandboxRow_def no_fault_def)
next
  case (5 s i)
  then show ?case
    by (auto simp: sq_defs GetSandbox_def scanSandboxRow_def no_fault_def)
next
  case (6 s)
  then show ?case by (auto simp: sq_defs GetSandboxes_def no_fault_def)
next
  case (7 s i r to re)
  then have nf: "sq_io s (sq_tick s) = no_fault" and ok: "db_ok (sq_db s)"
    and r: "find_row (sq_db s) i = Some r" by (simp_all add: sq_defs)
  from UpdateSandboxState_hit [OF ok r refl refl 7(4,5), of "sq_io s (sq_tick s)" "sq_now s (sq_tick s)"] nf
  show ?case by (simp add: sqlite_ops_def sq_write_def Let_def no_fault_def)
next
  case (8 s i r fr to re ver)
  then have nf: "sq_io s (sq_tick s) = no_fault" and ok: "db_ok (sq_db s)"
    and miss: "\<nexists>q. find_row (sq_db s) i = Some q \<and> sb_state q = fr \<and> sb_version q = ver"
    and r: "find_row (sq_db s) i = Some r"
    by (auto simp: sq_defs)
  from UpdateSandboxState_stale [OF ok miss 8(5), of "sq_io s (sq_tick s)" "sq_now s (sq_tick s)" re] nf r
  show ?case by (auto simp: sqlite_ops_def sq_write_def Let_def no_fault_def)
qed

end
