(* ===== verification/Control.thy ===== *)
theory Control
  imports StoreSpec
begin

text \<open>
  Package control (internal/control): create and destroy intents, the lease renewal and the running
  check, over any store. The clock \<open>c.now()\<close> is an argument. The lemmas of this theory are proved
  once over the store contract, in \<open>context live_store\<close> and \<open>context store_contract\<close>.
\<close>

section \<open>Operations\<close>

definition ctl_wrap :: "string \<Rightarrow> string \<Rightarrow> goerr \<Rightarrow> goerr" where
  "ctl_wrap opn msg e = errs_Wrap PkgControl opn msg (Some e)"

lemma errors_Is_ctl_wrap [simp]: "errors_Is (ctl_wrap opn msg e) t = errors_Is e t"
  by (simp add: ctl_wrap_def)

definition Control_CreateSandbox ::
  "'s store_ops \<Rightarrow> gotime \<Rightarrow> 's \<Rightarrow> string \<Rightarrow> SpecFile \<Rightarrow> duration \<Rightarrow> 's \<times> (goerr + Sandbox)" where
  "Control_CreateSandbox S now s key spec ttl =
     (case ResolveValidated (Some spec) of
        Inl e \<Rightarrow> (s, Inl (ctl_wrap ''control.Control.CreateSandbox'' ''resolving the submitted spec'' e))
      | Inr _ \<Rightarrow>
     (case ResolveTTL ttl of
        Inl e \<Rightarrow> (s, Inl (ctl_wrap ''control.Control.CreateSandbox'' ''resolving the requested ttl'' e))
      | Inr ttl' \<Rightarrow>
     (case so_CreateSandbox S s key spec (now + ttl') of
        (s', Inl e) \<Rightarrow>
          (s', Inl (ctl_wrap ''control.Control.CreateSandbox'' ''recording the sandbox''
                 (if \<not> errors_Is e SandboxErrInvalidSpec then Joined [Sentinel ControlErrInternal, e] else e)))
      | (s', Inr sbx) \<Rightarrow> (s', Inr sbx))))"

definition Control_KeepaliveSandbox ::
  "'s store_ops \<Rightarrow> gotime \<Rightarrow> 's \<Rightarrow> string \<Rightarrow> duration \<Rightarrow> 's \<times> (goerr + Sandbox)" where
  "Control_KeepaliveSandbox S now s sandboxID ttl =
     (case ResolveTTL (min ttl MaxTTL) of
        Inl e \<Rightarrow> (s, Inl (ctl_wrap ''control.Control.KeepaliveSandbox'' ''resolving the requested ttl'' e))
      | Inr ttl' \<Rightarrow>
     (case so_UpdateSandboxExpiry S s sandboxID (now + ttl') of
        (s', Inl e) \<Rightarrow>
          (s', Inl (ctl_wrap ''control.Control.KeepaliveSandbox'' ''renewing the sandbox expiry'' e))
      | (s', Inr sbx) \<Rightarrow> (s', Inr sbx)))"

definition Control_DestroySandbox :: "'s store_ops \<Rightarrow> 's \<Rightarrow> string \<Rightarrow> 's \<times> goerr option" where
  "Control_DestroySandbox S s sandboxID =
     (case so_GetSandbox S s sandboxID of
        (s1, Inl e) \<Rightarrow>
          if errors_Is e StoreErrNotFound then (s1, None)
          else (s1, Some (ctl_wrap ''control.Control.DestroySandbox'' ''loading the sandbox'' e))
      | (s1, Inr sbx) \<Rightarrow>
     (case so_UpdateSandboxState S s1 sandboxID Running Stopping ''destroy requested'' (sb_version sbx) of
        (s2, Inl e) \<Rightarrow>
          if errors_Is e StoreErrNotFound \<or> errors_Is e SandboxErrInvalidStateTransition then (s2, None)
          else (s2, Some (ctl_wrap ''control.Control.DestroySandbox'' ''marking the sandbox stopping'' e))
      | (s2, Inr _) \<Rightarrow> (s2, None)))"

definition Control_RequireRunning :: "'s store_ops \<Rightarrow> 's \<Rightarrow> string \<Rightarrow> 's \<times> goerr option" where
  "Control_RequireRunning S s sandboxID =
     (case so_GetSandbox S s sandboxID of
        (s1, Inl e) \<Rightarrow> (s1, Some (ctl_wrap ''control.Control.RequireRunning'' ''loading the sandbox'' e))
      | (s1, Inr sbx) \<Rightarrow>
          (s1, if sb_state sbx \<noteq> Running
               then Some (ctl_wrap ''control.Control.RequireRunning'' [] (Sentinel SandboxErrSandboxNotRunning))
               else None))"

section \<open>What control promises over any store\<close>

context store_contract
begin

lemma destroy_effect:
  assumes "ok s" and "Control_DestroySandbox S s i = (s', res)"
  shows "ok s' \<and> (row s' = row s \<or>
    (\<exists>r now. row s i = Some r \<and> sb_state r = Running \<and> row s' = (row s)(i \<mapsto> bump now Stopping r)))"
proof -
  obtain s1 r1 where g: "so_GetSandbox S s i = (s1, r1)" by (cases "so_GetSandbox S s i")
  from get_frame [OF assms(1) g] have ok1: "ok s1" and row1: "row s1 = row s" by auto
  show ?thesis
  proof (cases r1)
    case (Inl e)
    with assms g ok1 row1 show ?thesis by (auto simp: Control_DestroySandbox_def split: if_splits)
  next
    case (Inr sbx)
    obtain s2 r2 where u: "so_UpdateSandboxState S s1 i Running Stopping ''destroy requested'' (sb_version sbx)
        = (s2, r2)" by (cases "so_UpdateSandboxState S s1 i Running Stopping ''destroy requested'' (sb_version sbx)")
    have s': "s' = s2" using assms g Inr u
      by (auto simp: Control_DestroySandbox_def split: sum.splits if_splits)
    show ?thesis
    proof (cases r2)
      case (Inl e)
      with update_Inl [OF ok1] u row1 s' show ?thesis by auto
    next
      case r2: (Inr q)
      from update_Inr [OF ok1 u [unfolded r2]] row1 s' show ?thesis by fastforce
    qed
  qed
qed

lemma create_bounded:
  assumes "ok s" and "Control_CreateSandbox S now s key spec ttl = (s', Inr r)"
  shows "ok s' \<and> row s' (sb_sandbox_id r) = Some r
    \<and> (row s' = row s \<or>
       (sb_state r = Pending \<and> now < sb_expires r \<and> sb_expires r \<le> now + MaxTTL
        \<and> (\<exists>sp. ResolveValidated (Some (sb_spec r)) = Inr sp)))"
proof -
  from assms(2) obtain sp t where sp: "ResolveValidated (Some spec) = Inr sp" and t: "ResolveTTL ttl = Inr t"
    and c: "so_CreateSandbox S s key spec (now + t) = (s', Inr r)"
    by (auto simp: Control_CreateSandbox_def split: sum.splits prod.splits)
  from create_Inr [OF assms(1) c] sp ResolveTTL_Inr [OF t] show ?thesis by auto
qed

lemma create_rejected:
  assumes "ok s" and "Control_CreateSandbox S now s key spec ttl = (s', Inl e)"
  shows "ok s' \<and> row s' = row s"
  using assms create_Inl [OF assms(1)]
  by (auto simp: Control_CreateSandbox_def split: sum.splits prod.splits)

lemma keepalive_effect:
  assumes "ok s" and "Control_KeepaliveSandbox S now s i ttl = (s', Inr r)"
  shows "ok s' \<and> 0 \<le> ttl \<and> (\<exists>old upd. row s i = Some old \<and> sb_state old \<in> {Pending, Running}
    \<and> r = renew upd (now + (if ttl = 0 then DefaultTTL else min ttl MaxTTL)) old \<and> row s' = (row s)(i \<mapsto> r))"
proof -
  from assms(2) obtain t where t: "ResolveTTL (min ttl MaxTTL) = Inr t"
    and c: "so_UpdateSandboxExpiry S s i (now + t) = (s', Inr r)"
    by (auto simp: Control_KeepaliveSandbox_def split: sum.splits prod.splits)
  from t have "0 \<le> ttl" "t = (if ttl = 0 then DefaultTTL else min ttl MaxTTL)"
    by (auto simp: ResolveTTL_def go_consts min_def split: if_splits)
  with expiry_Inr [OF assms(1) c] show ?thesis by blast
qed

lemma keepalive_rejected:
  assumes "ok s" and "Control_KeepaliveSandbox S now s i ttl = (s', Inl e)"
  shows "ok s' \<and> row s' = row s"
  using assms expiry_Inl [OF assms(1)]
  by (auto simp: Control_KeepaliveSandbox_def split: sum.splits prod.splits)

lemma require_running_sound:
  assumes "ok s" and "Control_RequireRunning S s i = (s', None)"
  shows "ok s' \<and> row s' = row s \<and> (\<exists>r. row s i = Some r \<and> sb_state r = Running)"
  using assms get_frame [OF assms(1), of i] get_Inr [OF assms(1), of i]
  by (auto simp: Control_RequireRunning_def split: sum.splits prod.splits if_splits)

end

context live_store
begin

lemma destroy_total:
  assumes "ok s" and "calm s"
  shows "\<exists>s'. Control_DestroySandbox S s i = (s', None) \<and>
    (\<forall>r. row s i = Some r \<longrightarrow> sb_state r = Running \<longrightarrow> (\<exists>now. row s' = (row s)(i \<mapsto> bump now Stopping r)))
    \<and> ((\<nexists>r. row s i = Some r \<and> sb_state r = Running) \<longrightarrow> row s' = row s)"
proof (cases "row s i")
  case None
  from live_get_absent [OF assms None] obtain s1 e where
    g: "so_GetSandbox S s i = (s1, Inl e)" and e: "errors_Is e StoreErrNotFound" by blast
  from get_frame [OF assms(1) g] g e None show ?thesis by (simp add: Control_DestroySandbox_def)
next
  case (Some r)
  from live_get [OF assms Some] obtain s1 where g: "so_GetSandbox S s i = (s1, Inr r)" by blast
  from get_frame [OF assms(1) g] calm_get [OF assms(2) g]
  have ok1: "ok s1" "calm s1" and row1: "row s1 = row s" by auto
  have r1: "row s1 i = Some r" using Some row1 by simp
  show ?thesis
  proof (cases "sb_state r = Running")
    case True
    have legal: "CanTransition (sb_state r) Stopping = None" using True by (simp add: CanTransition_None)
    from live_update [OF ok1 r1 legal, of "''destroy requested''"] obtain s2 q where
      u: "so_UpdateSandboxState S s1 i Running Stopping ''destroy requested'' (sb_version r) = (s2, Inr q)"
      using True by auto
    from update_Inr [OF ok1(1) u] r1 row1 g u True Some show ?thesis
      by (auto simp: Control_DestroySandbox_def)
  next
    case False
    have legal: "CanTransition Running Stopping = None" by (simp add: CanTransition_None)
    from live_update_stale [OF ok1 r1 False legal] obtain s2 e where
      u: "so_UpdateSandboxState S s1 i Running Stopping ''destroy requested'' (sb_version r) = (s2, Inl e)"
      and e: "errors_Is e SandboxErrInvalidStateTransition" by blast
    from update_Inl [OF ok1(1) u] row1 g u e False Some show ?thesis
      by (auto simp: Control_DestroySandbox_def)
  qed
qed

end

end
