(* ===== verification/StoreProps.thy ===== *)
theory StoreProps
  imports Control
begin

text \<open>
  The properties of the store and of the control plane, over the SQLite model. The sample tables
  hold one sandbox that was created and started; the witnesses run on them.
\<close>

section \<open>Lemmas\<close>

text \<open>A recorded key stays, with the sandbox it names.\<close>

lemma db_step_keys: "db_step d d' \<Longrightarrow> db_ok d \<Longrightarrow> k \<in> set (idem_keys d) \<Longrightarrow> k \<in> set (idem_keys d')"
proof (induction rule: db_step.induct)
  case (step_insert d io now key spec x u)
  show ?case
  proof (cases "create_insert io now d key spec x u")
    case (Pair d' res)
    with step_insert create_insert_Inl create_insert_Inr(3) show ?thesis
      by (cases res) (fastforce simp: inserted_def)+
  qed
next
  case (step_key d io now key pid)
  then show ?case
    by (auto simp: CreateIdempotencyKey_def Let_def InsertIdempotencyKeyQuery_def split: option.splits sum.splits)
next
  case (step_expiry d io now pid x)
  show ?case
  proof (cases "UpdateSandboxExpiry io now d pid x")
    case (Pair d' res)
    show ?thesis
    proof (cases res)
      case (Inl e)
      with Pair UpdateSandboxExpiry_Inl step_expiry show ?thesis by fastforce
    next
      case (Inr s)
      with Pair have h: "UpdateSandboxExpiry io now d pid x = (d', Inr s)" by simp
      from Pair step_expiry show ?thesis
        by (auto simp: apply_renewal_def intro: UpdateSandboxExpiry_Inr [OF step_expiry(1) h])
    qed
  qed
next
  case (step_state d io now pid fr to reason ver)
  show ?case
  proof (cases "UpdateSandboxState io now d pid fr to reason ver")
    case (Pair d' res)
    show ?thesis
    proof (cases res)
      case (Inl e)
      with Pair UpdateSandboxState_Inl step_state show ?thesis by fastforce
    next
      case (Inr s)
      with Pair have h: "UpdateSandboxState io now d pid fr to reason ver = (d', Inr s)" by simp
      from Pair step_state show ?thesis
        by (auto simp: apply_transition_rows intro: UpdateSandboxState_Inr [OF step_state(1) h])
    qed
  qed
qed

lemma db_steps_keys: "db_steps d d' \<Longrightarrow> db_ok d \<Longrightarrow> k \<in> set (idem_keys d) \<Longrightarrow> k \<in> set (idem_keys d')"
  by (induction rule: db_steps.induct) (auto intro: db_step_keys db_steps_ok)

lemma CreateSandbox_key:
  assumes ok: "db_ok d" and h: "CreateSandbox io now d key spec x u = (d', Inr s)"
  shows "\<exists>k\<in>set (idem_keys d'). ik_key k = key \<and> ik_sandbox_id k = sb_sandbox_id s"
proof (cases "create_lookup io d key spec x")
  case (Inl e)
  with h show ?thesis by (simp add: CreateSandbox_def)
next
  case (Inr known)
  show ?thesis
  proof (cases known)
    case None
    with Inr h have "create_insert io now d key spec x u = (d', Inr s)" by (simp add: CreateSandbox_def)
    from create_insert_Inr [OF ok this] show ?thesis by (auto simp: inserted_def new_row_def)
  next
    case (Some r)
    with Inr h have d: "d' = d" "s = r" by (simp_all add: CreateSandbox_def)
    from Inr Some obtain k where k: "find (\<lambda>k. ik_key k = key) (idem_keys d) = Some k"
      and g: "GetSandbox io d (ik_sandbox_id k) = Inr r"
      by (auto simp: create_lookup_def GetIdempotencyKey_def scanKeyRow_def split: option.splits sum.splits if_splits)
    from g have "find_row d (ik_sandbox_id k) = Some r"
      by (auto simp: GetSandbox_def scanSandboxRow_def split: option.splits sum.splits)
    with d k find_row_id [of d "ik_sandbox_id k" r] show ?thesis by (auto simp: find_Some_iff)
  qed
qed

lemma CreateSandbox_known_key:
  assumes ok: "db_ok d" and k: "k \<in> set (idem_keys d)" "ik_key k = key"
    and h: "CreateSandbox io now d key spec x u = (d', Inr s)"
  shows "d' = d \<and> sb_sandbox_id s = ik_sandbox_id k"
proof -
  from CreateSandbox_key [OF ok h] obtain k' where k': "k' \<in> set (idem_keys d')" "ik_key k' = key"
    "ik_sandbox_id k' = sb_sandbox_id s" by blast
  from CreateSandbox_Inr [OF ok h] have "d' = d"
  proof
    assume "d' = inserted now key spec x u d \<and> s = new_row now spec x u d \<and> find_row d (NewSandboxID u) = None"
    then have "db_ok d'" using CreateSandbox_ok [OF ok] h by (metis fst_conv)
    moreover have "idem_keys d' = idem_keys d @ [\<lparr>ik_id = Suc (key_seq d), ik_sandbox_id = NewSandboxID u, ik_key = key,
        ik_created = now, ik_updated = now\<rparr>]"
      using \<open>d' = _ \<and> _\<close> by (simp add: inserted_def)
    ultimately show "d' = d" using k by (auto simp: db_ok_def)
  qed simp
  moreover from this k' k ok have "k' = k" by (auto simp: db_ok_def distinct_map inj_on_def)
  ultimately show ?thesis using k' by simp
qed

lemma state_rank_le: "state_rank s \<le> 3"
  by (simp add: state_rank_def)

lemma terminal_rank: "terminal s \<Longrightarrow> state_rank s = 3"
  by (auto simp: terminal_def state_rank_def)

section \<open>Sample tables\<close>

definition sample_created :: db where
  "sample_created = fst (CreateSandbox no_fault 10 empty_db ''key'' empty_SpecFile 500 ''a1'')"

definition sample_running :: db where
  "sample_running = fst (UpdateSandboxState no_fault 20 sample_created ''sbx_a1'' Pending Running ''started'' 1)"

definition sample_sqlite :: "db \<Rightarrow> sqlite" where
  "sample_sqlite d = \<lparr>sq_db = d, sq_io = (\<lambda>_. no_fault), sq_now = int, sq_uuid = (\<lambda>_. ''b2''), sq_tick = 30\<rparr>"

definition sample_row :: Sandbox where
  "sample_row = \<lparr>sb_id = 1, sb_version = 1, sb_sandbox_id = ''sbx_a1'', sb_state = Pending, sb_spec = empty_SpecFile,
     sb_expires = 500, sb_created = 10, sb_updated = 10\<rparr>"

lemmas create_defs = CreateSandbox_def create_lookup_def SpecFile_Validate_def IsZero_def GetIdempotencyKey_def
  scanKeyRow_def SpecFile_ToJSON_def empty_SpecFile_def create_insert_def Let_def InsertSandboxQuery_def
  InsertIdempotencyKeyQuery_def appendEvent_def Event_Validate_def InsertEventQuery_def no_fault_def

lemma sample_create:
  "CreateSandbox no_fault 10 empty_db ''key'' empty_SpecFile 500 ''a1'' =
     (inserted 10 ''key'' empty_SpecFile 500 ''a1'' empty_db, Inr sample_row)"
  by (simp add: create_defs empty_db_def find_row_def inserted_def new_row_def sample_row_def NewSandboxID_def
      sandboxIDPrefix_def state_defs)

lemma sample_created_step: "db_step empty_db sample_created"
  using step_insert [of empty_db no_fault 10 "''key''" empty_SpecFile 500 "''a1''"]
  by (simp add: sample_created_def CreateSandbox_def create_lookup_def SpecFile_Validate_def IsZero_def
      GetIdempotencyKey_def scanKeyRow_def SpecFile_ToJSON_def empty_SpecFile_def empty_db_def no_fault_def)

lemma sample_created_reachable: "db_reachable sample_created"
  using reach_empty sample_created_step by (rule reach_step)

lemma sample_running_step: "db_step sample_created sample_running"
  unfolding sample_running_def by (rule step_state)

lemma sample_running_reachable: "db_reachable sample_running"
  using sample_created_reachable sample_running_step by (rule reach_step)

lemma sample_created_row: "find_row sample_created ''sbx_a1'' = Some sample_row"
  unfolding sample_created_def sample_create
  by (simp add: empty_db_def find_row_def inserted_def new_row_def sample_row_def NewSandboxID_def sandboxIDPrefix_def)

lemma sample_created_ok: "db_ok sample_created" and sample_running_ok: "db_ok sample_running"
  using sample_created_reachable sample_running_reachable by (simp_all add: db_reachable_ok)

lemma sample_update:
  "UpdateSandboxState no_fault now sample_created ''sbx_a1'' Pending Running ''started'' 1 =
     (apply_transition now Running ''started'' sample_row sample_created, Inr (bump now Running sample_row))"
  by (rule UpdateSandboxState_hit [OF sample_created_ok sample_created_row])
    (simp_all add: sample_row_def CanTransition_None no_fault_def)

lemma sample_running_row: "find_row sample_running ''sbx_a1'' = Some (bump 20 Running sample_row)"
  by (simp add: sample_running_def sample_update sample_created_row)

section \<open>The history of a sandbox\<close>

text \<open>
  C1: In any tables that some sequence of store transactions can reach, whatever the driver does in
  each, the event log of every sandbox replays to the state its row shows, one event per version
  starting at 1, and no sandbox ever has more than four events.
\<close>

theorem reachable_history:
  assumes "db_reachable d" and "find_row d i = Some r"
  shows "replay [] (events_of d i) = Some (sb_state r) \<and> map ev_version (events_of d i) = [1..sb_version r]
    \<and> valid (sb_state r) \<and> sb_version r \<le> 4"
proof -
  from row_facts [OF db_reachable_ok [OF assms(1)] assms(2)]
  have h: "valid (sb_state r)" "history_ok r (events_of d i)" "1 \<le> sb_version r" by auto
  then have "replay [] (events_of d i) = Some (sb_state r)" "map ev_version (events_of d i) = [1..sb_version r]"
    by (simp_all add: history_ok_def)
  moreover from this have "int (length (events_of d i)) = sb_version r"
    using h(3) by (metis length_map length_upto add.commute diff_add_cancel nat_0_le order_trans zero_le_one)
  ultimately show ?thesis using h replay_length [of "events_of d i" "sb_state r"] by simp
qed

lemma reachable_history_witness:
  "replay [] (events_of sample_running ''sbx_a1'') = Some Running
    \<and> map ev_version (events_of sample_running ''sbx_a1'') = [1..2]"
  using reachable_history [OF sample_running_reachable sample_running_row] by (simp add: sample_row_def)

text \<open>
  C5: Under any driver fault a state write is all or nothing. Either it fails and the tables are as
  they were, or the row it named was in the expected state and version, the transition is legal, the
  row moved to the new state with its version raised by one, and exactly that transition was appended
  to the log.
\<close>

theorem UpdateSandboxState_atomic:
  assumes "db_ok d" and "UpdateSandboxState io now d pid fr to reason ver = (d', res)"
  shows "(\<exists>e. res = Inl e \<and> d' = d)
    \<or> (\<exists>r. find_row d pid = Some r \<and> sb_state r = fr \<and> sb_version r = ver \<and> CanTransition fr to = None
        \<and> res = Inr (bump now to r) \<and> find_row d' = (find_row d)(pid \<mapsto> bump now to r)
        \<and> event_rows d' = event_rows d @ [transition_event now to reason (Suc (event_seq d)) r]
        \<and> idem_keys d' = idem_keys d)"
proof (cases res)
  case (Inl e)
  with assms(2) UpdateSandboxState_Inl show ?thesis by blast
next
  case (Inr s)
  show ?thesis
    by (rule UpdateSandboxState_Inr [OF assms(1) assms(2) [unfolded Inr]])
      (auto simp: Inr apply_transition_rows find_row_apply_transition_upd [OF assms(1)])
qed

lemma UpdateSandboxState_atomic_witness:
  "find_row sample_running = (find_row sample_created)(''sbx_a1'' \<mapsto> bump 20 Running sample_row)"
  using UpdateSandboxState_atomic [OF sample_created_ok sample_update [of 20]] sample_created_row
  by (auto simp: sample_running_def sample_update)

text \<open>
  C9: With no driver fault, a legal state write with a reason succeeds exactly when the row exists in
  the expected state and version; otherwise the error says which it is: not found for an absent
  sandbox, invalid transition for a row that someone else has moved.
\<close>

theorem UpdateSandboxState_decides:
  assumes "db_ok d" and "CanTransition fr to = None" and "reason \<noteq> []"
  shows "if \<exists>r. find_row d pid = Some r \<and> sb_state r = fr \<and> sb_version r = ver
    then \<exists>s. snd (UpdateSandboxState no_fault now d pid fr to reason ver) = Inr s \<and> sb_state s = to \<and> sb_version s = ver + 1
    else \<exists>e. UpdateSandboxState no_fault now d pid fr to reason ver = (d, Inl e)
      \<and> (\<forall>t. errors_Is e t \<longleftrightarrow> t = (if find_row d pid = None then StoreErrNotFound else SandboxErrInvalidStateTransition))"
proof (cases "\<exists>r. find_row d pid = Some r \<and> sb_state r = fr \<and> sb_version r = ver")
  case True
  then obtain r where "find_row d pid = Some r" "sb_state r = fr" "sb_version r = ver" by blast
  from UpdateSandboxState_hit [OF assms(1) this assms(2,3), of no_fault now] this(3) True show ?thesis
    by (simp add: no_fault_def)
next
  case False
  from UpdateSandboxState_stale [OF assms(1) False assms(2), of no_fault now reason] False show ?thesis
    by (auto simp: no_fault_def)
qed

lemma UpdateSandboxState_decides_witness:
  "\<exists>e. UpdateSandboxState no_fault 40 sample_running ''sbx_a1'' Running Stopping ''stale'' 1 = (sample_running, Inl e)
    \<and> errors_Is e SandboxErrInvalidStateTransition"
  using UpdateSandboxState_decides [OF sample_running_ok, of Running Stopping "''stale''" "''sbx_a1''" 1 40]
    sample_running_row
  by (auto simp: CanTransition_None sample_row_def)

text \<open>
  C6: Two writers that read the same version of a sandbox cannot both succeed: once one of them has
  moved the row, the other's write fails whatever transition it asks for, and changes no row.
\<close>

theorem one_writer_per_version:
  assumes "sq_ok s" and "so_UpdateSandboxState sqlite_ops s i fr to re ver = (s1, Inr r)"
    and "so_UpdateSandboxState sqlite_ops s1 i fr2 to2 re2 ver = (s2, res)"
  shows "(\<exists>e. res = Inl e) \<and> sq_row s2 = sq_row s1"
proof -
  have ok1: "sq_ok s1" using sql.update_Inr [OF assms(1,2)] by simp
  show ?thesis
  proof (cases res)
    case (Inl e)
    with sql.update_Inl [OF ok1] assms(3) show ?thesis by blast
  next
    case (Inr q)
    with sql.version_spent [OF assms(1,2)] assms(3) show ?thesis by blast
  qed
qed

lemma one_writer_per_version_witness:
  "\<exists>s1 r s2 e. so_UpdateSandboxState sqlite_ops (sample_sqlite sample_created) ''sbx_a1'' Pending Running ''started'' 1 = (s1, Inr r)
     \<and> so_UpdateSandboxState sqlite_ops s1 ''sbx_a1'' Pending Failed ''late'' 1 = (s2, Inl e)"
proof -
  have ok: "sq_ok (sample_sqlite sample_created)" by (simp add: sq_ok_def sample_sqlite_def sample_created_ok)
  obtain s1 r where u: "so_UpdateSandboxState sqlite_ops (sample_sqlite sample_created) ''sbx_a1'' Pending Running ''started'' 1 = (s1, Inr r)"
    by (simp add: sqlite_ops_def sq_write_def sample_sqlite_def sample_update)
  obtain s2 res where v: "so_UpdateSandboxState sqlite_ops s1 ''sbx_a1'' Pending Failed ''late'' 1 = (s2, res)"
    by (cases "so_UpdateSandboxState sqlite_ops s1 ''sbx_a1'' Pending Failed ''late'' 1")
  from one_writer_per_version [OF ok u v] u v show ?thesis by blast
qed

text \<open>
  C7: Over any further sequence of transactions of any clients, a sandbox is never deleted, its spec
  never changes, its version never falls, its state only moves forward in the lifecycle, and a
  stopped or failed sandbox keeps its state and version for ever.
\<close>

theorem states_only_advance:
  assumes "db_reachable d" and "db_steps d d'" and "find_row d i = Some r"
  shows "\<exists>r'. find_row d' i = Some r' \<and> sb_spec r' = sb_spec r \<and> sb_version r \<le> sb_version r'
    \<and> state_rank (sb_state r) \<le> state_rank (sb_state r')
    \<and> (terminal (sb_state r) \<longrightarrow> sb_state r' = sb_state r \<and> sb_version r' = sb_version r)"
proof -
  from db_steps_mono [OF assms(2) db_reachable_ok [OF assms(1)] assms(3)] obtain r' where
    r': "find_row d' i = Some r'" "row_le r r'" by blast
  from r'(2) terminal_rank [of "sb_state r"] state_rank_le [of "sb_state r'"] show ?thesis
    using r'(1) by (auto simp: row_le_def split: if_splits)
qed

lemma states_only_advance_witness:
  "\<exists>r'. find_row sample_running ''sbx_a1'' = Some r' \<and> 1 \<le> sb_version r'"
proof -
  have "db_steps sample_created sample_running" using steps_refl sample_running_step by (rule steps_step)
  from states_only_advance [OF sample_created_reachable this sample_created_row] show ?thesis
    by (auto simp: sample_row_def)
qed

text \<open>
  C8: Creating is idempotent per key for ever: after one create with a key succeeded, and after any
  transactions of other clients in between, a create with the same key that succeeds returns the same
  sandbox and changes nothing, whatever spec, expiry and fresh id it came with.
\<close>

theorem create_idempotent:
  assumes "db_reachable d" and "CreateSandbox io1 now1 d key spec1 x1 u1 = (d1, Inr s1)" and "db_steps d1 d2"
    and "CreateSandbox io2 now2 d2 key spec2 x2 u2 = (d3, Inr s2)"
  shows "sb_sandbox_id s2 = sb_sandbox_id s1 \<and> d3 = d2"
proof -
  have ok: "db_ok d" using assms(1) by (rule db_reachable_ok)
  then have ok1: "db_ok d1" using CreateSandbox_ok [OF ok] assms(2) by (metis fst_conv)
  from CreateSandbox_key [OF ok assms(2)] obtain k where
    k: "k \<in> set (idem_keys d1)" "ik_key k = key" "ik_sandbox_id k = sb_sandbox_id s1" by blast
  from CreateSandbox_known_key [OF db_steps_ok [OF assms(3) ok1] db_steps_keys [OF assms(3) ok1 k(1)] k(2) assms(4)] k(3)
  show ?thesis by simp
qed

lemma create_idempotent_witness:
  "\<exists>d3 s2. CreateSandbox no_fault 90 sample_running ''key'' (empty_SpecFile\<lparr>file_image := Some ''x''\<rparr>) 700 ''z9'' = (d3, Inr s2)
     \<and> sb_sandbox_id s2 = ''sbx_a1'' \<and> d3 = sample_running"
proof -
  let ?f = "empty_SpecFile\<lparr>file_image := Some ''x''\<rparr>"
  have c: "CreateSandbox no_fault 10 empty_db ''key'' empty_SpecFile 500 ''a1'' = (sample_created, Inr sample_row)"
    by (simp add: sample_created_def sample_create)
  have st: "db_steps sample_created sample_running" using steps_refl sample_running_step by (rule steps_step)
  from CreateSandbox_key [OF db_ok_empty c] obtain k where
    k: "k \<in> set (idem_keys sample_created)" "ik_key k = ''key''" by blast
  from create_lookup_known [OF sample_running_ok db_steps_keys [OF st sample_created_ok k(1)] k(2), of 700 no_fault ?f]
  obtain r where r: "CreateSandbox no_fault 90 sample_running ''key'' ?f 700 ''z9'' = (sample_running, Inr r)"
    by (auto simp: CreateSandbox_def no_fault_def)
  from create_idempotent [OF reach_empty c st r] r show ?thesis by (simp add: sample_row_def)
qed

section \<open>The control plane\<close>

text \<open>
  C15: A create that the control plane accepts leaves a row with the returned id; a new row is pending,
  expires after the current time and at most the maximal lifetime later, and carries a spec that
  resolves to enforceable limits. A create it rejects changes no row.
\<close>

theorem create_within_bounds:
  assumes "sq_ok s" and "Control_CreateSandbox sqlite_ops now s key spec ttl = (s', res)"
  shows "sq_ok s' \<and> (case res of
      Inl e \<Rightarrow> sq_row s' = sq_row s
    | Inr r \<Rightarrow> sq_row s' (sb_sandbox_id r) = Some r
        \<and> (sq_row s' = sq_row s
           \<or> (sb_state r = Pending \<and> now < sb_expires r \<and> sb_expires r \<le> now + MaxTTL
              \<and> (\<exists>sp. ResolveValidated (Some (sb_spec r)) = Inr sp))))"
  using sql.create_bounded [OF assms(1)] sql.create_rejected [OF assms(1)] assms(2) by (cases res) auto

lemma create_within_bounds_witness:
  "sq_ok (fst (Control_CreateSandbox sqlite_ops 100 (sample_sqlite sample_running) ''new'' empty_SpecFile 0))"
proof -
  have ok: "sq_ok (sample_sqlite sample_running)" by (simp add: sq_ok_def sample_sqlite_def sample_running_ok)
  from create_within_bounds [OF ok, of 100 "''new''" empty_SpecFile 0] show ?thesis
    by (metis prod.collapse)
qed

text \<open>A renewal writes no table but that of the sandboxes.\<close>

lemma keepalive_tables:
  assumes "sq_ok s" and "Control_KeepaliveSandbox sqlite_ops now s i ttl = (s', res)"
  shows "(\<exists>rows. sq_db s' = (sq_db s)\<lparr>sandboxes := rows\<rparr>) \<and> (isl res \<longrightarrow> sq_db s' = sq_db s)"
proof (cases "ResolveTTL (min ttl MaxTTL)")
  case (Inl e)
  with assms(2) have "sq_db s' = sq_db s" by (simp add: Control_KeepaliveSandbox_def)
  then show ?thesis by (auto intro: exI [of _ "sandboxes (sq_db s)"])
next
  case (Inr t)
  obtain d q where u: "UpdateSandboxExpiry (sq_io s (sq_tick s)) (sq_now s (sq_tick s)) (sq_db s) i (now + t) = (d, q)"
    by fastforce
  with assms(2) Inr have d: "sq_db s' = d" "isl res = isl q"
    by (auto simp: Control_KeepaliveSandbox_def sqlite_ops_def sq_write_def split: sum.splits)
  show ?thesis
  proof (cases q)
    case (Inl e)
    with u UpdateSandboxExpiry_Inl d have "sq_db s' = sq_db s" by simp
    then show ?thesis by (auto intro: exI [of _ "sandboxes (sq_db s)"])
  next
    case (Inr r)
    from assms(1) have "db_ok (sq_db s)" by (simp add: sq_ok_def)
    from UpdateSandboxExpiry_Inr [OF this u [unfolded Inr]] d(1) have "\<exists>rows. sq_db s' = (sq_db s)\<lparr>sandboxes := rows\<rparr>"
      unfolding apply_renewal_def by metis
    with d(2) Inr show ?thesis by simp
  qed
qed

text \<open>
  C16: A lease renewal that succeeds renews exactly the sandbox it names. That sandbox was there,
  pending or running; the lease asked for was not negative, and the new row is the old one but for its
  time of update and its expiry, which is the current time plus the lease asked for, a default when it
  is zero, cut to the maximal lifetime. Every other row and every other table is as it was. A renewal
  that fails changes nothing.
\<close>

theorem keepalive_within_bounds:
  assumes "sq_ok s" and "Control_KeepaliveSandbox sqlite_ops now s i ttl = (s', res)"
  shows "sq_ok s' \<and> (\<exists>rows. sq_db s' = (sq_db s)\<lparr>sandboxes := rows\<rparr>) \<and> (case res of
      Inl e \<Rightarrow> sq_db s' = sq_db s
    | Inr r \<Rightarrow> 0 \<le> ttl \<and> now < sb_expires r \<and> sb_expires r \<le> now + MaxTTL
        \<and> (\<exists>old upd. sq_row s i = Some old \<and> sb_state old \<in> {Pending, Running}
            \<and> r = old\<lparr>sb_expires := now + (if ttl = 0 then DefaultTTL else min ttl MaxTTL), sb_updated := upd\<rparr>
            \<and> sq_row s' = (sq_row s)(i \<mapsto> r)))"
proof (cases res)
  case (Inl e)
  from sql.keepalive_rejected [OF assms(1) assms(2) [unfolded Inl]] keepalive_tables [OF assms] Inl show ?thesis
    by (auto intro: exI [of _ "sandboxes (sq_db s)"])
next
  case (Inr r)
  let ?t = "if ttl = 0 then DefaultTTL else min ttl MaxTTL"
  from sql.keepalive_effect [OF assms(1) assms(2) [unfolded Inr]] obtain old upd where
    e: "sq_ok s'" "0 \<le> ttl" "sq_row s i = Some old" "sb_state old \<in> {Pending, Running}"
      "r = renew upd (now + ?t) old" "sq_row s' = (sq_row s)(i \<mapsto> r)" by blast
  from e(2) have "0 < ?t" "?t \<le> MaxTTL" by (auto simp: go_consts)
  with e(5) have "now < sb_expires r" "sb_expires r \<le> now + MaxTTL" by simp_all
  moreover have "\<exists>old upd. sq_row s i = Some old \<and> sb_state old \<in> {Pending, Running}
      \<and> r = old\<lparr>sb_expires := now + ?t, sb_updated := upd\<rparr> \<and> sq_row s' = (sq_row s)(i \<mapsto> r)"
    using e(3-6) unfolding renew_def by blast
  ultimately show ?thesis using e(1,2) keepalive_tables [OF assms] Inr by simp
qed

lemma keepalive_within_bounds_witness:
  "\<exists>s' r. Control_KeepaliveSandbox sqlite_ops 100 (sample_sqlite sample_running) ''sbx_a1'' (999 * Hour) = (s', Inr r)
     \<and> sb_expires r \<le> 100 + MaxTTL \<and> sb_version r = 2"
proof -
  have ok: "sq_ok (sample_sqlite sample_running)" by (simp add: sq_ok_def sample_sqlite_def sample_running_ok)
  have t: "ResolveTTL (min (999 * Hour) MaxTTL) = Inr MaxTTL" by (simp add: ResolveTTL_def go_consts)
  have x: "100 + MaxTTL \<noteq> 0" by (simp add: go_consts)
  have "UpdateSandboxExpiry no_fault 30 sample_running ''sbx_a1'' (100 + MaxTTL) = (apply_renewal 30 (100 + MaxTTL)
      (bump 20 Running sample_row) sample_running, Inr (renew 30 (100 + MaxTTL) (bump 20 Running sample_row)))"
    by (rule UpdateSandboxExpiry_hit [OF sample_running_ok sample_running_row]) (simp_all add: x no_fault_def)
  then obtain s' r where k: "Control_KeepaliveSandbox sqlite_ops 100 (sample_sqlite sample_running) ''sbx_a1'' (999 * Hour) = (s', Inr r)"
    by (simp add: Control_KeepaliveSandbox_def t sqlite_ops_def sq_write_def sample_sqlite_def)
  have "sb_version (bump 20 Running sample_row) = 2" by (simp add: bump_def sample_row_def)
  with keepalive_within_bounds [OF ok k] k sample_running_row show ?thesis
    by (auto simp: sq_row_def sample_sqlite_def)
qed

text \<open>
  C17: With a driver that answers, a destroy always reports success, for any id. It moves a running
  sandbox to stopping and changes no other row; for a sandbox in any other state, and for an unknown
  id, it changes nothing. A pending sandbox is therefore reported destroyed and stays pending.
\<close>

theorem destroy_always_succeeds:
  assumes "sq_ok s" and "sq_calm s"
  shows "\<exists>s'. Control_DestroySandbox sqlite_ops s i = (s', None)
    \<and> (\<forall>r. sq_row s i = Some r \<longrightarrow> sb_state r = Running \<longrightarrow> (\<exists>now. sq_row s' = (sq_row s)(i \<mapsto> bump now Stopping r)))
    \<and> (\<forall>r. sq_row s i = Some r \<longrightarrow> sb_state r \<noteq> Running \<longrightarrow> sq_row s' = sq_row s)
    \<and> (sq_row s i = None \<longrightarrow> sq_row s' = sq_row s)"
  using sql_live.destroy_total [OF assms, of i] by fastforce

lemma destroy_always_succeeds_witness:
  "\<exists>s'. Control_DestroySandbox sqlite_ops (sample_sqlite sample_created) ''sbx_a1'' = (s', None)
    \<and> sq_row s' ''sbx_a1'' = Some sample_row \<and> sb_state sample_row = Pending"
proof -
  have "sq_ok (sample_sqlite sample_created)" "sq_calm (sample_sqlite sample_created)"
    by (simp_all add: sq_ok_def sq_calm_def sample_sqlite_def sample_created_ok)
  from destroy_always_succeeds [OF this, of "''sbx_a1''"] sample_created_row show ?thesis
    by (auto simp: sq_row_def sample_sqlite_def sample_row_def)
qed

end
