(* ===== verification/RuntimeIface.thy ===== *)
theory RuntimeIface
  imports RuntimeSpec
begin

text \<open>
  The interface \<open>runtime.Runtime\<close> (internal/runtime/runtime.go) as a record of operations on a
  backend state, and the two contracts its clients rely on: \<open>runtime_contract\<close> under any fault and
  \<open>live_runtime\<close> when the backend answers. \<open>obs\<close> is what a listing would report for an id.
\<close>

record 'w runtime_ops =
  ro_Create :: "'w \<Rightarrow> string \<Rightarrow> Spec \<Rightarrow> 'w \<times> (goerr + Info)"
  ro_Inspect :: "'w \<Rightarrow> string \<Rightarrow> 'w \<times> (goerr + Info)"
  ro_List :: "'w \<Rightarrow> 'w \<times> (goerr + Info list)"
  ro_Destroy :: "'w \<Rightarrow> string \<Rightarrow> 'w \<times> goerr option"
  ro_Exec :: "'w \<Rightarrow> string \<Rightarrow> string list \<Rightarrow> ExecOpts \<Rightarrow> 'w \<times> ExecResult \<times> goerr option"
  ro_WriteFile :: "'w \<Rightarrow> string \<Rightarrow> string \<Rightarrow> string \<Rightarrow> int \<Rightarrow> 'w \<times> goerr option"
  ro_ReadFile :: "'w \<Rightarrow> string \<Rightarrow> string \<Rightarrow> 'w \<times> (goerr + string)"
  ro_ListDir :: "'w \<Rightarrow> string \<Rightarrow> string \<Rightarrow> 'w \<times> (goerr + FileInfo list)"
  ro_RemovePath :: "'w \<Rightarrow> string \<Rightarrow> string \<Rightarrow> 'w \<times> goerr option"

text \<open>
  Create is only promised to keep the backend well formed where the id has no container yet: the
  client has to look first.
\<close>

locale runtime_contract =
  fixes R :: "'w runtime_ops" and wok :: "'w \<Rightarrow> bool" and obs :: "'w \<Rightarrow> string \<Rightarrow> Info option"
  assumes obs_id: "wok w \<Longrightarrow> obs w i = Some x \<Longrightarrow> info_id x = i"
    and rlist_frame: "wok w \<Longrightarrow> ro_List R w = (w', lres) \<Longrightarrow> wok w' \<and> obs w' = obs w"
    and rlist_Inr: "wok w \<Longrightarrow> ro_List R w = (w', Inr xs)
        \<Longrightarrow> distinct (map info_id xs) \<and> (\<forall>i x. obs w i = Some x \<longleftrightarrow> x \<in> set xs \<and> info_id x = i)"
    and create_frame: "wok w \<Longrightarrow> obs w i = None \<Longrightarrow> ro_Create R w i sp = (w', res)
        \<Longrightarrow> wok w' \<and> (\<forall>j. j \<noteq> i \<longrightarrow> obs w' j = obs w j)"
    and create_Inr: "wok w \<Longrightarrow> obs w i = None \<Longrightarrow> ro_Create R w i sp = (w', Inr x)
        \<Longrightarrow> Spec_Validate sp = None \<and> (\<exists>y. obs w' i = Some y \<and> info_state y = StateRunning)"
    and destroy_frame: "wok w \<Longrightarrow> ro_Destroy R w i = (w', dres)
        \<Longrightarrow> wok w' \<and> (\<forall>j. j \<noteq> i \<longrightarrow> obs w' j = obs w j)"
    and destroy_None: "wok w \<Longrightarrow> ro_Destroy R w i = (w', None) \<Longrightarrow> obs w' i = None"

locale live_runtime = runtime_contract R wok obs
  for R :: "'w runtime_ops" and wok :: "'w \<Rightarrow> bool" and obs :: "'w \<Rightarrow> string \<Rightarrow> Info option" +
  fixes wcalm :: "'w \<Rightarrow> bool" and usable :: "string \<Rightarrow> bool"
  assumes obs_usable: "wok w \<Longrightarrow> obs w i = Some x \<Longrightarrow> usable i"
    and usable_nonempty: "\<not> usable []"
    and wcalm_list: "wcalm w \<Longrightarrow> ro_List R w = (w', lres) \<Longrightarrow> wcalm w'"
    and wcalm_create: "wcalm w \<Longrightarrow> ro_Create R w i sp = (w', res) \<Longrightarrow> wcalm w'"
    and wcalm_destroy: "wcalm w \<Longrightarrow> ro_Destroy R w i = (w', dres) \<Longrightarrow> wcalm w'"
    and live_rlist: "wok w \<Longrightarrow> wcalm w \<Longrightarrow> \<exists>w' xs. ro_List R w = (w', Inr xs)"
    and live_create: "wok w \<Longrightarrow> wcalm w \<Longrightarrow> usable i \<Longrightarrow> obs w i = None \<Longrightarrow> Spec_Validate sp = None
        \<Longrightarrow> \<exists>w' x. ro_Create R w i sp = (w', Inr x)"
    and live_destroy: "wok w \<Longrightarrow> wcalm w \<Longrightarrow> usable i \<Longrightarrow> \<exists>w'. ro_Destroy R w i = (w', None)"

end
