(* ===== verification/Docker.thy ===== *)
theory Docker
  imports DockerParts TarFiles RuntimeIface
begin

text \<open>
  The Docker backend (internal/runtime/docker/docker.go) over the calls of the Engine API it makes.
  The daemon, its SDK and the contexts are not part of the repository: \<open>'d daemon\<close> is the record of
  what the code calls, on a daemon state \<open>'d\<close> that also carries the clock and the contexts of the
  call. Logging, the closing of connections and the deferred cancels are left out.
\<close>

section \<open>What the code calls\<close>

record Summary =
  c_ID :: string
  c_Labels :: labels
  c_State :: string
  c_Created :: int

record ExecCreateOptions =
  eo_attach :: bool
  eo_Cmd :: "string list"
  eo_Env :: "string list"
  eo_WorkingDir :: string

text \<open>
  The race of \<open>Exec\<close> between the copy and the deadline: the copy ended by itself, with an error or
  not, or the context was done first and the closed connection ended it. Either way the frames that
  \<open>StdCopy\<close> passed on before are reported, each marked true when it belongs to stderr.
\<close>

datatype stream_end = CopyDone "goerr option" | CopyInterrupted

text \<open>
  \<open>dk_Begin\<close> derives a context with a timeout from the caller's, \<open>dk_Detach\<close> one that outlives it.
  \<open>dk_FinalErr\<close> is \<open>Err()\<close> of the context derived last, \<open>dk_ParentErr\<close> that of the caller's.
  \<open>dk_Polls\<close> is the number of poll ticks left before the derived context is done; every such context
  has a timeout, so it is finite.
\<close>

record 'd daemon =
  dk_Info :: "'d \<Rightarrow> 'd \<times> (goerr + string list)"
  dk_ContainerList :: "'d \<Rightarrow> string list \<Rightarrow> 'd \<times> (goerr + Summary list)"
  dk_ContainerCreate :: "'d \<Rightarrow> Config \<Rightarrow> HostConfig \<Rightarrow> 'd \<times> (goerr + string)"
  dk_ContainerStart :: "'d \<Rightarrow> string \<Rightarrow> 'd \<times> goerr option"
  dk_ContainerRemove :: "'d \<Rightarrow> string \<Rightarrow> 'd \<times> goerr option"
  dk_ImagePull :: "'d \<Rightarrow> string \<Rightarrow> 'd \<times> goerr option"
  dk_PullWait :: "'d \<Rightarrow> 'd \<times> goerr option"
  dk_ExecCreate :: "'d \<Rightarrow> string \<Rightarrow> ExecCreateOptions \<Rightarrow> 'd \<times> (goerr + string)"
  dk_ExecAttach :: "'d \<Rightarrow> string \<Rightarrow> 'd \<times> goerr option"
  dk_ExecStart :: "'d \<Rightarrow> string \<Rightarrow> 'd \<times> goerr option"
  dk_Stream :: "'d \<Rightarrow> string \<Rightarrow> 'd \<times> (bool \<times> string) list \<times> stream_end"
  dk_ExecInspect :: "'d \<Rightarrow> string \<Rightarrow> 'd \<times> (goerr + bool \<times> int)"
  dk_CopyTo :: "'d \<Rightarrow> string \<Rightarrow> string \<Rightarrow> tar_entry list \<Rightarrow> 'd \<times> goerr option"
  dk_CopyFrom :: "'d \<Rightarrow> string \<Rightarrow> string \<Rightarrow> 'd \<times> (goerr + int \<times> tar_stream)"
  dk_IsNotFound :: "goerr \<Rightarrow> bool"
  dk_Begin :: "'d \<Rightarrow> duration \<Rightarrow> 'd"
  dk_Detach :: "'d \<Rightarrow> duration \<Rightarrow> 'd"
  dk_ParentErr :: "'d \<Rightarrow> goerr option"
  dk_FinalErr :: "'d \<Rightarrow> goerr option"
  dk_Polls :: "'d \<Rightarrow> nat"
  dk_Now :: "'d \<Rightarrow> gotime"

text \<open>The struct \<open>Runtime\<close>: the client, the runtime name resolved once, and the uuid package.\<close>

record ('u, 'd) docker =
  dr_uuid :: "'u uuid_pkg"
  dr_client :: "'d daemon"
  dr_containerRuntime :: string

definition runtime_E :: "string \<Rightarrow> string \<Rightarrow> goerr option \<Rightarrow> goerr" where
  "runtime_E opn msg e = errs_E PkgRuntime opn msg e"

definition runtime_Wrap :: "string \<Rightarrow> string \<Rightarrow> goerr \<Rightarrow> goerr" where
  "runtime_Wrap opn msg e = errs_Wrap PkgRuntime opn msg (Some e)"

lemma runtime_E_Is [simp]: "errors_Is (runtime_E opn msg e) t \<longleftrightarrow> (\<exists>e'. e = Some e' \<and> errors_Is e' t)"
  by (simp add: runtime_E_def)

lemma runtime_Wrap_Is [simp]: "errors_Is (runtime_Wrap opn msg e) t \<longleftrightarrow> errors_Is e t"
  by (simp add: runtime_Wrap_def)

definition execKillTimeout :: duration where "execKillTimeout = 10 * Second"
definition fileCopyTimeout :: duration where "fileCopyTimeout = 30 * Second"
definition cleanupTimeout :: duration where "cleanupTimeout = 30 * Second"

section \<open>Construction\<close>

text \<open>
  The list of runtimes that the message prints with \<open>%v\<close> is sorted and put in brackets. The
  client that \<open>New\<close> makes when it is given none is the SDK's; here the client is given.
\<close>

definition checkRuntimeRegistered :: "'d daemon \<Rightarrow> 'd \<Rightarrow> string \<Rightarrow> 'd \<times> goerr option" where
  "checkRuntimeRegistered D d name =
     (if name = [] then (d, None)
      else (case dk_Info D d of
              (d1, Inl e) \<Rightarrow> (d1, Some (runtime_E ''docker.New'' ''asking the daemon which runtimes it has'' (Some e)))
            | (d1, Inr runtimes) \<Rightarrow>
                if name \<notin> set runtimes
                then (d1, Some (runtime_E ''docker.New'' (''the daemon has no '' @ Quote name
                        @ '' runtime; it offers ['' @ Join '' '' (sort runtimes) @ '']'') None))
                else (d1, None)))"

definition docker_New ::
  "'u uuid_pkg \<Rightarrow> 'd daemon \<Rightarrow> string option \<Rightarrow> string \<Rightarrow> 'd \<Rightarrow> 'd \<times> (goerr + ('u, 'd) docker)" where
  "docker_New U D env_value goos d =
     (let name = defaultContainerRuntime env_value goos in
      case checkRuntimeRegistered D d name of
        (d1, Some e) \<Rightarrow> (d1, Inl e)
      | (d1, None) \<Rightarrow> (d1, Inr \<lparr>dr_uuid = U, dr_client = D, dr_containerRuntime = name\<rparr>))"

section \<open>Lookup and listing\<close>

definition summary_info :: "'u uuid_pkg \<Rightarrow> Summary \<Rightarrow> Info option" where
  "summary_info U c =
     (case managedSandboxID U (c_Labels c) of
        None \<Rightarrow> None
      | Some i \<Rightarrow> Some (NewInfo i (stateFromContainerState (c_State c)) (createdAtFromUnix (c_Created c))))"

definition docker_List :: "('u, 'd) docker \<Rightarrow> 'd \<Rightarrow> 'd \<times> (goerr + Info list)" where
  "docker_List B d =
     (case dk_ContainerList (dr_client B) d (labelFilter managedMarkerLabels) of
        (d1, Inl e) \<Rightarrow> (d1, Inl (runtime_E ''docker.Runtime.List'' ''listing managed containers'' (Some e)))
      | (d1, Inr items) \<Rightarrow> (d1, Inr (List.map_filter (summary_info (dr_uuid B)) items)))"

definition getContainerBysandboxID :: "('u, 'd) docker \<Rightarrow> 'd \<Rightarrow> string \<Rightarrow> 'd \<times> (goerr + Summary)" where
  "getContainerBysandboxID B d sandboxID =
     (let opn = ''docker.Runtime.getContainerBysandboxID'' in
      case ValidateSandboxID (dr_uuid B) sandboxID of
        Some e \<Rightarrow> (d, Inl (runtime_E opn (''resolving sandbox '' @ Quote sandboxID) (Some e)))
      | None \<Rightarrow>
     (case dk_ContainerList (dr_client B) d (labelFilter (managedLabels sandboxID)) of
        (d1, Inl e) \<Rightarrow> (d1, Inl (runtime_E opn (''listing containers for sandbox '' @ sandboxID) (Some e)))
      | (d1, Inr items) \<Rightarrow>
     (case find (\<lambda>c. managedSandboxID (dr_uuid B) (c_Labels c) = Some sandboxID) items of
        Some c \<Rightarrow> (d1, Inr c)
      | None \<Rightarrow> (d1, Inl (runtime_E opn (''no container labelled '' @ labelSandboxID @ ''='' @ sandboxID)
                    (Some (Sentinel RuntimeErrNotFound)))))))"

definition docker_Inspect :: "('u, 'd) docker \<Rightarrow> 'd \<Rightarrow> string \<Rightarrow> 'd \<times> (goerr + Info)" where
  "docker_Inspect B d sandboxID =
     (case getContainerBysandboxID B d sandboxID of
        (d1, Inl e) \<Rightarrow> (d1, Inl (runtime_Wrap ''docker.Runtime.Inspect'' [] e))
      | (d1, Inr c) \<Rightarrow>
          (d1, Inr (NewInfo sandboxID (stateFromContainerState (c_State c)) (createdAtFromUnix (c_Created c)))))"

section \<open>Create and destroy\<close>

definition pullImage :: "'d daemon \<Rightarrow> 'd \<Rightarrow> string \<Rightarrow> 'd \<times> goerr option" where
  "pullImage D d img =
     (let opn = ''docker.Runtime.pullImage'' in
      case dk_ImagePull D d img of
        (d1, Some e) \<Rightarrow>
          (d1, Some (classifyNotFound (dk_IsNotFound D) opn (''requesting pull of '' @ img) RuntimeErrImageMissing e))
      | (d1, None) \<Rightarrow>
     (case dk_PullWait D d1 of
        (d2, Some e) \<Rightarrow>
          (d2, Some (classifyNotFound (dk_IsNotFound D) opn (''pulling '' @ img) RuntimeErrImageMissing e))
      | (d2, None) \<Rightarrow> (d2, None)))"

definition removeContainer :: "'d daemon \<Rightarrow> 'd \<Rightarrow> string \<Rightarrow> 'd \<times> goerr option" where
  "removeContainer D d containerID =
     (case dk_ContainerRemove D d containerID of
        (d1, Some e) \<Rightarrow>
          if \<not> dk_IsNotFound D e
          then (d1, Some (runtime_E ''docker.Runtime.removeContainer'' (''removing container '' @ containerID) (Some e)))
          else (d1, None)
      | (d1, None) \<Rightarrow> (d1, None))"

definition cleanupFailed ::
  "'d daemon \<Rightarrow> 'd \<Rightarrow> string \<Rightarrow> string \<Rightarrow> string \<Rightarrow> goerr \<Rightarrow> 'd \<times> goerr" where
  "cleanupFailed D d opn sandboxID containerID cause =
     (case removeContainer D (dk_Detach D d cleanupTimeout) containerID of
        (d1, Some e) \<Rightarrow>
          (d1, errs_Wrap PkgRuntime opn (''sandbox '' @ sandboxID @ '' leaked container '' @ containerID)
                 (errors_Join [Some cause, Some e]))
      | (d1, None) \<Rightarrow> (d1, cause))"

definition docker_Create :: "('u, 'd) docker \<Rightarrow> 'd \<Rightarrow> string \<Rightarrow> Spec \<Rightarrow> 'd \<times> (goerr + Info)" where
  "docker_Create B d sandboxID spec =
     (let opn = ''docker.Runtime.Create''; D = dr_client B in
      case ValidateSandboxID (dr_uuid B) sandboxID of
        Some e \<Rightarrow> (d, Inl (runtime_E opn (''creating sandbox '' @ Quote sandboxID) (Some e)))
      | None \<Rightarrow>
     (case newContainerConfigs spec sandboxID (dr_containerRuntime B) of
        Inl e \<Rightarrow> (d, Inl (runtime_Wrap opn [] e))
      | Inr (containerConfig, hostConfig) \<Rightarrow>
     (case pullImage D d (spec_image spec) of
        (d1, Some e) \<Rightarrow> (d1, Inl (runtime_Wrap opn [] e))
      | (d1, None) \<Rightarrow>
     (case dk_ContainerCreate D d1 containerConfig hostConfig of
        (d2, Inl e) \<Rightarrow>
          (d2, Inl (classifyNotFound (dk_IsNotFound D) opn (''creating container from image '' @ spec_image spec)
                      RuntimeErrImageMissing e))
      | (d2, Inr cid) \<Rightarrow>
     (case dk_ContainerStart D d2 cid of
        (d3, Some e) \<Rightarrow>
          (case cleanupFailed D d3 opn sandboxID cid
                  (runtime_E opn (''starting container '' @ cid @ '' for sandbox '' @ sandboxID) (Some e)) of
             (d4, err) \<Rightarrow> (d4, Inl err))
      | (d3, None) \<Rightarrow> (d3, Inr (NewInfo sandboxID StateRunning (dk_Now D d3))))))))"

definition docker_Destroy :: "('u, 'd) docker \<Rightarrow> 'd \<Rightarrow> string \<Rightarrow> 'd \<times> goerr option" where
  "docker_Destroy B d sandboxID =
     (let opn = ''docker.Runtime.Destroy'' in
      case getContainerBysandboxID B d sandboxID of
        (d1, Inl e) \<Rightarrow>
          if errors_Is e RuntimeErrNotFound then (d1, None) else (d1, Some (runtime_Wrap opn [] e))
      | (d1, Inr c) \<Rightarrow>
     (case removeContainer (dr_client B) d1 (c_ID c) of
        (d2, Some e) \<Rightarrow> (d2, Some (runtime_Wrap opn (''destroying sandbox '' @ sandboxID) e))
      | (d2, None) \<Rightarrow> (d2, None)))"

section \<open>Exec\<close>

text \<open>
  \<open>awaitExecExit\<close> polls until the command stops or the context is done; \<open>err\<close> is what the context
  reports once it is.
\<close>

fun awaitExecExit :: "'d daemon \<Rightarrow> ('d \<Rightarrow> goerr) \<Rightarrow> nat \<Rightarrow> 'd \<Rightarrow> string \<Rightarrow> 'd \<times> (goerr + int)" where
  "awaitExecExit D err 0 d execID =
     (case dk_ExecInspect D d execID of
        (d1, Inl e) \<Rightarrow> (d1, Inl e)
      | (d1, Inr (running, exitCode)) \<Rightarrow> if \<not> running then (d1, Inr exitCode) else (d1, Inl (err d1)))"
| "awaitExecExit D err (Suc n) d execID =
     (case dk_ExecInspect D d execID of
        (d1, Inl e) \<Rightarrow> (d1, Inl e)
      | (d1, Inr (running, exitCode)) \<Rightarrow>
          if \<not> running then (d1, Inr exitCode) else awaitExecExit D err n d1 execID)"

definition ctx_err :: "'d daemon \<Rightarrow> 'd \<Rightarrow> goerr" where
  "ctx_err D d = (case dk_FinalErr D d of Some e \<Rightarrow> e | None \<Rightarrow> Sentinel ContextDeadlineExceeded)"

definition killExec ::
  "'d daemon \<Rightarrow> 'd \<Rightarrow> string \<Rightarrow> string \<Rightarrow> string list \<Rightarrow> ExecOpts \<Rightarrow> 'd \<times> goerr option" where
  "killExec D d containerID sandboxID cmd opts =
     (let opn = ''docker.Runtime.killExec'';
          locn = '' in container '' @ containerID @ '' for sandbox '' @ sandboxID;
          killExecConfig = \<lparr>eo_attach = False, eo_Cmd = pkillCommand cmd, eo_Env = envToArgs (exec_env opts),
                            eo_WorkingDir = exec_workdir opts\<rparr> in
      case dk_ExecCreate D (dk_Detach D d execKillTimeout) containerID killExecConfig of
        (d1, Inl e) \<Rightarrow> (d1, Some (runtime_E opn (''creating kill command to stop exec command'' @ locn) (Some e)))
      | (d1, Inr eid) \<Rightarrow>
     (case dk_ExecStart D d1 eid of
        (d2, Some e) \<Rightarrow> (d2, Some (runtime_E opn (''starting kill command to stop exec command'' @ locn) (Some e)))
      | (d2, None) \<Rightarrow>
     (case awaitExecExit D (ctx_err D) (dk_Polls D d2) d2 eid of
        (d3, Inl e) \<Rightarrow>
          (d3, Some (runtime_E opn (''inspecting kill command results to stop exec command'' @ locn) (Some e)))
      | (d3, Inr exitCode) \<Rightarrow>
     (case classifyPkillExit exitCode of
        (msg, good) \<Rightarrow>
          if \<not> good
          then (d3, Some (runtime_E opn (''stopping exec command'' @ locn @ '': '' @ msg)
                       (Some (Sentinel RuntimeErrExecNotKilled))))
          else (d3, None)))))"

text \<open>\<open>StdCopy\<close> passes each frame to the writer of its stream.\<close>

definition copy_frames :: "(bool \<times> string) list \<Rightarrow> cappedWriter \<times> cappedWriter" where
  "copy_frames frames =
     (cw_writes (newCappedWriter (int MaxStreamBytes)) (map snd (filter (\<lambda>f. \<not> fst f) frames)),
      cw_writes (newCappedWriter (int MaxStreamBytes)) (map snd (filter fst frames)))"

definition exec_result :: "int \<Rightarrow> cappedWriter \<times> cappedWriter \<Rightarrow> ExecResult" where
  "exec_result exitCode = (\<lambda>(stdout, stderr).
     \<lparr>res_exit = exitCode, res_stdout = cw_buf stdout, res_stderr = cw_buf stderr,
      res_stdout_truncated = cw_truncated stdout, res_stderr_truncated = cw_truncated stderr\<rparr>)"

text \<open>Giving up on a command: kill it, and return what it had written.\<close>

definition abandon ::
  "'d daemon \<Rightarrow> 'd \<Rightarrow> string \<Rightarrow> string \<Rightarrow> string list \<Rightarrow> ExecOpts \<Rightarrow> cappedWriter \<times> cappedWriter \<Rightarrow> goerr
     \<Rightarrow> 'd \<times> ExecResult \<times> goerr option" where
  "abandon D d cid sandboxID cmd opts ws cause =
     (case killExec D d cid sandboxID cmd opts of
        (d1, Some killErr) \<Rightarrow> (d1, exec_result (- 1) ws, errors_Join [Some cause, Some killErr])
      | (d1, None) \<Rightarrow> (d1, exec_result (- 1) ws, Some cause))"

definition exec_doneErr :: "'d daemon \<Rightarrow> string \<Rightarrow> 'd \<Rightarrow> string \<Rightarrow> goerr" where
  "exec_doneErr D sandboxID d stage =
     classifyExecDone ''docker.Runtime.Exec''
       (''exec command timed out '' @ stage @ '' for sandbox '' @ sandboxID)
       (''exec command cancelled '' @ stage @ '' for sandbox '' @ sandboxID)
       (dk_ParentErr D d) (dk_FinalErr D d)"

definition exec_fail :: "'d daemon \<Rightarrow> string \<Rightarrow> 'd \<Rightarrow> string \<Rightarrow> goerr \<Rightarrow> goerr" where
  "exec_fail D sandboxID d stage otherwise =
     (if dk_FinalErr D d \<noteq> None then exec_doneErr D sandboxID d stage else otherwise)"

definition exec_timeout_of :: "ExecOpts \<Rightarrow> duration" where
  "exec_timeout_of opts = (if exec_timeout opts \<le> 0 then DefaultExecTimeout else exec_timeout opts)"

definition exec_stream ::
  "'d daemon \<Rightarrow> 'd \<Rightarrow> string \<Rightarrow> string \<Rightarrow> string \<Rightarrow> string list \<Rightarrow> ExecOpts
     \<Rightarrow> 'd \<times> ExecResult \<times> goerr option" where
  "exec_stream D d cid eid sandboxID cmd opts =
     (let opn = ''docker.Runtime.Exec'';
          locn = '' in container '' @ cid @ '' for sandbox '' @ sandboxID in
      case dk_Stream D d eid of
        (d1, frames, CopyInterrupted) \<Rightarrow>
          abandon D d1 cid sandboxID cmd opts (copy_frames frames)
            (exec_doneErr D sandboxID d1 ''while streaming output'')
      | (d1, frames, CopyDone (Some e)) \<Rightarrow>
          abandon D d1 cid sandboxID cmd opts (copy_frames frames)
            (runtime_E opn (''streaming container stdout and stderr'' @ locn) (Some e))
      | (d1, frames, CopyDone None) \<Rightarrow>
     (case awaitExecExit D (ctx_err D) (dk_Polls D d1) d1 eid of
        (d2, Inl e) \<Rightarrow>
          abandon D d2 cid sandboxID cmd opts (copy_frames frames)
            (exec_fail D sandboxID d2 ''while awaiting the exit code''
              (runtime_E opn (''inspecting exec status'' @ locn) (Some e)))
      | (d2, Inr exitCode) \<Rightarrow> (d2, exec_result exitCode (copy_frames frames), None)))"

definition docker_Exec ::
  "('u, 'd) docker \<Rightarrow> 'd \<Rightarrow> string \<Rightarrow> string list \<Rightarrow> ExecOpts \<Rightarrow> 'd \<times> ExecResult \<times> goerr option" where
  "docker_Exec B d sandboxID cmd opts =
     (let opn = ''docker.Runtime.Exec''; D = dr_client B;
          partial = exec_result (- 1) (copy_frames []);
          execConfig = \<lparr>eo_attach = True, eo_Cmd = cmd, eo_Env = envToArgs (exec_env opts),
                        eo_WorkingDir = exec_workdir opts\<rparr> in
      case getContainerBysandboxID B (dk_Begin D d (exec_timeout_of opts)) sandboxID of
        (d1, Inl e) \<Rightarrow>
          (d1, partial, Some (exec_fail D sandboxID d1 ''while resolving the container'' (runtime_Wrap opn [] e)))
      | (d1, Inr c) \<Rightarrow>
     (case dk_ExecCreate D d1 (c_ID c) execConfig of
        (d2, Inl e) \<Rightarrow>
          (d2, partial, Some (exec_fail D sandboxID d2 ''while creating the exec''
             (runtime_E opn (''executing command in container '' @ c_ID c @ '' for sandbox '' @ sandboxID) (Some e))))
      | (d2, Inr eid) \<Rightarrow>
     (case dk_ExecAttach D d2 eid of
        (d3, Some e) \<Rightarrow>
          (d3, partial, Some (exec_fail D sandboxID d3 ''while attaching to the exec''
             (runtime_E opn (''attached to exec command in container '' @ c_ID c @ '' for sandbox '' @ sandboxID) (Some e))))
      | (d3, None) \<Rightarrow> exec_stream D d3 (c_ID c) eid sandboxID cmd opts)))"

section \<open>Files\<close>

definition docker_WriteFile ::
  "('u, 'd) docker \<Rightarrow> 'd \<Rightarrow> string \<Rightarrow> string \<Rightarrow> string \<Rightarrow> int \<Rightarrow> 'd \<times> goerr option" where
  "docker_WriteFile B d sandboxID filePath content mode =
     (let opn = ''docker.Runtime.WriteFile''; D = dr_client B in
      case ValidateWrite filePath content of
        Some e \<Rightarrow> (d, Some (runtime_E opn (''writing file '' @ filePath @ '' for sandbox '' @ sandboxID) (Some e)))
      | None \<Rightarrow>
     (case getContainerBysandboxID B (dk_Begin D d fileCopyTimeout) sandboxID of
        (d1, Inl e) \<Rightarrow> (d1, Some (runtime_Wrap opn [] e))
      | (d1, Inr c) \<Rightarrow>
     (case fileArchive filePath content mode of
        Inl e \<Rightarrow> (d1, Some (runtime_E opn (''archiving file '' @ filePath) (Some e)))
      | Inr archive \<Rightarrow>
     (case dk_CopyTo D d1 (c_ID c) ''/'' archive of
        (d2, Some e) \<Rightarrow>
          (d2, Some (runtime_E opn (''copying to container '' @ c_ID c @ '' for sandbox '' @ sandboxID) (Some e)))
      | (d2, None) \<Rightarrow> (d2, None)))))"

definition docker_ReadFile ::
  "('u, 'd) docker \<Rightarrow> 'd \<Rightarrow> string \<Rightarrow> string \<Rightarrow> 'd \<times> (goerr + string)" where
  "docker_ReadFile B d sandboxID filePath =
     (let opn = ''docker.Runtime.ReadFile''; D = dr_client B in
      case ValidateRead filePath of
        Some e \<Rightarrow> (d, Inl (runtime_E opn (''reading file '' @ filePath @ '' for sandbox '' @ sandboxID) (Some e)))
      | None \<Rightarrow>
     (case getContainerBysandboxID B (dk_Begin D d fileCopyTimeout) sandboxID of
        (d1, Inl e) \<Rightarrow> (d1, Inl (runtime_Wrap opn [] e))
      | (d1, Inr c) \<Rightarrow>
     (case dk_CopyFrom D d1 (c_ID c) filePath of
        (d2, Inl e) \<Rightarrow>
          (d2, Inl (classifyNotFound (dk_IsNotFound D) opn
             (''loading tar reader from container '' @ c_ID c @ '' for sandbox '' @ sandboxID) RuntimeErrPathNotFound e))
      | (d2, Inr (sz, stream)) \<Rightarrow>
          if sz > int MaxFileSize then (d2, Inl (runtime_Wrap opn [] (Sentinel RuntimeErrFileTooLarge)))
          else (case fileUnarchive filePath stream of
             Inl e \<Rightarrow>
               (d2, Inl (runtime_E opn
                  (''unarchiving tar contents from container '' @ c_ID c @ '' for sandbox '' @ sandboxID) (Some e)))
           | Inr fileBytes \<Rightarrow> (d2, Inr fileBytes)))))"

definition docker_ListDir ::
  "('u, 'd) docker \<Rightarrow> 'd \<Rightarrow> string \<Rightarrow> string \<Rightarrow> 'd \<times> (goerr + FileInfo list)" where
  "docker_ListDir B d sandboxID dirPath =
     (let opn = ''docker.Runtime.ListDir''; D = dr_client B in
      case ValidatePath dirPath of
        Some e \<Rightarrow> (d, Inl (runtime_E opn (''listing directory '' @ dirPath @ '' for sandbox '' @ sandboxID) (Some e)))
      | None \<Rightarrow>
     (case getContainerBysandboxID B (dk_Begin D d fileCopyTimeout) sandboxID of
        (d1, Inl e) \<Rightarrow> (d1, Inl (runtime_Wrap opn [] e))
      | (d1, Inr c) \<Rightarrow>
     (case dk_CopyFrom D d1 (c_ID c) dirPath of
        (d2, Inl e) \<Rightarrow>
          (d2, Inl (classifyNotFound (dk_IsNotFound D) opn
             (''loading tar reader from container '' @ c_ID c @ '' for sandbox '' @ sandboxID) RuntimeErrPathNotFound e))
      | (d2, Inr (sz, stream)) \<Rightarrow>
     (case listDirectoryFromTarStream dirPath stream of
        Inl e \<Rightarrow>
          (d2, Inl (runtime_E opn
             (''listing directory from container '' @ c_ID c @ '' for sandbox '' @ sandboxID) (Some e)))
      | Inr fileInfos \<Rightarrow> (d2, Inr fileInfos)))))"

definition docker_RemovePath ::
  "('u, 'd) docker \<Rightarrow> 'd \<Rightarrow> string \<Rightarrow> string \<Rightarrow> 'd \<times> goerr option" where
  "docker_RemovePath B d sandboxID filePath =
     (let opn = ''docker.Runtime.RemovePath'';
          msg = ''removing path '' @ filePath @ '' for sandbox '' @ sandboxID in
      case ValidateRemove filePath of
        Some e \<Rightarrow> (d, Some (runtime_E opn msg (Some e)))
      | None \<Rightarrow>
     (case docker_Exec B d sandboxID [''rm'', ''-rf'', filePath]
             \<lparr>exec_env = [], exec_workdir = [], exec_timeout = 0\<rparr> of
        (d1, _, Some e) \<Rightarrow> (d1, Some (runtime_Wrap opn [] e))
      | (d1, r, None) \<Rightarrow>
          if res_exit r \<noteq> 0
          then (d1, Some (runtime_E opn msg
                  (Some (Foreign (''rm exited '' @ show_int (res_exit r) @ '': '' @ res_stderr r)))))
          else (d1, None)))"

section \<open>The backend\<close>

definition docker_ops :: "('u, 'd) docker \<Rightarrow> 'd runtime_ops" where
  "docker_ops B =
     \<lparr>ro_Create = docker_Create B, ro_Inspect = docker_Inspect B, ro_List = docker_List B,
      ro_Destroy = docker_Destroy B, ro_Exec = docker_Exec B, ro_WriteFile = docker_WriteFile B,
      ro_ReadFile = docker_ReadFile B, ro_ListDir = docker_ListDir B, ro_RemovePath = docker_RemovePath B\<rparr>"

lemma docker_ops_sel [simp]:
  "ro_Create (docker_ops B) = docker_Create B" "ro_Inspect (docker_ops B) = docker_Inspect B"
  "ro_List (docker_ops B) = docker_List B" "ro_Destroy (docker_ops B) = docker_Destroy B"
  "ro_Exec (docker_ops B) = docker_Exec B" "ro_WriteFile (docker_ops B) = docker_WriteFile B"
  "ro_ReadFile (docker_ops B) = docker_ReadFile B" "ro_ListDir (docker_ops B) = docker_ListDir B"
  "ro_RemovePath (docker_ops B) = docker_RemovePath B"
  by (simp_all add: docker_ops_def)

section \<open>What an exec returns\<close>

lemma exec_result_sel [simp]:
  "res_exit (exec_result c ws) = c" "res_stdout (exec_result c ws) = cw_buf (fst ws)"
  "res_stderr (exec_result c ws) = cw_buf (snd ws)"
  "res_stdout_truncated (exec_result c ws) = cw_truncated (fst ws)"
  "res_stderr_truncated (exec_result c ws) = cw_truncated (snd ws)"
  by (simp_all add: exec_result_def case_prod_beta)

lemma abandon_result: "abandon D d cid i cmd opts ws cause = (d', r, res) \<Longrightarrow> r = exec_result (- 1) ws \<and> res \<noteq> None"
  by (auto simp: abandon_def split: prod.splits option.splits)

lemma exec_stream_result:
  "exec_stream D d cid eid i cmd opts = (d', r, res) \<Longrightarrow>
     \<exists>frames code. r = exec_result code (copy_frames frames) \<and> (res \<noteq> None \<longrightarrow> code = - 1)"
  by (auto simp: exec_stream_def Let_def dest!: abandon_result split: prod.splits stream_end.splits option.splits sum.splits)

lemma docker_Exec_result:
  assumes "docker_Exec B d i cmd opts = (d', r, res)"
  shows "\<exists>frames code. r = exec_result code (copy_frames frames) \<and> (res \<noteq> None \<longrightarrow> code = - 1)"
proof -
  let ?D = "dr_client B"
  let ?cfg = "\<lparr>eo_attach = True, eo_Cmd = cmd, eo_Env = envToArgs (exec_env opts), eo_WorkingDir = exec_workdir opts\<rparr>"
  obtain d1 g where g: "getContainerBysandboxID B (dk_Begin ?D d (exec_timeout_of opts)) i = (d1, g)"
    by (cases "getContainerBysandboxID B (dk_Begin ?D d (exec_timeout_of opts)) i")
  show ?thesis
  proof (cases g)
    case (Inl e)
    with assms g show ?thesis by (auto simp: docker_Exec_def Let_def)
  next
    case (Inr c)
    obtain d2 ec where ec: "dk_ExecCreate ?D d1 (c_ID c) ?cfg = (d2, ec)" by (cases "dk_ExecCreate ?D d1 (c_ID c) ?cfg")
    show ?thesis
    proof (cases ec)
      case (Inl e)
      with assms g Inr ec show ?thesis by (auto simp: docker_Exec_def Let_def)
    next
      case ec': (Inr eid)
      obtain d3 ea where ea: "dk_ExecAttach ?D d2 eid = (d3, ea)" by (cases "dk_ExecAttach ?D d2 eid")
      show ?thesis
      proof (cases ea)
        case None
        with assms g Inr ec ec' ea have "exec_stream ?D d3 (c_ID c) eid i cmd opts = (d', r, res)"
          by (simp add: docker_Exec_def Let_def)
        then show ?thesis by (rule exec_stream_result)
      next
        case (Some e)
        with assms g Inr ec ec' ea show ?thesis by (auto simp: docker_Exec_def Let_def)
      qed
    qed
  qed
qed

end
