(* ===== verification/DockerLaws.thy ===== *)
theory DockerLaws
  imports Docker
begin

text \<open>
  The Docker backend keeps the runtime contract. \<open>docker_daemon\<close> states what the Engine API documents
  of listing, creating, starting and removing containers, for any fault; \<open>calm_daemon\<close> adds that the
  calls succeed. From them \<open>docker_ops\<close> is a \<open>runtime_contract\<close> and a \<open>live_runtime\<close>.
\<close>

section \<open>What a list of containers says of a sandbox\<close>

definition sid :: "'u uuid_pkg \<Rightarrow> Summary \<Rightarrow> string option" where
  "sid U c = managedSandboxID U (c_Labels c)"

definition obs_in :: "'u uuid_pkg \<Rightarrow> Summary list \<Rightarrow> string \<Rightarrow> Info option" where
  "obs_in U cs i = (case find (\<lambda>c. sid U c = Some i) cs of None \<Rightarrow> None | Some c \<Rightarrow> summary_info U c)"

definition set_state :: "string \<Rightarrow> string \<Rightarrow> Summary \<Rightarrow> Summary" where
  "set_state cid st c = (if c_ID c = cid then c\<lparr>c_State := st\<rparr> else c)"

text \<open>Container ids are unique, and no two containers carry one sandbox id.\<close>

definition one_each :: "'u uuid_pkg \<Rightarrow> Summary list \<Rightarrow> bool" where
  "one_each U cs \<longleftrightarrow> distinct (map c_ID cs) \<and> distinct (List.map_filter (sid U) cs)"

lemma summary_info_sid: "summary_info U c = Some x \<Longrightarrow> sid U c = Some (info_id x)"
  by (auto simp: summary_info_def sid_def NewInfo_def split: option.splits)

lemma summary_info_None: "summary_info U c = None \<longleftrightarrow> sid U c = None"
  by (auto simp: summary_info_def sid_def split: option.splits)

lemma summary_info_map: "map_option info_id (summary_info U c) = sid U c"
  by (auto simp: summary_info_def sid_def NewInfo_def split: option.splits)

lemma obs_in_Nil [simp]: "obs_in U [] i = None"
  by (simp add: obs_in_def)

lemma obs_in_Cons [simp]: "obs_in U (c # cs) i = (if sid U c = Some i then summary_info U c else obs_in U cs i)"
  by (simp add: obs_in_def)

lemma obs_in_id: "obs_in U cs i = Some x \<Longrightarrow> info_id x = i"
  by (induction cs) (auto dest: summary_info_sid split: if_splits)

lemma obs_in_None: "obs_in U cs i = None \<longleftrightarrow> (\<forall>c\<in>set cs. sid U c \<noteq> Some i)"
  by (induction cs) (auto simp: summary_info_None)

lemma set_map_filter_sid: "i \<in> set (List.map_filter (sid U) cs) \<longleftrightarrow> (\<exists>c\<in>set cs. sid U c = Some i)"
  by (induction cs) (auto simp: List.map_filter_simps split: option.splits)

lemma one_each_Cons:
  "one_each U (c # cs) \<longleftrightarrow>
     one_each U cs \<and> c_ID c \<notin> c_ID ` set cs \<and> (\<forall>i. sid U c = Some i \<longrightarrow> obs_in U cs i = None)"
  by (auto simp: one_each_def List.map_filter_simps set_map_filter_sid obs_in_None split: option.splits)

lemma infos_ids: "map info_id (List.map_filter (summary_info U) cs) = List.map_filter (sid U) cs"
proof (induction cs)
  case (Cons c cs)
  then show ?case
    using summary_info_sid [of U c] summary_info_None [of U c]
    by (cases "summary_info U c") (simp_all add: List.map_filter_simps)
qed (simp add: List.map_filter_simps)

lemma infos_obs:
  "one_each U cs \<Longrightarrow> x \<in> set (List.map_filter (summary_info U) cs) \<and> info_id x = i \<longleftrightarrow> obs_in U cs i = Some x"
proof (induction cs)
  case (Cons c cs)
  have one: "one_each U cs" and fresh: "\<And>i. sid U c = Some i \<Longrightarrow> obs_in U cs i = None"
    using Cons.prems by (auto simp: one_each_Cons)
  note IH = Cons.IH [OF one]
  show ?case
  proof (cases "summary_info U c")
    case None
    with IH summary_info_None [of U c] show ?thesis by (simp add: List.map_filter_simps)
  next
    case (Some y)
    from fresh [OF summary_info_sid [OF Some]] have "obs_in U cs (info_id y) = None" .
    with Some IH summary_info_sid [OF Some] show ?thesis by (auto simp: List.map_filter_simps)
  qed
qed (simp add: List.map_filter_simps)

lemma summary_info_unmanaged: "\<not> isManaged (c_Labels c) \<Longrightarrow> summary_info U c = None"
  by (simp add: summary_info_def managedSandboxID_def)

lemma map_filter_managed:
  "List.map_filter (summary_info U) (filter (\<lambda>c. isManaged (c_Labels c)) cs) = List.map_filter (summary_info U) cs"
  by (induction cs) (simp_all add: List.map_filter_simps summary_info_unmanaged split: option.splits)

lemma set_state_fresh: "cid \<notin> c_ID ` set cs \<Longrightarrow> map (set_state cid st) cs = cs"
  by (induction cs) (auto simp: set_state_def)

lemma set_state_sel [simp]: "c_ID (set_state cid st c) = c_ID c" "sid U (set_state cid st c) = sid U c"
  by (simp_all add: set_state_def sid_def)

lemma filter_fresh: "cid \<notin> c_ID ` set cs \<Longrightarrow> filter (\<lambda>c. c_ID c \<noteq> cid) cs = cs"
  by (auto simp: filter_id_conv)

lemma obs_in_filter:
  "\<forall>c\<in>set cs. c_ID c = cid \<longrightarrow> sid U c \<noteq> Some j \<Longrightarrow> obs_in U (filter (\<lambda>c. c_ID c \<noteq> cid) cs) j = obs_in U cs j"
  by (induction cs) auto

lemma obs_in_filter_None: "obs_in U cs j = None \<Longrightarrow> obs_in U (filter P cs) j = None"
  by (auto simp: obs_in_None)

lemma one_each_filter: "one_each U cs \<Longrightarrow> one_each U (filter P cs)"
  by (induction cs) (auto simp: one_each_Cons obs_in_filter_None)

lemma one_each_same:
  "one_each U cs \<Longrightarrow> c \<in> set cs \<Longrightarrow> c' \<in> set cs \<Longrightarrow> sid U c = Some i \<Longrightarrow> sid U c' = Some i \<Longrightarrow> c = c'"
  by (induction cs) (auto simp: one_each_Cons obs_in_None)

lemma removed_obs:
  assumes one: "one_each U cs" and c: "c \<in> set cs" "sid U c = Some i"
  shows "one_each U (filter (\<lambda>d. c_ID d \<noteq> c_ID c) cs)"
    and "obs_in U (filter (\<lambda>d. c_ID d \<noteq> c_ID c) cs) i = None"
    and "j \<noteq> i \<Longrightarrow> obs_in U (filter (\<lambda>d. c_ID d \<noteq> c_ID c) cs) j = obs_in U cs j"
proof -
  have same: "\<And>d. d \<in> set cs \<Longrightarrow> c_ID d = c_ID c \<Longrightarrow> d = c"
    using one c(1) by (auto simp: one_each_def distinct_map inj_on_def)
  show "one_each U (filter (\<lambda>d. c_ID d \<noteq> c_ID c) cs)" using one by (rule one_each_filter)
  show "obs_in U (filter (\<lambda>d. c_ID d \<noteq> c_ID c) cs) i = None"
    using one_each_same [OF one c(1) _ c(2)] by (auto simp: obs_in_None)
  show "j \<noteq> i \<Longrightarrow> obs_in U (filter (\<lambda>d. c_ID d \<noteq> c_ID c) cs) j = obs_in U cs j"
    by (rule obs_in_filter) (use same c(2) in \<open>metis option.inject\<close>)
qed

section \<open>The documented daemon\<close>

definition docker_wok :: "('u, 'd) docker \<Rightarrow> ('d \<Rightarrow> Summary list) \<Rightarrow> ('d \<Rightarrow> bool) \<Rightarrow> 'd \<Rightarrow> bool" where
  "docker_wok B containers dok d \<longleftrightarrow> dok d \<and> one_each (dr_uuid B) (containers d)"

definition docker_obs :: "('u, 'd) docker \<Rightarrow> ('d \<Rightarrow> Summary list) \<Rightarrow> 'd \<Rightarrow> string \<Rightarrow> Info option" where
  "docker_obs B containers d i = obs_in (dr_uuid B) (containers d) i"

definition docker_usable :: "('u, 'd) docker \<Rightarrow> string \<Rightarrow> bool" where
  "docker_usable B i \<longleftrightarrow> ValidateSandboxID (dr_uuid B) i = None"

text \<open>
  A call that fails may still have taken effect when its answer was lost: a failed create may have
  made its container, a failed start may have changed the state of the container, a failed removal
  may have removed it.
\<close>

locale docker_daemon =
  fixes B :: "('u, 'd) docker" and containers :: "'d \<Rightarrow> Summary list" and dok :: "'d \<Rightarrow> bool"
  assumes ids_unique: "dok d \<Longrightarrow> distinct (map c_ID (containers d))"
    and list_same: "dok d \<Longrightarrow> dk_ContainerList (dr_client B) d fs = (d', res) \<Longrightarrow> dok d' \<and> containers d' = containers d"
    and list_filters: "dok d \<Longrightarrow> dk_ContainerList (dr_client B) d fs = (d', Inr cs)
        \<Longrightarrow> cs = filter (\<lambda>c. \<forall>f\<in>set fs. filter_matches (c_Labels c) f) (containers d)"
    and list_foreign: "dok d \<Longrightarrow> dk_ContainerList (dr_client B) d fs = (d', Inl e) \<Longrightarrow> \<not> errors_Is e RuntimeErrNotFound"
    and create_one: "dok d \<Longrightarrow> dk_ContainerCreate (dr_client B) d cfg hc = (d', cres)
        \<Longrightarrow> dok d' \<and> ((\<exists>e. cres = Inl e) \<and> containers d' = containers d
          \<or> (\<exists>c. containers d' = c # containers d \<and> c_Labels c = cfg_Labels cfg \<and> (\<forall>cid. cres = Inr cid \<longrightarrow> c_ID c = cid)))"
    and start_sets: "dok d \<Longrightarrow> dk_ContainerStart (dr_client B) d cid = (d', sres)
        \<Longrightarrow> dok d' \<and> (\<exists>st. containers d' = map (set_state cid st) (containers d) \<and> (sres = None \<longrightarrow> st = ''running''))"
    and remove_drops: "dok d \<Longrightarrow> dk_ContainerRemove (dr_client B) d cid = (d', rres)
        \<Longrightarrow> dok d' \<and> (containers d' = containers d \<or> containers d' = filter (\<lambda>c. c_ID c \<noteq> cid) (containers d))"
    and remove_gone: "dok d \<Longrightarrow> dk_ContainerRemove (dr_client B) d cid = (d', rres)
        \<Longrightarrow> rres = None \<or> (\<exists>e. rres = Some e \<and> dk_IsNotFound (dr_client B) e) \<Longrightarrow> cid \<notin> c_ID ` set (containers d')"
    and pull_same: "dok d \<Longrightarrow> dk_ImagePull (dr_client B) d img = (d', pres) \<Longrightarrow> dok d' \<and> containers d' = containers d"
    and wait_same: "dok d \<Longrightarrow> dk_PullWait (dr_client B) d = (d', pres) \<Longrightarrow> dok d' \<and> containers d' = containers d"
    and detach_same: "dok d \<Longrightarrow> dok (dk_Detach (dr_client B) d t) \<and> containers (dk_Detach (dr_client B) d t) = containers d"
begin

abbreviation wok :: "'d \<Rightarrow> bool" where "wok \<equiv> docker_wok B containers dok"
abbreviation obs :: "'d \<Rightarrow> string \<Rightarrow> Info option" where "obs \<equiv> docker_obs B containers"

lemmas wok_def = docker_wok_def
lemmas obs_def = docker_obs_def

lemma wok_same: "wok d \<Longrightarrow> dok d' \<Longrightarrow> containers d' = containers d \<Longrightarrow> wok d' \<and> obs d' = obs d"
  by (simp add: wok_def obs_def fun_eq_iff)

lemma List_frame: "wok d \<Longrightarrow> docker_List B d = (d', res) \<Longrightarrow> wok d' \<and> obs d' = obs d"
proof -
  assume w: "wok d" and l: "docker_List B d = (d', res)"
  obtain d1 r where m: "dk_ContainerList (dr_client B) d (labelFilter managedMarkerLabels) = (d1, r)"
    by (cases "dk_ContainerList (dr_client B) d (labelFilter managedMarkerLabels)")
  with l have d: "d' = d1" by (cases r) (simp_all add: docker_List_def)
  have "dok d" using w by (simp add: wok_def)
  from list_same [OF this m] show "wok d' \<and> obs d' = obs d" unfolding d by (intro wok_same [OF w]) simp_all
qed

lemma List_Inr:
  assumes "wok d" and "docker_List B d = (d', Inr xs)"
  shows "distinct (map info_id xs) \<and> (\<forall>i x. obs d i = Some x \<longleftrightarrow> x \<in> set xs \<and> info_id x = i)"
proof -
  from assms(2) obtain cs where l: "dk_ContainerList (dr_client B) d (labelFilter managedMarkerLabels) = (d', Inr cs)"
    and xs: "xs = List.map_filter (summary_info (dr_uuid B)) cs"
    by (auto simp: docker_List_def split: prod.splits sum.splits)
  from assms(1) have w: "dok d" "one_each (dr_uuid B) (containers d)" by (simp_all add: wok_def)
  from list_filters [OF w(1) l] have "xs = List.map_filter (summary_info (dr_uuid B)) (containers d)"
    by (simp add: xs marker_filter map_filter_managed)
  with infos_obs [OF w(2)] w(2) show ?thesis by (auto simp: infos_ids obs_def one_each_def)
qed

text \<open>The lookup finds the container of the id, or says that there is none.\<close>

lemma get_frame:
  assumes "wok d" and g: "getContainerBysandboxID B d i = (d', res)"
  shows "wok d' \<and> containers d' = containers d
    \<and> (\<forall>c. res = Inr c \<longrightarrow> c \<in> set (containers d) \<and> sid (dr_uuid B) c = Some i)
    \<and> (\<forall>e. res = Inl e \<longrightarrow> errors_Is e RuntimeErrNotFound
         \<longrightarrow> ValidateSandboxID (dr_uuid B) i = None \<and> obs d i = None)"
proof (cases "ValidateSandboxID (dr_uuid B) i")
  case (Some e)
  then have "\<not> errors_Is e RuntimeErrNotFound" by (auto simp: ValidateSandboxID_def split: option.splits if_splits)
  with Some g assms(1) show ?thesis by (auto simp: getContainerBysandboxID_def Let_def)
next
  case None
  from assms(1) have w: "dok d" by (simp add: wok_def)
  obtain d1 r where l: "dk_ContainerList (dr_client B) d (labelFilter (managedLabels i)) = (d1, r)"
    by (cases "dk_ContainerList (dr_client B) d (labelFilter (managedLabels i))")
  from list_same [OF w l] assms(1) have same: "wok d1" "containers d1 = containers d" by (auto simp: wok_def)
  show ?thesis
  proof (cases r)
    case (Inl e)
    with None g l same list_foreign [OF w l [unfolded Inl]] show ?thesis
      by (auto simp: getContainerBysandboxID_def Let_def)
  next
    case (Inr cs)
    from list_filters [OF w l [unfolded Inr]] have cs: "cs = filter (\<lambda>c. sid (dr_uuid B) c = Some i) (containers d)"
      by (simp add: id_filter [OF None] sid_def)
    show ?thesis
    proof (cases "find (\<lambda>c. managedSandboxID (dr_uuid B) (c_Labels c) = Some i) cs")
      case None': None
      then have "\<forall>c\<in>set (containers d). sid (dr_uuid B) c \<noteq> Some i" by (auto simp: find_None_iff cs sid_def)
      with None None' g l Inr same show ?thesis
        by (auto simp: getContainerBysandboxID_def Let_def obs_def obs_in_None)
    next
      case (Some c)
      then have "c \<in> set cs" "sid (dr_uuid B) c = Some i" by (auto simp: find_Some_iff sid_def)
      with None Some g l Inr same cs show ?thesis
        by (auto simp: getContainerBysandboxID_def Let_def)
    qed
  qed
qed

lemma removeContainer_frame:
  assumes "dok d" and "removeContainer (dr_client B) d cid = (d', res)"
  shows "dok d' \<and> (containers d' = containers d \<or> containers d' = filter (\<lambda>c. c_ID c \<noteq> cid) (containers d))
    \<and> (res = None \<longrightarrow> containers d' = filter (\<lambda>c. c_ID c \<noteq> cid) (containers d))"
proof -
  obtain d1 r where m: "dk_ContainerRemove (dr_client B) d cid = (d1, r)"
    by (cases "dk_ContainerRemove (dr_client B) d cid")
  have d1: "d' = d1" and r: "res = None \<Longrightarrow> r = None \<or> (\<exists>e. r = Some e \<and> dk_IsNotFound (dr_client B) e)"
    using assms(2) m by (auto simp: removeContainer_def split: option.splits if_splits)
  from remove_drops [OF assms(1) m] remove_gone [OF assms(1) m] r d1 show ?thesis
    by (auto simp: filter_fresh filter_id_conv)
qed

lemma Destroy_frame:
  assumes "wok d" and "docker_Destroy B d i = (d', res)"
  shows "wok d' \<and> (\<forall>j. j \<noteq> i \<longrightarrow> obs d' j = obs d j) \<and> (res = None \<longrightarrow> obs d' i = None)"
proof -
  obtain d1 g where g: "getContainerBysandboxID B d i = (d1, g)" by (cases "getContainerBysandboxID B d i")
  note gf = get_frame [OF assms(1) g]
  show ?thesis
  proof (cases g)
    case (Inl e)
    then have "d' = d1" and "res = None \<longleftrightarrow> errors_Is e RuntimeErrNotFound"
      using assms(2) g by (auto simp: docker_Destroy_def Let_def split: if_splits)
    with gf Inl show ?thesis by (auto simp: obs_def)
  next
    case (Inr c)
    obtain d2 r where m: "removeContainer (dr_client B) d1 (c_ID c) = (d2, r)"
      by (cases "removeContainer (dr_client B) d1 (c_ID c)")
    have d2: "d' = d2" "res = None \<longleftrightarrow> r = None"
      using assms(2) g Inr m by (auto simp: docker_Destroy_def Let_def split: option.splits)
    have dok1: "dok d1" and same: "containers d1 = containers d" using gf by (auto simp: wok_def)
    have one: "one_each (dr_uuid B) (containers d)" using assms(1) by (simp add: wok_def)
    have c: "c \<in> set (containers d)" "sid (dr_uuid B) c = Some i" using gf Inr by auto
    from removeContainer_frame [OF dok1 m] removed_obs [OF one c] one d2 show ?thesis
      unfolding same by (auto simp: wok_def obs_def)
  qed
qed

lemma create_made:
  assumes "one_each U cs" and "obs_in U cs i = None" and "c_Labels c = managedLabels i" and "c_ID c \<notin> c_ID ` set cs"
  shows "one_each U (c # cs) \<and> (\<forall>j. j \<noteq> i \<longrightarrow> obs_in U (c # cs) j = obs_in U cs j)"
  using assms managedLabels_other [of U i] by (auto simp: one_each_Cons sid_def)

lemma started_obs: "sid U c = Some i \<Longrightarrow> c_State c = ''running'' \<Longrightarrow> \<exists>y. summary_info U c = Some y \<and> info_state y = StateRunning"
  by (simp add: summary_info_def sid_def NewInfo_def stateFromContainerState_def startedStates_def)

text \<open>The part of Create after the image is there.\<close>

definition make_container :: "'d \<Rightarrow> string \<Rightarrow> Spec \<Rightarrow> Config \<Rightarrow> HostConfig \<Rightarrow> 'd \<times> (goerr + Info)" where
  "make_container d i sp cfg hc =
     (let opn = ''docker.Runtime.Create''; D = dr_client B in
      case dk_ContainerCreate D d cfg hc of
        (d2, Inl e) \<Rightarrow>
          (d2, Inl (classifyNotFound (dk_IsNotFound D) opn (''creating container from image '' @ spec_image sp)
                      RuntimeErrImageMissing e))
      | (d2, Inr cid) \<Rightarrow>
     (case dk_ContainerStart D d2 cid of
        (d3, Some e) \<Rightarrow>
          (case cleanupFailed D d3 opn i cid
                  (runtime_E opn (''starting container '' @ cid @ '' for sandbox '' @ i) (Some e)) of
             (d4, err) \<Rightarrow> (d4, Inl err))
      | (d3, None) \<Rightarrow> (d3, Inr (NewInfo i StateRunning (dk_Now D d3)))))"

lemma docker_Create_eq:
  "docker_Create B d i sp =
     (case ValidateSandboxID (dr_uuid B) i of
        Some e \<Rightarrow> (d, Inl (runtime_E ''docker.Runtime.Create'' (''creating sandbox '' @ Quote i) (Some e)))
      | None \<Rightarrow>
     (case newContainerConfigs sp i (dr_containerRuntime B) of
        Inl e \<Rightarrow> (d, Inl (runtime_Wrap ''docker.Runtime.Create'' [] e))
      | Inr (cfg, hc) \<Rightarrow>
     (case pullImage (dr_client B) d (spec_image sp) of
        (d1, Some e) \<Rightarrow> (d1, Inl (runtime_Wrap ''docker.Runtime.Create'' [] e))
      | (d1, None) \<Rightarrow> make_container d1 i sp cfg hc)))"
  by (simp add: docker_Create_def make_container_def Let_def split: option.split sum.split prod.split)

lemma make_frame:
  assumes w: "wok d" and none: "obs d i = None" and valid: "ValidateSandboxID (dr_uuid B) i = None"
    and cfg: "cfg_Labels cfg = managedLabels i" and m: "make_container d i sp cfg hc = (d', res)"
  shows "wok d' \<and> (\<forall>j. j \<noteq> i \<longrightarrow> obs d' j = obs d j)
    \<and> (\<forall>x. res = Inr x \<longrightarrow> (\<exists>y. obs d' i = Some y \<and> info_state y = StateRunning))"
proof -
  let ?U = "dr_uuid B" and ?D = "dr_client B"
  from w have ok: "dok d" "one_each ?U (containers d)" by (simp_all add: wok_def)
  have none': "obs_in ?U (containers d) i = None" using none by (simp add: obs_def)
  obtain d2 r where c: "dk_ContainerCreate ?D d cfg hc = (d2, r)" by (cases "dk_ContainerCreate ?D d cfg hc")
  note one = create_one [OF ok(1) c]
  from one have ok2: "dok d2" by simp
  have made: "one_each ?U (k # containers d) \<and> (\<forall>j. j \<noteq> i \<longrightarrow> obs_in ?U (k # containers d) j = obs d j)"
    if "containers d2 = k # containers d" "c_Labels k = managedLabels i" for k
    using create_made [OF ok(2) none' that(2)] ids_unique [OF ok2] that(1) by (simp add: obs_def)
  show ?thesis
  proof (cases r)
    case (Inl e)
    with m c have d': "d' = d2" "\<exists>e. res = Inl e" by (auto simp: make_container_def Let_def)
    from one Inl consider "containers d2 = containers d"
      | k where "containers d2 = k # containers d" "c_Labels k = managedLabels i" using cfg by auto
    then show ?thesis
    proof cases
      case 1
      with d' ok2 ok(2) show ?thesis by (auto simp: wok_def obs_def)
    next
      case 2
      with made [OF 2] d' ok2 show ?thesis by (auto simp: wok_def obs_def)
    qed
  next
    case (Inr cid)
    with one cfg obtain k where k: "containers d2 = k # containers d" "c_Labels k = managedLabels i" "c_ID k = cid" by auto
    have fresh: "cid \<notin> c_ID ` set (containers d)" using ids_unique [OF ok2] k by simp
    have sidk: "sid ?U k = Some i" using k(2) valid by (simp add: sid_def)
    obtain d3 sr where st: "dk_ContainerStart ?D d2 cid = (d3, sr)" by (cases "dk_ContainerStart ?D d2 cid")
    from start_sets [OF ok2 st] obtain stt where ok3: "dok d3" and
      c3: "containers d3 = map (set_state cid stt) (containers d2)" and run: "sr = None \<Longrightarrow> stt = ''running''" by blast
    let ?k = "set_state cid stt k"
    have c3': "containers d3 = ?k # containers d" by (simp add: c3 k(1) set_state_fresh [OF fresh])
    have made3: "one_each ?U (?k # containers d) \<and> (\<forall>j. j \<noteq> i \<longrightarrow> obs_in ?U (?k # containers d) j = obs d j)"
      using create_made [OF ok(2) none', of ?k] k fresh by (simp add: obs_def set_state_def)
    show ?thesis
    proof (cases sr)
      case None
      with m c Inr st have d': "d' = d3" by (simp add: make_container_def Let_def)
      have "c_State ?k = ''running''" using run [OF None] k(3) by (simp add: set_state_def)
      from started_obs [OF _ this, of ?U i] sidk obtain y where "summary_info ?U ?k = Some y \<and> info_state y = StateRunning" by auto
      with d' ok3 c3' made3 sidk show ?thesis by (simp add: wok_def obs_def)
    next
      case (Some e)
      let ?dd = "dk_Detach ?D d3 cleanupTimeout"
      obtain d4 rr where rm: "removeContainer ?D ?dd cid = (d4, rr)" by (cases "removeContainer ?D ?dd cid")
      from m c Inr st Some rm have d': "d' = d4" "\<exists>e. res = Inl e"
        by (auto simp: make_container_def Let_def cleanupFailed_def split: option.splits)
      have dd: "dok ?dd" "containers ?dd = ?k # containers d" using detach_same [OF ok3] c3' by auto
      have drop: "filter (\<lambda>c. c_ID c \<noteq> cid) (?k # containers d) = containers d"
        using k(3) fresh by (simp add: filter_fresh)
      from removeContainer_frame [OF dd(1) rm] drop have "dok d4"
        "containers d4 = ?k # containers d \<or> containers d4 = containers d" by (auto simp: dd(2))
      with d' made3 ok(2) show ?thesis by (auto simp: wok_def obs_def)
    qed
  qed
qed

lemma pull_frame:
  assumes "wok d" and p: "pullImage (dr_client B) d img = (d', res)"
  shows "wok d' \<and> obs d' = obs d"
proof -
  from assms(1) have ok: "dok d" by (simp add: wok_def)
  obtain d1 r where i: "dk_ImagePull (dr_client B) d img = (d1, r)" by (cases "dk_ImagePull (dr_client B) d img")
  obtain d2 r2 where w: "dk_PullWait (dr_client B) d1 = (d2, r2)" by (cases "dk_PullWait (dr_client B) d1")
  from pull_same [OF ok i] wait_same [OF _ w] have "dok d1" "containers d1 = containers d" "dok d2" "containers d2 = containers d"
    by auto
  moreover have "d' = d1 \<or> d' = d2" using p i w by (auto simp: pullImage_def Let_def split: option.splits)
  ultimately show ?thesis using wok_same [OF assms(1)] by auto
qed

lemma Create_frame:
  assumes "wok d" and none: "obs d i = None" and c: "docker_Create B d i sp = (d', res)"
  shows "wok d' \<and> (\<forall>j. j \<noteq> i \<longrightarrow> obs d' j = obs d j)
    \<and> (\<forall>x. res = Inr x \<longrightarrow> Spec_Validate sp = None \<and> (\<exists>y. obs d' i = Some y \<and> info_state y = StateRunning))"
proof (cases "ValidateSandboxID (dr_uuid B) i")
  case (Some e)
  with c assms(1) show ?thesis by (auto simp: docker_Create_eq)
next
  case valid: None
  show ?thesis
  proof (cases "newContainerConfigs sp i (dr_containerRuntime B)")
    case (Inl e)
    with valid c assms(1) show ?thesis by (auto simp: docker_Create_eq)
  next
    case (Inr p)
    then obtain cfg hc where cfg: "newContainerConfigs sp i (dr_containerRuntime B) = Inr (cfg, hc)" by (cases p) auto
    note cf = newContainerConfigs_Inr [OF cfg]
    obtain d1 pr where p: "pullImage (dr_client B) d (spec_image sp) = (d1, pr)"
      by (cases "pullImage (dr_client B) d (spec_image sp)")
    from pull_frame [OF assms(1) p] have w1: "wok d1" "obs d1 = obs d" by auto
    show ?thesis
    proof (cases pr)
      case (Some e)
      with valid cfg p c w1 show ?thesis by (auto simp: docker_Create_eq)
    next
      case None
      with valid cfg p c have "make_container d1 i sp cfg hc = (d', res)" by (simp add: docker_Create_eq)
      from make_frame [OF w1(1) _ valid _ this] w1(2) none cf show ?thesis by simp
    qed
  qed
qed

end

sublocale docker_daemon \<subseteq> rt: runtime_contract "docker_ops B" wok obs
proof (unfold_locales, goal_cases)
  case (1 w i x)
  then show ?case by (simp add: obs_def obs_in_id)
next
  case (2 w w' lres)
  then show ?case using List_frame [of w w' lres] by simp
next
  case (3 w w' xs)
  then show ?case using List_Inr [of w w' xs] by simp
next
  case (4 w i sp w' res)
  then show ?case using Create_frame [of w i sp w' res] by simp
next
  case (5 w i sp w' x)
  then show ?case using Create_frame [of w i sp w' "Inr x"] by simp
next
  case (6 w i w' dres)
  then show ?case using Destroy_frame [of w i w' dres] by simp
next
  case (7 w i w')
  then show ?case using Destroy_frame [of w i w' None] by simp
qed

context docker_daemon
begin

lemma as_runtime: "runtime_contract (docker_ops B) wok obs"
  by (rule rt.runtime_contract_axioms)

end

section \<open>A daemon that answers\<close>

locale calm_daemon = docker_daemon B containers dok
  for B :: "('u, 'd) docker" and containers :: "'d \<Rightarrow> Summary list" and dok :: "'d \<Rightarrow> bool" +
  fixes dcalm :: "'d \<Rightarrow> bool"
  assumes calm_list: "dcalm d \<Longrightarrow> dk_ContainerList (dr_client B) d fs = (d', res) \<Longrightarrow> dcalm d' \<and> (\<exists>cs. res = Inr cs)"
    and calm_create: "dcalm d \<Longrightarrow> dk_ContainerCreate (dr_client B) d cfg hc = (d', cres) \<Longrightarrow> dcalm d' \<and> (\<exists>cid. cres = Inr cid)"
    and calm_start: "dcalm d \<Longrightarrow> dk_ContainerStart (dr_client B) d cid = (d', sres) \<Longrightarrow> dcalm d' \<and> sres = None"
    and calm_remove: "dcalm d \<Longrightarrow> dk_ContainerRemove (dr_client B) d cid = (d', rres) \<Longrightarrow> dcalm d' \<and> rres = None"
    and calm_pull: "dcalm d \<Longrightarrow> dk_ImagePull (dr_client B) d img = (d', pres) \<Longrightarrow> dcalm d' \<and> pres = None"
    and calm_wait: "dcalm d \<Longrightarrow> dk_PullWait (dr_client B) d = (d', pres) \<Longrightarrow> dcalm d' \<and> pres = None"
begin

abbreviation usable :: "string \<Rightarrow> bool" where "usable \<equiv> docker_usable B"

lemma List_calm: "dcalm d \<Longrightarrow> docker_List B d = (d', res) \<Longrightarrow> dcalm d' \<and> (\<exists>xs. res = Inr xs)"
  using calm_list [of d "labelFilter managedMarkerLabels"]
  by (auto simp: docker_List_def split: prod.splits sum.splits)

lemma get_calm:
  assumes "dcalm d" and "getContainerBysandboxID B d i = (d', res)"
  shows "dcalm d' \<and> (usable i \<longrightarrow> (\<exists>c. res = Inr c) \<or> (\<exists>e. res = Inl e \<and> errors_Is e RuntimeErrNotFound))"
  using assms calm_list [OF assms(1), of "labelFilter (managedLabels i)"]
  by (auto simp: getContainerBysandboxID_def docker_usable_def Let_def split: option.splits prod.splits sum.splits)

lemma removeContainer_calm: "dcalm d \<Longrightarrow> removeContainer (dr_client B) d cid = (d', res) \<Longrightarrow> dcalm d' \<and> res = None"
  using calm_remove [of d cid] by (auto simp: removeContainer_def split: prod.splits option.splits if_splits)

lemma Destroy_calm:
  assumes "dcalm d" and "docker_Destroy B d i = (d', res)"
  shows "dcalm d' \<and> (usable i \<longrightarrow> res = None)"
proof -
  obtain d1 g where g: "getContainerBysandboxID B d i = (d1, g)" by (cases "getContainerBysandboxID B d i")
  note gc = get_calm [OF assms(1) g]
  show ?thesis
  proof (cases g)
    case (Inl e)
    with gc g assms(2) show ?thesis by (auto simp: docker_Destroy_def Let_def split: if_splits)
  next
    case (Inr c)
    obtain d2 r where m: "removeContainer (dr_client B) d1 (c_ID c) = (d2, r)"
      by (cases "removeContainer (dr_client B) d1 (c_ID c)")
    with gc g Inr assms(2) removeContainer_calm [OF _ m] show ?thesis by (auto simp: docker_Destroy_def Let_def)
  qed
qed

lemma pull_calm: "dcalm d \<Longrightarrow> pullImage (dr_client B) d img = (d', res) \<Longrightarrow> dcalm d' \<and> res = None"
proof -
  assume d: "dcalm d" and p: "pullImage (dr_client B) d img = (d', res)"
  obtain d1 r where i: "dk_ImagePull (dr_client B) d img = (d1, r)" by (cases "dk_ImagePull (dr_client B) d img")
  obtain d2 r2 where w: "dk_PullWait (dr_client B) d1 = (d2, r2)" by (cases "dk_PullWait (dr_client B) d1")
  from calm_pull [OF d i] have "dcalm d1" "r = None" by auto
  with p i w calm_wait [OF _ w] show "dcalm d' \<and> res = None" by (simp add: pullImage_def Let_def)
qed

lemma make_calm:
  assumes "dcalm d" and "make_container d i sp cfg hc = (d', res)"
  shows "dcalm d' \<and> (\<exists>x. res = Inr x)"
proof -
  obtain d2 r where c: "dk_ContainerCreate (dr_client B) d cfg hc = (d2, r)"
    by (cases "dk_ContainerCreate (dr_client B) d cfg hc")
  from calm_create [OF assms(1) c] obtain cid where r: "r = Inr cid" and d2: "dcalm d2" by blast
  obtain d3 sr where s: "dk_ContainerStart (dr_client B) d2 cid = (d3, sr)"
    by (cases "dk_ContainerStart (dr_client B) d2 cid")
  from calm_start [OF d2 s] assms(2) c r s show ?thesis by (auto simp: make_container_def Let_def)
qed

lemma Create_calm:
  assumes "dcalm d" and "docker_Create B d i sp = (d', res)"
  shows "dcalm d' \<and> (usable i \<longrightarrow> Spec_Validate sp = None \<longrightarrow> (\<exists>x. res = Inr x))"
proof (cases "\<exists>cfg hc. ValidateSandboxID (dr_uuid B) i = None \<and> newContainerConfigs sp i (dr_containerRuntime B) = Inr (cfg, hc)")
  case True
  then obtain cfg hc where v: "ValidateSandboxID (dr_uuid B) i = None"
    "newContainerConfigs sp i (dr_containerRuntime B) = Inr (cfg, hc)" by blast
  obtain d1 pr where p: "pullImage (dr_client B) d (spec_image sp) = (d1, pr)"
    by (cases "pullImage (dr_client B) d (spec_image sp)")
  from pull_calm [OF assms(1) p] have d1: "dcalm d1" "pr = None" by auto
  with v p assms(2) have "make_container d1 i sp cfg hc = (d', res)" by (simp add: docker_Create_eq)
  from make_calm [OF d1(1) this] show ?thesis by simp
next
  case False
  then show ?thesis using assms
    by (auto simp: docker_Create_eq docker_usable_def newContainerConfigs_def Let_def split: option.splits)
qed

end

sublocale calm_daemon \<subseteq> lv: live_runtime "docker_ops B" wok obs dcalm usable
proof (unfold_locales, goal_cases)
  case (1 w i x)
  then obtain c where "sid (dr_uuid B) c = Some i" using obs_in_None [of "dr_uuid B" "containers w" i]
    by (metis obs_def option.distinct(1))
  then show ?case by (simp add: docker_usable_def sid_def managedSandboxID_Some)
next
  case 2
  then show ?case by (simp add: docker_usable_def ValidateSandboxID_def CutPrefix_def sandboxIDPrefix_def)
next
  case (3 w w' lres)
  then show ?case using List_calm [of w w' lres] by simp
next
  case (4 w i sp w' res)
  then show ?case using Create_calm [of w i sp w' res] by simp
next
  case (5 w i w' dres)
  then show ?case using Destroy_calm [of w i w' dres] by simp
next
  case (6 w)
  then show ?case using List_calm [of w "fst (docker_List B w)" "snd (docker_List B w)"] by (metis docker_ops_sel(3) prod.collapse)
next
  case (7 w i sp)
  then show ?case using Create_calm [of w i sp "fst (docker_Create B w i sp)" "snd (docker_Create B w i sp)"]
    by (metis docker_ops_sel(1) prod.collapse)
next
  case (8 w i)
  then show ?case using Destroy_calm [of w i "fst (docker_Destroy B w i)" "snd (docker_Destroy B w i)"]
    by (metis docker_ops_sel(4) prod.collapse)
qed

context calm_daemon
begin

lemma as_live: "live_runtime (docker_ops B) wok obs dcalm usable"
  by (rule lv.live_runtime_axioms)

end

end
