(* ===== verification/Reconciler.thy ===== *)
theory Reconciler
  imports StoreSpec RuntimeIface
begin

text \<open>
  Package reconciler (internal/reconciler): the outer join of the two snapshots, the decision table,
  the effect of each action on the store and the runtime, one pass under its lock, and the timer
  arithmetic of the loop. The store and the runtime are any operations; \<open>now\<close> is what \<open>r.now()\<close>
  reads in the pass. Logging is left out.
\<close>

section \<open>Actions and items\<close>

datatype ReconcileAction =
  ActionNone | ActionCreate | ActionDestroy | ActionDestroyOrphan | ActionReap | ActionMarkFailed
| ActionMarkStopped | ActionMarkRunning

fun action_text :: "ReconcileAction \<Rightarrow> string" where
  "action_text ActionNone = []"
| "action_text ActionCreate = ''create''"
| "action_text ActionDestroy = ''destroy''"
| "action_text ActionDestroyOrphan = ''destroy_orphan''"
| "action_text ActionReap = ''reap''"
| "action_text ActionMarkFailed = ''mark_failed''"
| "action_text ActionMarkStopped = ''mark_stopped''"
| "action_text ActionMarkRunning = ''mark_running''"

record reconcileItem =
  desired :: "Sandbox option"
  observed :: "Info option"

text \<open>An item always holds a row or a container; an item with neither has no id in the source.\<close>

definition item_id :: "reconcileItem \<Rightarrow> string" where
  "item_id it =
     (case desired it of
        Some r \<Rightarrow> sb_sandbox_id r
      | None \<Rightarrow> (case observed it of Some x \<Rightarrow> info_id x | None \<Rightarrow> []))"

section \<open>The join\<close>

text \<open>
  The Go map from id to container keeps the last container listed for an id. \<open>pair_rows\<close> takes
  each row's container out of it; what is left over are the orphans. Go iterates a map in no
  particular order, so the orphans are appended in an order \<open>perm\<close> picks.
\<close>

definition info_map :: "Info list \<Rightarrow> string \<Rightarrow> Info option" where
  "info_map infos = map_of (rev (map (\<lambda>x. (info_id x, x)) infos))"

fun pair_rows :: "Sandbox list \<Rightarrow> (string \<Rightarrow> Info option) \<Rightarrow> reconcileItem list" where
  "pair_rows [] m = []"
| "pair_rows (r # rs) m =
     \<lparr>desired = Some r, observed = m (sb_sandbox_id r)\<rparr> # pair_rows rs (m(sb_sandbox_id r := None))"

definition orphans :: "Sandbox list \<Rightarrow> Info list \<Rightarrow> reconcileItem list" where
  "orphans sbxs infos =
     map (\<lambda>i. \<lparr>desired = None, observed = info_map infos i\<rparr>)
       (filter (\<lambda>i. i \<notin> sb_sandbox_id ` set sbxs) (remdups (map info_id infos)))"

definition pairSnapshots ::
  "(reconcileItem list \<Rightarrow> reconcileItem list) \<Rightarrow> Sandbox list \<Rightarrow> Info list \<Rightarrow> reconcileItem list" where
  "pairSnapshots perm sbxs infos =
     sort_key item_id (pair_rows sbxs (info_map infos) @ perm (orphans sbxs infos))"

section \<open>The decision\<close>

definition decideReconcileAction :: "Sandbox option \<Rightarrow> Info option \<Rightarrow> gotime \<Rightarrow> ReconcileAction" where
  "decideReconcileAction des ob now =
     (case des of
        None \<Rightarrow> (case ob of None \<Rightarrow> ActionNone | Some _ \<Rightarrow> ActionDestroyOrphan)
      | Some r \<Rightarrow>
          if \<not> (sb_state r = Stopped \<or> sb_state r = Failed) \<and> After now (sb_expires r) then ActionReap
          else if sb_state r = Pending then
            (case ob of
               None \<Rightarrow> ActionCreate
             | Some x \<Rightarrow> if info_state x = StateStopped then ActionMarkFailed else ActionMarkRunning)
          else if sb_state r = Running then
            (case ob of
               None \<Rightarrow> ActionMarkFailed
             | Some x \<Rightarrow> if info_state x = StateStopped then ActionMarkFailed else ActionNone)
          else if sb_state r = Stopping then
            (case ob of None \<Rightarrow> ActionMarkStopped | Some _ \<Rightarrow> ActionDestroy)
          else if sb_state r = Stopped \<or> sb_state r = Failed then
            (case ob of None \<Rightarrow> ActionNone | Some _ \<Rightarrow> ActionDestroy)
          else ActionNone)"

section \<open>The effect\<close>

definition handle_op :: string where "handle_op = ''reconciler.Reconciler.handleAction''"

definition rec_wrap :: "string \<Rightarrow> goerr \<Rightarrow> goerr" where
  "rec_wrap msg e = errs_Wrap PkgReconciler handle_op msg (Some e)"

definition mark ::
  "'s store_ops \<Rightarrow> 's \<Rightarrow> Sandbox \<Rightarrow> task_state \<Rightarrow> string \<Rightarrow> string \<Rightarrow> 's \<times> goerr option" where
  "mark S s sbx to reason describing =
     (case so_UpdateSandboxState S s (sb_sandbox_id sbx) (sb_state sbx) to reason (sb_version sbx) of
        (s', Inl e) \<Rightarrow> (s', Some (rec_wrap describing e))
      | (s', Inr _) \<Rightarrow> (s', None))"

definition act_create ::
  "'s store_ops \<Rightarrow> 'w runtime_ops \<Rightarrow> Sandbox \<Rightarrow> 's \<times> 'w \<Rightarrow> ('s \<times> 'w) \<times> goerr option" where
  "act_create S R sbx = (\<lambda>(s, w).
     let i = sb_sandbox_id sbx in
     (case ResolveValidated (Some (sb_spec sbx)) of
        Inl e \<Rightarrow>
          (case mark S s sbx Failed ''reconciler failed sandbox: spec does not resolve''
                  (''recording sandbox '' @ i @ '' as failed after its spec did not resolve'') of
             (s', r) \<Rightarrow> ((s', w), r))
      | Inr resolved \<Rightarrow>
     (case ro_Create R w i resolved of
        (w1, Inl e) \<Rightarrow> ((s, w1), Some (rec_wrap (''creating sandbox '' @ i) e))
      | (w1, Inr _) \<Rightarrow>
     (case so_UpdateSandboxState S s i Pending Running ''reconciler created container'' (sb_version sbx) of
        (s1, Inr _) \<Rightarrow> ((s1, w1), None)
      | (s1, Inl e) \<Rightarrow>
     (case ro_Destroy R w1 i of
        (w2, Some de) \<Rightarrow>
          ((s1, w2), Some (errs_Wrap PkgReconciler handle_op
             (''recording sandbox '' @ i @ '' as running failed and removing its container also failed'')
             (errors_Join [Some e, Some de])))
      | (w2, None) \<Rightarrow>
          ((s1, w2), Some (rec_wrap
             (''recording sandbox '' @ i @ '' as running failed; container removed'') e)))))))"

definition act_destroy ::
  "'s store_ops \<Rightarrow> 'w runtime_ops \<Rightarrow> Sandbox \<Rightarrow> 's \<times> 'w \<Rightarrow> ('s \<times> 'w) \<times> goerr option" where
  "act_destroy S R sbx = (\<lambda>(s, w).
     (case ro_Destroy R w (sb_sandbox_id sbx) of
        (w1, Some e) \<Rightarrow>
          ((s, w1), Some (rec_wrap (''destroying leftover container for sandbox '' @ sb_sandbox_id sbx) e))
      | (w1, None) \<Rightarrow>
          if sb_state sbx = Stopping then
            (case mark S s sbx Stopped ''reconciler destroyed container''
                    (''recording sandbox '' @ sb_sandbox_id sbx @ '' as stopped'') of
               (s1, r) \<Rightarrow> ((s1, w1), r))
          else ((s, w1), None)))"

definition act_reap ::
  "'s store_ops \<Rightarrow> 'w runtime_ops \<Rightarrow> Sandbox \<Rightarrow> Info option \<Rightarrow> 's \<times> 'w \<Rightarrow> ('s \<times> 'w) \<times> goerr option" where
  "act_reap S R sbx ob = (\<lambda>(s, w).
     (case (case ob of None \<Rightarrow> (w, None) | Some _ \<Rightarrow> ro_Destroy R w (sb_sandbox_id sbx)) of
        (w1, Some e) \<Rightarrow> ((s, w1), Some (rec_wrap (''destroying expired sandbox '' @ sb_sandbox_id sbx) e))
      | (w1, None) \<Rightarrow>
          let to = (if sb_state sbx = Stopping then Stopped else Failed) in
          (case mark S s sbx to ''reconciler reaped expired sandbox''
                  (''recording reaped sandbox '' @ sb_sandbox_id sbx @ '' as '' @ to) of
             (s1, r) \<Rightarrow> ((s1, w1), r))))"

definition act_mark ::
  "'s store_ops \<Rightarrow> Sandbox \<Rightarrow> task_state \<Rightarrow> string \<Rightarrow> 's \<times> 'w \<Rightarrow> ('s \<times> 'w) \<times> goerr option" where
  "act_mark S sbx to reason = (\<lambda>(s, w).
     (case mark S s sbx to reason (''recording sandbox '' @ sb_sandbox_id sbx @ '' as '' @ to) of
        (s1, r) \<Rightarrow> ((s1, w), r)))"

definition handleAction ::
  "'s store_ops \<Rightarrow> 'w runtime_ops \<Rightarrow> ReconcileAction \<Rightarrow> Sandbox option \<Rightarrow> Info option \<Rightarrow> 's \<times> 'w
     \<Rightarrow> ('s \<times> 'w) \<times> goerr option" where
  "handleAction S R action sbx infoObj sw =
     (let sbxID = (case sbx of Some r \<Rightarrow> sb_sandbox_id r
                   | None \<Rightarrow> (case infoObj of Some x \<Rightarrow> info_id x | None \<Rightarrow> []));
          refuse = (\<lambda>msg. (sw, Some (errs_E PkgReconciler handle_op msg None)))
      in if action = ActionDestroyOrphan then
           (if infoObj = None \<or> sbxID = []
            then refuse (action_text action @ '' dispatched without a runtime sandbox'')
            else (case ro_Destroy R (snd sw) sbxID of
                    (w1, Some e) \<Rightarrow> ((fst sw, w1), Some (rec_wrap (''destroying orphan sandbox '' @ sbxID) e))
                  | (w1, None) \<Rightarrow> ((fst sw, w1), None)))
         else
           (case sbx of
              None \<Rightarrow> refuse (action_text action @ '' dispatched without a sandbox row'')
            | Some r \<Rightarrow>
                if sbxID = [] then refuse (action_text action @ '' dispatched without a sandbox row'')
                else (case action of
                    ActionCreate \<Rightarrow> act_create S R r sw
                  | ActionDestroy \<Rightarrow> act_destroy S R r sw
                  | ActionReap \<Rightarrow> act_reap S R r infoObj sw
                  | ActionMarkFailed \<Rightarrow> act_mark S r Failed ''reconciler marked sandbox failed'' sw
                  | ActionMarkStopped \<Rightarrow> act_mark S r Stopped ''reconciler marked sandbox stopped'' sw
                  | ActionMarkRunning \<Rightarrow> act_mark S r Running ''reconciler adopted existing container'' sw
                  | _ \<Rightarrow> refuse (''unsupported reconcile action '' @ Quote (action_text action)))))"

section \<open>A pass\<close>

fun run_items ::
  "'s store_ops \<Rightarrow> 'w runtime_ops \<Rightarrow> gotime \<Rightarrow> reconcileItem list \<Rightarrow> 's \<times> 'w
     \<Rightarrow> ('s \<times> 'w) \<times> ReconcileAction list" where
  "run_items S R now [] sw = (sw, [])"
| "run_items S R now (it # its) sw =
     (let action = decideReconcileAction (desired it) (observed it) now in
      if action = ActionNone then run_items S R now its sw
      else (let (sw1, _) = handleAction S R action (desired it) (observed it) sw;
                (sw2, acts) = run_items S R now its sw1
            in (sw2, action # acts)))"

text \<open>The lock is the state \<open>mu\<close> of the mutex: a pass that finds it taken returns at once.\<close>

record ('s, 'w) reconciler =
  mu :: bool
  rec_store :: 's
  rec_runtime :: 'w

definition ReconcileOnce ::
  "'s store_ops \<Rightarrow> 'w runtime_ops \<Rightarrow> (reconcileItem list \<Rightarrow> reconcileItem list) \<Rightarrow> gotime
     \<Rightarrow> ('s, 'w) reconciler \<Rightarrow> ('s, 'w) reconciler \<times> (goerr + ReconcileAction list)" where
  "ReconcileOnce S R perm now rc =
     (let opn = ''reconciler.Reconciler.ReconcileOnce'' in
      if mu rc then (rc, Inl (Sentinel ReconcilerErrPassInFlight))
      else
     (case so_GetSandboxes S (rec_store rc) of
        (s1, Inl e) \<Rightarrow>
          (rc\<lparr>rec_store := s1\<rparr>, Inl (errs_Wrap PkgReconciler opn ''listing sandbox records'' (Some e)))
      | (s1, Inr sbxs) \<Rightarrow>
     (case ro_List R (rec_runtime rc) of
        (w1, Inl e) \<Rightarrow>
          (rc\<lparr>rec_store := s1, rec_runtime := w1\<rparr>,
           Inl (errs_Wrap PkgReconciler opn ''listing managed sandboxes'' (Some e)))
      | (w1, Inr infos) \<Rightarrow>
          let ((s2, w2), actions) = run_items S R now (pairSnapshots perm sbxs infos) (s1, w1)
          in (rc\<lparr>rec_store := s2, rec_runtime := w2\<rparr>, Inr actions))))"

section \<open>The timer of the loop\<close>

definition defaultInterval :: duration where "defaultInterval = 15 * Second"

definition start_interval :: "duration \<Rightarrow> duration" where
  "start_interval interval = (if interval \<le> 0 then defaultInterval else interval)"

text \<open>
  \<open>t.Reset(interval + rand.Int64N(interval / 10))\<close>: the draw \<open>rnd\<close> is reduced to the bound, and
  \<open>rand.Int64N\<close> panics, which is \<open>None\<close>, when its bound is not positive.
\<close>

definition reset_delay :: "duration \<Rightarrow> nat \<Rightarrow> duration option" where
  "reset_delay interval rnd =
     (let n = quot interval 10 in if n \<le> 0 then None else Some (wrap64 (interval + int rnd mod n)))"

end
