(* ===== verification/ReconcilerLaws.thy ===== *)
theory ReconcilerLaws
  imports Reconciler
begin

text \<open>
  What a pass guarantees. The join is complete, sorted and independent of Go's map order; an action
  touches the row and the container of its own id only; a failed write-back never leaves the
  container it made; and, when nothing fails, each action does to its item what the abstract
  \<open>repaired\<close> says, so that two passes leave no drift.
\<close>

section \<open>The join\<close>

lemma pair_rows_distinct:
  "distinct (map sb_sandbox_id rs) \<Longrightarrow>
     pair_rows rs m = map (\<lambda>r. \<lparr>desired = Some r, observed = m (sb_sandbox_id r)\<rparr>) rs"
proof (induction rs arbitrary: m)
  case (Cons r rs)
  have "map (\<lambda>q. \<lparr>desired = Some q, observed = (m(sb_sandbox_id r := None)) (sb_sandbox_id q)\<rparr>) rs
      = map (\<lambda>q. \<lparr>desired = Some q, observed = m (sb_sandbox_id q)\<rparr>) rs"
    using Cons.prems not_image by (intro map_cong refl) fastforce
  with Cons show ?case by simp
qed simp

lemma info_map_mem: "info_map xs i = Some x \<Longrightarrow> x \<in> set xs \<and> info_id x = i"
  by (auto simp: info_map_def dest: map_of_SomeD)

lemma info_map_None: "info_map xs i = None \<longleftrightarrow> i \<notin> info_id ` set xs"
  by (auto simp: info_map_def map_of_eq_None_iff image_iff)

lemma info_map_Some:
  "distinct (map info_id xs) \<Longrightarrow> info_map xs i = Some x \<longleftrightarrow> x \<in> set xs \<and> info_id x = i"
proof -
  assume d: "distinct (map info_id xs)"
  have "distinct (map fst (rev (map (\<lambda>x. (info_id x, x)) xs)))"
    using d by (simp add: rev_map [symmetric] comp_def)
  from map_of_eq_Some_iff [OF this, of i x] show ?thesis by (auto simp: info_map_def)
qed

definition orphan_item :: "Info list \<Rightarrow> string \<Rightarrow> reconcileItem" where
  "orphan_item infos i = \<lparr>desired = None, observed = info_map infos i\<rparr>"

definition orphan_ids :: "Sandbox list \<Rightarrow> Info list \<Rightarrow> string list" where
  "orphan_ids sbxs infos = filter (\<lambda>i. i \<notin> sb_sandbox_id ` set sbxs) (remdups (map info_id infos))"

lemma orphans_eq: "orphans sbxs infos = map (orphan_item infos) (orphan_ids sbxs infos)"
  by (simp add: orphans_def orphan_item_def orphan_ids_def)

lemma orphan_item_id: "i \<in> set (orphan_ids sbxs infos) \<Longrightarrow> item_id (orphan_item infos i) = i"
  by (cases "info_map infos i")
    (auto simp: orphan_item_def orphan_ids_def item_id_def info_map_None dest: info_map_mem)

definition row_item :: "Info list \<Rightarrow> Sandbox \<Rightarrow> reconcileItem" where
  "row_item infos r = \<lparr>desired = Some r, observed = info_map infos (sb_sandbox_id r)\<rparr>"

lemma row_item_id [simp]: "item_id (row_item infos r) = sb_sandbox_id r"
  by (simp add: row_item_def item_id_def)

text \<open>The unsorted join: every row once, then every container that has no row.\<close>

definition joined :: "Sandbox list \<Rightarrow> Info list \<Rightarrow> reconcileItem list" where
  "joined sbxs infos = map (row_item infos) sbxs @ orphans sbxs infos"

lemma joined_ids: "map item_id (joined sbxs infos) = map sb_sandbox_id sbxs @ orphan_ids sbxs infos"
  by (simp add: joined_def orphans_eq orphan_item_id comp_def cong: map_cong)

lemma joined_distinct: "distinct (map sb_sandbox_id sbxs) \<Longrightarrow> distinct (map item_id (joined sbxs infos))"
  unfolding joined_ids by (auto simp: orphan_ids_def)

lemma pairSnapshots_joined:
  assumes d: "distinct (map sb_sandbox_id sbxs)" and p: "\<And>xs. mset (perm xs) = mset xs"
  shows "pairSnapshots perm sbxs infos = sort_key item_id (joined sbxs infos)"
proof -
  have rows: "pair_rows sbxs (info_map infos) = map (row_item infos) sbxs"
    using d by (simp add: pair_rows_distinct row_item_def)
  have "mset (pair_rows sbxs (info_map infos) @ perm (orphans sbxs infos)) = mset (joined sbxs infos)"
    by (simp add: rows p joined_def)
  from sort_key_perm_unique [OF this [symmetric] joined_distinct [OF d]] show ?thesis
    by (simp add: pairSnapshots_def)
qed

lemma joined_item:
  assumes rows: "\<And>i r. row i = Some r \<longleftrightarrow> r \<in> set sbxs \<and> sb_sandbox_id r = i"
    and infos: "\<And>i x. obs i = Some x \<longleftrightarrow> x \<in> set infos \<and> info_id x = i"
    and d: "distinct (map info_id infos)" and it: "it \<in> set (joined sbxs infos)"
  shows "desired it = row (item_id it) \<and> observed it = obs (item_id it)
    \<and> (desired it \<noteq> None \<or> observed it \<noteq> None)"
proof -
  have obs: "info_map infos i = obs i" for i
    by (rule option_eqI) (simp add: info_map_Some [OF d] infos)
  from it consider r where "r \<in> set sbxs" "it = row_item infos r"
    | i where "i \<in> set (orphan_ids sbxs infos)" "it = orphan_item infos i"
    by (auto simp: joined_def orphans_eq)
  then show ?thesis
  proof cases
    case 1
    moreover from 1 rows have "row (sb_sandbox_id r) = Some r" by blast
    ultimately show ?thesis by (simp add: obs) (simp add: row_item_def obs)
  next
    case 2
    then have i: "i \<notin> sb_sandbox_id ` set sbxs" "i \<in> info_id ` set infos" by (auto simp: orphan_ids_def)
    have "row i = None" using i(1) rows [of i] by (metis image_eqI not_None_eq)
    moreover have "info_map infos i \<noteq> None" using i(2) by (simp add: info_map_None)
    ultimately show ?thesis using 2 orphan_item_id [OF 2(1)] obs by (simp add: orphan_item_def)
  qed
qed

lemma joined_complete:
  assumes rows: "\<And>i r. row i = Some r \<longleftrightarrow> r \<in> set sbxs \<and> sb_sandbox_id r = i"
    and infos: "\<And>i x. obs i = Some x \<longleftrightarrow> x \<in> set infos \<and> info_id x = i"
  shows "set (map item_id (joined sbxs infos)) = {i. row i \<noteq> None \<or> obs i \<noteq> None}"
proof -
  have "i \<in> sb_sandbox_id ` set sbxs \<longleftrightarrow> row i \<noteq> None" for i
    using rows [of i] by (metis (no_types, lifting) image_iff not_None_eq)
  moreover have "i \<in> info_id ` set infos \<longleftrightarrow> obs i \<noteq> None" for i
    using infos [of i] by (metis (no_types, lifting) image_iff not_None_eq)
  ultimately show ?thesis unfolding joined_ids by (auto simp: orphan_ids_def)
qed

section \<open>The abstract repair\<close>

text \<open>
  An abstract item keeps of a row its state, whether it is past its expiry and whether its spec
  resolves, and of a container its state.
\<close>

type_synonym abs_item = "(task_state \<times> bool \<times> bool) option \<times> rt_state option"

definition resolves :: "SpecFile \<Rightarrow> bool" where
  "resolves f \<longleftrightarrow> (\<exists>sp. ResolveValidated (Some f) = Inr sp)"

definition abs_of :: "gotime \<Rightarrow> Sandbox option \<Rightarrow> Info option \<Rightarrow> abs_item" where
  "abs_of now ro oo =
     (map_option (\<lambda>r. (sb_state r, After now (sb_expires r), resolves (sb_spec r))) ro, map_option info_state oo)"

definition abs_decide :: "abs_item \<Rightarrow> ReconcileAction" where
  "abs_decide a =
     (case a of
        (None, None) \<Rightarrow> ActionNone
      | (None, Some _) \<Rightarrow> ActionDestroyOrphan
      | (Some (st, late, _), o') \<Rightarrow>
          if \<not> terminal st \<and> late then ActionReap
          else if st = Pending then
            (if o' = None then ActionCreate else if o' = Some StateStopped then ActionMarkFailed
             else ActionMarkRunning)
          else if st = Running then
            (if o' = None \<or> o' = Some StateStopped then ActionMarkFailed else ActionNone)
          else if st = Stopping then (if o' = None then ActionMarkStopped else ActionDestroy)
          else if terminal st then (if o' = None then ActionNone else ActionDestroy)
          else ActionNone)"

definition repaired :: "abs_item \<Rightarrow> abs_item" where
  "repaired a =
     (case a of
        (None, o') \<Rightarrow> (None, None)
      | (Some (st, late, res), o') \<Rightarrow>
          (case abs_decide a of
             ActionNone \<Rightarrow> a
           | ActionCreate \<Rightarrow>
               (if res then (Some (Running, late, res), Some StateRunning) else (Some (Failed, late, res), None))
           | ActionDestroy \<Rightarrow> (Some (if st = Stopping then Stopped else st, late, res), None)
           | ActionDestroyOrphan \<Rightarrow> (None, None)
           | ActionReap \<Rightarrow> (Some (if st = Stopping then Stopped else Failed, late, res), None)
           | ActionMarkFailed \<Rightarrow> (Some (Failed, late, res), o')
           | ActionMarkStopped \<Rightarrow> (Some (Stopped, late, res), None)
           | ActionMarkRunning \<Rightarrow> (Some (Running, late, res), o')))"

lemma decide_abs: "decideReconcileAction ro oo now = abs_decide (abs_of now ro oo)"
  by (auto simp: decideReconcileAction_def abs_decide_def abs_of_def terminal_def split: option.splits)

lemma repaired_twice: "abs_decide (repaired (repaired a)) = ActionNone"
proof (cases a)
  case (Pair d oo)
  show ?thesis
  proof (cases d)
    case None
    with Pair show ?thesis by (simp add: repaired_def abs_decide_def)
  next
    case (Some x)
    obtain st late res where x: "x = (st, late, res)" by (cases x)
    consider "st = Pending" | "st = Running" | "st = Stopping" | "st = Stopped" | "st = Failed"
      | "st \<notin> {Pending, Running, Stopping, Stopped, Failed}" by auto
    then show ?thesis
      using Pair Some x
      by cases (auto simp: repaired_def abs_decide_def terminal_def StateRunning_def StateStopped_def)
  qed
qed

section \<open>One action, under any fault\<close>

locale guarded = store_contract S ok row + runtime_contract R wok obs
  for S :: "'s store_ops" and ok :: "'s \<Rightarrow> bool" and row :: "'s \<Rightarrow> string \<Rightarrow> Sandbox option"
    and R :: "'w runtime_ops" and wok :: "'w \<Rightarrow> bool" and obs :: "'w \<Rightarrow> string \<Rightarrow> Info option"
begin

text \<open>What an action may do: it keeps both sides well formed and touches the id \<open>i\<close> only.\<close>

definition local_step :: "string \<Rightarrow> 's \<times> 'w \<Rightarrow> 's \<times> 'w \<Rightarrow> bool" where
  "local_step i = (\<lambda>(s, w) (s', w').
     ok s' \<and> wok w' \<and> (\<forall>j. j \<noteq> i \<longrightarrow> row s' j = row s j \<and> obs w' j = obs w j)
     \<and> (\<forall>r. row s i = Some r \<longrightarrow>
          row s' i = Some r \<or> (\<exists>to now. CanTransition (sb_state r) to = None \<and> row s' i = Some (bump now to r)))
     \<and> (row s i = None \<longrightarrow> row s' i = None))"

lemma update_local:
  assumes "ok s" and "so_UpdateSandboxState S s i fr to re ver = (s', res)" and "wok w'"
    and "\<And>j. j \<noteq> i \<Longrightarrow> obs w' j = obs w j"
  shows "local_step i (s, w) (s', w')"
proof (cases res)
  case (Inl e)
  with assms update_Inl [OF assms(1)] show ?thesis by (auto simp: local_step_def)
next
  case (Inr r')
  with assms have h: "so_UpdateSandboxState S s i fr to re ver = (s', Inr r')" by simp
  from update_Inr [OF assms(1) h] obtain r now where r: "ok s'" "CanTransition (sb_state r) to = None"
    "row s i = Some r" "row s' = (row s)(i \<mapsto> bump now to r)" by auto
  then have "\<exists>to now. CanTransition (sb_state r) to = None \<and> row s' i = Some (bump now to r)" by auto
  with r assms(3,4) show ?thesis by (simp add: local_step_def)
qed

lemma mark_local:
  assumes "ok s" and "mark S s sbx to re ds = (s', res)" and "wok w'"
    and "\<And>j. j \<noteq> sb_sandbox_id sbx \<Longrightarrow> obs w' j = obs w j"
  shows "local_step (sb_sandbox_id sbx) (s, w) (s', w')"
  using assms(2) update_local [OF assms(1) _ assms(3,4)]
  by (auto simp: mark_def split: prod.splits sum.splits)

lemma destroy_local:
  "ok s \<Longrightarrow> wok w \<Longrightarrow> ro_Destroy R w i = (w', dres) \<Longrightarrow> local_step i (s, w) (s, w')"
  using destroy_frame [of w i w' dres] by (auto simp: local_step_def)

lemma local_step_store_then:
  assumes "local_step i (s, w) (s, w1)" and "local_step i (s, w1) (s2, w2)"
  shows "local_step i (s, w) (s2, w2)"
  using assms by (auto simp: local_step_def)

lemma act_mark_local:
  "ok s \<Longrightarrow> wok w \<Longrightarrow> local_step (sb_sandbox_id r) (s, w) (fst (act_mark S r to re (s, w)))"
  by (auto simp: act_mark_def intro: mark_local split: prod.splits)

lemma act_destroy_local:
  assumes "ok s" and "wok w"
  shows "local_step (sb_sandbox_id r) (s, w) (fst (act_destroy S R r (s, w)))"
proof -
  obtain w1 d where d: "ro_Destroy R w (sb_sandbox_id r) = (w1, d)"
    by (cases "ro_Destroy R w (sb_sandbox_id r)")
  from destroy_local [OF assms d] destroy_frame [OF assms(2) d] assms(1) show ?thesis
    by (auto simp: act_destroy_def d split: option.splits prod.splits intro: mark_local)
qed

lemma act_reap_local:
  assumes "ok s" and "wok w"
  shows "local_step (sb_sandbox_id r) (s, w) (fst (act_reap S R r ob (s, w)))"
proof (cases ob)
  case None
  with assms show ?thesis by (auto simp: act_reap_def Let_def split: prod.splits intro: mark_local)
next
  case (Some x)
  obtain w1 d where d: "ro_Destroy R w (sb_sandbox_id r) = (w1, d)"
    by (cases "ro_Destroy R w (sb_sandbox_id r)")
  from destroy_local [OF assms d] destroy_frame [OF assms(2) d] assms(1) Some show ?thesis
    by (auto simp: act_reap_def d Let_def split: option.splits prod.splits intro: mark_local)
qed

lemma act_create_local:
  assumes "ok s" and "wok w" and none: "obs w (sb_sandbox_id r) = None"
  shows "local_step (sb_sandbox_id r) (s, w) (fst (act_create S R r (s, w)))"
proof (cases "ResolveValidated (Some (sb_spec r))")
  case (Inl e)
  with assms show ?thesis by (auto simp: act_create_def Let_def split: prod.splits intro: mark_local)
next
  case (Inr sp)
  obtain w1 c where c: "ro_Create R w (sb_sandbox_id r) sp = (w1, c)"
    by (cases "ro_Create R w (sb_sandbox_id r) sp")
  note cf = create_frame [OF assms(2) none c]
  have here: "local_step (sb_sandbox_id r) (s, w) (s, w1)" using cf assms(1) by (auto simp: local_step_def)
  obtain s1 u where u: "so_UpdateSandboxState S s (sb_sandbox_id r) Pending Running
      ''reconciler created container'' (sb_version r) = (s1, u)"
    by (cases "so_UpdateSandboxState S s (sb_sandbox_id r) Pending Running ''reconciler created container'' (sb_version r)")
  have upd: "local_step (sb_sandbox_id r) (s, w) (s1, w1)" using cf by (intro update_local [OF assms(1) u]) auto
  obtain w2 d where d: "ro_Destroy R w1 (sb_sandbox_id r) = (w2, d)"
    by (cases "ro_Destroy R w1 (sb_sandbox_id r)")
  have undo: "local_step (sb_sandbox_id r) (s, w) (s1, w2)"
    using cf destroy_frame [OF _ d] by (intro update_local [OF assms(1) u]) auto
  show ?thesis
    using here upd undo by (auto simp: act_create_def Let_def Inr c u d split: sum.splits option.splits)
qed

lemma handle_local:
  assumes "ok s" and "wok w" and "sbx = row s i" and "infoObj = obs w i"
    and "action = decideReconcileAction sbx infoObj now"
  shows "local_step i (s, w) (fst (handleAction S R action sbx infoObj (s, w)))"
proof -
  have self: "local_step i (s, w) (s, w)" using assms by (simp add: local_step_def)
  show ?thesis
  proof (cases sbx)
    case None
    then show ?thesis
      using self assms obs_id [OF assms(2), of i] destroy_local [OF assms(1,2), of i]
      by (auto simp: handleAction_def Let_def decideReconcileAction_def split: option.splits prod.splits)
  next
    case (Some r)
    then have i: "sb_sandbox_id r = i" "i \<noteq> []"
      using assms(1,3) row_id [of s i r] row_valid [of s i r] by auto
    have create: "action = ActionCreate \<Longrightarrow> obs w i = None"
      using assms(4,5) Some by (auto simp: decideReconcileAction_def split: option.splits if_splits)
    show ?thesis
      using self act_mark_local [OF assms(1,2), of r] act_destroy_local [OF assms(1,2), of r]
        act_reap_local [OF assms(1,2), of r infoObj] act_create_local [OF assms(1,2), of r] create Some i
        assms(5)
      by (cases action)
        (auto simp: handleAction_def Let_def decideReconcileAction_def split: option.splits if_splits)
  qed
qed

text \<open>
  A create that is not recorded does not leave its container: the row is as it was, and either the
  container is gone or removing it failed too, which the error says.
\<close>

lemma create_undone:
  assumes "ok s" and "wok w" and none: "obs w (sb_sandbox_id r) = None"
    and res: "ResolveValidated (Some (sb_spec r)) = Inr sp"
    and c: "ro_Create R w (sb_sandbox_id r) sp = (w1, Inr x)"
    and a: "act_create S R r (s, w) = ((s', w'), Some e)"
  shows "row s' = row s \<and>
    (obs w' (sb_sandbox_id r) = None
     \<or> (\<exists>de. ro_Destroy R w1 (sb_sandbox_id r) = (w', Some de) \<and> (\<forall>t. errors_Is de t \<longrightarrow> errors_Is e t)))"
proof -
  obtain s1 u where u: "so_UpdateSandboxState S s (sb_sandbox_id r) Pending Running
      ''reconciler created container'' (sb_version r) = (s1, u)"
    by (cases "so_UpdateSandboxState S s (sb_sandbox_id r) Pending Running ''reconciler created container'' (sb_version r)")
  from a res c u obtain ue where ue: "u = Inl ue"
    by (cases u) (auto simp: act_create_def Let_def)
  from update_Inl [OF assms(1) u [unfolded ue]] have r1: "row s1 = row s" by simp
  obtain w2 d where d: "ro_Destroy R w1 (sb_sandbox_id r) = (w2, d)"
    by (cases "ro_Destroy R w1 (sb_sandbox_id r)")
  have ok1: "wok w1" using create_frame [OF assms(2) none c] by simp
  show ?thesis
  proof (cases d)
    case None
    with a res c u ue d destroy_None [OF ok1, of "sb_sandbox_id r" w2] r1 show ?thesis
      by (auto simp: act_create_def Let_def)
  next
    case (Some de)
    with a res c u ue d r1 show ?thesis by (auto simp: act_create_def Let_def rec_wrap_def)
  qed
qed

end

section \<open>A pass, under any fault\<close>

lemma run_items_actions:
  "snd (run_items S R now its sw) =
     filter (\<lambda>a. a \<noteq> ActionNone) (map (\<lambda>it. decideReconcileAction (desired it) (observed it) now) its)"
  by (induction its arbitrary: sw) (simp_all add: Let_def case_prod_beta)

context guarded
begin

definition snapshot_of :: "'s \<times> 'w \<Rightarrow> reconcileItem list \<Rightarrow> bool" where
  "snapshot_of = (\<lambda>(s, w) its. distinct (map item_id its) \<and>
     (\<forall>it\<in>set its. desired it = row s (item_id it) \<and> observed it = obs w (item_id it)))"

definition pass_step :: "'s \<times> 'w \<Rightarrow> 's \<times> 'w \<Rightarrow> bool" where
  "pass_step = (\<lambda>(s, w) (s', w'). ok s' \<and> wok w'
     \<and> (\<forall>i. (row s i = None \<longrightarrow> row s' i = None) \<and> (\<forall>r. row s i = Some r \<longrightarrow> row s' i = Some r
          \<or> (\<exists>to now. CanTransition (sb_state r) to = None \<and> row s' i = Some (bump now to r)))))"

lemma run_items_local:
  assumes "ok s" and "wok w" and "snapshot_of (s, w) its"
    and "run_items S R now its (s, w) = ((s', w'), acts)"
  shows "pass_step (s, w) (s', w') \<and>
    (\<forall>j. j \<notin> item_id ` set its \<longrightarrow> row s' j = row s j \<and> obs w' j = obs w j)"
  using assms
proof (induction its arbitrary: s w acts)
  case Nil
  then show ?case by (auto simp: pass_step_def)
next
  case (Cons it its)
  let ?i = "item_id it" and ?a = "decideReconcileAction (desired it) (observed it) now"
  let ?sw1 = "if ?a = ActionNone then (s, w) else fst (handleAction S R ?a (desired it) (observed it) (s, w))"
  obtain s1 w1 where sw1: "?sw1 = (s1, w1)" by (cases ?sw1)
  have at: "desired it = row s ?i" "observed it = obs w ?i" and notin: "?i \<notin> item_id ` set its"
    and rest: "snapshot_of (s, w) its"
    using Cons.prems(3) by (auto simp: snapshot_of_def)
  have loc: "local_step ?i (s, w) (s1, w1)"
    using handle_local [OF Cons.prems(1,2) at refl, of now] sw1 Cons.prems(1,2)
    by (cases "?a = ActionNone") (simp_all, simp add: local_step_def)
  then have f1: "ok s1" "wok w1" "\<And>j. j \<noteq> ?i \<Longrightarrow> row s1 j = row s j \<and> obs w1 j = obs w j"
    by (auto simp: local_step_def)
  have "snapshot_of (s1, w1) its"
    using rest f1(3) notin by (auto simp: snapshot_of_def) (metis imageI)+
  moreover obtain acts1 where "run_items S R now its (s1, w1) = ((s', w'), acts1)"
    using Cons.prems(4) sw1 by (auto simp: Let_def split: prod.splits if_splits)
  ultimately have IH: "pass_step (s1, w1) (s', w')"
    "\<And>j. j \<notin> item_id ` set its \<Longrightarrow> row s' j = row s1 j \<and> obs w' j = obs w1 j"
    using Cons.IH [OF f1(1,2)] by blast+
  have "(row s i = None \<longrightarrow> row s' i = None) \<and> (\<forall>r. row s i = Some r \<longrightarrow> row s' i = Some r
        \<or> (\<exists>to now. CanTransition (sb_state r) to = None \<and> row s' i = Some (bump now to r)))" for i
  proof (cases "i = ?i")
    case True
    with IH(2) [of ?i] notin loc show ?thesis by (auto simp: local_step_def)
  next
    case False
    with f1(3) IH(1) show ?thesis by (auto simp: pass_step_def)
  qed
  with IH f1(3) show ?case by (auto simp: pass_step_def)
qed

text \<open>An item that needs no action keeps its row and its container, whatever happens to the others.\<close>

lemma run_items_untouched:
  assumes "ok s" and "wok w" and "snapshot_of (s, w) its"
    and "run_items S R now its (s, w) = ((s', w'), acts)" and "it \<in> set its"
    and "decideReconcileAction (desired it) (observed it) now = ActionNone"
  shows "row s' (item_id it) = row s (item_id it) \<and> obs w' (item_id it) = obs w (item_id it)"
  using assms
proof (induction its arbitrary: s w acts)
  case (Cons hd its)
  let ?i = "item_id hd" and ?a = "decideReconcileAction (desired hd) (observed hd) now"
  let ?sw1 = "if ?a = ActionNone then (s, w) else fst (handleAction S R ?a (desired hd) (observed hd) (s, w))"
  obtain s1 w1 where sw1: "?sw1 = (s1, w1)" by (cases ?sw1)
  have at: "desired hd = row s ?i" "observed hd = obs w ?i" and notin: "?i \<notin> item_id ` set its"
    and rest: "snapshot_of (s, w) its"
    using Cons.prems(3) by (auto simp: snapshot_of_def)
  have loc: "local_step ?i (s, w) (s1, w1)"
    using handle_local [OF Cons.prems(1,2) at refl, of now] sw1 Cons.prems(1,2)
    by (cases "?a = ActionNone") (simp_all, simp add: local_step_def)
  then have f1: "ok s1" "wok w1" "\<And>j. j \<noteq> ?i \<Longrightarrow> row s1 j = row s j \<and> obs w1 j = obs w j"
    by (auto simp: local_step_def)
  have snap1: "snapshot_of (s1, w1) its"
    using rest f1(3) notin by (auto simp: snapshot_of_def) (metis imageI)+
  obtain acts1 where run1: "run_items S R now its (s1, w1) = ((s', w'), acts1)"
    using Cons.prems(4) sw1 by (auto simp: Let_def split: prod.splits if_splits)
  show ?case
  proof (cases "it \<in> set its")
    case True
    then have "item_id it \<noteq> ?i" using notin by (metis imageI)
    with Cons.IH [OF f1(1,2) snap1 run1 True Cons.prems(6)] f1(3) show ?thesis by simp
  next
    case False
    with Cons.prems(5,6) have "it = hd" "?a = ActionNone" by auto
    with sw1 run_items_local [OF f1(1,2) snap1 run1] notin show ?thesis by auto
  qed
qed simp

text \<open>A pass takes the snapshots it reads, and acts on them in the order of their ids.\<close>

lemma once_cases:
  assumes "ok (rec_store rc)" and "wok (rec_runtime rc)" and p: "\<And>xs. mset (perm xs) = mset xs"
    and o: "ReconcileOnce S R perm now rc = (rc', Inr acts)"
  obtains s1 w1 its where "\<not> mu rc" "ok s1" "wok w1" "row s1 = row (rec_store rc)"
    "obs w1 = obs (rec_runtime rc)" "snapshot_of (s1, w1) its" "sorted (map item_id its)"
    "set (map item_id its) = {i. row s1 i \<noteq> None \<or> obs w1 i \<noteq> None}"
    "run_items S R now its (s1, w1) = ((rec_store rc', rec_runtime rc'), acts)"
    "mu rc' = mu rc"
    "fst (so_GetSandboxes S (rec_store rc)) = s1" "fst (ro_List R (rec_runtime rc)) = w1"
proof -
  from o obtain s1 sbxs w1 infos where g: "so_GetSandboxes S (rec_store rc) = (s1, Inr sbxs)"
    and l: "ro_List R (rec_runtime rc) = (w1, Inr infos)" and nm: "\<not> mu rc"
    and run: "run_items S R now (pairSnapshots perm sbxs infos) (s1, w1)
      = ((rec_store rc', rec_runtime rc'), acts)" and mu: "mu rc' = mu rc"
    by (auto simp: ReconcileOnce_def Let_def split: if_splits prod.splits sum.splits)
  note gf = list_frame [OF assms(1) g] and gi = list_Inr [OF assms(1) g]
  note lf = rlist_frame [OF assms(2) l] and li = rlist_Inr [OF assms(2) l]
  let ?its = "pairSnapshots perm sbxs infos"
  have its: "?its = sort_key item_id (joined sbxs infos)"
    by (rule pairSnapshots_joined) (use gi p in auto)
  have d: "distinct (map item_id ?its)"
    using joined_distinct [of sbxs infos] gi by (simp add: its distinct_map)
  have rows: "\<And>i r. row s1 i = Some r \<longleftrightarrow> r \<in> set sbxs \<and> sb_sandbox_id r = i" using gi gf by auto
  have infos: "\<And>i x. obs w1 i = Some x \<longleftrightarrow> x \<in> set infos \<and> info_id x = i" using li lf by auto
  have "snapshot_of (s1, w1) ?its"
    using d joined_item [OF rows infos] li by (auto simp: snapshot_of_def its)
  moreover have "set (map item_id ?its) = {i. row s1 i \<noteq> None \<or> obs w1 i \<noteq> None}"
    using joined_complete [OF rows infos] by (simp add: its)
  ultimately show thesis
    using that [of s1 w1 ?its] nm gf lf run mu g l by (simp add: its)
qed

lemma once_untouched:
  assumes "ok (rec_store rc)" and "wok (rec_runtime rc)" and p: "\<And>xs. mset (perm xs) = mset xs"
    and o: "ReconcileOnce S R perm now rc = (rc', Inr acts)"
    and none: "decideReconcileAction (row (rec_store rc) i) (obs (rec_runtime rc) i) now = ActionNone"
  shows "row (rec_store rc') i = row (rec_store rc) i \<and> obs (rec_runtime rc') i = obs (rec_runtime rc) i"
proof (rule once_cases [OF assms(1,2) p o])
  fix s1 w1 its
  assume c: "ok s1" "wok w1" "snapshot_of (s1, w1) its"
      "run_items S R now its (s1, w1) = ((rec_store rc', rec_runtime rc'), acts)"
    and same: "row s1 = row (rec_store rc)" "obs w1 = obs (rec_runtime rc)"
  show ?thesis
  proof (cases "i \<in> item_id ` set its")
    case True
    then obtain it where it: "it \<in> set its" "item_id it = i" by blast
    with c(3) none same have "decideReconcileAction (desired it) (observed it) now = ActionNone"
      by (auto simp: snapshot_of_def)
    from run_items_untouched [OF c it(1) this] it(2) same show ?thesis by simp
  next
    case False
    with run_items_local [OF c] same show ?thesis by simp
  qed
qed

lemma once_safe:
  assumes "ok (rec_store rc)" and "wok (rec_runtime rc)" and p: "\<And>xs. mset (perm xs) = mset xs"
    and o: "ReconcileOnce S R perm now rc = (rc', res)"
  shows "pass_step (rec_store rc, rec_runtime rc) (rec_store rc', rec_runtime rc') \<and> mu rc' = mu rc"
proof (cases res)
  case (Inl e)
  with o list_frame [OF assms(1)] rlist_frame [OF assms(2)] assms(1,2) show ?thesis
    by (auto simp: ReconcileOnce_def Let_def pass_step_def split: if_splits prod.splits sum.splits)
next
  case (Inr acts)
  show ?thesis
  proof (rule once_cases [OF assms(1,2) p o [unfolded Inr]])
    fix s1 w1 its
    assume c: "ok s1" "wok w1" "snapshot_of (s1, w1) its"
      "run_items S R now its (s1, w1) = ((rec_store rc', rec_runtime rc'), acts)"
      and same: "row s1 = row (rec_store rc)" and m: "mu rc' = mu rc"
    from run_items_local [OF c] same m show ?thesis by (simp add: pass_step_def)
  qed
qed

end

section \<open>Convergence when nothing fails\<close>

lemma abs_of_bump:
  "abs_of now (Some (bump t to r)) oo = (Some (to, After now (sb_expires r), resolves (sb_spec r)), map_option info_state oo)"
  by (simp add: abs_of_def bump_def)

lemma abs_of_row:
  "abs_of now (Some r) oo = (Some (sb_state r, After now (sb_expires r), resolves (sb_spec r)), map_option info_state oo)"
  by (simp add: abs_of_def)

lemma repaired_row:
  "repaired (abs_of now (Some r) oo) =
     (case decideReconcileAction (Some r) oo now of
        ActionNone \<Rightarrow> abs_of now (Some r) oo
      | ActionCreate \<Rightarrow> if resolves (sb_spec r)
          then (Some (Running, After now (sb_expires r), True), Some StateRunning)
          else (Some (Failed, After now (sb_expires r), False), None)
      | ActionDestroy \<Rightarrow>
          (Some (if sb_state r = Stopping then Stopped else sb_state r, After now (sb_expires r), resolves (sb_spec r)), None)
      | ActionDestroyOrphan \<Rightarrow> (None, None)
      | ActionReap \<Rightarrow>
          (Some (if sb_state r = Stopping then Stopped else Failed, After now (sb_expires r), resolves (sb_spec r)), None)
      | ActionMarkFailed \<Rightarrow> (Some (Failed, After now (sb_expires r), resolves (sb_spec r)), map_option info_state oo)
      | ActionMarkStopped \<Rightarrow> (Some (Stopped, After now (sb_expires r), resolves (sb_spec r)), None)
      | ActionMarkRunning \<Rightarrow> (Some (Running, After now (sb_expires r), resolves (sb_spec r)), map_option info_state oo))"
  unfolding decide_abs abs_of_row repaired_def by (simp split: ReconcileAction.split)

lemmas live_item = abs_of_bump abs_of_row

lemma repaired_None: "decideReconcileAction ro oo now = ActionNone \<Longrightarrow> repaired (abs_of now ro oo) = abs_of now ro oo"
proof (cases ro)
  case None
  assume "decideReconcileAction ro oo now = ActionNone"
  with None show ?thesis by (cases oo) (simp_all add: decideReconcileAction_def abs_of_def repaired_def)
next
  case (Some r)
  assume "decideReconcileAction ro oo now = ActionNone"
  with Some show ?thesis by (simp add: repaired_row)
qed


locale converging = live_store S ok row calm + live_runtime R wok obs wcalm usable
  for S :: "'s store_ops" and ok :: "'s \<Rightarrow> bool" and row :: "'s \<Rightarrow> string \<Rightarrow> Sandbox option"
    and calm :: "'s \<Rightarrow> bool"
    and R :: "'w runtime_ops" and wok :: "'w \<Rightarrow> bool" and obs :: "'w \<Rightarrow> string \<Rightarrow> Info option"
    and wcalm :: "'w \<Rightarrow> bool" and usable :: "string \<Rightarrow> bool"

sublocale converging \<subseteq> guarded S ok row R wok obs
  by unfold_locales

context converging
begin

definition quiet :: "'s \<times> 'w \<Rightarrow> bool" where
  "quiet = (\<lambda>(s, w). ok s \<and> calm s \<and> wok w \<and> wcalm w \<and> (\<forall>i r. row s i = Some r \<longrightarrow> usable i))"

lemma mark_live:
  assumes "ok s" and "calm s" and r: "row s i = Some r" and legal: "CanTransition (sb_state r) to = None"
    and "re \<noteq> []"
  shows "\<exists>s' t. (\<forall>ds. mark S s r to re ds = (s', None)) \<and> ok s' \<and> calm s'
    \<and> row s' = (row s)(i \<mapsto> bump t to r)"
proof -
  from live_update [OF assms] obtain s' r' where
    u: "so_UpdateSandboxState S s i (sb_state r) to re (sb_version r) = (s', Inr r')" by blast
  have "sb_sandbox_id r = i" using row_id [OF assms(1) r] .
  with u update_Inr [OF assms(1) u] r calm_update [OF assms(2) u] show ?thesis
    by (auto simp: mark_def)
qed

lemma act_mark_live:
  assumes "ok s" and "calm s" and "row s i = Some r" and "CanTransition (sb_state r) to = None" and "re \<noteq> []"
  shows "\<exists>s' t. act_mark S r to re (s, w) = ((s', w), None) \<and> ok s' \<and> calm s'
    \<and> row s' = (row s)(i \<mapsto> bump t to r)"
proof -
  from mark_live [OF assms] obtain s' t where "\<forall>ds. mark S s r to re ds = (s', None)" "ok s'" "calm s'"
    "row s' = (row s)(i \<mapsto> bump t to r)" by blast
  then show ?thesis by (auto simp: act_mark_def)
qed

lemma act_destroy_live:
  assumes q: "quiet (s, w)" and r: "row s i = Some r"
  shows "\<exists>s' w' t. act_destroy S R r (s, w) = ((s', w'), None) \<and> ok s' \<and> calm s' \<and> wok w' \<and> wcalm w'
    \<and> obs w' i = None \<and> row s' i = Some (if sb_state r = Stopping then bump t Stopped r else r)"
proof -
  from q r have b: "ok s" "calm s" "wok w" "wcalm w" "usable i" by (auto simp: quiet_def)
  from live_destroy [OF b(3,4,5)] obtain w1 where d: "ro_Destroy R w i = (w1, None)" by blast
  have w1: "wok w1" "obs w1 i = None" "wcalm w1"
    using destroy_frame [OF b(3) d] destroy_None [OF b(3) d] wcalm_destroy [OF b(4) d] by auto
  have i: "sb_sandbox_id r = i" using row_id [OF b(1) r] .
  show ?thesis
  proof (cases "sb_state r = Stopping")
    case True
    then have "CanTransition (sb_state r) Stopped = None" by (simp add: CanTransition_None)
    from mark_live [OF b(1,2) r this, of "''reconciler destroyed container''"] obtain s' t where
      "\<forall>ds. mark S s r Stopped ''reconciler destroyed container'' ds = (s', None)" "ok s'" "calm s'"
      "row s' = (row s)(i \<mapsto> bump t Stopped r)" by auto
    with d w1 i True show ?thesis by (auto simp: act_destroy_def)
  next
    case False
    with d w1 i b r show ?thesis by (auto simp: act_destroy_def)
  qed
qed

lemma act_reap_live:
  assumes q: "quiet (s, w)" and r: "row s i = Some r" and nt: "\<not> terminal (sb_state r)"
  shows "\<exists>s' w' t. act_reap S R r (obs w i) (s, w) = ((s', w'), None) \<and> ok s' \<and> calm s' \<and> wok w' \<and> wcalm w'
    \<and> obs w' i = None \<and> row s' i = Some (bump t (if sb_state r = Stopping then Stopped else Failed) r)"
proof -
  from q r have b: "ok s" "calm s" "wok w" "wcalm w" "usable i" by (auto simp: quiet_def)
  have i: "sb_sandbox_id r = i" using row_id [OF b(1) r] .
  let ?to = "if sb_state r = Stopping then Stopped else Failed"
  have legal: "CanTransition (sb_state r) ?to = None"
    using nt row_valid [OF b(1) r] by (auto simp: CanTransition_None terminal_def valid_iff)
  obtain w1 where w1: "(case obs w i of None \<Rightarrow> (w, None) | Some _ \<Rightarrow> ro_Destroy R w i) = (w1, None)"
    "wok w1" "wcalm w1" "obs w1 i = None"
  proof (cases "obs w i")
    case None
    with b that show thesis by simp
  next
    case (Some x)
    from live_destroy [OF b(3,4,5)] obtain w1 where d: "ro_Destroy R w i = (w1, None)" by blast
    with Some destroy_frame [OF b(3) d] destroy_None [OF b(3) d] wcalm_destroy [OF b(4) d] that
    show thesis by simp
  qed
  from mark_live [OF b(1,2) r legal, of "''reconciler reaped expired sandbox''"] obtain s' t where
    "\<forall>ds. mark S s r ?to ''reconciler reaped expired sandbox'' ds = (s', None)" "ok s'" "calm s'"
    "row s' = (row s)(i \<mapsto> bump t ?to r)" by auto
  with w1 i show ?thesis by (auto simp: act_reap_def Let_def)
qed

lemma act_create_live:
  assumes q: "quiet (s, w)" and r: "row s i = Some r" and p: "sb_state r = Pending"
    and none: "obs w i = None"
  shows "\<exists>s' w' t. act_create S R r (s, w) = ((s', w'), None) \<and> ok s' \<and> calm s' \<and> wok w' \<and> wcalm w'
    \<and> (if resolves (sb_spec r)
       then row s' i = Some (bump t Running r) \<and> (\<exists>x. obs w' i = Some x \<and> info_state x = StateRunning)
       else row s' i = Some (bump t Failed r) \<and> obs w' i = None)"
proof -
  from q r have b: "ok s" "calm s" "wok w" "wcalm w" "usable i" by (auto simp: quiet_def)
  have i: "sb_sandbox_id r = i" using row_id [OF b(1) r] .
  show ?thesis
  proof (cases "ResolveValidated (Some (sb_spec r))")
    case (Inl e)
    have "CanTransition (sb_state r) Failed = None" using p by (simp add: CanTransition_None)
    from mark_live [OF b(1,2) r this,
        of "''reconciler failed sandbox: spec does not resolve''"] obtain s' t where
      "\<forall>ds. mark S s r Failed ''reconciler failed sandbox: spec does not resolve'' ds = (s', None)"
      "ok s'" "calm s'" "row s' = (row s)(i \<mapsto> bump t Failed r)" by auto
    with Inl b none i show ?thesis by (auto simp: act_create_def Let_def resolves_def)
  next
    case (Inr sp)
    then have sp: "Spec_Validate sp = None"
      by (auto simp: ResolveValidated_def split: sum.splits option.splits)
    from live_create [OF b(3,4,5) none sp] obtain w1 x where c: "ro_Create R w i sp = (w1, Inr x)" by blast
    have w1: "wok w1" "wcalm w1" "\<exists>x. obs w1 i = Some x \<and> info_state x = StateRunning"
      using create_frame [OF b(3) none c] wcalm_create [OF b(4) c] create_Inr [OF b(3) none c] by auto
    have "CanTransition (sb_state r) Running = None" using p by (simp add: CanTransition_None)
    from live_update [OF b(1,2) r this, of "''reconciler created container''"] obtain s' r' where
      u: "so_UpdateSandboxState S s i Pending Running ''reconciler created container'' (sb_version r)
        = (s', Inr r')" using p by auto
    from update_Inr [OF b(1) u] r calm_update [OF b(2) u] c w1 i Inr u show ?thesis
      by (auto simp: act_create_def Let_def resolves_def)
  qed
qed

lemma live_mark_row:
  assumes q: "quiet (s, w)" and r: "row s i = Some r" and i: "i \<noteq> []"
    and h: "handleAction S R a (Some r) ob (s, w) = ((s', w'), res)"
    and a: "(a = ActionMarkFailed \<and> to = Failed \<or> a = ActionMarkStopped \<and> to = Stopped \<or> a = ActionMarkRunning \<and> to = Running)"
    and legal: "CanTransition (sb_state r) to = None"
  shows "res = None \<and> calm s' \<and> w' = w \<and> (\<exists>t. row s' i = Some (bump t to r))"
proof -
  from q have b: "ok s" "calm s" by (auto simp: quiet_def)
  have i': "sb_sandbox_id r = i" using row_id [OF b(1) r] .
  from a show ?thesis
    using act_mark_live [OF b r legal, of "''reconciler marked sandbox failed''" w]
      act_mark_live [OF b r legal, of "''reconciler marked sandbox stopped''" w]
      act_mark_live [OF b r legal, of "''reconciler adopted existing container''" w] h i i'
    by (elim disjE conjE) (auto simp: handleAction_def Let_def)
qed

lemma live_row:
  assumes q: "quiet (s, w)" and r: "row s i = Some r" and i: "i \<noteq> []"
    and h: "handleAction S R (decideReconcileAction (Some r) (obs w i) now) (Some r) (obs w i) (s, w) = ((s', w'), res)"
    and act: "decideReconcileAction (Some r) (obs w i) now \<noteq> ActionNone"
  shows "res = None \<and> calm s' \<and> wcalm w'
    \<and> abs_of now (row s' i) (obs w' i) = repaired (abs_of now (Some r) (obs w i))"
proof -
  from q have b: "ok s" "calm s" "wok w" "wcalm w" by (auto simp: quiet_def)
  have i': "sb_sandbox_id r = i" using row_id [OF b(1) r] .
  show ?thesis
  proof (cases "decideReconcileAction (Some r) (obs w i) now")
    case ActionNone
    with act show ?thesis by simp
  next
    case ActionDestroyOrphan
    then show ?thesis by (auto simp: decideReconcileAction_def split: option.splits if_splits)
  next
    case ActionCreate
    then have "sb_state r = Pending" "obs w i = None"
      by (auto simp: decideReconcileAction_def split: option.splits if_splits)
    from act_create_live [OF q r this] h ActionCreate i i' show ?thesis
      unfolding repaired_row by (auto simp: handleAction_def Let_def live_item split: if_splits)
  next
    case ActionDestroy
    from act_destroy_live [OF q r] h ActionDestroy i i' show ?thesis
      unfolding repaired_row by (auto simp: handleAction_def Let_def live_item)
  next
    case ActionReap
    then have "\<not> terminal (sb_state r)"
      by (auto simp: decideReconcileAction_def terminal_def split: option.splits if_splits)
    from act_reap_live [OF q r this] h ActionReap i i' show ?thesis
      unfolding repaired_row by (auto simp: handleAction_def Let_def live_item)
  next
    case ActionMarkFailed
    then have "CanTransition (sb_state r) Failed = None"
      by (auto simp: decideReconcileAction_def CanTransition_None split: option.splits if_splits)
    from live_mark_row [OF q r i h _ this] b(4) ActionMarkFailed show ?thesis
      unfolding repaired_row by (auto simp: live_item)
  next
    case ActionMarkStopped
    then have "sb_state r = Stopping" "obs w i = None"
      by (auto simp: decideReconcileAction_def split: option.splits if_splits)
    moreover from this have "CanTransition (sb_state r) Stopped = None" by (simp add: CanTransition_None)
    ultimately show ?thesis
      using live_mark_row [OF q r i h, of Stopped] b(4) ActionMarkStopped unfolding repaired_row by (auto simp: live_item)
  next
    case ActionMarkRunning
    then have "CanTransition (sb_state r) Running = None"
      by (auto simp: decideReconcileAction_def CanTransition_None split: option.splits if_splits)
    from live_mark_row [OF q r i h _ this] b(4) ActionMarkRunning show ?thesis
      unfolding repaired_row by (auto simp: live_item)
  qed
qed

lemma handle_live:
  assumes q: "quiet (s, w)"
    and h: "handleAction S R (decideReconcileAction (row s i) (obs w i) now) (row s i) (obs w i) (s, w) = ((s', w'), res)"
    and act: "decideReconcileAction (row s i) (obs w i) now \<noteq> ActionNone"
  shows "res = None \<and> calm s' \<and> wcalm w'
    \<and> abs_of now (row s' i) (obs w' i) = repaired (abs_of now (row s i) (obs w i))"
proof -
  from q have b: "ok s" "calm s" "wok w" "wcalm w" by (auto simp: quiet_def)
  show ?thesis
  proof (cases "row s i")
    case None
    with act obtain x where x: "obs w i = Some x" by (auto simp: decideReconcileAction_def split: option.splits)
    from obs_usable [OF b(3) x] have u: "usable i" "i \<noteq> []" using usable_nonempty by auto
    from live_destroy [OF b(3,4) u(1)] obtain w1 where d: "ro_Destroy R w i = (w1, None)" by blast
    with h None x u obs_id [OF b(3) x] have "s' = s" "w' = w1" "res = None"
      by (auto simp: handleAction_def Let_def decideReconcileAction_def)
    with None x b(2) destroy_None [OF b(3) d] wcalm_destroy [OF b(4) d] show ?thesis
      by (simp add: abs_of_def repaired_def)
  next
    case (Some r)
    have "i \<noteq> []" using row_valid [OF b(1) Some] by simp
    from live_row [OF q Some this h [unfolded Some] act [unfolded Some]] Some show ?thesis by simp
  qed
qed

lemma local_quiet:
  assumes q: "quiet (s, w)" and l: "local_step i (s, w) (s', w')" and "calm s'" "wcalm w'"
  shows "quiet (s', w')"
proof -
  have "row s j \<noteq> None" if "row s' j = Some r" for j r
    using l that by (cases "j = i") (auto simp: local_step_def)
  with q l assms(3,4) show ?thesis unfolding quiet_def local_step_def by fastforce
qed

lemma run_items_live:
  assumes "quiet (s, w)" and "snapshot_of (s, w) its"
    and "run_items S R now its (s, w) = ((s', w'), acts)"
  shows "quiet (s', w') \<and> (\<forall>i. abs_of now (row s' i) (obs w' i) =
    (if i \<in> item_id ` set its then repaired (abs_of now (row s i) (obs w i)) else abs_of now (row s i) (obs w i)))"
  using assms
proof (induction its arbitrary: s w acts)
  case Nil
  then show ?case by simp
next
  case (Cons it its)
  let ?i = "item_id it" and ?a = "decideReconcileAction (desired it) (observed it) now"
  have at: "desired it = row s ?i" "observed it = obs w ?i" and notin: "?i \<notin> item_id ` set its"
    and rest: "snapshot_of (s, w) its"
    using Cons.prems(2) by (auto simp: snapshot_of_def)
  from Cons.prems(1) have b: "ok s" "wok w" by (auto simp: quiet_def)
  obtain s1 w1 where sw1: "(if ?a = ActionNone then (s, w) else fst (handleAction S R ?a (desired it) (observed it) (s, w))) = (s1, w1)"
    by (cases "if ?a = ActionNone then (s, w) else fst (handleAction S R ?a (desired it) (observed it) (s, w))")
  have loc: "local_step ?i (s, w) (s1, w1)"
    using handle_local [OF b at refl, of now] sw1 b
    by (cases "?a = ActionNone") (simp_all, simp add: local_step_def)
  have here: "quiet (s1, w1) \<and> abs_of now (row s1 ?i) (obs w1 ?i) = repaired (abs_of now (row s ?i) (obs w ?i))"
  proof (cases "?a = ActionNone")
    case True
    with sw1 Cons.prems(1) repaired_None [OF True [unfolded at]] show ?thesis by simp
  next
    case False
    then obtain res where h: "handleAction S R ?a (desired it) (observed it) (s, w) = ((s1, w1), res)"
      using sw1 by (cases "handleAction S R ?a (desired it) (observed it) (s, w)") auto
    from handle_live [OF Cons.prems(1) h [unfolded at] False [unfolded at]] local_quiet [OF Cons.prems(1) loc]
    show ?thesis by simp
  qed
  have f: "\<And>j. j \<noteq> ?i \<Longrightarrow> row s1 j = row s j \<and> obs w1 j = obs w j" using loc by (auto simp: local_step_def)
  have "snapshot_of (s1, w1) its"
    using rest f notin by (auto simp: snapshot_of_def) (metis imageI)+
  moreover obtain acts1 where "run_items S R now its (s1, w1) = ((s', w'), acts1)"
    using Cons.prems(3) sw1 by (auto simp: Let_def split: prod.splits if_splits)
  ultimately have IH: "quiet (s', w')" "\<And>i. abs_of now (row s' i) (obs w' i) =
    (if i \<in> item_id ` set its then repaired (abs_of now (row s1 i) (obs w1 i)) else abs_of now (row s1 i) (obs w1 i))"
    using Cons.IH here by blast+
  have "abs_of now (row s' i) (obs w' i) =
    (if i \<in> item_id ` set (it # its) then repaired (abs_of now (row s i) (obs w i)) else abs_of now (row s i) (obs w i))" for i
    using IH(2) [of i] here f [of i] notin by (cases "i = ?i") auto
  with IH(1) show ?case by blast
qed

lemma once_live:
  assumes q: "quiet (rec_store rc, rec_runtime rc)" and "\<not> mu rc" and p: "\<And>xs. mset (perm xs) = mset xs"
  shows "\<exists>rc' acts. ReconcileOnce S R perm now rc = (rc', Inr acts) \<and> \<not> mu rc'
    \<and> quiet (rec_store rc', rec_runtime rc')
    \<and> (\<forall>i. abs_of now (row (rec_store rc') i) (obs (rec_runtime rc') i)
         = repaired (abs_of now (row (rec_store rc) i) (obs (rec_runtime rc) i)))
    \<and> ((\<forall>i. abs_decide (abs_of now (row (rec_store rc) i) (obs (rec_runtime rc) i)) = ActionNone) \<longrightarrow> acts = [])"
proof -
  from q have b: "ok (rec_store rc)" "calm (rec_store rc)" "wok (rec_runtime rc)" "wcalm (rec_runtime rc)"
    by (auto simp: quiet_def)
  from live_list [OF b(1,2)] obtain s0 rs where g: "so_GetSandboxes S (rec_store rc) = (s0, Inr rs)" by blast
  from live_rlist [OF b(3,4)] obtain w0 xs where l: "ro_List R (rec_runtime rc) = (w0, Inr xs)" by blast
  obtain rc' acts where o: "ReconcileOnce S R perm now rc = (rc', Inr acts)"
    using g l assms(2)
    by (cases "run_items S R now (pairSnapshots perm rs xs) (s0, w0)")
      (auto simp: ReconcileOnce_def Let_def split: prod.splits)
  show ?thesis
  proof (rule once_cases [OF b(1,3) p o])
    fix s1 w1 its
    assume c: "ok s1" "wok w1" "row s1 = row (rec_store rc)" "obs w1 = obs (rec_runtime rc)"
      "snapshot_of (s1, w1) its" "set (map item_id its) = {i. row s1 i \<noteq> None \<or> obs w1 i \<noteq> None}"
      "run_items S R now its (s1, w1) = ((rec_store rc', rec_runtime rc'), acts)" "mu rc' = mu rc"
      "fst (so_GetSandboxes S (rec_store rc)) = s1" "fst (ro_List R (rec_runtime rc)) = w1"
    have q1: "quiet (s1, w1)"
      using q c calm_list [OF b(2) g] wcalm_list [OF b(4) l] g l by (auto simp: quiet_def)
    have none: "repaired (abs_of now (row s1 i) (obs w1 i)) = abs_of now (row s1 i) (obs w1 i)"
      if "i \<notin> item_id ` set its" for i
      using that c(6) by (auto simp: abs_of_def repaired_def)
    have fin: "quiet (rec_store rc', rec_runtime rc')"
      "\<forall>i. abs_of now (row (rec_store rc') i) (obs (rec_runtime rc') i)
         = repaired (abs_of now (row (rec_store rc) i) (obs (rec_runtime rc) i))"
      using run_items_live [OF q1 c(5,7)] none c(3,4) by (auto split: if_splits)
    have "acts = []" if "\<forall>i. abs_decide (abs_of now (row (rec_store rc) i) (obs (rec_runtime rc) i)) = ActionNone"
    proof -
      have "\<forall>it\<in>set its. decideReconcileAction (desired it) (observed it) now = ActionNone"
        using c(3-5) that by (auto simp: snapshot_of_def decide_abs)
      then have "filter (\<lambda>a. a \<noteq> ActionNone) (map (\<lambda>it. decideReconcileAction (desired it) (observed it) now) its) = []"
        by (simp add: filter_empty_conv)
      with run_items_actions [of S R now its "(s1, w1)"] c(7) show ?thesis by simp
    qed
    with o fin c(8) assms(2) show ?thesis by blast
  qed
qed

text \<open>Two passes at one time leave nothing to do: the third decides no action.\<close>

lemma converges:
  assumes q: "quiet (rec_store rc, rec_runtime rc)" and m: "\<not> mu rc" and p: "\<And>xs. mset (perm xs) = mset xs"
  shows "\<exists>rc1 a1 rc2 a2 rc3. ReconcileOnce S R perm now rc = (rc1, Inr a1)
    \<and> ReconcileOnce S R perm now rc1 = (rc2, Inr a2) \<and> ReconcileOnce S R perm now rc2 = (rc3, Inr [])"
proof -
  from once_live [OF q m p] obtain rc1 a1 where 1: "ReconcileOnce S R perm now rc = (rc1, Inr a1)" "\<not> mu rc1"
    "quiet (rec_store rc1, rec_runtime rc1)" "\<forall>i. abs_of now (row (rec_store rc1) i) (obs (rec_runtime rc1) i)
         = repaired (abs_of now (row (rec_store rc) i) (obs (rec_runtime rc) i))" by metis
  from once_live [OF 1(3,2) p] obtain rc2 a2 where 2: "ReconcileOnce S R perm now rc1 = (rc2, Inr a2)" "\<not> mu rc2"
    "quiet (rec_store rc2, rec_runtime rc2)" "\<forall>i. abs_of now (row (rec_store rc2) i) (obs (rec_runtime rc2) i)
         = repaired (abs_of now (row (rec_store rc1) i) (obs (rec_runtime rc1) i))" by metis
  from once_live [OF 2(3,2) p] obtain rc3 a3 where 3: "ReconcileOnce S R perm now rc2 = (rc3, Inr a3)"
    "(\<forall>i. abs_decide (abs_of now (row (rec_store rc2) i) (obs (rec_runtime rc2) i)) = ActionNone) \<longrightarrow> a3 = []"
    by metis
  have "a3 = []" using 3(2) 1(4) 2(4) by (simp add: repaired_twice)
  with 1 2 3 show ?thesis by blast
qed

end

end
