(* ===== verification/RefDaemon.thy ===== *)
theory RefDaemon
  imports DockerLaws ReconcilerLaws
begin

text \<open>
  File transfer through a documented daemon, and an executable daemon that keeps every law assumed
  of the Engine API. The laws are thus consistent, and the reconciler's contracts are discharged on
  the SQLite store and the Docker backend together.
\<close>

section \<open>Files through the daemon\<close>

text \<open>
  What the archive calls document: an archive put at the root makes the regular files it holds, and
  an archive of a regular file's path holds that file under its base name.
\<close>

locale docker_files = docker_daemon B containers dok
  for B :: "('u, 'd) docker" and containers :: "'d \<Rightarrow> Summary list" and dok :: "'d \<Rightarrow> bool" +
  fixes file_at :: "'d \<Rightarrow> string \<Rightarrow> string \<Rightarrow> string option"
  assumes begin_same: "dok d \<Longrightarrow> dok (dk_Begin (dr_client B) d t) \<and> containers (dk_Begin (dr_client B) d t) = containers d
        \<and> file_at (dk_Begin (dr_client B) d t) = file_at d"
    and list_files: "dok d \<Longrightarrow> dk_ContainerList (dr_client B) d fs = (d', res) \<Longrightarrow> file_at d' = file_at d"
    and copyto_same: "dok d \<Longrightarrow> dk_CopyTo (dr_client B) d cid dest ar = (d', ores) \<Longrightarrow> dok d' \<and> containers d' = containers d"
    and copyto_file: "dok d \<Longrightarrow> dk_CopyTo (dr_client B) d cid ''/'' (pre @ [(h, body)]) = (d', None)
        \<Longrightarrow> th_flag h = TypeReg \<Longrightarrow> file_at d' cid (slash # th_name h) = Some body"
    and copyfrom_file: "dok d \<Longrightarrow> file_at d cid p = Some body \<Longrightarrow> dk_CopyFrom (dr_client B) d cid p = (d', Inr (sz, st))
        \<Longrightarrow> \<exists>h. find (\<lambda>(h, b). th_flag h = TypeReg \<and> th_name h = Base p) (ts_entries st) = Some (h, body)
          \<and> th_size h = int (length body)"
begin

lemma get_files:
  assumes "dok d" and "getContainerBysandboxID B d i = (d', res)"
  shows "file_at d' = file_at d"
proof (cases "ValidateSandboxID (dr_uuid B) i")
  case None
  obtain d1 r where l: "dk_ContainerList (dr_client B) d (labelFilter (managedLabels i)) = (d1, r)"
    by (cases "dk_ContainerList (dr_client B) d (labelFilter (managedLabels i))")
  have "d' = d1" using assms(2) None l by (auto simp: getContainerBysandboxID_def Let_def split: sum.splits option.splits)
  with list_files [OF assms(1) l] show ?thesis by simp
qed (use assms(2) in \<open>auto simp: getContainerBysandboxID_def Let_def\<close>)

lemma begin_wok: "wok d \<Longrightarrow> wok (dk_Begin (dr_client B) d t)"
  using begin_same [of d t] by (simp add: wok_def)

lemma WriteFile_done:
  assumes w: "wok d" and wr: "docker_WriteFile B d i p content mode = (d', None)"
  obtains c where "wok d'" "c \<in> set (containers d')" "sid (dr_uuid B) c = Some i"
    "file_at d' (c_ID c) p = Some content" "ValidateRead p = None" "length content \<le> MaxFileSize"
proof -
  let ?d = "dk_Begin (dr_client B) d fileCopyTimeout"
  obtain d1 g where g: "getContainerBysandboxID B ?d i = (d1, g)" by (cases "getContainerBysandboxID B ?d i")
  from wr g obtain c ar where g': "g = Inr c" and a: "fileArchive p content mode = Inr ar"
    and t: "dk_CopyTo (dr_client B) d1 (c_ID c) ''/'' ar = (d', None)" and v: "ValidateWrite p content = None"
    by (auto simp: docker_WriteFile_def Let_def split: option.splits sum.splits prod.splits)
  note gf = get_frame [OF begin_wok [OF w] g]
  have d1: "dok d1" using gf by (simp add: wok_def)
  have vr: "ValidateRead p = None" "length content \<le> MaxFileSize" using v by (auto simp: ValidateWrite_def split: option.splits if_splits)
  from vr(1) obtain es where "p = slash # Join [slash] es" by (auto simp: ValidateRead_None)
  then have p: "p = slash # tl p" by simp
  obtain pre h where "ar = pre @ [(h, content)]" "th_name h = tl p" "th_flag h = TypeReg"
    using write_headers_Inr a by (fastforce simp: fileArchive_def Let_def)
  with copyto_file [OF d1, of "c_ID c" pre h content d'] t have "file_at d' (c_ID c) p = Some content" using p by simp
  moreover from copyto_same [OF d1 t] gf have "wok d'" "containers d' = containers d1" by (auto simp: wok_def)
  ultimately show thesis using that vr gf g' by auto
qed

lemma write_read:
  assumes w: "wok d" and wr: "docker_WriteFile B d i p content mode = (d1, None)"
    and rd: "docker_ReadFile B d1 i p = (d2, Inr x)"
  shows "x = content"
proof -
  obtain c where c: "wok d1" "c \<in> set (containers d1)" "sid (dr_uuid B) c = Some i"
    "file_at d1 (c_ID c) p = Some content" "ValidateRead p = None" "length content \<le> MaxFileSize"
    by (rule WriteFile_done [OF w wr])
  let ?d = "dk_Begin (dr_client B) d1 fileCopyTimeout"
  obtain d3 g where g: "getContainerBysandboxID B ?d i = (d3, g)" by (cases "getContainerBysandboxID B ?d i")
  from rd g c(5) obtain c' sz st where g': "g = Inr c'"
    and f: "dk_CopyFrom (dr_client B) d3 (c_ID c') p = (d2, Inr (sz, st))" and u: "fileUnarchive p st = Inr x"
    by (auto simp: docker_ReadFile_def Let_def split: sum.splits prod.splits if_splits)
  note gf = get_frame [OF begin_wok [OF c(1)] g]
  have ok1: "dok d1" "dok ?d" "dok d3" using c(1) begin_same [of d1] gf by (auto simp: wok_def)
  have "c' \<in> set (containers d1)" "sid (dr_uuid B) c' = Some i" using gf g' begin_same [OF ok1(1)] by auto
  with c have "c' = c" using one_each_same [of "dr_uuid B" "containers d1" c' c i] by (simp add: wok_def)
  moreover have "file_at d3 = file_at d1" using get_files [OF ok1(2) g] begin_same [OF ok1(1)] by simp
  ultimately have "file_at d3 (c_ID c') p = Some content" using c(4) by simp
  from copyfrom_file [OF ok1(3) this f] u c(6) show ?thesis
    by (auto simp: fileUnarchive_def unarchive_find split: if_splits)
qed

end

section \<open>The executable daemon\<close>

text \<open>
  Its state holds the containers, the files of each, the names of the calls that fail, what the next
  exec does, and the clock. The id of a container is as long as the number of containers made before.
\<close>

record refd =
  rd_cs :: "Summary list"
  rd_next :: nat
  rd_files :: "((string \<times> string) \<times> int \<times> string) list"
  rd_fails :: "string list"
  rd_frames :: "(bool \<times> string) list"
  rd_stream_end :: stream_end
  rd_exit :: int
  rd_kills :: "string list list"
  rd_now :: gotime

definition ref_down :: goerr where "ref_down = Foreign ''daemon unreachable''"
definition ref_missing :: goerr where "ref_missing = Foreign ''no such object''"

definition ref_list :: "refd \<Rightarrow> string list \<Rightarrow> refd \<times> (goerr + Summary list)" where
  "ref_list d fs =
     (if ''list'' \<in> set (rd_fails d) then (d, Inl ref_down)
      else (d, Inr (filter (\<lambda>c. \<forall>f\<in>set fs. filter_matches (c_Labels c) f) (rd_cs d))))"

definition ref_create :: "refd \<Rightarrow> Config \<Rightarrow> HostConfig \<Rightarrow> refd \<times> (goerr + string)" where
  "ref_create d cfg hc =
     (if ''create'' \<in> set (rd_fails d) then (d, Inl ref_down)
      else let cid = replicate (rd_next d) CHR ''c'' in
        (d\<lparr>rd_next := Suc (rd_next d),
           rd_cs := \<lparr>c_ID = cid, c_Labels = cfg_Labels cfg, c_State = ''created'', c_Created = 1\<rparr> # rd_cs d\<rparr>,
         Inr cid))"

definition ref_start :: "refd \<Rightarrow> string \<Rightarrow> refd \<times> goerr option" where
  "ref_start d cid =
     (if ''start'' \<in> set (rd_fails d) then (d\<lparr>rd_cs := map (set_state cid ''exited'') (rd_cs d)\<rparr>, Some ref_down)
      else (d\<lparr>rd_cs := map (set_state cid ''running'') (rd_cs d)\<rparr>, None))"

definition ref_remove :: "refd \<Rightarrow> string \<Rightarrow> refd \<times> goerr option" where
  "ref_remove d cid =
     (if ''remove'' \<in> set (rd_fails d) then (d, Some ref_down)
      else (d\<lparr>rd_cs := filter (\<lambda>c. c_ID c \<noteq> cid) (rd_cs d)\<rparr>, None))"

definition ref_copyto :: "refd \<Rightarrow> string \<Rightarrow> string \<Rightarrow> tar_entry list \<Rightarrow> refd \<times> goerr option" where
  "ref_copyto d cid dest ar =
     (if ''copyto'' \<in> set (rd_fails d) then (d, Some ref_down)
      else (d\<lparr>rd_files := map (\<lambda>(h, b). ((cid, dest @ th_name h), th_mode h, b))
                (rev (filter (\<lambda>(h, b). th_flag h = TypeReg) ar)) @ rd_files d\<rparr>, None))"

definition ref_copyfrom :: "refd \<Rightarrow> string \<Rightarrow> string \<Rightarrow> refd \<times> (goerr + int \<times> tar_stream)" where
  "ref_copyfrom d cid p =
     (case map_of (rd_files d) (cid, p) of
        None \<Rightarrow> (d, Inl ref_missing)
      | Some (mode, body) \<Rightarrow>
          (d, Inr (int (length body), \<lparr>ts_entries = [(\<lparr>th_name = Base p, th_mode = mode,
             th_size = int (length body), th_flag = TypeReg\<rparr>, body)], ts_clean = True\<rparr>)))"

definition ref_exec_create :: "refd \<Rightarrow> string \<Rightarrow> ExecCreateOptions \<Rightarrow> refd \<times> (goerr + string)" where
  "ref_exec_create d cid opts =
     (if eo_attach opts then (d, Inr ''exec'') else (d\<lparr>rd_kills := eo_Cmd opts # rd_kills d\<rparr>, Inr ''kill''))"

definition ref_client :: "refd daemon" where
  "ref_client =
     \<lparr>dk_Info = (\<lambda>d. (d, Inr [''runsc'', ''runc''])), dk_ContainerList = ref_list, dk_ContainerCreate = ref_create,
      dk_ContainerStart = ref_start, dk_ContainerRemove = ref_remove,
      dk_ImagePull = (\<lambda>d i. if ''pull'' \<in> set (rd_fails d) then (d, Some ref_missing) else (d, None)),
      dk_PullWait = (\<lambda>d. (d, None)), dk_ExecCreate = ref_exec_create, dk_ExecAttach = (\<lambda>d e. (d, None)),
      dk_ExecStart = (\<lambda>d e. (d, None)), dk_Stream = (\<lambda>d e. (d, rd_frames d, rd_stream_end d)),
      dk_ExecInspect = (\<lambda>d e. (d, Inr (False, if e = ''kill'' then 0 else rd_exit d))),
      dk_CopyTo = ref_copyto, dk_CopyFrom = ref_copyfrom, dk_IsNotFound = (\<lambda>e. e = ref_missing),
      dk_Begin = (\<lambda>d t. d), dk_Detach = (\<lambda>d t. d), dk_ParentErr = (\<lambda>d. None),
      dk_FinalErr = (\<lambda>d. if rd_stream_end d = CopyInterrupted then Some (Sentinel ContextDeadlineExceeded) else None),
      dk_Polls = (\<lambda>d. 3), dk_Now = rd_now\<rparr>"

definition ref_uuid :: "string uuid_pkg" where
  "ref_uuid = \<lparr>uuid_Parse = (\<lambda>s. if s = [] then None else Some s), uuid_String = (\<lambda>s. s), uuid_Nil = ''0''\<rparr>"

definition ref_docker :: "(string, refd) docker" where
  "ref_docker = \<lparr>dr_uuid = ref_uuid, dr_client = ref_client, dr_containerRuntime = ''runsc''\<rparr>"

definition ref_state :: "string list \<Rightarrow> refd" where
  "ref_state fails =
     \<lparr>rd_cs = [], rd_next = 0, rd_files = [], rd_fails = fails, rd_frames = [], rd_stream_end = CopyDone None,
      rd_exit = 0, rd_kills = [], rd_now = 0\<rparr>"

definition ref_ok :: "refd \<Rightarrow> bool" where
  "ref_ok d \<longleftrightarrow> distinct (map c_ID (rd_cs d)) \<and> (\<forall>c\<in>set (rd_cs d). length (c_ID c) < rd_next d)"

definition ref_calm :: "refd \<Rightarrow> bool" where
  "ref_calm d \<longleftrightarrow> rd_fails d = []"

definition ref_file :: "refd \<Rightarrow> string \<Rightarrow> string \<Rightarrow> string option" where
  "ref_file d cid p = map_option snd (map_of (rd_files d) (cid, p))"

lemmas ref_defs = ref_docker_def ref_client_def ref_list_def ref_create_def ref_start_def ref_remove_def
  ref_copyto_def ref_copyfrom_def ref_exec_create_def

interpretation ref: docker_daemon ref_docker rd_cs ref_ok
proof (unfold_locales, goal_cases)
  case (5 d cfg hc d' cres)
  then have "replicate (rd_next d) CHR ''c'' \<notin> c_ID ` set (rd_cs d)"
    unfolding ref_ok_def by (metis image_iff length_replicate less_irrefl)
  with 5 show ?case by (auto simp: ref_defs ref_ok_def Let_def less_Suc_eq split: if_splits)
next
  case (6 d cid d' sres)
  then have "map c_ID (map (set_state cid st) (rd_cs d)) = map c_ID (rd_cs d)" for st by simp
  with 6 show ?case by (auto simp: ref_defs ref_ok_def comp_def split: if_splits)
next
  case (7 d cid d' rres)
  then show ?case by (auto simp: ref_defs ref_ok_def distinct_map_filter split: if_splits)
qed (auto simp: ref_defs ref_ok_def ref_down_def ref_missing_def split: if_splits)

interpretation ref: calm_daemon ref_docker rd_cs ref_ok ref_calm
  by unfold_locales (auto simp: ref_defs ref_calm_def Let_def split: if_splits)

interpretation ref_files: docker_files ref_docker rd_cs ref_ok ref_file
proof (unfold_locales, goal_cases)
  case (4 d cid pre h body d')
  then show ?case by (auto simp: ref_defs ref_file_def slash_def split: if_splits)
next
  case (5 d cid p body d' sz st)
  then show ?case by (auto simp: ref_defs ref_file_def split: option.splits)
qed (auto simp: ref_defs ref_ok_def ref_file_def split: if_splits)

section \<open>The reconciler on the store and the backend\<close>

lemma guarded_docker:
  "docker_daemon B containers dok \<Longrightarrow>
     guarded sqlite_ops sq_ok sq_row (docker_ops B) (docker_wok B containers dok) (docker_obs B containers)"
  by (intro guarded.intro sql.store_contract_axioms docker_daemon.as_runtime)

lemma converging_docker:
  "calm_daemon B containers dok dcalm \<Longrightarrow>
     converging sqlite_ops sq_ok sq_row sq_calm (docker_ops B) (docker_wok B containers dok)
       (docker_obs B containers) dcalm (docker_usable B)"
  by (intro converging.intro sql_live.live_store_axioms calm_daemon.as_live)

interpretation sys: guarded sqlite_ops sq_ok sq_row "docker_ops ref_docker" "docker_wok ref_docker rd_cs ref_ok"
    "docker_obs ref_docker rd_cs"
  by (rule guarded_docker) (rule ref.docker_daemon_axioms)

interpretation sys: converging sqlite_ops sq_ok sq_row sq_calm "docker_ops ref_docker"
    "docker_wok ref_docker rd_cs ref_ok" "docker_obs ref_docker rd_cs" ref_calm "docker_usable ref_docker"
  by (rule converging_docker) (rule ref.calm_daemon_axioms)

end
