(* ===== verification/Js.thy ===== *)
theory Js
  imports Prelude
begin

text \<open>
  The part of JavaScript and of React's elements that the documentation site under docs/src uses.

  A string is a list of UTF-16 code units (\<open>jstr\<close>; \<open>js\<close> spells one in ASCII). A value is what
  an expression of the source evaluates to. An object keeps its entries in the order they were
  added and an assignment to an existing key leaves its place. A function value is the name of
  the code it runs with the values it closes over: what it does when it is called is a definition
  of the theory that models that code. A React element has a type (a string for a host element, a
  function for a component), a key and props; rendering it is React's business, so a component is
  the function from its props to the element tree it returns.

  The numbers of the site are integers. Packages that are not in the repository (clsx,
  tailwind-merge, class-variance-authority, @base-ui/react, recharts, ...) are one parameter
  \<open>K\<close>, from the name of a function and its arguments to its result.
\<close>

section \<open>Values\<close>

type_synonym jstr = "nat list"

definition js :: "string \<Rightarrow> jstr" where
  "js s = map of_char s"

lemma js_eq [simp]: "js a = js b \<longleftrightarrow> a = b"
  by (auto simp: js_def inj_map_eq_map inj_on_def)

lemma js_Nil [simp]: "js s = [] \<longleftrightarrow> s = []" and js_Nil' [simp]: "[] = js s \<longleftrightarrow> s = []"
  by (auto simp: js_def)

datatype val =
    VUndef | VNull | VBool bool | VNum int | VStr jstr
  | VArr "val list"
  | VObj "(jstr \<times> val) list"
  | VFun string "val list"
  | VEl val val "(jstr \<times> val) list"

type_synonym props = "(jstr \<times> val) list"
type_synonym lib = "string \<Rightarrow> val list \<Rightarrow> val"

abbreviation lit :: "string \<Rightarrow> val" where
  "lit s \<equiv> VStr (js s)"

section \<open>Objects\<close>

fun get :: "jstr \<Rightarrow> props \<Rightarrow> val" where
  "get k [] = VUndef"
| "get k ((k', v) # ps) = (if k = k' then v else get k ps)"

fun put :: "jstr \<Rightarrow> val \<Rightarrow> props \<Rightarrow> props" where
  "put k v [] = [(k, v)]"
| "put k v ((k', v') # ps) = (if k = k' then (k, v) # ps else (k', v') # put k v ps)"

definition keys :: "props \<Rightarrow> jstr list" where
  "keys ps = map fst ps"

definition omit :: "jstr list \<Rightarrow> props \<Rightarrow> props" where
  "omit ks ps = filter (\<lambda>(k, v). k \<notin> set ks) ps"

definition attr :: "string \<Rightarrow> props \<Rightarrow> val" where
  "attr n ps = get (js n) ps"

definition rest :: "string list \<Rightarrow> props \<Rightarrow> val" where
  "rest ns ps = VObj (omit (map js ns) ps)"

text \<open>The entries of an object that a spread copies: an array's are its indices, and undefined,
  null, booleans and numbers have none.\<close>

fun entries :: "val \<Rightarrow> props" where
  "entries (VObj ps) = ps"
| "entries _ = []"

definition spread :: "props \<Rightarrow> props \<Rightarrow> props" where
  "spread q ps = fold (\<lambda>(k, v). put k v) q ps"

datatype field = At string val | Dyn jstr val | Sp val

fun add_field :: "field \<Rightarrow> props \<Rightarrow> props" where
  "add_field (At n v) ps = put (js n) v ps"
| "add_field (Dyn k v) ps = put k v ps"
| "add_field (Sp v) ps = spread (entries v) ps"

definition obj :: "field list \<Rightarrow> val" where
  "obj fs = VObj (fold add_field fs [])"

text \<open>JSX: the attributes in their order, then the children, which are one value or an array.\<close>

fun kids :: "val list \<Rightarrow> props \<Rightarrow> props" where
  "kids [] ps = ps"
| "kids [x] ps = put (js ''children'') x ps"
| "kids xs ps = put (js ''children'') (VArr xs) ps"

definition elk :: "val \<Rightarrow> val \<Rightarrow> field list \<Rightarrow> val list \<Rightarrow> val" where
  "elk t k fs xs = VEl t k (kids xs (fold add_field fs []))"

abbreviation el :: "val \<Rightarrow> field list \<Rightarrow> val list \<Rightarrow> val" where
  "el t fs xs \<equiv> elk t VUndef fs xs"

abbreviation tag :: "string \<Rightarrow> val" where "tag s \<equiv> lit s"
abbreviation comp :: "string \<Rightarrow> val" where "comp s \<equiv> VFun s []"

section \<open>Operators\<close>

fun truthy :: "val \<Rightarrow> bool" where
  "truthy VUndef = False"
| "truthy VNull = False"
| "truthy (VBool b) = b"
| "truthy (VNum n) = (n \<noteq> 0)"
| "truthy (VStr s) = (s \<noteq> [])"
| "truthy _ = True"

definition nullish :: "val \<Rightarrow> bool" where
  "nullish v \<longleftrightarrow> v = VUndef \<or> v = VNull"

definition jand :: "val \<Rightarrow> val \<Rightarrow> val" where "jand a b = (if truthy a then b else a)"
definition jor :: "val \<Rightarrow> val \<Rightarrow> val" where "jor a b = (if truthy a then a else b)"
definition jcoal :: "val \<Rightarrow> val \<Rightarrow> val" where "jcoal a b = (if nullish a then b else a)"
definition dflt :: "val \<Rightarrow> val \<Rightarrow> val" where "dflt d v = (if v = VUndef then d else v)"

fun typeof :: "val \<Rightarrow> string" where
  "typeof VUndef = ''undefined''"
| "typeof VNull = ''object''"
| "typeof (VBool _) = ''boolean''"
| "typeof (VNum _) = ''number''"
| "typeof (VStr _) = ''string''"
| "typeof (VFun _ _) = ''function''"
| "typeof _ = ''object''"

text \<open>Decimal digits of a natural number, as \<open>Number.prototype.toString\<close> prints an integer.\<close>

fun digits :: "nat \<Rightarrow> jstr" where
  "digits n = (if n < 10 then [48 + n] else digits (n div 10) @ [48 + n mod 10])"

declare digits.simps [simp del]

definition num_str :: "int \<Rightarrow> jstr" where
  "num_str n = (if n < 0 then 45 # digits (nat (- n)) else digits (nat n))"

fun to_str :: "lib \<Rightarrow> val \<Rightarrow> jstr" where
  "to_str K VUndef = js ''undefined''"
| "to_str K VNull = js ''null''"
| "to_str K (VBool b) = (if b then js ''true'' else js ''false'')"
| "to_str K (VNum n) = num_str n"
| "to_str K (VStr s) = s"
| "to_str K v = (case K ''String'' [v] of VStr s \<Rightarrow> s | _ \<Rightarrow> [])"

definition tpl :: "lib \<Rightarrow> val list \<Rightarrow> val" where
  "tpl K vs = VStr (concat (map (to_str K) vs))"

text \<open>Reading a field. The source's types keep undefined and null out of the receivers that are
  not guarded by an optional chain, which is the same read with undefined as its answer.\<close>

fun fld :: "jstr \<Rightarrow> val \<Rightarrow> val" where
  "fld k (VObj ps) = get k ps"
| "fld k (VArr xs) = (if k = js ''length'' then VNum (int (length xs)) else VUndef)"
| "fld k (VStr s) = (if k = js ''length'' then VNum (int (length s)) else VUndef)"
| "fld k (VEl t ky ps) = (if k = js ''props'' then VObj ps else if k = js ''type'' then t
     else if k = js ''key'' then ky else VUndef)"
| "fld k _ = VUndef"

fun has_key :: "jstr \<Rightarrow> val \<Rightarrow> bool" where
  "has_key k (VObj ps) = (k \<in> set (keys ps))"
| "has_key k (VEl _ _ _) = (k = js ''props'' \<or> k = js ''type'' \<or> k = js ''key'')"
| "has_key k _ = False"

abbreviation dot :: "val \<Rightarrow> string \<Rightarrow> val" where
  "dot v n \<equiv> fld (js n) v"

fun str_of :: "val \<Rightarrow> jstr" where
  "str_of (VStr s) = s"
| "str_of _ = []"

fun items :: "val \<Rightarrow> val list" where
  "items (VArr xs) = xs"
| "items _ = []"

fun item :: "val \<Rightarrow> val \<Rightarrow> val" where
  "item (VArr xs) (VNum i) = (if 0 \<le> i \<and> i < int (length xs) then xs ! nat i else VUndef)"
| "item v (VStr k) = fld k v"
| "item v _ = VUndef"

definition is_array :: "val \<Rightarrow> bool" where
  "is_array v = (case v of VArr _ \<Rightarrow> True | _ \<Rightarrow> False)"

definition is_element :: "val \<Rightarrow> bool" where
  "is_element v = (case v of VEl _ _ _ \<Rightarrow> True | _ \<Rightarrow> False)"

definition indexed :: "'a list \<Rightarrow> ('a \<times> val) list" where
  "indexed xs = zip xs (map (\<lambda>i. VNum (int i)) [0..<length xs])"

definition jmap :: "(val \<Rightarrow> val \<Rightarrow> val) \<Rightarrow> val \<Rightarrow> val" where
  "jmap f v = VArr (map (\<lambda>(x, i). f x i) (indexed (items v)))"

definition jfilter :: "(val \<Rightarrow> bool) \<Rightarrow> val \<Rightarrow> val" where
  "jfilter f v = VArr (filter f (items v))"

fun jless :: "val \<Rightarrow> val \<Rightarrow> bool" where
  "jless (VNum a) (VNum b) = (a < b)"
| "jless _ _ = False"

text \<open>Sum and difference, which the source takes of numbers only.\<close>

fun jplus :: "val \<Rightarrow> val \<Rightarrow> val" where
  "jplus (VNum a) (VNum b) = VNum (a + b)"
| "jplus _ _ = VUndef"

fun jminus :: "val \<Rightarrow> val \<Rightarrow> val" where
  "jminus (VNum a) (VNum b) = VNum (a - b)"
| "jminus _ _ = VUndef"

definition jfind :: "(val \<Rightarrow> bool) \<Rightarrow> val \<Rightarrow> val" where
  "jfind f v = (case List.find f (items v) of Some x \<Rightarrow> x | None \<Rightarrow> VUndef)"

definition jfindIndex :: "(val \<Rightarrow> bool) \<Rightarrow> val \<Rightarrow> val" where
  "jfindIndex f v = (if list_ex f (items v)
     then VNum (int (length (takeWhile (\<lambda>x. \<not> f x) (items v)))) else VNum (- 1))"

text \<open>\<open>s?.startsWith(p)\<close>.\<close>

definition jstarts :: "val \<Rightarrow> string \<Rightarrow> val" where
  "jstarts v p = (case v of VStr s \<Rightarrow> VBool (take (length p) s = js p) | _ \<Rightarrow> VUndef)"

text \<open>\<open>Array.from({ length: n }, (_, i) => f i)\<close>.\<close>

fun jtimes :: "val \<Rightarrow> (val \<Rightarrow> val) \<Rightarrow> val" where
  "jtimes (VNum n) f = VArr (map (\<lambda>i. f (VNum (int i))) [0..<nat n])"
| "jtimes _ f = VArr []"

text \<open>\<open>Object.entries\<close>.\<close>

definition jentries :: "val \<Rightarrow> val" where
  "jentries v = VArr (map (\<lambda>(k, x). VArr [VStr k, x]) (entries v))"

definition join :: "jstr \<Rightarrow> jstr list \<Rightarrow> jstr" where
  "join sep xs = (case xs of [] \<Rightarrow> [] | x # ys \<Rightarrow> x @ concat (map (\<lambda>y. sep @ y) ys))"

text \<open>\<open>Array.prototype.join\<close> prints undefined and null as nothing.\<close>

definition array_join :: "lib \<Rightarrow> jstr \<Rightarrow> val \<Rightarrow> val" where
  "array_join K sep v = VStr (join sep (map (\<lambda>x. if nullish x then [] else to_str K x) (items v)))"

section \<open>lib/utils.ts and class-variance-authority\<close>

definition cn :: "lib \<Rightarrow> val list \<Rightarrow> val" where
  "cn K xs = K ''twMerge'' [K ''clsx'' [VArr xs]]"

definition cva :: "lib \<Rightarrow> val list \<Rightarrow> val \<Rightarrow> val" where
  "cva K base_config ps = K ''cva'' (base_config @ [ps])"

section \<open>Laws\<close>

lemma get_put [simp]: "get k (put k' v ps) = (if k = k' then v else get k ps)"
  by (induction ps) auto

lemma keys_Nil [simp]: "keys [] = []"
  and keys_Cons [simp]: "keys (e # ps) = fst e # keys ps"
  by (simp_all add: keys_def)

lemma keys_put [simp]: "set (keys (put k v ps)) = insert k (set (keys ps))"
  by (induction k v ps rule: put.induct) (auto split: if_splits)

lemma distinct_put: "distinct (keys ps) \<Longrightarrow> distinct (keys (put k v ps))"
  by (induction k v ps rule: put.induct) auto

lemma get_outside: "k \<notin> set (keys ps) \<Longrightarrow> get k ps = VUndef"
  by (induction ps) (auto simp: keys_def)

lemma get_spread_other: "k \<notin> set (keys q) \<Longrightarrow> get k (spread q ps) = get k ps"
  by (induction q arbitrary: ps) (auto simp: spread_def)

lemma get_spread_same:
  "distinct (keys q) \<Longrightarrow> k \<in> set (keys q) \<Longrightarrow> get k (spread q ps) = get k q"
proof (induction q arbitrary: ps)
  case (Cons e q)
  obtain k' v where e: "e = (k', v)" by force
  show ?case
  proof (cases "k = k'")
    case True
    then have "k \<notin> set (keys q)" using Cons.prems by (auto simp: e)
    then show ?thesis
      using get_spread_other [of k q "put k' v ps"] True by (simp add: e spread_def)
  next
    case False
    then show ?thesis
      using Cons.IH [of "put k' v ps"] Cons.prems by (auto simp: e spread_def)
  qed
qed simp

lemma get_spread:
  "distinct (keys q) \<Longrightarrow> get k (spread q ps) = (if k \<in> set (keys q) then get k q else get k ps)"
  by (simp add: get_spread_same get_spread_other)

lemma keys_omit: "set (keys (omit ks ps)) = set (keys ps) - set ks"
  by (auto simp: keys_def omit_def)

lemma distinct_omit: "distinct (keys ps) \<Longrightarrow> distinct (keys (omit ks ps))"
  by (induction ps) (auto simp: keys_def omit_def)

lemma get_omit [simp]: "get k (omit ks ps) = (if k \<in> set ks then VUndef else get k ps)"
  by (induction ps) (auto simp: omit_def split: if_splits)

lemma get_kids [simp]: "k \<noteq> js ''children'' \<Longrightarrow> get k (kids xs ps) = get k ps"
  by (cases "(xs, ps)" rule: kids.cases) auto

lemma fld_obj [simp]: "fld k (obj fs) = get k (fold add_field fs [])"
  by (simp add: obj_def)

lemma digits_nonempty [simp]: "digits n \<noteq> []"
  by (subst digits.simps) simp

lemma digits_range: "c \<in> set (digits n) \<Longrightarrow> 48 \<le> c \<and> c \<le> 57"
proof (induction n rule: digits.induct)
  case (1 n)
  then show ?case by (cases "n < 10") (auto simp: digits.simps [of n])
qed

lemma length_items_jmap [simp]: "length (items (jmap f v)) = length (items v)"
  by (simp add: jmap_def indexed_def)

end
