(* ===== verification/Ui.thy ===== *)
theory Ui
  imports Js
begin

text \<open>
  The contract of the component kit under docs/src/components/ui: a component that is a thin layer
  over one element passes the caller's attributes on to that element, names the element by its
  \<open>data-slot\<close> unless the caller does, and gives the caller's classes to the merge that decides
  which utility class wins, after its own.

  \<open>nodes\<close> lists the elements of a rendered tree, those in the attributes of others included.
\<close>

lemma size_entry: "e \<in> set ps \<Longrightarrow> size (snd e) < Suc (size_list (size_prod (\<lambda>x. 0) size) ps)"
  by (induction ps) (auto simp: size_prod_def split: prod.splits)

lemma size_item: "x \<in> set xs \<Longrightarrow> size x < Suc (size_list size xs)"
  by (induction xs) auto

function nodes :: "val \<Rightarrow> val list" where
  "nodes (VEl t k ps) = VEl t k ps # concat (map (\<lambda>e. nodes (snd e)) ps)"
| "nodes (VArr xs) = concat (map nodes xs)"
| "nodes (VObj ps) = concat (map (\<lambda>e. nodes (snd e)) ps)"
| "nodes VUndef = []" | "nodes VNull = []" | "nodes (VBool b) = []" | "nodes (VNum n) = []"
| "nodes (VStr s) = []" | "nodes (VFun f xs) = []"
  by pat_completeness auto

termination
proof (relation "measure size")
  fix t k :: val and ps :: props and e assume "e \<in> set ps"
  then show "(snd e, VEl t k ps) \<in> measure size"
    using size_entry [of e ps] by simp
next
  fix ps :: props and e assume "e \<in> set ps"
  then show "(snd e, VObj ps) \<in> measure size"
    using size_entry [of e ps] by simp
next
  fix xs :: "val list" and x assume "x \<in> set xs"
  then show "(x, VArr xs) \<in> measure size"
    using size_item [of x xs] by simp
qed simp

section \<open>The contract\<close>

text \<open>The class attribute \<open>v\<close> hands \<open>c\<close> to the merge: last, or as the \<open>className\<close> of the variant.\<close>

definition carries :: "lib \<Rightarrow> val \<Rightarrow> val \<Rightarrow> bool" where
  "carries K c v \<longleftrightarrow> (\<exists>xs. v = cn K (xs @ [c])) \<or>
     (\<exists>b q. v = cn K [cva K b q] \<and> dot q ''className'' = c)"

text \<open>A row of the kit: the slot (empty when there is none), the properties the component reads,
  whether it merges the caller's classes at this element, and the component.\<close>

type_synonym kit_row = "string \<times> string list \<times> bool \<times> (props \<Rightarrow> val)"

definition passes_on :: "lib \<Rightarrow> string \<Rightarrow> string list \<Rightarrow> bool \<Rightarrow> props \<Rightarrow> props \<Rightarrow> bool" where
  "passes_on K slot ns m p ps \<longleftrightarrow>
     (\<forall>k \<in> set (keys p). k \<notin> js ` set ns \<and> k \<noteq> js ''children'' \<longrightarrow> get k ps = get k p) \<and>
     (slot \<noteq> [] \<and> js ''data-slot'' \<notin> set (keys p) \<longrightarrow> get (js ''data-slot'') ps = lit slot) \<and>
     (m \<longrightarrow> carries K (attr ''className'' p) (get (js ''className'') ps))"

definition reaches :: "lib \<Rightarrow> string \<Rightarrow> string list \<Rightarrow> bool \<Rightarrow> props \<Rightarrow> val \<Rightarrow> bool" where
  "reaches K slot ns m p v \<longleftrightarrow>
     (\<exists>t ky ps. VEl t ky ps \<in> set (nodes v) \<and> passes_on K slot ns m p ps)"

definition kit_ok :: "lib \<Rightarrow> kit_row \<Rightarrow> bool" where
  "kit_ok K = (\<lambda>(slot, ns, m, C).
     \<forall>p. distinct (keys p) \<longrightarrow> reaches K slot ns m p (C p))"

named_theorems kit_rows \<open>the rows of the kit that meet the contract\<close>

section \<open>How a component is shown to meet it\<close>

lemma kit_okI:
  "(\<And>p. distinct (keys p) \<Longrightarrow> reaches K slot ns m p (C p)) \<Longrightarrow> kit_ok K (slot, ns, m, C)"
  by (simp add: kit_ok_def)

lemma carries_cn [simp]: "xs \<noteq> [] \<Longrightarrow> last xs = c \<Longrightarrow> carries K c (cn K xs)"
  unfolding carries_def by (metis append_butlast_last_id)

lemma carries_cva [simp]: "dot q ''className'' = c \<Longrightarrow> carries K c (cn K [cva K b q])"
  unfolding carries_def by blast

lemma get_fields_Sp:
  assumes "distinct (keys p)"
  shows "get k (fold add_field (fs @ [Sp (rest ns p)]) []) =
    (if k \<in> set (keys p) \<and> k \<notin> js ` set ns then get k p else get k (fold add_field fs []))"
  using assms by (simp add: rest_def get_spread distinct_omit keys_omit)

text \<open>The element whose last attribute is the spread of what the component did not read.\<close>

definition spreads :: "lib \<Rightarrow> string \<Rightarrow> string list \<Rightarrow> bool \<Rightarrow> props \<Rightarrow> field list \<Rightarrow> bool" where
  "spreads K slot ns m p fs \<longleftrightarrow> fs \<noteq> [] \<and> last fs = Sp (rest ns p) \<and>
     (slot \<noteq> [] \<longrightarrow> ''data-slot'' \<notin> set ns \<and>
        get (js ''data-slot'') (fold add_field (butlast fs) []) = lit slot) \<and>
     (m \<longrightarrow> ''className'' \<in> set ns \<and>
        carries K (attr ''className'' p) (get (js ''className'') (fold add_field (butlast fs) [])))"

lemma reaches_here:
  assumes "distinct (keys p)" and sp: "spreads K slot ns m p fs"
  shows "reaches K slot ns m p (elk t ky fs xs)"
proof -
  have fs: "fs = butlast fs @ [Sp (rest ns p)]"
    using sp unfolding spreads_def by (metis append_butlast_last_id)
  have get: "get k (fold add_field fs []) = (if k \<in> set (keys p) \<and> k \<notin> js ` set ns then get k p
      else get k (fold add_field (butlast fs) []))" for k
    using get_fields_Sp [OF assms(1), of k "butlast fs" ns] fs by simp
  have "passes_on K slot ns m p (kids xs (fold add_field fs []))"
    using sp by (auto simp: passes_on_def spreads_def get)
  then show ?thesis by (auto simp: reaches_def elk_def)
qed

lemma reaches_entry:
  assumes "(k, v) \<in> set ps" and "reaches K slot ns m p v"
  shows "reaches K slot ns m p (VEl t ky ps)"
proof -
  obtain t' k' q where n: "VEl t' k' q \<in> set (nodes v)" "passes_on K slot ns m p q"
    using assms(2) by (auto simp: reaches_def)
  have "VEl t' k' q \<in> set (nodes (VEl t ky ps))" using assms(1) n(1) by force
  then show ?thesis using n(2) unfolding reaches_def by blast
qed

lemma reaches_arr:
  assumes "x \<in> set xs" and "reaches K slot ns m p x"
  shows "reaches K slot ns m p (VArr xs)"
  using assms unfolding reaches_def by auto

lemma put_entry: "(k, v) \<in> set (put k v ps)"
  by (induction k v ps rule: put.induct) auto

lemma kids_entry:
  "x \<in> set xs \<Longrightarrow> \<exists>v. (js ''children'', v) \<in> set (kids xs q) \<and> (v = x \<or> v = VArr xs)"
  by (cases "(xs, q)" rule: kids.cases) (auto intro: put_entry)

lemma reaches_below:
  assumes "list_ex (reaches K slot ns m p) xs"
  shows "reaches K slot ns m p (elk t ky fs xs)"
proof -
  obtain x where x: "x \<in> set xs" "reaches K slot ns m p x"
    using assms by (auto simp: list_ex_iff)
  obtain v where v: "(js ''children'', v) \<in> set (kids xs (fold add_field fs []))"
    and "v = x \<or> v = VArr xs"
    using kids_entry [OF x(1)] by blast
  then have "reaches K slot ns m p v" using x reaches_arr by blast
  then show ?thesis unfolding elk_def by (rule reaches_entry [OF v])
qed

lemma reaches_el [simp]:
  assumes "distinct (keys p)"
    and "spreads K slot ns m p fs \<or> list_ex (reaches K slot ns m p) xs"
  shows "reaches K slot ns m p (elk t ky fs xs)"
  using assms(2) by (rule disjE) (rule reaches_here [OF assms(1)] reaches_below; assumption)+

lemmas kit_simps = kit_ok_def Let_def spreads_def

end
