(* ===== verification/UiLayout.thy ===== *)
theory UiLayout
  imports Ui
begin

text \<open>
  The component kit, the layout and display parts: one definition per component of the files named by the sections,
  from its props to the element it renders.
\<close>

section \<open>ui/accordion.tsx\<close>

definition Accordion :: "lib \<Rightarrow> props \<Rightarrow> val" where
\<open>Accordion K p =
  (let className = attr ''className'' p in
    let props = rest [''className''] p in
    el (comp ''AccordionPrimitive.Root'') [At ''data-slot'' (lit ''accordion''),
      At ''className'' (cn K [lit ''flex w-full flex-col'',
          className]),
      Sp props]
    [])\<close>

definition AccordionItem :: "lib \<Rightarrow> props \<Rightarrow> val" where
\<open>AccordionItem K p =
  (let className = attr ''className'' p in
    let props = rest [''className''] p in
    el (comp ''AccordionPrimitive.Item'') [At ''data-slot'' (lit ''accordion-item''),
      At ''className'' (cn K [lit ''not-last:border-b'',
          className]),
      Sp props]
    [])\<close>

definition AccordionTrigger :: "lib \<Rightarrow> props \<Rightarrow> val" where
\<open>AccordionTrigger K p =
  (let className = attr ''className'' p in
    let children = attr ''children'' p in
    let props = rest [''className'', ''children''] p in
    el (comp ''AccordionPrimitive.Header'') [At ''className'' (lit ''flex'')]
    [el (comp ''AccordionPrimitive.Trigger'') [At ''data-slot'' (lit ''accordion-trigger''),
        At ''className'' (cn K [lit ''group/accordion-trigger relative flex flex-1 items-start justify-between rounded-none border border-transparent py-2.5 text-left text-xs font-medium transition-all outline-none hover:underline focus-visible:border-ring focus-visible:ring-1 focus-visible:ring-ring/50 focus-visible:after:border-ring aria-disabled:pointer-events-none aria-disabled:opacity-50 **:data-[slot=accordion-trigger-icon]:ml-auto **:data-[slot=accordion-trigger-icon]:size-4 **:data-[slot=accordion-trigger-icon]:text-muted-foreground'',
            className]),
        Sp props]
      [children,
        el (comp ''ChevronDownIcon'') [At ''data-slot'' (lit ''accordion-trigger-icon''),
          At ''className'' (lit ''pointer-events-none shrink-0 group-aria-expanded/accordion-trigger:hidden'')]
        [],
        el (comp ''ChevronUpIcon'') [At ''data-slot'' (lit ''accordion-trigger-icon''),
          At ''className'' (lit ''pointer-events-none hidden shrink-0 group-aria-expanded/accordion-trigger:inline'')]
        []]])\<close>

definition AccordionContent :: "lib \<Rightarrow> props \<Rightarrow> val" where
\<open>AccordionContent K p =
  (let className = attr ''className'' p in
    let children = attr ''children'' p in
    let props = rest [''className'', ''children''] p in
    el (comp ''AccordionPrimitive.Panel'') [At ''data-slot'' (lit ''accordion-content''),
      At ''className'' (lit ''overflow-hidden text-xs data-open:animate-accordion-down data-closed:animate-accordion-up''),
      Sp props]
    [el (tag ''div'') [At ''className'' (cn K [lit ''h-(--accordion-panel-height) pt-0 pb-2.5 data-ending-style:h-0 data-starting-style:h-0 [&_a]:underline [&_a]:underline-offset-3 [&_a]:hover:text-foreground [&_p:not(:last-child)]:mb-4'',
            className])]
      [children]])\<close>

section \<open>ui/alert.tsx\<close>

definition alertVariants :: "val list" where
\<open>alertVariants =
  [lit ''group/alert relative grid w-full gap-0.5 rounded-none border px-2.5 py-2 text-left text-xs has-data-[slot=alert-action]:relative has-data-[slot=alert-action]:pr-18 has-[>svg]:grid-cols-[auto_1fr] has-[>svg]:gap-x-2 *:[svg]:row-span-2 *:[svg]:translate-y-0 *:[svg]:text-current *:[svg:not([class*='size-'])]:size-4'',
    obj [At ''variants'' (obj [At ''variant'' (obj [At ''default'' (lit ''bg-card text-card-foreground''),
              At ''destructive'' (lit ''bg-card text-destructive *:data-[slot=alert-description]:text-destructive/90 *:[svg]:text-current'')])]),
      At ''defaultVariants'' (obj [At ''variant'' (lit ''default'')])]]\<close>

definition Alert :: "lib \<Rightarrow> props \<Rightarrow> val" where
\<open>Alert K p =
  (let className = attr ''className'' p in
    let variant = attr ''variant'' p in
    let props = rest [''className'', ''variant''] p in
    el (tag ''div'') [At ''data-slot'' (lit ''alert''),
      At ''role'' (lit ''alert''),
      At ''className'' (cn K [cva K alertVariants (obj [At ''variant'' variant]),
          className]),
      Sp props]
    [])\<close>

definition AlertTitle :: "lib \<Rightarrow> props \<Rightarrow> val" where
\<open>AlertTitle K p =
  (let className = attr ''className'' p in
    let props = rest [''className''] p in
    el (tag ''div'') [At ''data-slot'' (lit ''alert-title''),
      At ''className'' (cn K [lit ''font-medium group-has-[>svg]/alert:col-start-2 [&_a]:underline [&_a]:underline-offset-3 [&_a]:hover:text-foreground'',
          className]),
      Sp props]
    [])\<close>

definition AlertDescription :: "lib \<Rightarrow> props \<Rightarrow> val" where
\<open>AlertDescription K p =
  (let className = attr ''className'' p in
    let props = rest [''className''] p in
    el (tag ''div'') [At ''data-slot'' (lit ''alert-description''),
      At ''className'' (cn K [lit ''text-xs/relaxed text-balance text-muted-foreground md:text-pretty [&_a]:underline [&_a]:underline-offset-3 [&_a]:hover:text-foreground [&_p:not(:last-child)]:mb-2'',
          className]),
      Sp props]
    [])\<close>

definition AlertAction :: "lib \<Rightarrow> props \<Rightarrow> val" where
\<open>AlertAction K p =
  (let className = attr ''className'' p in
    let props = rest [''className''] p in
    el (tag ''div'') [At ''data-slot'' (lit ''alert-action''),
      At ''className'' (cn K [lit ''absolute top-[calc(--spacing(1.25))] right-[calc(--spacing(1.25))]'',
          className]),
      Sp props]
    [])\<close>

section \<open>ui/aspect-ratio.tsx\<close>

definition AspectRatio :: "lib \<Rightarrow> props \<Rightarrow> val" where
\<open>AspectRatio K p =
  (let ratio = attr ''ratio'' p in
    let className = attr ''className'' p in
    let props = rest [''ratio'', ''className''] p in
    el (tag ''div'') [At ''data-slot'' (lit ''aspect-ratio''),
      At ''style'' (obj [At ''--ratio'' ratio]),
      At ''className'' (cn K [lit ''relative aspect-(--ratio)'',
          className]),
      Sp props]
    [])\<close>

section \<open>ui/avatar.tsx\<close>

definition Avatar :: "lib \<Rightarrow> props \<Rightarrow> val" where
\<open>Avatar K p =
  (let className = attr ''className'' p in
    let size' = dflt (lit ''default'') (attr ''size'' p) in
    let props = rest [''className'', ''size''] p in
    el (comp ''AvatarPrimitive.Root'') [At ''data-slot'' (lit ''avatar''),
      At ''data-size'' size',
      At ''className'' (cn K [lit ''group/avatar relative flex size-8 shrink-0 rounded-full select-none after:absolute after:inset-0 after:rounded-full after:border after:border-border after:mix-blend-darken data-[size=lg]:size-10 data-[size=sm]:size-6 dark:after:mix-blend-lighten'',
          className]),
      Sp props]
    [])\<close>

definition AvatarImage :: "lib \<Rightarrow> props \<Rightarrow> val" where
\<open>AvatarImage K p =
  (let className = attr ''className'' p in
    let props = rest [''className''] p in
    el (comp ''AvatarPrimitive.Image'') [At ''data-slot'' (lit ''avatar-image''),
      At ''className'' (cn K [lit ''aspect-square size-full rounded-full object-cover'',
          className]),
      Sp props]
    [])\<close>

definition AvatarFallback :: "lib \<Rightarrow> props \<Rightarrow> val" where
\<open>AvatarFallback K p =
  (let className = attr ''className'' p in
    let props = rest [''className''] p in
    el (comp ''AvatarPrimitive.Fallback'') [At ''data-slot'' (lit ''avatar-fallback''),
      At ''className'' (cn K [lit ''flex size-full items-center justify-center rounded-full bg-muted text-sm text-muted-foreground group-data-[size=sm]/avatar:text-xs'',
          className]),
      Sp props]
    [])\<close>

definition AvatarBadge :: "lib \<Rightarrow> props \<Rightarrow> val" where
\<open>AvatarBadge K p =
  (let className = attr ''className'' p in
    let props = rest [''className''] p in
    el (tag ''span'') [At ''data-slot'' (lit ''avatar-badge''),
      At ''className'' (cn K [lit ''absolute right-0 bottom-0 z-10 inline-flex items-center justify-center rounded-full bg-primary text-primary-foreground bg-blend-color ring-2 ring-background select-none'',
          lit ''group-data-[size=sm]/avatar:size-2 group-data-[size=sm]/avatar:[&>svg]:hidden'',
          lit ''group-data-[size=default]/avatar:size-2.5 group-data-[size=default]/avatar:[&>svg]:size-2'',
          lit ''group-data-[size=lg]/avatar:size-3 group-data-[size=lg]/avatar:[&>svg]:size-2'',
          className]),
      Sp props]
    [])\<close>

definition AvatarGroup :: "lib \<Rightarrow> props \<Rightarrow> val" where
\<open>AvatarGroup K p =
  (let className = attr ''className'' p in
    let props = rest [''className''] p in
    el (tag ''div'') [At ''data-slot'' (lit ''avatar-group''),
      At ''className'' (cn K [lit ''group/avatar-group flex -space-x-2 *:data-[slot=avatar]:ring-2 *:data-[slot=avatar]:ring-background'',
          className]),
      Sp props]
    [])\<close>

definition AvatarGroupCount :: "lib \<Rightarrow> props \<Rightarrow> val" where
\<open>AvatarGroupCount K p =
  (let className = attr ''className'' p in
    let props = rest [''className''] p in
    el (tag ''div'') [At ''data-slot'' (lit ''avatar-group-count''),
      At ''className'' (cn K [lit ''relative flex size-8 shrink-0 items-center justify-center rounded-full bg-muted text-xs text-muted-foreground ring-2 ring-background group-has-data-[size=lg]/avatar-group:size-10 group-has-data-[size=sm]/avatar-group:size-6 [&>svg]:size-4 group-has-data-[size=lg]/avatar-group:[&>svg]:size-5 group-has-data-[size=sm]/avatar-group:[&>svg]:size-3'',
          className]),
      Sp props]
    [])\<close>

section \<open>ui/badge.tsx\<close>

definition badgeVariants :: "val list" where
\<open>badgeVariants =
  [lit ''group/badge inline-flex h-5 w-fit shrink-0 items-center justify-center gap-1 overflow-hidden rounded-none border border-transparent px-2 py-0.5 text-xs font-medium whitespace-nowrap transition-all focus-visible:border-ring focus-visible:ring-[3px] focus-visible:ring-ring/50 has-data-[icon=inline-end]:pr-1.5 has-data-[icon=inline-start]:pl-1.5 aria-invalid:border-destructive aria-invalid:ring-destructive/20 dark:aria-invalid:ring-destructive/40 [&>svg]:pointer-events-none [&>svg]:size-3!'',
    obj [At ''variants'' (obj [At ''variant'' (obj [At ''default'' (lit ''bg-primary text-primary-foreground [a]:hover:bg-primary/80''),
              At ''secondary'' (lit ''bg-secondary text-secondary-foreground [a]:hover:bg-secondary/80''),
              At ''destructive'' (lit ''bg-destructive/10 text-destructive focus-visible:ring-destructive/20 dark:bg-destructive/20 dark:focus-visible:ring-destructive/40 [a]:hover:bg-destructive/20''),
              At ''outline'' (lit ''border-border text-foreground [a]:hover:bg-muted [a]:hover:text-muted-foreground''),
              At ''ghost'' (lit ''hover:bg-muted hover:text-muted-foreground dark:hover:bg-muted/50''),
              At ''link'' (lit ''text-primary underline-offset-4 hover:underline'')])]),
      At ''defaultVariants'' (obj [At ''variant'' (lit ''default'')])]]\<close>

definition Badge :: "lib \<Rightarrow> props \<Rightarrow> val" where
\<open>Badge K p =
  (let className = attr ''className'' p in
    let variant = dflt (lit ''default'') (attr ''variant'' p) in
    let render = attr ''render'' p in
    let props = rest [''className'', ''variant'', ''render''] p in
    K ''useRender'' [obj [At ''defaultTagName'' (lit ''span''),
        At ''props'' (K ''mergeProps'' [obj [At ''className'' (cn K [cva K badgeVariants (obj [At ''variant'' variant]),
                  className])], props]),
        At ''render'' render,
        At ''state'' (obj [At ''slot'' (lit ''badge''),
            At ''variant'' variant])]])\<close>

section \<open>ui/breadcrumb.tsx\<close>

definition Breadcrumb :: "lib \<Rightarrow> props \<Rightarrow> val" where
\<open>Breadcrumb K p =
  (let className = attr ''className'' p in
    let props = rest [''className''] p in
    el (tag ''nav'') [At ''aria-label'' (lit ''breadcrumb''),
      At ''data-slot'' (lit ''breadcrumb''),
      At ''className'' (cn K [className]),
      Sp props]
    [])\<close>

definition BreadcrumbList :: "lib \<Rightarrow> props \<Rightarrow> val" where
\<open>BreadcrumbList K p =
  (let className = attr ''className'' p in
    let props = rest [''className''] p in
    el (tag ''ol'') [At ''data-slot'' (lit ''breadcrumb-list''),
      At ''className'' (cn K [lit ''flex flex-wrap items-center gap-1.5 text-xs wrap-break-word text-muted-foreground'',
          className]),
      Sp props]
    [])\<close>

definition BreadcrumbItem :: "lib \<Rightarrow> props \<Rightarrow> val" where
\<open>BreadcrumbItem K p =
  (let className = attr ''className'' p in
    let props = rest [''className''] p in
    el (tag ''li'') [At ''data-slot'' (lit ''breadcrumb-item''),
      At ''className'' (cn K [lit ''inline-flex items-center gap-1'',
          className]),
      Sp props]
    [])\<close>

definition BreadcrumbLink :: "lib \<Rightarrow> props \<Rightarrow> val" where
\<open>BreadcrumbLink K p =
  (let className = attr ''className'' p in
    let render = attr ''render'' p in
    let props = rest [''className'', ''render''] p in
    K ''useRender'' [obj [At ''defaultTagName'' (lit ''a''),
        At ''props'' (K ''mergeProps'' [obj [At ''className'' (cn K [lit ''transition-colors hover:text-foreground'',
                  className])], props]),
        At ''render'' render,
        At ''state'' (obj [At ''slot'' (lit ''breadcrumb-link'')])]])\<close>

definition BreadcrumbPage :: "lib \<Rightarrow> props \<Rightarrow> val" where
\<open>BreadcrumbPage K p =
  (let className = attr ''className'' p in
    let props = rest [''className''] p in
    el (tag ''span'') [At ''data-slot'' (lit ''breadcrumb-page''),
      At ''role'' (lit ''link''),
      At ''aria-disabled'' (lit ''true''),
      At ''aria-current'' (lit ''page''),
      At ''className'' (cn K [lit ''font-normal text-foreground'',
          className]),
      Sp props]
    [])\<close>

definition BreadcrumbSeparator :: "lib \<Rightarrow> props \<Rightarrow> val" where
\<open>BreadcrumbSeparator K p =
  (let children = attr ''children'' p in
    let className = attr ''className'' p in
    let props = rest [''children'', ''className''] p in
    el (tag ''li'') [At ''data-slot'' (lit ''breadcrumb-separator''),
      At ''role'' (lit ''presentation''),
      At ''aria-hidden'' (lit ''true''),
      At ''className'' (cn K [lit ''[&>svg]:size-3.5'',
          className]),
      Sp props]
    [jcoal children (el (comp ''ChevronRightIcon'') []
        [])])\<close>

definition BreadcrumbEllipsis :: "lib \<Rightarrow> props \<Rightarrow> val" where
\<open>BreadcrumbEllipsis K p =
  (let className = attr ''className'' p in
    let props = rest [''className''] p in
    el (tag ''span'') [At ''data-slot'' (lit ''breadcrumb-ellipsis''),
      At ''role'' (lit ''presentation''),
      At ''aria-hidden'' (lit ''true''),
      At ''className'' (cn K [lit ''flex size-5 items-center justify-center [&>svg]:size-4'',
          className]),
      Sp props]
    [el (comp ''MoreHorizontalIcon'') []
      [],
      el (tag ''span'') [At ''className'' (lit ''sr-only'')]
      [lit ''More'']])\<close>

section \<open>ui/card.tsx\<close>

definition Card :: "lib \<Rightarrow> props \<Rightarrow> val" where
\<open>Card K p =
  (let className = attr ''className'' p in
    let size' = dflt (lit ''default'') (attr ''size'' p) in
    let props = rest [''className'', ''size''] p in
    el (tag ''div'') [At ''data-slot'' (lit ''card''),
      At ''data-size'' size',
      At ''className'' (cn K [lit ''group/card flex flex-col gap-(--card-spacing) overflow-hidden rounded-none bg-card py-(--card-spacing) text-xs/relaxed text-card-foreground ring-1 ring-foreground/10 [--card-spacing:--spacing(4)] has-data-[slot=card-footer]:pb-0 has-[>img:first-child]:pt-0 data-[size=sm]:[--card-spacing:--spacing(3)] data-[size=sm]:has-data-[slot=card-footer]:pb-0 *:[img:first-child]:rounded-none *:[img:last-child]:rounded-none'',
          className]),
      Sp props]
    [])\<close>

definition CardHeader :: "lib \<Rightarrow> props \<Rightarrow> val" where
\<open>CardHeader K p =
  (let className = attr ''className'' p in
    let props = rest [''className''] p in
    el (tag ''div'') [At ''data-slot'' (lit ''card-header''),
      At ''className'' (cn K [lit ''group/card-header @container/card-header grid auto-rows-min items-start gap-1 rounded-none px-(--card-spacing) has-data-[slot=card-action]:grid-cols-[1fr_auto] has-data-[slot=card-description]:grid-rows-[auto_auto] [.border-b]:pb-(--card-spacing)'',
          className]),
      Sp props]
    [])\<close>

definition CardTitle :: "lib \<Rightarrow> props \<Rightarrow> val" where
\<open>CardTitle K p =
  (let className = attr ''className'' p in
    let props = rest [''className''] p in
    el (tag ''div'') [At ''data-slot'' (lit ''card-title''),
      At ''className'' (cn K [lit ''text-sm font-medium group-data-[size=sm]/card:text-sm'',
          className]),
      Sp props]
    [])\<close>

definition CardDescription :: "lib \<Rightarrow> props \<Rightarrow> val" where
\<open>CardDescription K p =
  (let className = attr ''className'' p in
    let props = rest [''className''] p in
    el (tag ''div'') [At ''data-slot'' (lit ''card-description''),
      At ''className'' (cn K [lit ''text-xs/relaxed text-muted-foreground'',
          className]),
      Sp props]
    [])\<close>

definition CardAction :: "lib \<Rightarrow> props \<Rightarrow> val" where
\<open>CardAction K p =
  (let className = attr ''className'' p in
    let props = rest [''className''] p in
    el (tag ''div'') [At ''data-slot'' (lit ''card-action''),
      At ''className'' (cn K [lit ''col-start-2 row-span-2 row-start-1 self-start justify-self-end'',
          className]),
      Sp props]
    [])\<close>

definition CardContent :: "lib \<Rightarrow> props \<Rightarrow> val" where
\<open>CardContent K p =
  (let className = attr ''className'' p in
    let props = rest [''className''] p in
    el (tag ''div'') [At ''data-slot'' (lit ''card-content''),
      At ''className'' (cn K [lit ''px-(--card-spacing)'',
          className]),
      Sp props]
    [])\<close>

definition CardFooter :: "lib \<Rightarrow> props \<Rightarrow> val" where
\<open>CardFooter K p =
  (let className = attr ''className'' p in
    let props = rest [''className''] p in
    el (tag ''div'') [At ''data-slot'' (lit ''card-footer''),
      At ''className'' (cn K [lit ''flex items-center rounded-none border-t p-(--card-spacing)'',
          className]),
      Sp props]
    [])\<close>

section \<open>ui/collapsible.tsx\<close>

definition Collapsible :: "lib \<Rightarrow> props \<Rightarrow> val" where
\<open>Collapsible K p =
  (let props = rest [] p in
    el (comp ''CollapsiblePrimitive.Root'') [At ''data-slot'' (lit ''collapsible''),
      Sp props]
    [])\<close>

definition CollapsibleTrigger :: "lib \<Rightarrow> props \<Rightarrow> val" where
\<open>CollapsibleTrigger K p =
  (let props = rest [] p in
    el (comp ''CollapsiblePrimitive.Trigger'') [At ''data-slot'' (lit ''collapsible-trigger''),
      Sp props]
    [])\<close>

definition CollapsibleContent :: "lib \<Rightarrow> props \<Rightarrow> val" where
\<open>CollapsibleContent K p =
  (let props = rest [] p in
    el (comp ''CollapsiblePrimitive.Panel'') [At ''data-slot'' (lit ''collapsible-content''),
      Sp props]
    [])\<close>

section \<open>ui/empty.tsx\<close>

definition Empty :: "lib \<Rightarrow> props \<Rightarrow> val" where
\<open>Empty K p =
  (let className = attr ''className'' p in
    let props = rest [''className''] p in
    el (tag ''div'') [At ''data-slot'' (lit ''empty''),
      At ''className'' (cn K [lit ''flex w-full min-w-0 flex-1 flex-col items-center justify-center gap-4 rounded-none border-dashed p-6 text-center text-balance'',
          className]),
      Sp props]
    [])\<close>

definition EmptyHeader :: "lib \<Rightarrow> props \<Rightarrow> val" where
\<open>EmptyHeader K p =
  (let className = attr ''className'' p in
    let props = rest [''className''] p in
    el (tag ''div'') [At ''data-slot'' (lit ''empty-header''),
      At ''className'' (cn K [lit ''flex max-w-sm flex-col items-center gap-2'',
          className]),
      Sp props]
    [])\<close>

definition emptyMediaVariants :: "val list" where
\<open>emptyMediaVariants =
  [lit ''mb-2 flex shrink-0 items-center justify-center [&_svg]:pointer-events-none [&_svg]:shrink-0'',
    obj [At ''variants'' (obj [At ''variant'' (obj [At ''default'' (lit ''bg-transparent''),
              At ''icon'' (lit ''flex size-8 shrink-0 items-center justify-center rounded-none bg-muted text-foreground [&_svg:not([class*='size-'])]:size-4'')])]),
      At ''defaultVariants'' (obj [At ''variant'' (lit ''default'')])]]\<close>

definition EmptyMedia :: "lib \<Rightarrow> props \<Rightarrow> val" where
\<open>EmptyMedia K p =
  (let className = attr ''className'' p in
    let variant = dflt (lit ''default'') (attr ''variant'' p) in
    let props = rest [''className'', ''variant''] p in
    el (tag ''div'') [At ''data-slot'' (lit ''empty-icon''),
      At ''data-variant'' variant,
      At ''className'' (cn K [cva K emptyMediaVariants (obj [At ''variant'' variant,
              At ''className'' className])]),
      Sp props]
    [])\<close>

definition EmptyTitle :: "lib \<Rightarrow> props \<Rightarrow> val" where
\<open>EmptyTitle K p =
  (let className = attr ''className'' p in
    let props = rest [''className''] p in
    el (tag ''div'') [At ''data-slot'' (lit ''empty-title''),
      At ''className'' (cn K [lit ''text-sm font-medium'',
          className]),
      Sp props]
    [])\<close>

definition EmptyDescription :: "lib \<Rightarrow> props \<Rightarrow> val" where
\<open>EmptyDescription K p =
  (let className = attr ''className'' p in
    let props = rest [''className''] p in
    el (tag ''div'') [At ''data-slot'' (lit ''empty-description''),
      At ''className'' (cn K [lit ''text-xs/relaxed text-muted-foreground [&>a]:underline [&>a]:underline-offset-4 [&>a:hover]:text-primary'',
          className]),
      Sp props]
    [])\<close>

definition EmptyContent :: "lib \<Rightarrow> props \<Rightarrow> val" where
\<open>EmptyContent K p =
  (let className = attr ''className'' p in
    let props = rest [''className''] p in
    el (tag ''div'') [At ''data-slot'' (lit ''empty-content''),
      At ''className'' (cn K [lit ''flex w-full max-w-sm min-w-0 flex-col items-center gap-2.5 text-xs text-balance'',
          className]),
      Sp props]
    [])\<close>

section \<open>ui/separator.tsx\<close>

definition Separator :: "lib \<Rightarrow> props \<Rightarrow> val" where
\<open>Separator K p =
  (let className = attr ''className'' p in
    let orientation = dflt (lit ''horizontal'') (attr ''orientation'' p) in
    let props = rest [''className'', ''orientation''] p in
    el (comp ''SeparatorPrimitive'') [At ''data-slot'' (lit ''separator''),
      At ''orientation'' orientation,
      At ''className'' (cn K [lit ''shrink-0 bg-border data-horizontal:h-px data-horizontal:w-full data-vertical:w-px data-vertical:self-stretch'',
          className]),
      Sp props]
    [])\<close>

section \<open>ui/item.tsx\<close>

definition ItemGroup :: "lib \<Rightarrow> props \<Rightarrow> val" where
\<open>ItemGroup K p =
  (let className = attr ''className'' p in
    let props = rest [''className''] p in
    el (tag ''div'') [At ''role'' (lit ''list''),
      At ''data-slot'' (lit ''item-group''),
      At ''className'' (cn K [lit ''group/item-group flex w-full flex-col gap-4 has-data-[size=sm]:gap-2.5 has-data-[size=xs]:gap-2'',
          className]),
      Sp props]
    [])\<close>

definition ItemSeparator :: "lib \<Rightarrow> props \<Rightarrow> val" where
\<open>ItemSeparator K p =
  (let className = attr ''className'' p in
    let props = rest [''className''] p in
    el (comp ''Separator'') [At ''data-slot'' (lit ''item-separator''),
      At ''orientation'' (lit ''horizontal''),
      At ''className'' (cn K [lit ''my-2'',
          className]),
      Sp props]
    [])\<close>

definition itemVariants :: "val list" where
\<open>itemVariants =
  [lit ''group/item flex w-full flex-wrap items-center rounded-none border text-xs transition-colors duration-100 outline-none focus-visible:border-ring focus-visible:ring-[3px] focus-visible:ring-ring/50 [a]:transition-colors [a]:hover:bg-muted'',
    obj [At ''variants'' (obj [At ''variant'' (obj [At ''default'' (lit ''border-transparent''),
              At ''outline'' (lit ''border-border''),
              At ''muted'' (lit ''border-transparent bg-muted/50'')]),
          At ''size'' (obj [At ''default'' (lit ''gap-2.5 px-3 py-2.5''),
              At ''sm'' (lit ''gap-2.5 px-3 py-2.5''),
              At ''xs'' (lit ''gap-2 px-2.5 py-2 in-data-[slot=dropdown-menu-content]:p-0'')])]),
      At ''defaultVariants'' (obj [At ''variant'' (lit ''default''),
          At ''size'' (lit ''default'')])]]\<close>

definition Item :: "lib \<Rightarrow> props \<Rightarrow> val" where
\<open>Item K p =
  (let className = attr ''className'' p in
    let variant = dflt (lit ''default'') (attr ''variant'' p) in
    let size' = dflt (lit ''default'') (attr ''size'' p) in
    let render = attr ''render'' p in
    let props = rest [''className'', ''variant'', ''size'', ''render''] p in
    K ''useRender'' [obj [At ''defaultTagName'' (lit ''div''),
        At ''props'' (K ''mergeProps'' [obj [At ''className'' (cn K [cva K itemVariants (obj [At ''variant'' variant,
                      At ''size'' size',
                      At ''className'' className])])], props]),
        At ''render'' render,
        At ''state'' (obj [At ''slot'' (lit ''item''),
            At ''variant'' variant,
            At ''size'' size'])]])\<close>

definition itemMediaVariants :: "val list" where
\<open>itemMediaVariants =
  [lit ''flex shrink-0 items-center justify-center gap-2 group-has-data-[slot=item-description]/item:translate-y-0.5 group-has-data-[slot=item-description]/item:self-start [&_svg]:pointer-events-none'',
    obj [At ''variants'' (obj [At ''variant'' (obj [At ''default'' (lit ''bg-transparent''),
              At ''icon'' (lit ''[&_svg:not([class*='size-'])]:size-4''),
              At ''image'' (lit ''size-10 overflow-hidden rounded-none group-data-[size=sm]/item:size-8 group-data-[size=xs]/item:size-6 [&_img]:size-full [&_img]:object-cover'')])]),
      At ''defaultVariants'' (obj [At ''variant'' (lit ''default'')])]]\<close>

definition ItemMedia :: "lib \<Rightarrow> props \<Rightarrow> val" where
\<open>ItemMedia K p =
  (let className = attr ''className'' p in
    let variant = dflt (lit ''default'') (attr ''variant'' p) in
    let props = rest [''className'', ''variant''] p in
    el (tag ''div'') [At ''data-slot'' (lit ''item-media''),
      At ''data-variant'' variant,
      At ''className'' (cn K [cva K itemMediaVariants (obj [At ''variant'' variant,
              At ''className'' className])]),
      Sp props]
    [])\<close>

definition ItemContent :: "lib \<Rightarrow> props \<Rightarrow> val" where
\<open>ItemContent K p =
  (let className = attr ''className'' p in
    let props = rest [''className''] p in
    el (tag ''div'') [At ''data-slot'' (lit ''item-content''),
      At ''className'' (cn K [lit ''flex flex-1 flex-col gap-1 group-data-[size=xs]/item:gap-0 [&+[data-slot=item-content]]:flex-none'',
          className]),
      Sp props]
    [])\<close>

definition ItemTitle :: "lib \<Rightarrow> props \<Rightarrow> val" where
\<open>ItemTitle K p =
  (let className = attr ''className'' p in
    let props = rest [''className''] p in
    el (tag ''div'') [At ''data-slot'' (lit ''item-title''),
      At ''className'' (cn K [lit ''line-clamp-1 flex w-fit items-center gap-2 text-xs font-medium underline-offset-4'',
          className]),
      Sp props]
    [])\<close>

definition ItemDescription :: "lib \<Rightarrow> props \<Rightarrow> val" where
\<open>ItemDescription K p =
  (let className = attr ''className'' p in
    let props = rest [''className''] p in
    el (tag ''p'') [At ''data-slot'' (lit ''item-description''),
      At ''className'' (cn K [lit ''line-clamp-2 text-left text-xs/relaxed font-normal text-muted-foreground group-data-[size=xs]/item:text-xs/relaxed [&>a]:underline [&>a]:underline-offset-4 [&>a:hover]:text-primary'',
          className]),
      Sp props]
    [])\<close>

definition ItemActions :: "lib \<Rightarrow> props \<Rightarrow> val" where
\<open>ItemActions K p =
  (let className = attr ''className'' p in
    let props = rest [''className''] p in
    el (tag ''div'') [At ''data-slot'' (lit ''item-actions''),
      At ''className'' (cn K [lit ''flex items-center gap-2'',
          className]),
      Sp props]
    [])\<close>

definition ItemHeader :: "lib \<Rightarrow> props \<Rightarrow> val" where
\<open>ItemHeader K p =
  (let className = attr ''className'' p in
    let props = rest [''className''] p in
    el (tag ''div'') [At ''data-slot'' (lit ''item-header''),
      At ''className'' (cn K [lit ''flex basis-full items-center justify-between gap-2'',
          className]),
      Sp props]
    [])\<close>

definition ItemFooter :: "lib \<Rightarrow> props \<Rightarrow> val" where
\<open>ItemFooter K p =
  (let className = attr ''className'' p in
    let props = rest [''className''] p in
    el (tag ''div'') [At ''data-slot'' (lit ''item-footer''),
      At ''className'' (cn K [lit ''flex basis-full items-center justify-between gap-2'',
          className]),
      Sp props]
    [])\<close>

section \<open>ui/kbd.tsx\<close>

definition Kbd :: "lib \<Rightarrow> props \<Rightarrow> val" where
\<open>Kbd K p =
  (let className = attr ''className'' p in
    let props = rest [''className''] p in
    el (tag ''kbd'') [At ''data-slot'' (lit ''kbd''),
      At ''className'' (cn K [lit ''pointer-events-none inline-flex h-5 w-fit min-w-5 items-center justify-center gap-1 rounded-none bg-muted px-1 font-sans text-xs font-medium text-muted-foreground select-none in-data-[slot=tooltip-content]:bg-background/20 in-data-[slot=tooltip-content]:text-background dark:in-data-[slot=tooltip-content]:bg-background/10 [&_svg:not([class*='size-'])]:size-3'',
          className]),
      Sp props]
    [])\<close>

definition KbdGroup :: "lib \<Rightarrow> props \<Rightarrow> val" where
\<open>KbdGroup K p =
  (let className = attr ''className'' p in
    let props = rest [''className''] p in
    el (tag ''kbd'') [At ''data-slot'' (lit ''kbd-group''),
      At ''className'' (cn K [lit ''inline-flex items-center gap-1'',
          className]),
      Sp props]
    [])\<close>

section \<open>ui/label.tsx\<close>

definition Label :: "lib \<Rightarrow> props \<Rightarrow> val" where
\<open>Label K p =
  (let className = attr ''className'' p in
    let props = rest [''className''] p in
    el (tag ''label'') [At ''data-slot'' (lit ''label''),
      At ''className'' (cn K [lit ''flex items-center gap-2 text-xs leading-none select-none group-data-[disabled=true]:pointer-events-none group-data-[disabled=true]:opacity-50 peer-disabled:cursor-not-allowed peer-disabled:opacity-50'',
          className]),
      Sp props]
    [])\<close>

section \<open>ui/progress.tsx\<close>

definition Progress :: "lib \<Rightarrow> props \<Rightarrow> val" where
\<open>Progress K p =
  (let className = attr ''className'' p in
    let children = attr ''children'' p in
    let value' = attr ''value'' p in
    let props = rest [''className'', ''children'', ''value''] p in
    el (comp ''ProgressPrimitive.Root'') [At ''value'' value',
      At ''data-slot'' (lit ''progress''),
      At ''className'' (cn K [lit ''flex flex-wrap gap-3'',
          className]),
      Sp props]
    [children,
      el (comp ''ProgressTrack'') []
      [el (comp ''ProgressIndicator'') []
        []]])\<close>

definition ProgressTrack :: "lib \<Rightarrow> props \<Rightarrow> val" where
\<open>ProgressTrack K p =
  (let className = attr ''className'' p in
    let props = rest [''className''] p in
    el (comp ''ProgressPrimitive.Track'') [At ''className'' (cn K [lit ''relative flex h-1 w-full items-center overflow-x-hidden rounded-none bg-muted'',
          className]),
      At ''data-slot'' (lit ''progress-track''),
      Sp props]
    [])\<close>

definition ProgressIndicator :: "lib \<Rightarrow> props \<Rightarrow> val" where
\<open>ProgressIndicator K p =
  (let className = attr ''className'' p in
    let props = rest [''className''] p in
    el (comp ''ProgressPrimitive.Indicator'') [At ''data-slot'' (lit ''progress-indicator''),
      At ''className'' (cn K [lit ''h-full bg-primary transition-all'',
          className]),
      Sp props]
    [])\<close>

definition ProgressLabel :: "lib \<Rightarrow> props \<Rightarrow> val" where
\<open>ProgressLabel K p =
  (let className = attr ''className'' p in
    let props = rest [''className''] p in
    el (comp ''ProgressPrimitive.Label'') [At ''className'' (cn K [lit ''text-xs'',
          className]),
      At ''data-slot'' (lit ''progress-label''),
      Sp props]
    [])\<close>

definition ProgressValue :: "lib \<Rightarrow> props \<Rightarrow> val" where
\<open>ProgressValue K p =
  (let className = attr ''className'' p in
    let props = rest [''className''] p in
    el (comp ''ProgressPrimitive.Value'') [At ''className'' (cn K [lit ''ml-auto text-xs text-muted-foreground tabular-nums'',
          className]),
      At ''data-slot'' (lit ''progress-value''),
      Sp props]
    [])\<close>

section \<open>ui/resizable.tsx\<close>

definition ResizablePanelGroup :: "lib \<Rightarrow> props \<Rightarrow> val" where
\<open>ResizablePanelGroup K p =
  (let className = attr ''className'' p in
    let props = rest [''className''] p in
    el (comp ''ResizablePrimitive.Group'') [At ''data-slot'' (lit ''resizable-panel-group''),
      At ''className'' (cn K [lit ''flex h-full w-full aria-[orientation=vertical]:flex-col'',
          className]),
      Sp props]
    [])\<close>

definition ResizablePanel :: "lib \<Rightarrow> props \<Rightarrow> val" where
\<open>ResizablePanel K p =
  (let props = rest [] p in
    el (comp ''ResizablePrimitive.Panel'') [At ''data-slot'' (lit ''resizable-panel''),
      Sp props]
    [])\<close>

definition ResizableHandle :: "lib \<Rightarrow> props \<Rightarrow> val" where
\<open>ResizableHandle K p =
  (let withHandle = attr ''withHandle'' p in
    let className = attr ''className'' p in
    let props = rest [''withHandle'', ''className''] p in
    el (comp ''ResizablePrimitive.Separator'') [At ''data-slot'' (lit ''resizable-handle''),
      At ''className'' (cn K [lit ''relative flex w-px items-center justify-center bg-border ring-offset-background after:absolute after:inset-y-0 after:left-1/2 after:w-1 after:-translate-x-1/2 focus-visible:ring-1 focus-visible:ring-ring focus-visible:outline-hidden aria-[orientation=horizontal]:h-px aria-[orientation=horizontal]:w-full aria-[orientation=horizontal]:after:left-0 aria-[orientation=horizontal]:after:h-1 aria-[orientation=horizontal]:after:w-full aria-[orientation=horizontal]:after:translate-x-0 aria-[orientation=horizontal]:after:-translate-y-1/2 [&[aria-orientation=horizontal]>div]:rotate-90'',
          className]),
      Sp props]
    [jand withHandle
      (el (tag ''div'') [At ''className'' (lit ''z-10 flex h-6 w-1 shrink-0 rounded-none bg-border'')]
        [])])\<close>

section \<open>ui/scroll-area.tsx\<close>

definition ScrollArea :: "lib \<Rightarrow> props \<Rightarrow> val" where
\<open>ScrollArea K p =
  (let className = attr ''className'' p in
    let children = attr ''children'' p in
    let props = rest [''className'', ''children''] p in
    el (comp ''ScrollAreaPrimitive.Root'') [At ''data-slot'' (lit ''scroll-area''),
      At ''className'' (cn K [lit ''relative'',
          className]),
      Sp props]
    [el (comp ''ScrollAreaPrimitive.Viewport'') [At ''data-slot'' (lit ''scroll-area-viewport''),
        At ''className'' (lit ''size-full rounded-[inherit] transition-[color,box-shadow] outline-none focus-visible:ring-[3px] focus-visible:ring-ring/50 focus-visible:outline-1'')]
      [children],
      el (comp ''ScrollBar'') []
      [],
      el (comp ''ScrollAreaPrimitive.Corner'') []
      []])\<close>

definition ScrollBar :: "lib \<Rightarrow> props \<Rightarrow> val" where
\<open>ScrollBar K p =
  (let className = attr ''className'' p in
    let orientation = dflt (lit ''vertical'') (attr ''orientation'' p) in
    let props = rest [''className'', ''orientation''] p in
    el (comp ''ScrollAreaPrimitive.Scrollbar'') [At ''data-slot'' (lit ''scroll-area-scrollbar''),
      At ''data-orientation'' orientation,
      At ''orientation'' orientation,
      At ''className'' (cn K [lit ''flex touch-none p-px transition-colors select-none data-horizontal:h-2.5 data-horizontal:flex-col data-horizontal:border-t data-horizontal:border-t-transparent data-vertical:h-full data-vertical:w-2.5 data-vertical:border-l data-vertical:border-l-transparent'',
          className]),
      Sp props]
    [el (comp ''ScrollAreaPrimitive.Thumb'') [At ''data-slot'' (lit ''scroll-area-thumb''),
        At ''className'' (lit ''relative flex-1 rounded-none bg-border'')]
      []])\<close>

section \<open>ui/skeleton.tsx\<close>

definition Skeleton :: "lib \<Rightarrow> props \<Rightarrow> val" where
\<open>Skeleton K p =
  (let className = attr ''className'' p in
    let props = rest [''className''] p in
    el (tag ''div'') [At ''data-slot'' (lit ''skeleton''),
      At ''className'' (cn K [lit ''animate-pulse rounded-none bg-muted'',
          className]),
      Sp props]
    [])\<close>

section \<open>ui/spinner.tsx\<close>

definition Spinner :: "lib \<Rightarrow> props \<Rightarrow> val" where
\<open>Spinner K p =
  (let className = attr ''className'' p in
    let props = rest [''className''] p in
    el (comp ''Loader2Icon'') [At ''data-slot'' (lit ''spinner''),
      At ''role'' (lit ''status''),
      At ''aria-label'' (lit ''Loading''),
      At ''className'' (cn K [lit ''size-4 animate-spin'',
          className]),
      Sp props]
    [])\<close>

section \<open>ui/table.tsx\<close>

definition Table :: "lib \<Rightarrow> props \<Rightarrow> val" where
\<open>Table K p =
  (let className = attr ''className'' p in
    let props = rest [''className''] p in
    el (tag ''div'') [At ''data-slot'' (lit ''table-container''),
      At ''className'' (lit ''relative w-full overflow-x-auto'')]
    [el (tag ''table'') [At ''data-slot'' (lit ''table''),
        At ''className'' (cn K [lit ''w-full caption-bottom text-xs'',
            className]),
        Sp props]
      []])\<close>

definition TableHeader :: "lib \<Rightarrow> props \<Rightarrow> val" where
\<open>TableHeader K p =
  (let className = attr ''className'' p in
    let props = rest [''className''] p in
    el (tag ''thead'') [At ''data-slot'' (lit ''table-header''),
      At ''className'' (cn K [lit ''[&_tr]:border-b'',
          className]),
      Sp props]
    [])\<close>

definition TableBody :: "lib \<Rightarrow> props \<Rightarrow> val" where
\<open>TableBody K p =
  (let className = attr ''className'' p in
    let props = rest [''className''] p in
    el (tag ''tbody'') [At ''data-slot'' (lit ''table-body''),
      At ''className'' (cn K [lit ''[&_tr:last-child]:border-0'',
          className]),
      Sp props]
    [])\<close>

definition TableFooter :: "lib \<Rightarrow> props \<Rightarrow> val" where
\<open>TableFooter K p =
  (let className = attr ''className'' p in
    let props = rest [''className''] p in
    el (tag ''tfoot'') [At ''data-slot'' (lit ''table-footer''),
      At ''className'' (cn K [lit ''border-t bg-muted/50 font-medium [&>tr]:last:border-b-0'',
          className]),
      Sp props]
    [])\<close>

definition TableRow :: "lib \<Rightarrow> props \<Rightarrow> val" where
\<open>TableRow K p =
  (let className = attr ''className'' p in
    let props = rest [''className''] p in
    el (tag ''tr'') [At ''data-slot'' (lit ''table-row''),
      At ''className'' (cn K [lit ''border-b transition-colors hover:bg-muted/50 has-aria-expanded:bg-muted/50 data-[state=selected]:bg-muted'',
          className]),
      Sp props]
    [])\<close>

definition TableHead :: "lib \<Rightarrow> props \<Rightarrow> val" where
\<open>TableHead K p =
  (let className = attr ''className'' p in
    let props = rest [''className''] p in
    el (tag ''th'') [At ''data-slot'' (lit ''table-head''),
      At ''className'' (cn K [lit ''h-10 px-2 text-left align-middle font-medium whitespace-nowrap text-foreground [&:has([role=checkbox])]:pr-0'',
          className]),
      Sp props]
    [])\<close>

definition TableCell :: "lib \<Rightarrow> props \<Rightarrow> val" where
\<open>TableCell K p =
  (let className = attr ''className'' p in
    let props = rest [''className''] p in
    el (tag ''td'') [At ''data-slot'' (lit ''table-cell''),
      At ''className'' (cn K [lit ''p-2 align-middle whitespace-nowrap [&:has([role=checkbox])]:pr-0'',
          className]),
      Sp props]
    [])\<close>

definition TableCaption :: "lib \<Rightarrow> props \<Rightarrow> val" where
\<open>TableCaption K p =
  (let className = attr ''className'' p in
    let props = rest [''className''] p in
    el (tag ''caption'') [At ''data-slot'' (lit ''table-caption''),
      At ''className'' (cn K [lit ''mt-4 text-xs text-muted-foreground'',
          className]),
      Sp props]
    [])\<close>

section \<open>ui/tabs.tsx\<close>

definition Tabs :: "lib \<Rightarrow> props \<Rightarrow> val" where
\<open>Tabs K p =
  (let className = attr ''className'' p in
    let orientation = dflt (lit ''horizontal'') (attr ''orientation'' p) in
    let props = rest [''className'', ''orientation''] p in
    el (comp ''TabsPrimitive.Root'') [At ''data-slot'' (lit ''tabs''),
      At ''data-orientation'' orientation,
      At ''className'' (cn K [lit ''group/tabs flex gap-2 data-horizontal:flex-col'',
          className]),
      Sp props]
    [])\<close>

definition tabsListVariants :: "val list" where
\<open>tabsListVariants =
  [lit ''group/tabs-list inline-flex w-fit items-center justify-center rounded-none p-[3px] text-muted-foreground group-data-horizontal/tabs:h-8 group-data-vertical/tabs:h-fit group-data-vertical/tabs:flex-col data-[variant=line]:rounded-none'',
    obj [At ''variants'' (obj [At ''variant'' (obj [At ''default'' (lit ''bg-muted''),
              At ''line'' (lit ''gap-1 bg-transparent'')])]),
      At ''defaultVariants'' (obj [At ''variant'' (lit ''default'')])]]\<close>

definition TabsList :: "lib \<Rightarrow> props \<Rightarrow> val" where
\<open>TabsList K p =
  (let className = attr ''className'' p in
    let variant = dflt (lit ''default'') (attr ''variant'' p) in
    let props = rest [''className'', ''variant''] p in
    el (comp ''TabsPrimitive.List'') [At ''data-slot'' (lit ''tabs-list''),
      At ''data-variant'' variant,
      At ''className'' (cn K [cva K tabsListVariants (obj [At ''variant'' variant]),
          className]),
      Sp props]
    [])\<close>

definition TabsTrigger :: "lib \<Rightarrow> props \<Rightarrow> val" where
\<open>TabsTrigger K p =
  (let className = attr ''className'' p in
    let props = rest [''className''] p in
    el (comp ''TabsPrimitive.Tab'') [At ''data-slot'' (lit ''tabs-trigger''),
      At ''className'' (cn K [lit ''relative inline-flex h-[calc(100%-1px)] flex-1 items-center justify-center gap-1.5 rounded-none border border-transparent px-1.5 py-0.5 text-xs font-medium whitespace-nowrap text-foreground/60 transition-all group-data-vertical/tabs:w-full group-data-vertical/tabs:justify-start group-data-vertical/tabs:py-[calc(--spacing(1.25))] hover:text-foreground focus-visible:border-ring focus-visible:ring-[3px] focus-visible:ring-ring/50 focus-visible:outline-1 focus-visible:outline-ring disabled:pointer-events-none disabled:opacity-50 has-data-[icon=inline-end]:pr-1 has-data-[icon=inline-start]:pl-1 aria-disabled:pointer-events-none aria-disabled:opacity-50 dark:text-muted-foreground dark:hover:text-foreground [&_svg]:pointer-events-none [&_svg]:shrink-0 [&_svg:not([class*='size-'])]:size-4'',
          lit ''group-data-[variant=line]/tabs-list:bg-transparent group-data-[variant=line]/tabs-list:data-active:bg-transparent dark:group-data-[variant=line]/tabs-list:data-active:border-transparent dark:group-data-[variant=line]/tabs-list:data-active:bg-transparent'',
          lit ''data-active:bg-background data-active:text-foreground dark:data-active:border-input dark:data-active:bg-input/30 dark:data-active:text-foreground'',
          lit ''after:absolute after:bg-foreground after:opacity-0 after:transition-opacity group-data-horizontal/tabs:after:inset-x-0 group-data-horizontal/tabs:after:bottom-[-5px] group-data-horizontal/tabs:after:h-0.5 group-data-vertical/tabs:after:inset-y-0 group-data-vertical/tabs:after:-right-1 group-data-vertical/tabs:after:w-0.5 group-data-[variant=line]/tabs-list:data-active:after:opacity-100'',
          className]),
      Sp props]
    [])\<close>

definition TabsContent :: "lib \<Rightarrow> props \<Rightarrow> val" where
\<open>TabsContent K p =
  (let className = attr ''className'' p in
    let props = rest [''className''] p in
    el (comp ''TabsPrimitive.Panel'') [At ''data-slot'' (lit ''tabs-content''),
      At ''className'' (cn K [lit ''flex-1 text-xs/relaxed outline-none'',
          className]),
      Sp props]
    [])\<close>

section \<open>The contract\<close>

text \<open>The rows: slot, the properties read, whether the caller's classes are merged, the component.\<close>

definition kit_layout :: "lib \<Rightarrow> kit_row list" where
\<open>kit_layout K = [
  (''accordion'', [''className''], True, Accordion K),
  (''accordion-item'', [''className''], True, AccordionItem K),
  (''accordion-trigger'', [''className'', ''children''], True, AccordionTrigger K),
  (''accordion-content'', [''className'', ''children''], False, AccordionContent K),
  (''alert'', [''className'', ''variant''], True, Alert K),
  (''alert-title'', [''className''], True, AlertTitle K),
  (''alert-description'', [''className''], True, AlertDescription K),
  (''alert-action'', [''className''], True, AlertAction K),
  (''aspect-ratio'', [''ratio'', ''className''], True, AspectRatio K),
  (''avatar'', [''className'', ''size''], True, Avatar K),
  (''avatar-image'', [''className''], True, AvatarImage K),
  (''avatar-fallback'', [''className''], True, AvatarFallback K),
  (''avatar-badge'', [''className''], True, AvatarBadge K),
  (''avatar-group'', [''className''], True, AvatarGroup K),
  (''avatar-group-count'', [''className''], True, AvatarGroupCount K),
  (''breadcrumb'', [''className''], True, Breadcrumb K),
  (''breadcrumb-list'', [''className''], True, BreadcrumbList K),
  (''breadcrumb-item'', [''className''], True, BreadcrumbItem K),
  (''breadcrumb-page'', [''className''], True, BreadcrumbPage K),
  (''breadcrumb-separator'', [''children'', ''className''], True, BreadcrumbSeparator K),
  (''breadcrumb-ellipsis'', [''className''], True, BreadcrumbEllipsis K),
  (''card'', [''className'', ''size''], True, Card K),
  (''card-header'', [''className''], True, CardHeader K),
  (''card-title'', [''className''], True, CardTitle K),
  (''card-description'', [''className''], True, CardDescription K),
  (''card-action'', [''className''], True, CardAction K),
  (''card-content'', [''className''], True, CardContent K),
  (''card-footer'', [''className''], True, CardFooter K),
  (''collapsible'', [], False, Collapsible K),
  (''collapsible-trigger'', [], False, CollapsibleTrigger K),
  (''collapsible-content'', [], False, CollapsibleContent K),
  (''empty'', [''className''], True, Empty K),
  (''empty-header'', [''className''], True, EmptyHeader K),
  (''empty-icon'', [''className'', ''variant''], True, EmptyMedia K),
  (''empty-title'', [''className''], True, EmptyTitle K),
  (''empty-description'', [''className''], True, EmptyDescription K),
  (''empty-content'', [''className''], True, EmptyContent K),
  (''separator'', [''className'', ''orientation''], True, Separator K),
  (''item-group'', [''className''], True, ItemGroup K),
  (''item-separator'', [''className''], True, ItemSeparator K),
  (''item-media'', [''className'', ''variant''], True, ItemMedia K),
  (''item-content'', [''className''], True, ItemContent K),
  (''item-title'', [''className''], True, ItemTitle K),
  (''item-description'', [''className''], True, ItemDescription K),
  (''item-actions'', [''className''], True, ItemActions K),
  (''item-header'', [''className''], True, ItemHeader K),
  (''item-footer'', [''className''], True, ItemFooter K),
  (''kbd'', [''className''], True, Kbd K),
  (''kbd-group'', [''className''], True, KbdGroup K),
  (''label'', [''className''], True, Label K),
  (''progress'', [''className'', ''children'', ''value''], True, Progress K),
  (''progress-track'', [''className''], True, ProgressTrack K),
  (''progress-indicator'', [''className''], True, ProgressIndicator K),
  (''progress-label'', [''className''], True, ProgressLabel K),
  (''progress-value'', [''className''], True, ProgressValue K),
  (''resizable-panel-group'', [''className''], True, ResizablePanelGroup K),
  (''resizable-panel'', [], False, ResizablePanel K),
  (''resizable-handle'', [''withHandle'', ''className''], True, ResizableHandle K),
  (''scroll-area'', [''className'', ''children''], True, ScrollArea K),
  (''scroll-area-scrollbar'', [''className'', ''orientation''], True, ScrollBar K),
  (''skeleton'', [''className''], True, Skeleton K),
  (''spinner'', [''className''], True, Spinner K),
  (''table'', [''className''], True, Table K),
  (''table-header'', [''className''], True, TableHeader K),
  (''table-body'', [''className''], True, TableBody K),
  (''table-footer'', [''className''], True, TableFooter K),
  (''table-row'', [''className''], True, TableRow K),
  (''table-head'', [''className''], True, TableHead K),
  (''table-cell'', [''className''], True, TableCell K),
  (''table-caption'', [''className''], True, TableCaption K),
  (''tabs'', [''className'', ''orientation''], True, Tabs K),
  (''tabs-list'', [''className'', ''variant''], True, TabsList K),
  (''tabs-trigger'', [''className''], True, TabsTrigger K),
  (''tabs-content'', [''className''], True, TabsContent K)]\<close>

lemma Accordion_ok [kit_rows]: "kit_ok K (''accordion'', [''className''], True, Accordion K)"
  by (simp add: kit_simps Accordion_def)

lemma AccordionItem_ok [kit_rows]: "kit_ok K (''accordion-item'', [''className''], True, AccordionItem K)"
  by (simp add: kit_simps AccordionItem_def)

lemma AccordionTrigger_ok [kit_rows]: "kit_ok K (''accordion-trigger'', [''className'', ''children''], True, AccordionTrigger K)"
  by (simp add: kit_simps AccordionTrigger_def)

lemma AccordionContent_ok [kit_rows]: "kit_ok K (''accordion-content'', [''className'', ''children''], False, AccordionContent K)"
  by (simp add: kit_simps AccordionContent_def)

lemma Alert_ok [kit_rows]: "kit_ok K (''alert'', [''className'', ''variant''], True, Alert K)"
  by (simp add: kit_simps Alert_def)

lemma AlertTitle_ok [kit_rows]: "kit_ok K (''alert-title'', [''className''], True, AlertTitle K)"
  by (simp add: kit_simps AlertTitle_def)

lemma AlertDescription_ok [kit_rows]: "kit_ok K (''alert-description'', [''className''], True, AlertDescription K)"
  by (simp add: kit_simps AlertDescription_def)

lemma AlertAction_ok [kit_rows]: "kit_ok K (''alert-action'', [''className''], True, AlertAction K)"
  by (simp add: kit_simps AlertAction_def)

lemma AspectRatio_ok [kit_rows]: "kit_ok K (''aspect-ratio'', [''ratio'', ''className''], True, AspectRatio K)"
  by (simp add: kit_simps AspectRatio_def)

lemma Avatar_ok [kit_rows]: "kit_ok K (''avatar'', [''className'', ''size''], True, Avatar K)"
  by (simp add: kit_simps Avatar_def)

lemma AvatarImage_ok [kit_rows]: "kit_ok K (''avatar-image'', [''className''], True, AvatarImage K)"
  by (simp add: kit_simps AvatarImage_def)

lemma AvatarFallback_ok [kit_rows]: "kit_ok K (''avatar-fallback'', [''className''], True, AvatarFallback K)"
  by (simp add: kit_simps AvatarFallback_def)

lemma AvatarBadge_ok [kit_rows]: "kit_ok K (''avatar-badge'', [''className''], True, AvatarBadge K)"
  by (simp add: kit_simps AvatarBadge_def)

lemma AvatarGroup_ok [kit_rows]: "kit_ok K (''avatar-group'', [''className''], True, AvatarGroup K)"
  by (simp add: kit_simps AvatarGroup_def)

lemma AvatarGroupCount_ok [kit_rows]: "kit_ok K (''avatar-group-count'', [''className''], True, AvatarGroupCount K)"
  by (simp add: kit_simps AvatarGroupCount_def)

lemma Breadcrumb_ok [kit_rows]: "kit_ok K (''breadcrumb'', [''className''], True, Breadcrumb K)"
  by (simp add: kit_simps Breadcrumb_def)

lemma BreadcrumbList_ok [kit_rows]: "kit_ok K (''breadcrumb-list'', [''className''], True, BreadcrumbList K)"
  by (simp add: kit_simps BreadcrumbList_def)

lemma BreadcrumbItem_ok [kit_rows]: "kit_ok K (''breadcrumb-item'', [''className''], True, BreadcrumbItem K)"
  by (simp add: kit_simps BreadcrumbItem_def)

lemma BreadcrumbPage_ok [kit_rows]: "kit_ok K (''breadcrumb-page'', [''className''], True, BreadcrumbPage K)"
  by (simp add: kit_simps BreadcrumbPage_def)

lemma BreadcrumbSeparator_ok [kit_rows]: "kit_ok K (''breadcrumb-separator'', [''children'', ''className''], True, BreadcrumbSeparator K)"
  by (simp add: kit_simps BreadcrumbSeparator_def)

lemma BreadcrumbEllipsis_ok [kit_rows]: "kit_ok K (''breadcrumb-ellipsis'', [''className''], True, BreadcrumbEllipsis K)"
  by (simp add: kit_simps BreadcrumbEllipsis_def)

lemma Card_ok [kit_rows]: "kit_ok K (''card'', [''className'', ''size''], True, Card K)"
  by (simp add: kit_simps Card_def)

lemma CardHeader_ok [kit_rows]: "kit_ok K (''card-header'', [''className''], True, CardHeader K)"
  by (simp add: kit_simps CardHeader_def)

lemma CardTitle_ok [kit_rows]: "kit_ok K (''card-title'', [''className''], True, CardTitle K)"
  by (simp add: kit_simps CardTitle_def)

lemma CardDescription_ok [kit_rows]: "kit_ok K (''card-description'', [''className''], True, CardDescription K)"
  by (simp add: kit_simps CardDescription_def)

lemma CardAction_ok [kit_rows]: "kit_ok K (''card-action'', [''className''], True, CardAction K)"
  by (simp add: kit_simps CardAction_def)

lemma CardContent_ok [kit_rows]: "kit_ok K (''card-content'', [''className''], True, CardContent K)"
  by (simp add: kit_simps CardContent_def)

lemma CardFooter_ok [kit_rows]: "kit_ok K (''card-footer'', [''className''], True, CardFooter K)"
  by (simp add: kit_simps CardFooter_def)

lemma Collapsible_ok [kit_rows]: "kit_ok K (''collapsible'', [], False, Collapsible K)"
  by (simp add: kit_simps Collapsible_def)

lemma CollapsibleTrigger_ok [kit_rows]: "kit_ok K (''collapsible-trigger'', [], False, CollapsibleTrigger K)"
  by (simp add: kit_simps CollapsibleTrigger_def)

lemma CollapsibleContent_ok [kit_rows]: "kit_ok K (''collapsible-content'', [], False, CollapsibleContent K)"
  by (simp add: kit_simps CollapsibleContent_def)

lemma Empty_ok [kit_rows]: "kit_ok K (''empty'', [''className''], True, Empty K)"
  by (simp add: kit_simps Empty_def)

lemma EmptyHeader_ok [kit_rows]: "kit_ok K (''empty-header'', [''className''], True, EmptyHeader K)"
  by (simp add: kit_simps EmptyHeader_def)

lemma EmptyMedia_ok [kit_rows]: "kit_ok K (''empty-icon'', [''className'', ''variant''], True, EmptyMedia K)"
  by (simp add: kit_simps EmptyMedia_def)

lemma EmptyTitle_ok [kit_rows]: "kit_ok K (''empty-title'', [''className''], True, EmptyTitle K)"
  by (simp add: kit_simps EmptyTitle_def)

lemma EmptyDescription_ok [kit_rows]: "kit_ok K (''empty-description'', [''className''], True, EmptyDescription K)"
  by (simp add: kit_simps EmptyDescription_def)

lemma EmptyContent_ok [kit_rows]: "kit_ok K (''empty-content'', [''className''], True, EmptyContent K)"
  by (simp add: kit_simps EmptyContent_def)

lemma Separator_ok [kit_rows]: "kit_ok K (''separator'', [''className'', ''orientation''], True, Separator K)"
  by (simp add: kit_simps Separator_def)

lemma ItemGroup_ok [kit_rows]: "kit_ok K (''item-group'', [''className''], True, ItemGroup K)"
  by (simp add: kit_simps ItemGroup_def)

lemma ItemSeparator_ok [kit_rows]: "kit_ok K (''item-separator'', [''className''], True, ItemSeparator K)"
  by (simp add: kit_simps ItemSeparator_def)

lemma ItemMedia_ok [kit_rows]: "kit_ok K (''item-media'', [''className'', ''variant''], True, ItemMedia K)"
  by (simp add: kit_simps ItemMedia_def)

lemma ItemContent_ok [kit_rows]: "kit_ok K (''item-content'', [''className''], True, ItemContent K)"
  by (simp add: kit_simps ItemContent_def)

lemma ItemTitle_ok [kit_rows]: "kit_ok K (''item-title'', [''className''], True, ItemTitle K)"
  by (simp add: kit_simps ItemTitle_def)

lemma ItemDescription_ok [kit_rows]: "kit_ok K (''item-description'', [''className''], True, ItemDescription K)"
  by (simp add: kit_simps ItemDescription_def)

lemma ItemActions_ok [kit_rows]: "kit_ok K (''item-actions'', [''className''], True, ItemActions K)"
  by (simp add: kit_simps ItemActions_def)

lemma ItemHeader_ok [kit_rows]: "kit_ok K (''item-header'', [''className''], True, ItemHeader K)"
  by (simp add: kit_simps ItemHeader_def)

lemma ItemFooter_ok [kit_rows]: "kit_ok K (''item-footer'', [''className''], True, ItemFooter K)"
  by (simp add: kit_simps ItemFooter_def)

lemma Kbd_ok [kit_rows]: "kit_ok K (''kbd'', [''className''], True, Kbd K)"
  by (simp add: kit_simps Kbd_def)

lemma KbdGroup_ok [kit_rows]: "kit_ok K (''kbd-group'', [''className''], True, KbdGroup K)"
  by (simp add: kit_simps KbdGroup_def)

lemma Label_ok [kit_rows]: "kit_ok K (''label'', [''className''], True, Label K)"
  by (simp add: kit_simps Label_def)

lemma Progress_ok [kit_rows]: "kit_ok K (''progress'', [''className'', ''children'', ''value''], True, Progress K)"
  by (simp add: kit_simps Progress_def)

lemma ProgressTrack_ok [kit_rows]: "kit_ok K (''progress-track'', [''className''], True, ProgressTrack K)"
  by (simp add: kit_simps ProgressTrack_def)

lemma ProgressIndicator_ok [kit_rows]: "kit_ok K (''progress-indicator'', [''className''], True, ProgressIndicator K)"
  by (simp add: kit_simps ProgressIndicator_def)

lemma ProgressLabel_ok [kit_rows]: "kit_ok K (''progress-label'', [''className''], True, ProgressLabel K)"
  by (simp add: kit_simps ProgressLabel_def)

lemma ProgressValue_ok [kit_rows]: "kit_ok K (''progress-value'', [''className''], True, ProgressValue K)"
  by (simp add: kit_simps ProgressValue_def)

lemma ResizablePanelGroup_ok [kit_rows]: "kit_ok K (''resizable-panel-group'', [''className''], True, ResizablePanelGroup K)"
  by (simp add: kit_simps ResizablePanelGroup_def)

lemma ResizablePanel_ok [kit_rows]: "kit_ok K (''resizable-panel'', [], False, ResizablePanel K)"
  by (simp add: kit_simps ResizablePanel_def)

lemma ResizableHandle_ok [kit_rows]: "kit_ok K (''resizable-handle'', [''withHandle'', ''className''], True, ResizableHandle K)"
  by (simp add: kit_simps ResizableHandle_def)

lemma ScrollArea_ok [kit_rows]: "kit_ok K (''scroll-area'', [''className'', ''children''], True, ScrollArea K)"
  by (simp add: kit_simps ScrollArea_def)

lemma ScrollBar_ok [kit_rows]: "kit_ok K (''scroll-area-scrollbar'', [''className'', ''orientation''], True, ScrollBar K)"
  by (simp add: kit_simps ScrollBar_def)

lemma Skeleton_ok [kit_rows]: "kit_ok K (''skeleton'', [''className''], True, Skeleton K)"
  by (simp add: kit_simps Skeleton_def)

lemma Spinner_ok [kit_rows]: "kit_ok K (''spinner'', [''className''], True, Spinner K)"
  by (simp add: kit_simps Spinner_def)

lemma Table_ok [kit_rows]: "kit_ok K (''table'', [''className''], True, Table K)"
  by (simp add: kit_simps Table_def)

lemma TableHeader_ok [kit_rows]: "kit_ok K (''table-header'', [''className''], True, TableHeader K)"
  by (simp add: kit_simps TableHeader_def)

lemma TableBody_ok [kit_rows]: "kit_ok K (''table-body'', [''className''], True, TableBody K)"
  by (simp add: kit_simps TableBody_def)

lemma TableFooter_ok [kit_rows]: "kit_ok K (''table-footer'', [''className''], True, TableFooter K)"
  by (simp add: kit_simps TableFooter_def)

lemma TableRow_ok [kit_rows]: "kit_ok K (''table-row'', [''className''], True, TableRow K)"
  by (simp add: kit_simps TableRow_def)

lemma TableHead_ok [kit_rows]: "kit_ok K (''table-head'', [''className''], True, TableHead K)"
  by (simp add: kit_simps TableHead_def)

lemma TableCell_ok [kit_rows]: "kit_ok K (''table-cell'', [''className''], True, TableCell K)"
  by (simp add: kit_simps TableCell_def)

lemma TableCaption_ok [kit_rows]: "kit_ok K (''table-caption'', [''className''], True, TableCaption K)"
  by (simp add: kit_simps TableCaption_def)

lemma Tabs_ok [kit_rows]: "kit_ok K (''tabs'', [''className'', ''orientation''], True, Tabs K)"
  by (simp add: kit_simps Tabs_def)

lemma TabsList_ok [kit_rows]: "kit_ok K (''tabs-list'', [''className'', ''variant''], True, TabsList K)"
  by (simp add: kit_simps TabsList_def)

lemma TabsTrigger_ok [kit_rows]: "kit_ok K (''tabs-trigger'', [''className''], True, TabsTrigger K)"
  by (simp add: kit_simps TabsTrigger_def)

lemma TabsContent_ok [kit_rows]: "kit_ok K (''tabs-content'', [''className''], True, TabsContent K)"
  by (simp add: kit_simps TabsContent_def)

lemma kit_layout_ok: "list_all (kit_ok K) (kit_layout K)"
  by (simp add: kit_layout_def kit_rows)

end
