(* ===== verification/UiControls.thy ===== *)
theory UiControls
  imports UiLayout
begin

text \<open>
  The component kit, the form controls: one definition per component of the files named by the sections,
  from its props to the element it renders.
\<close>

section \<open>ui/button.tsx\<close>

definition buttonVariants :: "val list" where
\<open>buttonVariants =
  [lit ''group/button inline-flex shrink-0 items-center justify-center rounded-none border border-transparent bg-clip-padding text-xs font-medium whitespace-nowrap transition-all outline-none select-none focus-visible:border-ring focus-visible:ring-1 focus-visible:ring-ring/50 active:not-aria-[haspopup]:translate-y-px disabled:pointer-events-none disabled:opacity-50 aria-invalid:border-destructive aria-invalid:ring-1 aria-invalid:ring-destructive/20 dark:aria-invalid:border-destructive/50 dark:aria-invalid:ring-destructive/40 [&_svg]:pointer-events-none [&_svg]:shrink-0 [&_svg:not([class*='size-'])]:size-4'',
    obj [At ''variants'' (obj [At ''variant'' (obj [At ''default'' (lit ''bg-primary text-primary-foreground hover:bg-primary/80''),
              At ''outline'' (lit ''border-border bg-background hover:bg-muted hover:text-foreground aria-expanded:bg-muted aria-expanded:text-foreground dark:border-input dark:bg-input/30 dark:hover:bg-input/50''),
              At ''secondary'' (lit ''bg-secondary text-secondary-foreground hover:bg-[color-mix(in_oklch,var(--secondary),var(--foreground)_5%)] aria-expanded:bg-secondary aria-expanded:text-secondary-foreground''),
              At ''ghost'' (lit ''hover:bg-muted hover:text-foreground aria-expanded:bg-muted aria-expanded:text-foreground dark:hover:bg-muted/50''),
              At ''destructive'' (lit ''bg-destructive/10 text-destructive hover:bg-destructive/20 focus-visible:border-destructive/40 focus-visible:ring-destructive/20 dark:bg-destructive/20 dark:hover:bg-destructive/30 dark:focus-visible:ring-destructive/40''),
              At ''link'' (lit ''text-primary underline-offset-4 hover:underline'')]),
          At ''size'' (obj [At ''default'' (lit ''h-8 gap-1.5 px-2.5 has-data-[icon=inline-end]:pr-2 has-data-[icon=inline-start]:pl-2''),
              At ''xs'' (lit ''h-6 gap-1 rounded-none px-2 text-xs has-data-[icon=inline-end]:pr-1.5 has-data-[icon=inline-start]:pl-1.5 [&_svg:not([class*='size-'])]:size-3''),
              At ''sm'' (lit ''h-7 gap-1 rounded-none px-2.5 has-data-[icon=inline-end]:pr-1.5 has-data-[icon=inline-start]:pl-1.5 [&_svg:not([class*='size-'])]:size-3.5''),
              At ''lg'' (lit ''h-9 gap-1.5 px-2.5 has-data-[icon=inline-end]:pr-2 has-data-[icon=inline-start]:pl-2''),
              At ''icon'' (lit ''size-8''),
              At ''icon-xs'' (lit ''size-6 rounded-none [&_svg:not([class*='size-'])]:size-3''),
              At ''icon-sm'' (lit ''size-7 rounded-none''),
              At ''icon-lg'' (lit ''size-9'')])]),
      At ''defaultVariants'' (obj [At ''variant'' (lit ''default''),
          At ''size'' (lit ''default'')])]]\<close>

definition Button :: "lib \<Rightarrow> props \<Rightarrow> val" where
\<open>Button K p =
  (let className = attr ''className'' p in
    let variant = dflt (lit ''default'') (attr ''variant'' p) in
    let size' = dflt (lit ''default'') (attr ''size'' p) in
    let props = rest [''className'', ''variant'', ''size''] p in
    el (comp ''ButtonPrimitive'') [At ''data-slot'' (lit ''button''),
      At ''className'' (cn K [cva K buttonVariants (obj [At ''variant'' variant,
              At ''size'' size',
              At ''className'' className])]),
      Sp props]
    [])\<close>

section \<open>ui/button-group.tsx\<close>

definition buttonGroupVariants :: "val list" where
\<open>buttonGroupVariants =
  [lit ''flex w-fit items-stretch rounded-none *:focus-visible:relative *:focus-visible:z-10 has-[>[data-slot=button-group]]:gap-2 has-[select[aria-hidden=true]:last-child]:[&>[data-slot=select-trigger]:last-of-type]:rounded-none [&>[data-slot=select-trigger]:not([class*='w-'])]:w-fit [&>input]:flex-1'',
    obj [At ''variants'' (obj [At ''orientation'' (obj [At ''horizontal'' (lit ''*:data-slot:rounded-r-none [&>[data-slot]~[data-slot]]:rounded-l-none [&>[data-slot]~[data-slot]]:border-l-0''),
              At ''vertical'' (lit ''flex-col *:data-slot:rounded-b-none [&>[data-slot]~[data-slot]]:rounded-t-none [&>[data-slot]~[data-slot]]:border-t-0'')])]),
      At ''defaultVariants'' (obj [At ''orientation'' (lit ''horizontal'')])]]\<close>

definition ButtonGroup :: "lib \<Rightarrow> props \<Rightarrow> val" where
\<open>ButtonGroup K p =
  (let className = attr ''className'' p in
    let orientation = attr ''orientation'' p in
    let props = rest [''className'', ''orientation''] p in
    el (tag ''div'') [At ''role'' (lit ''group''),
      At ''data-slot'' (lit ''button-group''),
      At ''data-orientation'' orientation,
      At ''className'' (cn K [cva K buttonGroupVariants (obj [At ''orientation'' orientation]),
          className]),
      Sp props]
    [])\<close>

definition ButtonGroupText :: "lib \<Rightarrow> props \<Rightarrow> val" where
\<open>ButtonGroupText K p =
  (let className = attr ''className'' p in
    let render = attr ''render'' p in
    let props = rest [''className'', ''render''] p in
    K ''useRender'' [obj [At ''defaultTagName'' (lit ''div''),
        At ''props'' (K ''mergeProps'' [obj [At ''className'' (cn K [lit ''flex items-center gap-2 rounded-none border bg-muted px-2.5 text-xs font-medium [&_svg]:pointer-events-none [&_svg:not([class*='size-'])]:size-4'',
                  className])], props]),
        At ''render'' render,
        At ''state'' (obj [At ''slot'' (lit ''button-group-text'')])]])\<close>

definition ButtonGroupSeparator :: "lib \<Rightarrow> props \<Rightarrow> val" where
\<open>ButtonGroupSeparator K p =
  (let className = attr ''className'' p in
    let orientation = dflt (lit ''vertical'') (attr ''orientation'' p) in
    let props = rest [''className'', ''orientation''] p in
    el (comp ''Separator'') [At ''data-slot'' (lit ''button-group-separator''),
      At ''orientation'' orientation,
      At ''className'' (cn K [lit ''relative self-stretch bg-input data-horizontal:mx-px data-horizontal:w-auto data-vertical:my-px data-vertical:h-auto'',
          className]),
      Sp props]
    [])\<close>

section \<open>ui/checkbox.tsx\<close>

definition Checkbox :: "lib \<Rightarrow> props \<Rightarrow> val" where
\<open>Checkbox K p =
  (let className = attr ''className'' p in
    let props = rest [''className''] p in
    el (comp ''CheckboxPrimitive.Root'') [At ''data-slot'' (lit ''checkbox''),
      At ''className'' (cn K [lit ''peer relative flex size-4 shrink-0 items-center justify-center rounded-none border border-input transition-colors outline-none group-has-disabled/field:opacity-50 after:absolute after:-inset-x-3 after:-inset-y-2 focus-visible:border-ring focus-visible:ring-1 focus-visible:ring-ring/50 disabled:cursor-not-allowed disabled:opacity-50 aria-invalid:border-destructive aria-invalid:ring-1 aria-invalid:ring-destructive/20 aria-invalid:aria-checked:border-primary dark:bg-input/30 dark:aria-invalid:border-destructive/50 dark:aria-invalid:ring-destructive/40 data-checked:border-primary data-checked:bg-primary data-checked:text-primary-foreground dark:data-checked:bg-primary'',
          className]),
      Sp props]
    [el (comp ''CheckboxPrimitive.Indicator'') [At ''data-slot'' (lit ''checkbox-indicator''),
        At ''className'' (lit ''grid place-content-center text-current transition-none [&>svg]:size-3.5'')]
      [el (comp ''CheckIcon'') []
        []]])\<close>

section \<open>ui/input.tsx\<close>

definition Input :: "lib \<Rightarrow> props \<Rightarrow> val" where
\<open>Input K p =
  (let className = attr ''className'' p in
    let type' = attr ''type'' p in
    let props = rest [''className'', ''type''] p in
    el (comp ''InputPrimitive'') [At ''type'' type',
      At ''data-slot'' (lit ''input''),
      At ''className'' (cn K [lit ''h-8 w-full min-w-0 rounded-none border border-input bg-transparent px-2.5 py-1 text-xs transition-colors outline-none file:inline-flex file:h-6 file:border-0 file:bg-transparent file:text-xs file:font-medium file:text-foreground placeholder:text-muted-foreground focus-visible:border-ring focus-visible:ring-1 focus-visible:ring-ring/50 disabled:pointer-events-none disabled:cursor-not-allowed disabled:bg-input/50 disabled:opacity-50 aria-invalid:border-destructive aria-invalid:ring-1 aria-invalid:ring-destructive/20 md:text-xs dark:bg-input/30 dark:disabled:bg-input/80 dark:aria-invalid:border-destructive/50 dark:aria-invalid:ring-destructive/40'',
          className]),
      Sp props]
    [])\<close>

section \<open>ui/textarea.tsx\<close>

definition Textarea :: "lib \<Rightarrow> props \<Rightarrow> val" where
\<open>Textarea K p =
  (let className = attr ''className'' p in
    let props = rest [''className''] p in
    el (tag ''textarea'') [At ''data-slot'' (lit ''textarea''),
      At ''className'' (cn K [lit ''flex field-sizing-content min-h-16 w-full rounded-none border border-input bg-transparent px-2.5 py-2 text-xs transition-colors outline-none placeholder:text-muted-foreground focus-visible:border-ring focus-visible:ring-1 focus-visible:ring-ring/50 disabled:cursor-not-allowed disabled:bg-input/50 disabled:opacity-50 aria-invalid:border-destructive aria-invalid:ring-1 aria-invalid:ring-destructive/20 md:text-xs dark:bg-input/30 dark:disabled:bg-input/80 dark:aria-invalid:border-destructive/50 dark:aria-invalid:ring-destructive/40'',
          className]),
      Sp props]
    [])\<close>

section \<open>ui/input-group.tsx\<close>

definition InputGroup :: "lib \<Rightarrow> props \<Rightarrow> val" where
\<open>InputGroup K p =
  (let className = attr ''className'' p in
    let props = rest [''className''] p in
    el (tag ''div'') [At ''data-slot'' (lit ''input-group''),
      At ''role'' (lit ''group''),
      At ''className'' (cn K [lit ''group/input-group relative flex h-8 w-full min-w-0 items-center rounded-none border border-input transition-colors outline-none in-data-[slot=combobox-content]:focus-within:border-inherit in-data-[slot=combobox-content]:focus-within:ring-0 has-disabled:bg-input/50 has-disabled:opacity-50 has-[[data-slot=input-group-control]:focus-visible]:border-ring has-[[data-slot=input-group-control]:focus-visible]:ring-1 has-[[data-slot=input-group-control]:focus-visible]:ring-ring/50 has-[[data-slot][aria-invalid=true]]:border-destructive has-[[data-slot][aria-invalid=true]]:ring-1 has-[[data-slot][aria-invalid=true]]:ring-destructive/20 has-[>[data-align=block-end]]:h-auto has-[>[data-align=block-end]]:flex-col has-[>[data-align=block-start]]:h-auto has-[>[data-align=block-start]]:flex-col has-[>textarea]:h-auto dark:bg-input/30 dark:has-disabled:bg-input/80 dark:has-[[data-slot][aria-invalid=true]]:ring-destructive/40 has-[>[data-align=block-end]]:[&>input]:pt-3 has-[>[data-align=block-start]]:[&>input]:pb-3 has-[>[data-align=inline-end]]:[&>input]:pr-1.5 has-[>[data-align=inline-start]]:[&>input]:pl-1.5'',
          className]),
      Sp props]
    [])\<close>

definition inputGroupAddonVariants :: "val list" where
\<open>inputGroupAddonVariants =
  [lit ''flex h-auto cursor-text items-center justify-center gap-2 py-1.5 text-xs font-medium text-muted-foreground select-none group-data-[disabled=true]/input-group:opacity-50 [&>kbd]:rounded-none [&>svg:not([class*='size-'])]:size-4'',
    obj [At ''variants'' (obj [At ''align'' (obj [At ''inline-start'' (lit ''order-first pl-2 has-[>button]:ml-[-0.3rem] has-[>kbd]:ml-[-0.15rem]''),
              At ''inline-end'' (lit ''order-last pr-2 has-[>button]:mr-[-0.3rem] has-[>kbd]:mr-[-0.15rem]''),
              At ''block-start'' (lit ''order-first w-full justify-start px-2.5 pt-2 group-has-[>input]/input-group:pt-2 [.border-b]:pb-2''),
              At ''block-end'' (lit ''order-last w-full justify-start px-2.5 pb-2 group-has-[>input]/input-group:pb-2 [.border-t]:pt-2'')])]),
      At ''defaultVariants'' (obj [At ''align'' (lit ''inline-start'')])]]\<close>

definition InputGroupAddon :: "lib \<Rightarrow> props \<Rightarrow> val" where
\<open>InputGroupAddon K p =
  (let className = attr ''className'' p in
    let align = dflt (lit ''inline-start'') (attr ''align'' p) in
    let props = rest [''className'', ''align''] p in
    el (tag ''div'') [At ''role'' (lit ''group''),
      At ''data-slot'' (lit ''input-group-addon''),
      At ''data-align'' align,
      At ''className'' (cn K [cva K inputGroupAddonVariants (obj [At ''align'' align]),
          className]),
      At ''onClick'' (VFun ''InputGroupAddon.onClick'' []),
      Sp props]
    [])\<close>

definition inputGroupButtonVariants :: "val list" where
\<open>inputGroupButtonVariants =
  [lit ''flex items-center gap-2 text-xs shadow-none'',
    obj [At ''variants'' (obj [At ''size'' (obj [At ''xs'' (lit ''h-6 gap-1 rounded-none px-1.5 [&>svg:not([class*='size-'])]:size-3.5''),
              At ''sm'' (lit ''gap-1''),
              At ''icon-xs'' (lit ''size-6 rounded-none p-0 has-[>svg]:p-0''),
              At ''icon-sm'' (lit ''size-7 p-0 has-[>svg]:p-0'')])]),
      At ''defaultVariants'' (obj [At ''size'' (lit ''xs'')])]]\<close>

definition InputGroupButton :: "lib \<Rightarrow> props \<Rightarrow> val" where
\<open>InputGroupButton K p =
  (let className = attr ''className'' p in
    let type' = dflt (lit ''button'') (attr ''type'' p) in
    let variant = dflt (lit ''ghost'') (attr ''variant'' p) in
    let size' = dflt (lit ''xs'') (attr ''size'' p) in
    let props = rest [''className'', ''type'', ''variant'', ''size''] p in
    el (comp ''Button'') [At ''type'' type',
      At ''data-size'' size',
      At ''variant'' variant,
      At ''className'' (cn K [cva K inputGroupButtonVariants (obj [At ''size'' size']),
          className]),
      Sp props]
    [])\<close>

definition InputGroupText :: "lib \<Rightarrow> props \<Rightarrow> val" where
\<open>InputGroupText K p =
  (let className = attr ''className'' p in
    let props = rest [''className''] p in
    el (tag ''span'') [At ''className'' (cn K [lit ''flex items-center gap-2 text-xs text-muted-foreground [&_svg]:pointer-events-none [&_svg:not([class*='size-'])]:size-4'',
          className]),
      Sp props]
    [])\<close>

definition InputGroupInput :: "lib \<Rightarrow> props \<Rightarrow> val" where
\<open>InputGroupInput K p =
  (let className = attr ''className'' p in
    let props = rest [''className''] p in
    el (comp ''Input'') [At ''data-slot'' (lit ''input-group-control''),
      At ''className'' (cn K [lit ''flex-1 rounded-none border-0 bg-transparent shadow-none ring-0 focus-visible:ring-0 disabled:bg-transparent aria-invalid:ring-0 dark:bg-transparent dark:disabled:bg-transparent'',
          className]),
      Sp props]
    [])\<close>

definition InputGroupTextarea :: "lib \<Rightarrow> props \<Rightarrow> val" where
\<open>InputGroupTextarea K p =
  (let className = attr ''className'' p in
    let props = rest [''className''] p in
    el (comp ''Textarea'') [At ''data-slot'' (lit ''input-group-control''),
      At ''className'' (cn K [lit ''flex-1 resize-none rounded-none border-0 bg-transparent py-2 shadow-none ring-0 focus-visible:ring-0 disabled:bg-transparent aria-invalid:ring-0 dark:bg-transparent dark:disabled:bg-transparent'',
          className]),
      Sp props]
    [])\<close>

section \<open>ui/input-otp.tsx\<close>

definition InputOTP :: "lib \<Rightarrow> props \<Rightarrow> val" where
\<open>InputOTP K p =
  (let className = attr ''className'' p in
    let containerClassName = attr ''containerClassName'' p in
    let props = rest [''className'', ''containerClassName''] p in
    el (comp ''OTPInput'') [At ''data-slot'' (lit ''input-otp''),
      At ''containerClassName'' (cn K [lit ''cn-input-otp flex items-center has-disabled:opacity-50'',
          containerClassName]),
      At ''spellCheck'' (VBool False),
      At ''className'' (cn K [lit ''disabled:cursor-not-allowed'',
          className]),
      Sp props]
    [])\<close>

definition InputOTPGroup :: "lib \<Rightarrow> props \<Rightarrow> val" where
\<open>InputOTPGroup K p =
  (let className = attr ''className'' p in
    let props = rest [''className''] p in
    el (tag ''div'') [At ''data-slot'' (lit ''input-otp-group''),
      At ''className'' (cn K [lit ''flex items-center rounded-none has-aria-invalid:border-destructive has-aria-invalid:ring-1 has-aria-invalid:ring-destructive/20 dark:has-aria-invalid:ring-destructive/40'',
          className]),
      Sp props]
    [])\<close>

definition InputOTPSlot :: "lib \<Rightarrow> val \<Rightarrow> props \<Rightarrow> val" where
\<open>InputOTPSlot K c p =
  (let index' = attr ''index'' p in
    let className = attr ''className'' p in
    let props = rest [''index'', ''className''] p in
    let inputOTPContext = c in
    let e' = jcoal (item (dot inputOTPContext ''slots'') index') (obj []) in
    let char = dot e' ''char'' in
    let hasFakeCaret = dot e' ''hasFakeCaret'' in
    let isActive = dot e' ''isActive'' in
    el (tag ''div'') [At ''data-slot'' (lit ''input-otp-slot''),
      At ''data-active'' isActive,
      At ''className'' (cn K [lit ''relative flex size-8 items-center justify-center border-y border-r border-input text-xs transition-all outline-none first:rounded-none first:border-l last:rounded-none aria-invalid:border-destructive data-[active=true]:z-10 data-[active=true]:border-ring data-[active=true]:ring-1 data-[active=true]:ring-ring/50 data-[active=true]:aria-invalid:border-destructive data-[active=true]:aria-invalid:ring-destructive/20 dark:bg-input/30 dark:data-[active=true]:aria-invalid:ring-destructive/40'',
          className]),
      Sp props]
    [char,
      jand hasFakeCaret
      (el (tag ''div'') [At ''className'' (lit ''pointer-events-none absolute inset-0 flex items-center justify-center'')]
        [el (tag ''div'') [At ''className'' (lit ''h-4 w-px animate-caret-blink bg-foreground duration-1000'')]
          []])])\<close>

definition InputOTPSeparator :: "lib \<Rightarrow> props \<Rightarrow> val" where
\<open>InputOTPSeparator K p =
  (let props = rest [] p in
    el (tag ''div'') [At ''data-slot'' (lit ''input-otp-separator''),
      At ''className'' (lit ''flex items-center [&_svg:not([class*='size-'])]:size-4''),
      At ''role'' (lit ''separator''),
      Sp props]
    [el (comp ''MinusIcon'') []
      []])\<close>

section \<open>ui/native-select.tsx\<close>

definition NativeSelect :: "lib \<Rightarrow> props \<Rightarrow> val" where
\<open>NativeSelect K p =
  (let className = attr ''className'' p in
    let size' = dflt (lit ''default'') (attr ''size'' p) in
    let props = rest [''className'', ''size''] p in
    el (tag ''div'') [At ''className'' (cn K [lit ''group/native-select relative w-fit has-[select:disabled]:opacity-50'',
          className]),
      At ''data-slot'' (lit ''native-select-wrapper''),
      At ''data-size'' size']
    [el (tag ''select'') [At ''data-slot'' (lit ''native-select''),
        At ''data-size'' size',
        At ''className'' (lit ''h-8 w-full min-w-0 appearance-none rounded-none border border-input bg-transparent py-1 pr-8 pl-2.5 text-xs transition-colors outline-none select-none selection:bg-primary selection:text-primary-foreground placeholder:text-muted-foreground focus-visible:border-ring focus-visible:ring-1 focus-visible:ring-ring/50 disabled:pointer-events-none disabled:cursor-not-allowed aria-invalid:border-destructive aria-invalid:ring-1 aria-invalid:ring-destructive/20 data-[size=sm]:h-7 data-[size=sm]:rounded-none data-[size=sm]:py-0.5 dark:bg-input/30 dark:hover:bg-input/50 dark:aria-invalid:border-destructive/50 dark:aria-invalid:ring-destructive/40''),
        Sp props]
      [],
      el (comp ''ChevronDownIcon'') [At ''className'' (lit ''pointer-events-none absolute top-1/2 right-2.5 size-4 -translate-y-1/2 text-muted-foreground select-none''),
        At ''aria-hidden'' (lit ''true''),
        At ''data-slot'' (lit ''native-select-icon'')]
      []])\<close>

definition NativeSelectOption :: "lib \<Rightarrow> props \<Rightarrow> val" where
\<open>NativeSelectOption K p =
  (let className = attr ''className'' p in
    let props = rest [''className''] p in
    el (tag ''option'') [At ''data-slot'' (lit ''native-select-option''),
      At ''className'' (cn K [lit ''bg-[Canvas] text-[CanvasText]'',
          className]),
      Sp props]
    [])\<close>

definition NativeSelectOptGroup :: "lib \<Rightarrow> props \<Rightarrow> val" where
\<open>NativeSelectOptGroup K p =
  (let className = attr ''className'' p in
    let props = rest [''className''] p in
    el (tag ''optgroup'') [At ''data-slot'' (lit ''native-select-optgroup''),
      At ''className'' (cn K [lit ''bg-[Canvas] text-[CanvasText]'',
          className]),
      Sp props]
    [])\<close>

section \<open>ui/radio-group.tsx\<close>

definition RadioGroup :: "lib \<Rightarrow> props \<Rightarrow> val" where
\<open>RadioGroup K p =
  (let className = attr ''className'' p in
    let props = rest [''className''] p in
    el (comp ''RadioGroupPrimitive'') [At ''data-slot'' (lit ''radio-group''),
      At ''className'' (cn K [lit ''grid w-full gap-2'',
          className]),
      Sp props]
    [])\<close>

definition RadioGroupItem :: "lib \<Rightarrow> props \<Rightarrow> val" where
\<open>RadioGroupItem K p =
  (let className = attr ''className'' p in
    let props = rest [''className''] p in
    el (comp ''RadioPrimitive.Root'') [At ''data-slot'' (lit ''radio-group-item''),
      At ''className'' (cn K [lit ''group/radio-group-item peer relative flex aspect-square size-4 shrink-0 rounded-full border border-input outline-none after:absolute after:-inset-x-3 after:-inset-y-2 focus-visible:border-ring focus-visible:ring-3 focus-visible:ring-ring/50 disabled:cursor-not-allowed disabled:opacity-50 aria-invalid:border-destructive aria-invalid:ring-3 aria-invalid:ring-destructive/20 aria-invalid:aria-checked:border-primary dark:bg-input/30 dark:aria-invalid:border-destructive/50 dark:aria-invalid:ring-destructive/40 data-checked:border-primary data-checked:bg-primary data-checked:text-primary-foreground dark:data-checked:bg-primary'',
          className]),
      Sp props]
    [el (comp ''RadioPrimitive.Indicator'') [At ''data-slot'' (lit ''radio-group-indicator''),
        At ''className'' (lit ''flex size-4 items-center justify-center'')]
      [el (tag ''span'') [At ''className'' (lit ''absolute top-1/2 left-1/2 size-2 -translate-x-1/2 -translate-y-1/2 rounded-full bg-primary-foreground'')]
        []]])\<close>

section \<open>ui/switch.tsx\<close>

definition Switch :: "lib \<Rightarrow> props \<Rightarrow> val" where
\<open>Switch K p =
  (let className = attr ''className'' p in
    let size' = dflt (lit ''default'') (attr ''size'' p) in
    let props = rest [''className'', ''size''] p in
    el (comp ''SwitchPrimitive.Root'') [At ''data-slot'' (lit ''switch''),
      At ''data-size'' size',
      At ''className'' (cn K [lit ''peer group/switch relative inline-flex shrink-0 items-center rounded-full border border-transparent transition-all outline-none after:absolute after:-inset-x-3 after:-inset-y-2 focus-visible:border-ring focus-visible:ring-1 focus-visible:ring-ring/50 aria-invalid:border-destructive aria-invalid:ring-1 aria-invalid:ring-destructive/20 data-[size=default]:h-[18.4px] data-[size=default]:w-[32px] data-[size=sm]:h-[14px] data-[size=sm]:w-[24px] dark:aria-invalid:border-destructive/50 dark:aria-invalid:ring-destructive/40 data-checked:bg-primary data-unchecked:bg-input dark:data-unchecked:bg-input/80 data-disabled:cursor-not-allowed data-disabled:opacity-50'',
          className]),
      Sp props]
    [el (comp ''SwitchPrimitive.Thumb'') [At ''data-slot'' (lit ''switch-thumb''),
        At ''className'' (lit ''pointer-events-none block rounded-full bg-background ring-0 transition-transform group-data-[size=default]/switch:size-4 group-data-[size=sm]/switch:size-3 group-data-[size=default]/switch:data-checked:translate-x-[calc(100%-2px)] group-data-[size=sm]/switch:data-checked:translate-x-[calc(100%-2px)] dark:data-checked:bg-primary-foreground group-data-[size=default]/switch:data-unchecked:translate-x-0 group-data-[size=sm]/switch:data-unchecked:translate-x-0 dark:data-unchecked:bg-foreground'')]
      []])\<close>

section \<open>ui/toggle.tsx\<close>

definition toggleVariants :: "val list" where
\<open>toggleVariants =
  [lit ''group/toggle inline-flex items-center justify-center gap-1 rounded-none text-xs font-medium whitespace-nowrap transition-all outline-none hover:bg-muted hover:text-foreground focus-visible:border-ring focus-visible:ring-[3px] focus-visible:ring-ring/50 disabled:pointer-events-none disabled:opacity-50 aria-invalid:border-destructive aria-invalid:ring-destructive/20 aria-pressed:bg-muted data-[state=on]:bg-muted dark:aria-invalid:ring-destructive/40 [&_svg]:pointer-events-none [&_svg]:shrink-0 [&_svg:not([class*='size-'])]:size-4'',
    obj [At ''variants'' (obj [At ''variant'' (obj [At ''default'' (lit ''bg-transparent''),
              At ''outline'' (lit ''border border-input bg-transparent hover:bg-muted'')]),
          At ''size'' (obj [At ''default'' (lit ''h-8 min-w-8 px-2.5 has-data-[icon=inline-end]:pr-2 has-data-[icon=inline-start]:pl-2''),
              At ''sm'' (lit ''h-7 min-w-7 rounded-none px-2.5 has-data-[icon=inline-end]:pr-1.5 has-data-[icon=inline-start]:pl-1.5''),
              At ''lg'' (lit ''h-9 min-w-9 px-2.5 has-data-[icon=inline-end]:pr-2 has-data-[icon=inline-start]:pl-2'')])]),
      At ''defaultVariants'' (obj [At ''variant'' (lit ''default''),
          At ''size'' (lit ''default'')])]]\<close>

definition Toggle :: "lib \<Rightarrow> props \<Rightarrow> val" where
\<open>Toggle K p =
  (let className = attr ''className'' p in
    let variant = dflt (lit ''default'') (attr ''variant'' p) in
    let size' = dflt (lit ''default'') (attr ''size'' p) in
    let props = rest [''className'', ''variant'', ''size''] p in
    el (comp ''TogglePrimitive'') [At ''data-slot'' (lit ''toggle''),
      At ''className'' (cn K [cva K toggleVariants (obj [At ''variant'' variant,
              At ''size'' size',
              At ''className'' className])]),
      Sp props]
    [])\<close>

section \<open>ui/toggle-group.tsx\<close>

text \<open>What an item outside any group reads.\<close>

definition ToggleGroupContext :: val where
  "ToggleGroupContext = obj [At ''size'' (lit ''default''), At ''variant'' (lit ''default''),
     At ''spacing'' (VNum 2), At ''orientation'' (lit ''horizontal'')]"

definition ToggleGroup :: "lib \<Rightarrow> props \<Rightarrow> val" where
\<open>ToggleGroup K p =
  (let className = attr ''className'' p in
    let variant = attr ''variant'' p in
    let size' = attr ''size'' p in
    let spacing = dflt (VNum 2) (attr ''spacing'' p) in
    let orientation = dflt (lit ''horizontal'') (attr ''orientation'' p) in
    let children = attr ''children'' p in
    let props = rest [''className'', ''variant'', ''size'', ''spacing'', ''orientation'', ''children''] p in
    el (comp ''ToggleGroupPrimitive'') [At ''data-slot'' (lit ''toggle-group''),
      At ''data-variant'' variant,
      At ''data-size'' size',
      At ''data-spacing'' spacing,
      At ''data-orientation'' orientation,
      At ''style'' (obj [At ''--gap'' spacing]),
      At ''className'' (cn K [lit ''group/toggle-group flex w-fit flex-row items-center gap-[--spacing(var(--gap))] rounded-none data-[size=sm]:rounded-none data-vertical:flex-col data-vertical:items-stretch'',
          className]),
      Sp props]
    [el (comp ''ToggleGroupContext.Provider'') [At ''value'' (obj [At ''variant'' variant,
            At ''size'' size',
            At ''spacing'' spacing,
            At ''orientation'' orientation])]
      [children]])\<close>

definition ToggleGroupItem :: "lib \<Rightarrow> val \<Rightarrow> props \<Rightarrow> val" where
\<open>ToggleGroupItem K c p =
  (let className = attr ''className'' p in
    let children = attr ''children'' p in
    let variant = dflt (lit ''default'') (attr ''variant'' p) in
    let size' = dflt (lit ''default'') (attr ''size'' p) in
    let props = rest [''className'', ''children'', ''variant'', ''size''] p in
    let context = c in
    el (comp ''TogglePrimitive'') [At ''data-slot'' (lit ''toggle-group-item''),
      At ''data-variant'' (jor (dot context ''variant'') variant),
      At ''data-size'' (jor (dot context ''size'') size'),
      At ''data-spacing'' (dot context ''spacing''),
      At ''className'' (cn K [lit ''shrink-0 group-data-[spacing=0]/toggle-group:rounded-none group-data-[spacing=0]/toggle-group:px-2 focus:z-10 focus-visible:z-10 group-data-[spacing=0]/toggle-group:has-data-[icon=inline-end]:pr-1.5 group-data-[spacing=0]/toggle-group:has-data-[icon=inline-start]:pl-1.5 group-data-horizontal/toggle-group:data-[spacing=0]:first:rounded-none group-data-vertical/toggle-group:data-[spacing=0]:first:rounded-none group-data-horizontal/toggle-group:data-[spacing=0]:last:rounded-none group-data-vertical/toggle-group:data-[spacing=0]:last:rounded-none group-data-horizontal/toggle-group:data-[spacing=0]:data-[variant=outline]:border-l-0 group-data-vertical/toggle-group:data-[spacing=0]:data-[variant=outline]:border-t-0 group-data-horizontal/toggle-group:data-[spacing=0]:data-[variant=outline]:first:border-l group-data-vertical/toggle-group:data-[spacing=0]:data-[variant=outline]:first:border-t'',
          cva K toggleVariants (obj [At ''variant'' (jor (dot context ''variant'') variant),
              At ''size'' (jor (dot context ''size'') size')]),
          className]),
      Sp props]
    [children])\<close>

section \<open>ui/slider.tsx\<close>

definition Slider :: "lib \<Rightarrow> props \<Rightarrow> val" where
\<open>Slider K p =
  (let className = attr ''className'' p in
    let defaultValue = attr ''defaultValue'' p in
    let value' = attr ''value'' p in
    let min' = dflt (VNum 0) (attr ''min'' p) in
    let max' = dflt (VNum 100) (attr ''max'' p) in
    let props = rest [''className'', ''defaultValue'', ''value'', ''min'', ''max''] p in
    let values0 = (if is_array value'
      then value'
      else (if is_array defaultValue
        then defaultValue
        else VArr [min', max'])) in
    el (comp ''SliderPrimitive.Root'') [At ''className'' (cn K [lit ''data-horizontal:w-full data-vertical:h-full'',
          className]),
      At ''data-slot'' (lit ''slider''),
      At ''defaultValue'' defaultValue,
      At ''value'' value',
      At ''min'' min',
      At ''max'' max',
      At ''thumbAlignment'' (lit ''edge''),
      Sp props]
    [el (comp ''SliderPrimitive.Control'') [At ''className'' (lit ''relative flex w-full touch-none items-center select-none data-disabled:opacity-50 data-vertical:h-full data-vertical:min-h-40 data-vertical:w-auto data-vertical:flex-col'')]
      [el (comp ''SliderPrimitive.Track'') [At ''data-slot'' (lit ''slider-track''),
          At ''className'' (lit ''relative grow overflow-hidden rounded-none bg-muted select-none data-horizontal:h-1 data-horizontal:w-full data-vertical:h-full data-vertical:w-1'')]
        [el (comp ''SliderPrimitive.Indicator'') [At ''data-slot'' (lit ''slider-range''),
            At ''className'' (lit ''bg-primary select-none data-horizontal:h-full data-vertical:w-full'')]
          []],
        jtimes (dot (obj [At ''length'' (dot values0 ''length'')]) ''length'') (\<lambda>index'. elk (comp ''SliderPrimitive.Thumb'') index' [At ''data-slot'' (lit ''slider-thumb''),
            At ''className'' (lit ''relative block size-3 shrink-0 rounded-none border border-ring bg-white ring-ring/50 transition-[color,box-shadow] select-none after:absolute after:-inset-2 hover:ring-1 focus-visible:ring-1 focus-visible:outline-hidden active:ring-1 disabled:pointer-events-none disabled:opacity-50'')]
          [])]])\<close>

section \<open>ui/select.tsx\<close>

definition Select_ui :: val where
\<open>Select_ui =
  comp ''SelectPrimitive.Root''\<close>

definition SelectGroup :: "lib \<Rightarrow> props \<Rightarrow> val" where
\<open>SelectGroup K p =
  (let className = attr ''className'' p in
    let props = rest [''className''] p in
    el (comp ''SelectPrimitive.Group'') [At ''data-slot'' (lit ''select-group''),
      At ''className'' (cn K [lit ''scroll-my-1'',
          className]),
      Sp props]
    [])\<close>

definition SelectValue :: "lib \<Rightarrow> props \<Rightarrow> val" where
\<open>SelectValue K p =
  (let className = attr ''className'' p in
    let props = rest [''className''] p in
    el (comp ''SelectPrimitive.Value'') [At ''data-slot'' (lit ''select-value''),
      At ''className'' (cn K [lit ''flex flex-1 text-left'',
          className]),
      Sp props]
    [])\<close>

definition SelectTrigger :: "lib \<Rightarrow> props \<Rightarrow> val" where
\<open>SelectTrigger K p =
  (let className = attr ''className'' p in
    let size' = dflt (lit ''default'') (attr ''size'' p) in
    let children = attr ''children'' p in
    let props = rest [''className'', ''size'', ''children''] p in
    el (comp ''SelectPrimitive.Trigger'') [At ''data-slot'' (lit ''select-trigger''),
      At ''data-size'' size',
      At ''className'' (cn K [lit ''flex w-fit items-center justify-between gap-1.5 rounded-none border border-input bg-transparent py-2 pr-2 pl-2.5 text-xs whitespace-nowrap transition-colors outline-none select-none focus-visible:border-ring focus-visible:ring-1 focus-visible:ring-ring/50 disabled:cursor-not-allowed disabled:opacity-50 aria-invalid:border-destructive aria-invalid:ring-1 aria-invalid:ring-destructive/20 data-placeholder:text-muted-foreground data-[size=default]:h-8 data-[size=sm]:h-7 data-[size=sm]:rounded-none *:data-[slot=select-value]:line-clamp-1 *:data-[slot=select-value]:flex *:data-[slot=select-value]:items-center *:data-[slot=select-value]:gap-1.5 dark:bg-input/30 dark:hover:bg-input/50 dark:aria-invalid:border-destructive/50 dark:aria-invalid:ring-destructive/40 [&_svg]:pointer-events-none [&_svg]:shrink-0 [&_svg:not([class*='size-'])]:size-4'',
          className]),
      Sp props]
    [children,
      el (comp ''SelectPrimitive.Icon'') [At ''render'' (el (comp ''ChevronDownIcon'') [At ''className'' (lit ''pointer-events-none size-4 text-muted-foreground'')]
          [])]
      []])\<close>

definition SelectContent :: "lib \<Rightarrow> props \<Rightarrow> val" where
\<open>SelectContent K p =
  (let className = attr ''className'' p in
    let children = attr ''children'' p in
    let side = dflt (lit ''bottom'') (attr ''side'' p) in
    let sideOffset = dflt (VNum 4) (attr ''sideOffset'' p) in
    let align = dflt (lit ''center'') (attr ''align'' p) in
    let alignOffset = dflt (VNum 0) (attr ''alignOffset'' p) in
    let alignItemWithTrigger = dflt (VBool True) (attr ''alignItemWithTrigger'' p) in
    let props = rest [''className'', ''children'', ''side'', ''sideOffset'', ''align'', ''alignOffset'', ''alignItemWithTrigger''] p in
    el (comp ''SelectPrimitive.Portal'') []
    [el (comp ''SelectPrimitive.Positioner'') [At ''side'' side,
        At ''sideOffset'' sideOffset,
        At ''align'' align,
        At ''alignOffset'' alignOffset,
        At ''alignItemWithTrigger'' alignItemWithTrigger,
        At ''className'' (lit ''isolate z-50'')]
      [el (comp ''SelectPrimitive.Popup'') [At ''data-slot'' (lit ''select-content''),
          At ''data-align-trigger'' alignItemWithTrigger,
          At ''className'' (cn K [lit ''relative isolate z-50 max-h-(--available-height) w-(--anchor-width) min-w-36 origin-(--transform-origin) overflow-x-hidden overflow-y-auto rounded-none bg-popover text-popover-foreground shadow-md ring-1 ring-foreground/10 duration-100 data-[align-trigger=true]:animate-none data-[side=bottom]:slide-in-from-top-2 data-[side=inline-end]:slide-in-from-left-2 data-[side=inline-start]:slide-in-from-right-2 data-[side=left]:slide-in-from-right-2 data-[side=right]:slide-in-from-left-2 data-[side=top]:slide-in-from-bottom-2 data-open:animate-in data-open:fade-in-0 data-open:zoom-in-95 data-closed:animate-out data-closed:fade-out-0 data-closed:zoom-out-95'',
              className]),
          Sp props]
        [el (comp ''SelectScrollUpButton'') []
          [],
          el (comp ''SelectPrimitive.List'') []
          [children],
          el (comp ''SelectScrollDownButton'') []
          []]]])\<close>

definition SelectLabel :: "lib \<Rightarrow> props \<Rightarrow> val" where
\<open>SelectLabel K p =
  (let className = attr ''className'' p in
    let props = rest [''className''] p in
    el (comp ''SelectPrimitive.GroupLabel'') [At ''data-slot'' (lit ''select-label''),
      At ''className'' (cn K [lit ''px-2 py-2 text-xs text-muted-foreground'',
          className]),
      Sp props]
    [])\<close>

definition SelectItem :: "lib \<Rightarrow> props \<Rightarrow> val" where
\<open>SelectItem K p =
  (let className = attr ''className'' p in
    let children = attr ''children'' p in
    let props = rest [''className'', ''children''] p in
    el (comp ''SelectPrimitive.Item'') [At ''data-slot'' (lit ''select-item''),
      At ''className'' (cn K [lit ''relative flex w-full cursor-default items-center gap-2 rounded-none py-2 pr-8 pl-2 text-xs outline-hidden select-none focus:bg-accent focus:text-accent-foreground not-data-[variant=destructive]:focus:**:text-accent-foreground data-disabled:pointer-events-none data-disabled:opacity-50 [&_svg]:pointer-events-none [&_svg]:shrink-0 [&_svg:not([class*='size-'])]:size-4 *:[span]:last:flex *:[span]:last:items-center *:[span]:last:gap-2'',
          className]),
      Sp props]
    [el (comp ''SelectPrimitive.ItemText'') [At ''className'' (lit ''flex flex-1 shrink-0 gap-2 whitespace-nowrap'')]
      [children],
      el (comp ''SelectPrimitive.ItemIndicator'') [At ''render'' (el (tag ''span'') [At ''className'' (lit ''pointer-events-none absolute right-2 flex size-4 items-center justify-center'')]
          [])]
      [el (comp ''CheckIcon'') [At ''className'' (lit ''pointer-events-none'')]
        []]])\<close>

definition SelectSeparator :: "lib \<Rightarrow> props \<Rightarrow> val" where
\<open>SelectSeparator K p =
  (let className = attr ''className'' p in
    let props = rest [''className''] p in
    el (comp ''SelectPrimitive.Separator'') [At ''data-slot'' (lit ''select-separator''),
      At ''className'' (cn K [lit ''pointer-events-none -mx-1 h-px bg-border'',
          className]),
      Sp props]
    [])\<close>

definition SelectScrollUpButton :: "lib \<Rightarrow> props \<Rightarrow> val" where
\<open>SelectScrollUpButton K p =
  (let className = attr ''className'' p in
    let props = rest [''className''] p in
    el (comp ''SelectPrimitive.ScrollUpArrow'') [At ''data-slot'' (lit ''select-scroll-up-button''),
      At ''className'' (cn K [lit ''top-0 z-10 flex w-full cursor-default items-center justify-center bg-popover py-1 [&_svg:not([class*='size-'])]:size-4'',
          className]),
      Sp props]
    [el (comp ''ChevronUpIcon'') []
      []])\<close>

definition SelectScrollDownButton :: "lib \<Rightarrow> props \<Rightarrow> val" where
\<open>SelectScrollDownButton K p =
  (let className = attr ''className'' p in
    let props = rest [''className''] p in
    el (comp ''SelectPrimitive.ScrollDownArrow'') [At ''data-slot'' (lit ''select-scroll-down-button''),
      At ''className'' (cn K [lit ''bottom-0 z-10 flex w-full cursor-default items-center justify-center bg-popover py-1 [&_svg:not([class*='size-'])]:size-4'',
          className]),
      Sp props]
    [el (comp ''ChevronDownIcon'') []
      []])\<close>

section \<open>ui/combobox.tsx\<close>

definition Combobox :: val where
\<open>Combobox =
  comp ''ComboboxPrimitive.Root''\<close>

definition ComboboxValue :: "lib \<Rightarrow> props \<Rightarrow> val" where
\<open>ComboboxValue K p =
  (let props = rest [] p in
    el (comp ''ComboboxPrimitive.Value'') [At ''data-slot'' (lit ''combobox-value''),
      Sp props]
    [])\<close>

definition ComboboxTrigger :: "lib \<Rightarrow> props \<Rightarrow> val" where
\<open>ComboboxTrigger K p =
  (let className = attr ''className'' p in
    let children = attr ''children'' p in
    let props = rest [''className'', ''children''] p in
    el (comp ''ComboboxPrimitive.Trigger'') [At ''data-slot'' (lit ''combobox-trigger''),
      At ''className'' (cn K [lit ''[&_svg:not([class*='size-'])]:size-4'',
          className]),
      Sp props]
    [children,
      el (comp ''ChevronDownIcon'') [At ''className'' (lit ''pointer-events-none size-4 text-muted-foreground'')]
      []])\<close>

definition ComboboxClear :: "lib \<Rightarrow> props \<Rightarrow> val" where
\<open>ComboboxClear K p =
  (let className = attr ''className'' p in
    let props = rest [''className''] p in
    el (comp ''ComboboxPrimitive.Clear'') [At ''data-slot'' (lit ''combobox-clear''),
      At ''render'' (el (comp ''InputGroupButton'') [At ''variant'' (lit ''ghost''),
          At ''size'' (lit ''icon-xs'')]
        []),
      At ''className'' (cn K [className]),
      Sp props]
    [el (comp ''XIcon'') [At ''className'' (lit ''pointer-events-none'')]
      []])\<close>

definition ComboboxInput :: "lib \<Rightarrow> props \<Rightarrow> val" where
\<open>ComboboxInput K p =
  (let className = attr ''className'' p in
    let children = attr ''children'' p in
    let disabled = dflt (VBool False) (attr ''disabled'' p) in
    let showTrigger = dflt (VBool True) (attr ''showTrigger'' p) in
    let showClear = dflt (VBool False) (attr ''showClear'' p) in
    let props = rest [''className'', ''children'', ''disabled'', ''showTrigger'', ''showClear''] p in
    el (comp ''InputGroup'') [At ''className'' (cn K [lit ''w-auto'',
          className])]
    [el (comp ''ComboboxPrimitive.Input'') [At ''render'' (el (comp ''InputGroupInput'') [At ''disabled'' disabled]
          []),
        Sp props]
      [],
      el (comp ''InputGroupAddon'') [At ''align'' (lit ''inline-end'')]
      [jand showTrigger
        (el (comp ''InputGroupButton'') [At ''size'' (lit ''icon-xs''),
            At ''variant'' (lit ''ghost''),
            At ''render'' (el (comp ''ComboboxTrigger'') []
              []),
            At ''data-slot'' (lit ''input-group-button''),
            At ''className'' (lit ''group-has-data-[slot=combobox-clear]/input-group:hidden data-pressed:bg-transparent''),
            At ''disabled'' disabled]
          []),
        jand showClear
        (el (comp ''ComboboxClear'') [At ''disabled'' disabled]
          [])],
      children])\<close>

definition ComboboxContent :: "lib \<Rightarrow> props \<Rightarrow> val" where
\<open>ComboboxContent K p =
  (let className = attr ''className'' p in
    let side = dflt (lit ''bottom'') (attr ''side'' p) in
    let sideOffset = dflt (VNum 6) (attr ''sideOffset'' p) in
    let align = dflt (lit ''start'') (attr ''align'' p) in
    let alignOffset = dflt (VNum 0) (attr ''alignOffset'' p) in
    let anchor = attr ''anchor'' p in
    let props = rest [''className'', ''side'', ''sideOffset'', ''align'', ''alignOffset'', ''anchor''] p in
    el (comp ''ComboboxPrimitive.Portal'') []
    [el (comp ''ComboboxPrimitive.Positioner'') [At ''side'' side,
        At ''sideOffset'' sideOffset,
        At ''align'' align,
        At ''alignOffset'' alignOffset,
        At ''anchor'' anchor,
        At ''className'' (lit ''isolate z-50'')]
      [el (comp ''ComboboxPrimitive.Popup'') [At ''data-slot'' (lit ''combobox-content''),
          At ''data-chips'' (VBool (\<not> (\<not> (truthy anchor)))),
          At ''className'' (cn K [lit ''group/combobox-content relative max-h-(--available-height) w-(--anchor-width) max-w-(--available-width) min-w-[calc(var(--anchor-width)+--spacing(7))] origin-(--transform-origin) overflow-hidden rounded-none bg-popover text-popover-foreground shadow-md ring-1 ring-foreground/10 duration-100 data-[chips=true]:min-w-(--anchor-width) data-[side=bottom]:slide-in-from-top-2 data-[side=inline-end]:slide-in-from-left-2 data-[side=inline-start]:slide-in-from-right-2 data-[side=left]:slide-in-from-right-2 data-[side=right]:slide-in-from-left-2 data-[side=top]:slide-in-from-bottom-2 *:data-[slot=input-group]:m-1 *:data-[slot=input-group]:mb-0 *:data-[slot=input-group]:h-8 *:data-[slot=input-group]:border-input/30 *:data-[slot=input-group]:bg-input/30 *:data-[slot=input-group]:shadow-none data-open:animate-in data-open:fade-in-0 data-open:zoom-in-95 data-closed:animate-out data-closed:fade-out-0 data-closed:zoom-out-95'',
              className]),
          Sp props]
        []]])\<close>

definition ComboboxList :: "lib \<Rightarrow> props \<Rightarrow> val" where
\<open>ComboboxList K p =
  (let className = attr ''className'' p in
    let props = rest [''className''] p in
    el (comp ''ComboboxPrimitive.List'') [At ''data-slot'' (lit ''combobox-list''),
      At ''className'' (cn K [lit ''no-scrollbar max-h-[min(calc(--spacing(72)---spacing(9)),calc(var(--available-height)---spacing(9)))] scroll-py-1 overflow-y-auto overscroll-contain data-empty:p-0'',
          className]),
      Sp props]
    [])\<close>

definition ComboboxItem :: "lib \<Rightarrow> props \<Rightarrow> val" where
\<open>ComboboxItem K p =
  (let className = attr ''className'' p in
    let children = attr ''children'' p in
    let props = rest [''className'', ''children''] p in
    el (comp ''ComboboxPrimitive.Item'') [At ''data-slot'' (lit ''combobox-item''),
      At ''className'' (cn K [lit ''relative flex w-full cursor-default items-center gap-2 rounded-none py-2 pr-8 pl-2 text-xs outline-hidden select-none data-highlighted:bg-accent data-highlighted:text-accent-foreground not-data-[variant=destructive]:data-highlighted:**:text-accent-foreground data-disabled:pointer-events-none data-disabled:opacity-50 [&_svg]:pointer-events-none [&_svg]:shrink-0 [&_svg:not([class*='size-'])]:size-4'',
          className]),
      Sp props]
    [children,
      el (comp ''ComboboxPrimitive.ItemIndicator'') [At ''render'' (el (tag ''span'') [At ''className'' (lit ''pointer-events-none absolute right-2 flex size-4 items-center justify-center'')]
          [])]
      [el (comp ''CheckIcon'') [At ''className'' (lit ''pointer-events-none'')]
        []]])\<close>

definition ComboboxGroup :: "lib \<Rightarrow> props \<Rightarrow> val" where
\<open>ComboboxGroup K p =
  (let className = attr ''className'' p in
    let props = rest [''className''] p in
    el (comp ''ComboboxPrimitive.Group'') [At ''data-slot'' (lit ''combobox-group''),
      At ''className'' (cn K [className]),
      Sp props]
    [])\<close>

definition ComboboxLabel :: "lib \<Rightarrow> props \<Rightarrow> val" where
\<open>ComboboxLabel K p =
  (let className = attr ''className'' p in
    let props = rest [''className''] p in
    el (comp ''ComboboxPrimitive.GroupLabel'') [At ''data-slot'' (lit ''combobox-label''),
      At ''className'' (cn K [lit ''px-2 py-2 text-xs text-muted-foreground'',
          className]),
      Sp props]
    [])\<close>

definition ComboboxCollection :: "lib \<Rightarrow> props \<Rightarrow> val" where
\<open>ComboboxCollection K p =
  (let props = rest [] p in
    el (comp ''ComboboxPrimitive.Collection'') [At ''data-slot'' (lit ''combobox-collection''),
      Sp props]
    [])\<close>

definition ComboboxEmpty :: "lib \<Rightarrow> props \<Rightarrow> val" where
\<open>ComboboxEmpty K p =
  (let className = attr ''className'' p in
    let props = rest [''className''] p in
    el (comp ''ComboboxPrimitive.Empty'') [At ''data-slot'' (lit ''combobox-empty''),
      At ''className'' (cn K [lit ''hidden w-full justify-center py-2 text-center text-xs text-muted-foreground group-data-empty/combobox-content:flex'',
          className]),
      Sp props]
    [])\<close>

definition ComboboxSeparator :: "lib \<Rightarrow> props \<Rightarrow> val" where
\<open>ComboboxSeparator K p =
  (let className = attr ''className'' p in
    let props = rest [''className''] p in
    el (comp ''ComboboxPrimitive.Separator'') [At ''data-slot'' (lit ''combobox-separator''),
      At ''className'' (cn K [lit ''-mx-1 h-px bg-border'',
          className]),
      Sp props]
    [])\<close>

definition ComboboxChips :: "lib \<Rightarrow> props \<Rightarrow> val" where
\<open>ComboboxChips K p =
  (let className = attr ''className'' p in
    let props = rest [''className''] p in
    el (comp ''ComboboxPrimitive.Chips'') [At ''data-slot'' (lit ''combobox-chips''),
      At ''className'' (cn K [lit ''flex min-h-8 flex-wrap items-center gap-1 rounded-none border border-input bg-transparent bg-clip-padding px-2.5 py-1 text-xs transition-colors focus-within:border-ring focus-within:ring-1 focus-within:ring-ring/50 has-aria-invalid:border-destructive has-aria-invalid:ring-1 has-aria-invalid:ring-destructive/20 has-data-[slot=combobox-chip]:px-1 dark:bg-input/30 dark:has-aria-invalid:border-destructive/50 dark:has-aria-invalid:ring-destructive/40'',
          className]),
      Sp props]
    [])\<close>

definition ComboboxChip :: "lib \<Rightarrow> props \<Rightarrow> val" where
\<open>ComboboxChip K p =
  (let className = attr ''className'' p in
    let children = attr ''children'' p in
    let showRemove = dflt (VBool True) (attr ''showRemove'' p) in
    let props = rest [''className'', ''children'', ''showRemove''] p in
    el (comp ''ComboboxPrimitive.Chip'') [At ''data-slot'' (lit ''combobox-chip''),
      At ''className'' (cn K [lit ''flex h-[calc(--spacing(5.25))] w-fit items-center justify-center gap-1 rounded-none bg-muted px-1.5 text-xs font-medium whitespace-nowrap text-foreground has-disabled:pointer-events-none has-disabled:cursor-not-allowed has-disabled:opacity-50 has-data-[slot=combobox-chip-remove]:pr-0'',
          className]),
      Sp props]
    [children,
      jand showRemove
      (el (comp ''ComboboxPrimitive.ChipRemove'') [At ''render'' (el (comp ''Button'') [At ''variant'' (lit ''ghost''),
              At ''size'' (lit ''icon-xs'')]
            []),
          At ''className'' (lit ''-ml-1 opacity-50 hover:opacity-100''),
          At ''data-slot'' (lit ''combobox-chip-remove'')]
        [el (comp ''XIcon'') [At ''className'' (lit ''pointer-events-none'')]
          []])])\<close>

definition ComboboxChipsInput :: "lib \<Rightarrow> props \<Rightarrow> val" where
\<open>ComboboxChipsInput K p =
  (let className = attr ''className'' p in
    let props = rest [''className''] p in
    el (comp ''ComboboxPrimitive.Input'') [At ''data-slot'' (lit ''combobox-chip-input''),
      At ''className'' (cn K [lit ''min-w-16 flex-1 outline-none'',
          className]),
      Sp props]
    [])\<close>

definition useComboboxAnchor :: "lib \<Rightarrow> val" where
  "useComboboxAnchor K = K ''useRef'' [VNull]"

section \<open>ui/pagination.tsx\<close>

definition Pagination :: "lib \<Rightarrow> props \<Rightarrow> val" where
\<open>Pagination K p =
  (let className = attr ''className'' p in
    let props = rest [''className''] p in
    el (tag ''nav'') [At ''role'' (lit ''navigation''),
      At ''aria-label'' (lit ''pagination''),
      At ''data-slot'' (lit ''pagination''),
      At ''className'' (cn K [lit ''mx-auto flex w-full justify-center'',
          className]),
      Sp props]
    [])\<close>

definition PaginationContent :: "lib \<Rightarrow> props \<Rightarrow> val" where
\<open>PaginationContent K p =
  (let className = attr ''className'' p in
    let props = rest [''className''] p in
    el (tag ''ul'') [At ''data-slot'' (lit ''pagination-content''),
      At ''className'' (cn K [lit ''flex items-center gap-0.5'',
          className]),
      Sp props]
    [])\<close>

definition PaginationItem :: "lib \<Rightarrow> props \<Rightarrow> val" where
\<open>PaginationItem K p =
  (let props = rest [] p in
    el (tag ''li'') [At ''data-slot'' (lit ''pagination-item''),
      Sp props]
    [])\<close>

definition PaginationLink :: "lib \<Rightarrow> props \<Rightarrow> val" where
\<open>PaginationLink K p =
  (let className = attr ''className'' p in
    let isActive = attr ''isActive'' p in
    let size' = dflt (lit ''icon'') (attr ''size'' p) in
    let props = rest [''className'', ''isActive'', ''size''] p in
    el (comp ''Button'') [At ''variant'' ((if truthy isActive
          then lit ''outline''
          else lit ''ghost'')),
      At ''size'' size',
      At ''className'' (cn K [className]),
      At ''nativeButton'' (VBool False),
      At ''render'' (el (tag ''a'') [At ''aria-current'' ((if truthy isActive
              then lit ''page''
              else VUndef)),
          At ''data-slot'' (lit ''pagination-link''),
          At ''data-active'' isActive,
          Sp props]
        [])]
    [])\<close>

definition PaginationPrevious :: "lib \<Rightarrow> props \<Rightarrow> val" where
\<open>PaginationPrevious K p =
  (let className = attr ''className'' p in
    let text = dflt (lit ''Previous'') (attr ''text'' p) in
    let props = rest [''className'', ''text''] p in
    el (comp ''PaginationLink'') [At ''aria-label'' (lit ''Go to previous page''),
      At ''size'' (lit ''default''),
      At ''className'' (cn K [lit ''pl-1.5!'',
          className]),
      Sp props]
    [el (comp ''ChevronLeftIcon'') [At ''data-icon'' (lit ''inline-start'')]
      [],
      el (tag ''span'') [At ''className'' (lit ''hidden sm:block'')]
      [text]])\<close>

definition PaginationNext :: "lib \<Rightarrow> props \<Rightarrow> val" where
\<open>PaginationNext K p =
  (let className = attr ''className'' p in
    let text = dflt (lit ''Next'') (attr ''text'' p) in
    let props = rest [''className'', ''text''] p in
    el (comp ''PaginationLink'') [At ''aria-label'' (lit ''Go to next page''),
      At ''size'' (lit ''default''),
      At ''className'' (cn K [lit ''pr-1.5!'',
          className]),
      Sp props]
    [el (tag ''span'') [At ''className'' (lit ''hidden sm:block'')]
      [text],
      el (comp ''ChevronRightIcon'') [At ''data-icon'' (lit ''inline-end'')]
      []])\<close>

definition PaginationEllipsis :: "lib \<Rightarrow> props \<Rightarrow> val" where
\<open>PaginationEllipsis K p =
  (let className = attr ''className'' p in
    let props = rest [''className''] p in
    el (tag ''span'') [At ''aria-hidden'' (VBool True),
      At ''data-slot'' (lit ''pagination-ellipsis''),
      At ''className'' (cn K [lit ''flex size-8 items-center justify-center [&_svg:not([class*='size-'])]:size-4'',
          className]),
      Sp props]
    [el (comp ''MoreHorizontalIcon'') []
      [],
      el (tag ''span'') [At ''className'' (lit ''sr-only'')]
      [lit ''More pages'']])\<close>

section \<open>ui/calendar.tsx\<close>

definition Calendar_Root :: "lib \<Rightarrow> props \<Rightarrow> val" where
\<open>Calendar_Root K p =
  (let className = attr ''className'' p in
    let rootRef = attr ''rootRef'' p in
    let props = rest [''className'', ''rootRef''] p in
    el (tag ''div'') [At ''data-slot'' (lit ''calendar''),
      At ''ref'' rootRef,
      At ''className'' (cn K [className]),
      Sp props]
    [])\<close>

definition Calendar_Chevron :: "lib \<Rightarrow> props \<Rightarrow> val" where
\<open>Calendar_Chevron K p =
  (let className = attr ''className'' p in
    let orientation = attr ''orientation'' p in
    let props = rest [''className'', ''orientation''] p in
    (if (orientation = lit ''left'')
      then el (comp ''ChevronLeftIcon'') [At ''className'' (cn K [lit ''size-4'',
            className]),
        Sp props]
      []
      else (if (orientation = lit ''right'')
        then el (comp ''ChevronRightIcon'') [At ''className'' (cn K [lit ''size-4'',
              className]),
          Sp props]
        []
        else el (comp ''ChevronDownIcon'') [At ''className'' (cn K [lit ''size-4'',
              className]),
          Sp props]
        [])))\<close>

definition Calendar_DayButton :: "lib \<Rightarrow> val \<Rightarrow> props \<Rightarrow> val" where
\<open>Calendar_DayButton K locale p =
  (let props = rest [] p in
    el (comp ''CalendarDayButton'') [At ''locale'' locale,
      Sp props]
    [])\<close>

definition Calendar_WeekNumber :: "lib \<Rightarrow> props \<Rightarrow> val" where
\<open>Calendar_WeekNumber K p =
  (let children = attr ''children'' p in
    let props = rest [''children''] p in
    el (tag ''td'') [Sp props]
    [el (tag ''div'') [At ''className'' (lit ''flex size-(--cell-size) items-center justify-center text-center'')]
      [children]])\<close>

definition Calendar :: "lib \<Rightarrow> props \<Rightarrow> val" where
\<open>Calendar K p =
  (let className = attr ''className'' p in
    let classNames = attr ''classNames'' p in
    let showOutsideDays = dflt (VBool True) (attr ''showOutsideDays'' p) in
    let captionLayout = dflt (lit ''label'') (attr ''captionLayout'' p) in
    let buttonVariant = dflt (lit ''ghost'') (attr ''buttonVariant'' p) in
    let locale = attr ''locale'' p in
    let formatters = attr ''formatters'' p in
    let components = attr ''components'' p in
    let props = rest [''className'', ''classNames'', ''showOutsideDays'', ''captionLayout'', ''buttonVariant'', ''locale'', ''formatters'', ''components''] p in
    let defaultClassNames = K ''getDefaultClassNames'' [] in
    el (comp ''DayPicker'') [At ''showOutsideDays'' showOutsideDays,
      At ''className'' (cn K [lit ''group/calendar bg-background p-2 [--cell-size:--spacing(7)] in-data-[slot=card-content]:bg-transparent in-data-[slot=popover-content]:bg-transparent'',
          tpl K [VStr (js ''rtl:**:[.rdp-button'' @ [92] @ js ''_next>svg]:rotate-180'')],
          tpl K [VStr (js ''rtl:**:[.rdp-button'' @ [92] @ js ''_previous>svg]:rotate-180'')],
          className]),
      At ''captionLayout'' captionLayout,
      At ''locale'' locale,
      At ''formatters'' (obj [At ''formatMonthDropdown'' (VFun ''Calendar.formatMonthDropdown'' [locale]),
          Sp formatters]),
      At ''classNames'' (obj [At ''root'' (cn K [lit ''w-fit'',
              dot defaultClassNames ''root'']),
          At ''months'' (cn K [lit ''relative flex flex-col gap-4 md:flex-row'',
              dot defaultClassNames ''months'']),
          At ''month'' (cn K [lit ''flex w-full flex-col gap-4'',
              dot defaultClassNames ''month'']),
          At ''nav'' (cn K [lit ''absolute inset-x-0 top-0 flex w-full items-center justify-between gap-1'',
              dot defaultClassNames ''nav'']),
          At ''button_previous'' (cn K [cva K buttonVariants (obj [At ''variant'' buttonVariant]),
              lit ''size-(--cell-size) p-0 select-none aria-disabled:opacity-50'',
              dot defaultClassNames ''button_previous'']),
          At ''button_next'' (cn K [cva K buttonVariants (obj [At ''variant'' buttonVariant]),
              lit ''size-(--cell-size) p-0 select-none aria-disabled:opacity-50'',
              dot defaultClassNames ''button_next'']),
          At ''month_caption'' (cn K [lit ''flex h-(--cell-size) w-full items-center justify-center px-(--cell-size)'',
              dot defaultClassNames ''month_caption'']),
          At ''dropdowns'' (cn K [lit ''flex h-(--cell-size) w-full items-center justify-center gap-1.5 text-sm font-medium'',
              dot defaultClassNames ''dropdowns'']),
          At ''dropdown_root'' (cn K [lit ''relative rounded-(--cell-radius)'',
              dot defaultClassNames ''dropdown_root'']),
          At ''dropdown'' (cn K [lit ''absolute inset-0 bg-popover opacity-0'',
              dot defaultClassNames ''dropdown'']),
          At ''caption_label'' (cn K [lit ''font-medium select-none'',
              (if (captionLayout = lit ''label'')
                then lit ''text-sm''
                else lit ''flex items-center gap-1 rounded-(--cell-radius) text-sm [&>svg]:size-3.5 [&>svg]:text-muted-foreground''),
              dot defaultClassNames ''caption_label'']),
          At ''month_grid'' (cn K [lit ''w-full border-collapse'',
              dot defaultClassNames ''month_grid'']),
          At ''weekdays'' (cn K [lit ''flex'',
              dot defaultClassNames ''weekdays'']),
          At ''weekday'' (cn K [lit ''flex-1 rounded-(--cell-radius) text-[0.8rem] font-normal text-muted-foreground select-none'',
              dot defaultClassNames ''weekday'']),
          At ''week'' (cn K [lit ''mt-2 flex w-full'',
              dot defaultClassNames ''week'']),
          At ''week_number_header'' (cn K [lit ''w-(--cell-size) select-none'',
              dot defaultClassNames ''week_number_header'']),
          At ''week_number'' (cn K [lit ''text-[0.8rem] text-muted-foreground select-none'',
              dot defaultClassNames ''week_number'']),
          At ''day'' (cn K [lit ''group/day relative aspect-square h-full w-full rounded-(--cell-radius) p-0 text-center select-none [&:last-child[data-selected=true]_button]:rounded-r-(--cell-radius)'',
              (if truthy (dot props ''showWeekNumber'')
                then lit ''[&:nth-child(2)[data-selected=true]_button]:rounded-l-(--cell-radius)''
                else lit ''[&:first-child[data-selected=true]_button]:rounded-l-(--cell-radius)''),
              dot defaultClassNames ''day'']),
          At ''range_start'' (cn K [lit ''relative isolate z-0 rounded-l-(--cell-radius) bg-muted after:absolute after:inset-y-0 after:right-0 after:w-4 after:bg-muted'',
              dot defaultClassNames ''range_start'']),
          At ''range_middle'' (cn K [lit ''rounded-none'',
              dot defaultClassNames ''range_middle'']),
          At ''range_end'' (cn K [lit ''relative isolate z-0 rounded-r-(--cell-radius) bg-muted after:absolute after:inset-y-0 after:left-0 after:w-4 after:bg-muted'',
              dot defaultClassNames ''range_end'']),
          At ''today'' (cn K [lit ''rounded-(--cell-radius) bg-muted text-foreground data-[selected=true]:rounded-none'',
              dot defaultClassNames ''today'']),
          At ''outside'' (cn K [lit ''text-muted-foreground aria-selected:text-muted-foreground'',
              dot defaultClassNames ''outside'']),
          At ''disabled'' (cn K [lit ''text-muted-foreground opacity-50'',
              dot defaultClassNames ''disabled'']),
          At ''hidden'' (cn K [lit ''invisible'',
              dot defaultClassNames ''hidden'']),
          Sp classNames]),
      At ''components'' (obj [At ''Root'' (VFun ''Calendar.Root'' []),
          At ''Chevron'' (VFun ''Calendar.Chevron'' []),
          At ''DayButton'' (VFun ''Calendar.DayButton'' [locale]),
          At ''WeekNumber'' (VFun ''Calendar.WeekNumber'' []),
          Sp components]),
      Sp props]
    [])\<close>

definition CalendarDayButton :: "lib \<Rightarrow> props \<Rightarrow> val" where
\<open>CalendarDayButton K p =
  (let className = attr ''className'' p in
    let day = attr ''day'' p in
    let modifiers = attr ''modifiers'' p in
    let locale = attr ''locale'' p in
    let props = rest [''className'', ''day'', ''modifiers'', ''locale''] p in
    let defaultClassNames = K ''getDefaultClassNames'' [] in
    let ref = K ''useRef'' [VNull] in
    el (comp ''Button'') [At ''variant'' (lit ''ghost''),
      At ''size'' (lit ''icon''),
      At ''data-day'' (K ''toLocaleDateString'' [dot day ''date'', dot locale ''code'']),
      At ''data-selected-single'' (jand (jand (jand (dot modifiers ''selected'')
            (VBool (\<not> (truthy (dot modifiers ''range_start'')))))
          (VBool (\<not> (truthy (dot modifiers ''range_end'')))))
        (VBool (\<not> (truthy (dot modifiers ''range_middle''))))),
      At ''data-range-start'' (dot modifiers ''range_start''),
      At ''data-range-end'' (dot modifiers ''range_end''),
      At ''data-range-middle'' (dot modifiers ''range_middle''),
      At ''className'' (cn K [lit ''relative isolate z-10 flex aspect-square size-auto w-full min-w-(--cell-size) flex-col gap-1 border-0 leading-none font-normal group-data-[focused=true]/day:relative group-data-[focused=true]/day:z-10 group-data-[focused=true]/day:border-ring group-data-[focused=true]/day:ring-[3px] group-data-[focused=true]/day:ring-ring/50 data-[range-end=true]:rounded-(--cell-radius) data-[range-end=true]:rounded-r-(--cell-radius) data-[range-end=true]:bg-primary data-[range-end=true]:text-primary-foreground data-[range-middle=true]:rounded-none data-[range-middle=true]:bg-muted data-[range-middle=true]:text-foreground data-[range-start=true]:rounded-(--cell-radius) data-[range-start=true]:rounded-l-(--cell-radius) data-[range-start=true]:bg-primary data-[range-start=true]:text-primary-foreground data-[selected-single=true]:bg-primary data-[selected-single=true]:text-primary-foreground dark:hover:text-foreground [&>span]:text-xs [&>span]:opacity-70'',
          dot defaultClassNames ''day'',
          className]),
      Sp props]
    [])\<close>

text \<open>The effect of a day button after it is drawn: the focus call, on the element its \<open>ref\<close> holds.\<close>

definition CalendarDayButton_effect :: "val \<Rightarrow> val \<Rightarrow> val list" where
  "CalendarDayButton_effect modifiers current =
     (if truthy (dot modifiers ''focused'') \<and> \<not> nullish current then [current] else [])"

section \<open>The contract\<close>

text \<open>The rows: slot, the properties read, whether the caller's classes are merged, the component, with what its context holds.\<close>

definition kit_controls :: "lib \<Rightarrow> props \<Rightarrow> kit_row list" where
\<open>kit_controls K c = [
  (''button'', [''className'', ''variant'', ''size''], True, Button K),
  (''button-group'', [''className'', ''orientation''], True, ButtonGroup K),
  (''button-group-separator'', [''className'', ''orientation''], True, ButtonGroupSeparator K),
  (''checkbox'', [''className''], True, Checkbox K),
  (''input'', [''className'', ''type''], True, Input K),
  (''textarea'', [''className''], True, Textarea K),
  (''input-group'', [''className''], True, InputGroup K),
  (''input-group-addon'', [''className'', ''align''], True, InputGroupAddon K),
  ('''', [''className'', ''type'', ''variant'', ''size''], True, InputGroupButton K),
  ('''', [''className''], True, InputGroupText K),
  (''input-group-control'', [''className''], True, InputGroupInput K),
  (''input-group-control'', [''className''], True, InputGroupTextarea K),
  (''input-otp'', [''className'', ''containerClassName''], True, InputOTP K),
  (''input-otp-group'', [''className''], True, InputOTPGroup K),
  (''input-otp-slot'', [''index'', ''className''], True, InputOTPSlot K (VObj c)),
  (''input-otp-separator'', [], False, InputOTPSeparator K),
  (''native-select'', [''className'', ''size''], False, NativeSelect K),
  (''native-select-option'', [''className''], True, NativeSelectOption K),
  (''native-select-optgroup'', [''className''], True, NativeSelectOptGroup K),
  (''radio-group'', [''className''], True, RadioGroup K),
  (''radio-group-item'', [''className''], True, RadioGroupItem K),
  (''switch'', [''className'', ''size''], True, Switch K),
  (''toggle'', [''className'', ''variant'', ''size''], True, Toggle K),
  (''toggle-group'', [''className'', ''variant'', ''size'', ''spacing'', ''orientation'', ''children''], True, ToggleGroup K),
  (''toggle-group-item'', [''className'', ''children'', ''variant'', ''size''], True, ToggleGroupItem K (VObj c)),
  (''slider'', [''className'', ''defaultValue'', ''value'', ''min'', ''max''], True, Slider K),
  (''select-group'', [''className''], True, SelectGroup K),
  (''select-value'', [''className''], True, SelectValue K),
  (''select-trigger'', [''className'', ''size'', ''children''], True, SelectTrigger K),
  (''select-content'', [''className'', ''children'', ''side'', ''sideOffset'', ''align'', ''alignOffset'', ''alignItemWithTrigger''], True, SelectContent K),
  (''select-label'', [''className''], True, SelectLabel K),
  (''select-item'', [''className'', ''children''], True, SelectItem K),
  (''select-separator'', [''className''], True, SelectSeparator K),
  (''select-scroll-up-button'', [''className''], True, SelectScrollUpButton K),
  (''select-scroll-down-button'', [''className''], True, SelectScrollDownButton K),
  (''combobox-value'', [], False, ComboboxValue K),
  (''combobox-trigger'', [''className'', ''children''], True, ComboboxTrigger K),
  (''combobox-clear'', [''className''], True, ComboboxClear K),
  ('''', [''className'', ''children'', ''disabled'', ''showTrigger'', ''showClear''], False, ComboboxInput K),
  (''combobox-content'', [''className'', ''side'', ''sideOffset'', ''align'', ''alignOffset'', ''anchor''], True, ComboboxContent K),
  (''combobox-list'', [''className''], True, ComboboxList K),
  (''combobox-item'', [''className'', ''children''], True, ComboboxItem K),
  (''combobox-group'', [''className''], True, ComboboxGroup K),
  (''combobox-label'', [''className''], True, ComboboxLabel K),
  (''combobox-collection'', [], False, ComboboxCollection K),
  (''combobox-empty'', [''className''], True, ComboboxEmpty K),
  (''combobox-separator'', [''className''], True, ComboboxSeparator K),
  (''combobox-chips'', [''className''], True, ComboboxChips K),
  (''combobox-chip'', [''className'', ''children'', ''showRemove''], True, ComboboxChip K),
  (''combobox-chip-input'', [''className''], True, ComboboxChipsInput K),
  (''pagination'', [''className''], True, Pagination K),
  (''pagination-content'', [''className''], True, PaginationContent K),
  (''pagination-item'', [], False, PaginationItem K),
  ('''', [''className'', ''text''], True, PaginationPrevious K),
  ('''', [''className'', ''text''], True, PaginationNext K),
  (''pagination-ellipsis'', [''className''], True, PaginationEllipsis K),
  ('''', [''className'', ''classNames'', ''showOutsideDays'', ''captionLayout'', ''buttonVariant'', ''locale'', ''formatters'', ''components''], True, Calendar K),
  ('''', [''className'', ''day'', ''modifiers'', ''locale''], True, CalendarDayButton K)]\<close>

lemma Button_ok [kit_rows]: "kit_ok K (''button'', [''className'', ''variant'', ''size''], True, Button K)"
  by (simp add: kit_simps Button_def)

lemma ButtonGroup_ok [kit_rows]: "kit_ok K (''button-group'', [''className'', ''orientation''], True, ButtonGroup K)"
  by (simp add: kit_simps ButtonGroup_def)

lemma ButtonGroupSeparator_ok [kit_rows]: "kit_ok K (''button-group-separator'', [''className'', ''orientation''], True, ButtonGroupSeparator K)"
  by (simp add: kit_simps ButtonGroupSeparator_def)

lemma Checkbox_ok [kit_rows]: "kit_ok K (''checkbox'', [''className''], True, Checkbox K)"
  by (simp add: kit_simps Checkbox_def)

lemma Input_ok [kit_rows]: "kit_ok K (''input'', [''className'', ''type''], True, Input K)"
  by (simp add: kit_simps Input_def)

lemma Textarea_ok [kit_rows]: "kit_ok K (''textarea'', [''className''], True, Textarea K)"
  by (simp add: kit_simps Textarea_def)

lemma InputGroup_ok [kit_rows]: "kit_ok K (''input-group'', [''className''], True, InputGroup K)"
  by (simp add: kit_simps InputGroup_def)

lemma InputGroupAddon_ok [kit_rows]: "kit_ok K (''input-group-addon'', [''className'', ''align''], True, InputGroupAddon K)"
  by (simp add: kit_simps InputGroupAddon_def)

lemma InputGroupButton_ok [kit_rows]: "kit_ok K ('''', [''className'', ''type'', ''variant'', ''size''], True, InputGroupButton K)"
  by (simp add: kit_simps InputGroupButton_def)

lemma InputGroupText_ok [kit_rows]: "kit_ok K ('''', [''className''], True, InputGroupText K)"
  by (simp add: kit_simps InputGroupText_def)

lemma InputGroupInput_ok [kit_rows]: "kit_ok K (''input-group-control'', [''className''], True, InputGroupInput K)"
  by (simp add: kit_simps InputGroupInput_def)

lemma InputGroupTextarea_ok [kit_rows]: "kit_ok K (''input-group-control'', [''className''], True, InputGroupTextarea K)"
  by (simp add: kit_simps InputGroupTextarea_def)

lemma InputOTP_ok [kit_rows]: "kit_ok K (''input-otp'', [''className'', ''containerClassName''], True, InputOTP K)"
  by (simp add: kit_simps InputOTP_def)

lemma InputOTPGroup_ok [kit_rows]: "kit_ok K (''input-otp-group'', [''className''], True, InputOTPGroup K)"
  by (simp add: kit_simps InputOTPGroup_def)

lemma InputOTPSlot_ok [kit_rows]: "kit_ok K (''input-otp-slot'', [''index'', ''className''], True, InputOTPSlot K (VObj c))"
  by (simp add: kit_simps InputOTPSlot_def)

lemma InputOTPSeparator_ok [kit_rows]: "kit_ok K (''input-otp-separator'', [], False, InputOTPSeparator K)"
  by (simp add: kit_simps InputOTPSeparator_def)

lemma NativeSelect_ok [kit_rows]: "kit_ok K (''native-select'', [''className'', ''size''], False, NativeSelect K)"
  by (simp add: kit_simps NativeSelect_def)

lemma NativeSelectOption_ok [kit_rows]: "kit_ok K (''native-select-option'', [''className''], True, NativeSelectOption K)"
  by (simp add: kit_simps NativeSelectOption_def)

lemma NativeSelectOptGroup_ok [kit_rows]: "kit_ok K (''native-select-optgroup'', [''className''], True, NativeSelectOptGroup K)"
  by (simp add: kit_simps NativeSelectOptGroup_def)

lemma RadioGroup_ok [kit_rows]: "kit_ok K (''radio-group'', [''className''], True, RadioGroup K)"
  by (simp add: kit_simps RadioGroup_def)

lemma RadioGroupItem_ok [kit_rows]: "kit_ok K (''radio-group-item'', [''className''], True, RadioGroupItem K)"
  by (simp add: kit_simps RadioGroupItem_def)

lemma Switch_ok [kit_rows]: "kit_ok K (''switch'', [''className'', ''size''], True, Switch K)"
  by (simp add: kit_simps Switch_def)

lemma Toggle_ok [kit_rows]: "kit_ok K (''toggle'', [''className'', ''variant'', ''size''], True, Toggle K)"
  by (simp add: kit_simps Toggle_def)

lemma ToggleGroup_ok [kit_rows]: "kit_ok K (''toggle-group'', [''className'', ''variant'', ''size'', ''spacing'', ''orientation'', ''children''], True, ToggleGroup K)"
  by (simp add: kit_simps ToggleGroup_def)

lemma ToggleGroupItem_ok [kit_rows]: "kit_ok K (''toggle-group-item'', [''className'', ''children'', ''variant'', ''size''], True, ToggleGroupItem K (VObj c))"
  by (simp add: kit_simps ToggleGroupItem_def)

lemma Slider_ok [kit_rows]: "kit_ok K (''slider'', [''className'', ''defaultValue'', ''value'', ''min'', ''max''], True, Slider K)"
  by (simp add: kit_simps Slider_def)

lemma SelectGroup_ok [kit_rows]: "kit_ok K (''select-group'', [''className''], True, SelectGroup K)"
  by (simp add: kit_simps SelectGroup_def)

lemma SelectValue_ok [kit_rows]: "kit_ok K (''select-value'', [''className''], True, SelectValue K)"
  by (simp add: kit_simps SelectValue_def)

lemma SelectTrigger_ok [kit_rows]: "kit_ok K (''select-trigger'', [''className'', ''size'', ''children''], True, SelectTrigger K)"
  by (simp add: kit_simps SelectTrigger_def)

lemma SelectContent_ok [kit_rows]: "kit_ok K (''select-content'', [''className'', ''children'', ''side'', ''sideOffset'', ''align'', ''alignOffset'', ''alignItemWithTrigger''], True, SelectContent K)"
  by (simp add: kit_simps SelectContent_def)

lemma SelectLabel_ok [kit_rows]: "kit_ok K (''select-label'', [''className''], True, SelectLabel K)"
  by (simp add: kit_simps SelectLabel_def)

lemma SelectItem_ok [kit_rows]: "kit_ok K (''select-item'', [''className'', ''children''], True, SelectItem K)"
  by (simp add: kit_simps SelectItem_def)

lemma SelectSeparator_ok [kit_rows]: "kit_ok K (''select-separator'', [''className''], True, SelectSeparator K)"
  by (simp add: kit_simps SelectSeparator_def)

lemma SelectScrollUpButton_ok [kit_rows]: "kit_ok K (''select-scroll-up-button'', [''className''], True, SelectScrollUpButton K)"
  by (simp add: kit_simps SelectScrollUpButton_def)

lemma SelectScrollDownButton_ok [kit_rows]: "kit_ok K (''select-scroll-down-button'', [''className''], True, SelectScrollDownButton K)"
  by (simp add: kit_simps SelectScrollDownButton_def)

lemma ComboboxValue_ok [kit_rows]: "kit_ok K (''combobox-value'', [], False, ComboboxValue K)"
  by (simp add: kit_simps ComboboxValue_def)

lemma ComboboxTrigger_ok [kit_rows]: "kit_ok K (''combobox-trigger'', [''className'', ''children''], True, ComboboxTrigger K)"
  by (simp add: kit_simps ComboboxTrigger_def)

lemma ComboboxClear_ok [kit_rows]: "kit_ok K (''combobox-clear'', [''className''], True, ComboboxClear K)"
  by (simp add: kit_simps ComboboxClear_def)

lemma ComboboxInput_ok [kit_rows]: "kit_ok K ('''', [''className'', ''children'', ''disabled'', ''showTrigger'', ''showClear''], False, ComboboxInput K)"
  by (simp add: kit_simps ComboboxInput_def)

lemma ComboboxContent_ok [kit_rows]: "kit_ok K (''combobox-content'', [''className'', ''side'', ''sideOffset'', ''align'', ''alignOffset'', ''anchor''], True, ComboboxContent K)"
  by (simp add: kit_simps ComboboxContent_def)

lemma ComboboxList_ok [kit_rows]: "kit_ok K (''combobox-list'', [''className''], True, ComboboxList K)"
  by (simp add: kit_simps ComboboxList_def)

lemma ComboboxItem_ok [kit_rows]: "kit_ok K (''combobox-item'', [''className'', ''children''], True, ComboboxItem K)"
  by (simp add: kit_simps ComboboxItem_def)

lemma ComboboxGroup_ok [kit_rows]: "kit_ok K (''combobox-group'', [''className''], True, ComboboxGroup K)"
  by (simp add: kit_simps ComboboxGroup_def)

lemma ComboboxLabel_ok [kit_rows]: "kit_ok K (''combobox-label'', [''className''], True, ComboboxLabel K)"
  by (simp add: kit_simps ComboboxLabel_def)

lemma ComboboxCollection_ok [kit_rows]: "kit_ok K (''combobox-collection'', [], False, ComboboxCollection K)"
  by (simp add: kit_simps ComboboxCollection_def)

lemma ComboboxEmpty_ok [kit_rows]: "kit_ok K (''combobox-empty'', [''className''], True, ComboboxEmpty K)"
  by (simp add: kit_simps ComboboxEmpty_def)

lemma ComboboxSeparator_ok [kit_rows]: "kit_ok K (''combobox-separator'', [''className''], True, ComboboxSeparator K)"
  by (simp add: kit_simps ComboboxSeparator_def)

lemma ComboboxChips_ok [kit_rows]: "kit_ok K (''combobox-chips'', [''className''], True, ComboboxChips K)"
  by (simp add: kit_simps ComboboxChips_def)

lemma ComboboxChip_ok [kit_rows]: "kit_ok K (''combobox-chip'', [''className'', ''children'', ''showRemove''], True, ComboboxChip K)"
  by (simp add: kit_simps ComboboxChip_def)

lemma ComboboxChipsInput_ok [kit_rows]: "kit_ok K (''combobox-chip-input'', [''className''], True, ComboboxChipsInput K)"
  by (simp add: kit_simps ComboboxChipsInput_def)

lemma Pagination_ok [kit_rows]: "kit_ok K (''pagination'', [''className''], True, Pagination K)"
  by (simp add: kit_simps Pagination_def)

lemma PaginationContent_ok [kit_rows]: "kit_ok K (''pagination-content'', [''className''], True, PaginationContent K)"
  by (simp add: kit_simps PaginationContent_def)

lemma PaginationItem_ok [kit_rows]: "kit_ok K (''pagination-item'', [], False, PaginationItem K)"
  by (simp add: kit_simps PaginationItem_def)

lemma PaginationPrevious_ok [kit_rows]: "kit_ok K ('''', [''className'', ''text''], True, PaginationPrevious K)"
  by (simp add: kit_simps PaginationPrevious_def)

lemma PaginationNext_ok [kit_rows]: "kit_ok K ('''', [''className'', ''text''], True, PaginationNext K)"
  by (simp add: kit_simps PaginationNext_def)

lemma PaginationEllipsis_ok [kit_rows]: "kit_ok K (''pagination-ellipsis'', [''className''], True, PaginationEllipsis K)"
  by (simp add: kit_simps PaginationEllipsis_def)

lemma Calendar_ok [kit_rows]: "kit_ok K ('''', [''className'', ''classNames'', ''showOutsideDays'', ''captionLayout'', ''buttonVariant'', ''locale'', ''formatters'', ''components''], True, Calendar K)"
  by (simp add: kit_simps Calendar_def)

lemma CalendarDayButton_ok [kit_rows]: "kit_ok K ('''', [''className'', ''day'', ''modifiers'', ''locale''], True, CalendarDayButton K)"
  by (simp add: kit_simps CalendarDayButton_def)

lemma kit_controls_ok: "list_all (kit_ok K) (kit_controls K c)"
  by (simp add: kit_controls_def kit_rows)

end
