(* ===== verification/UiMenus.thy ===== *)
theory UiMenus
  imports UiControls
begin

text \<open>
  The component kit, the menus: one definition per component of the files named by the sections,
  from its props to the element it renders.
\<close>

section \<open>ui/command.tsx\<close>

definition Command :: "lib \<Rightarrow> props \<Rightarrow> val" where
\<open>Command K p =
  (let className = attr ''className'' p in
    let props = rest [''className''] p in
    el (comp ''CommandPrimitive'') [At ''data-slot'' (lit ''command''),
      At ''className'' (cn K [lit ''flex size-full flex-col overflow-hidden rounded-none bg-popover text-popover-foreground'',
          className]),
      Sp props]
    [])\<close>

definition CommandDialog :: "lib \<Rightarrow> props \<Rightarrow> val" where
\<open>CommandDialog K p =
  (let title = dflt (lit ''Command Palette'') (attr ''title'' p) in
    let description = dflt (lit ''Search for a command to run...'') (attr ''description'' p) in
    let children = attr ''children'' p in
    let className = attr ''className'' p in
    let showCloseButton = dflt (VBool False) (attr ''showCloseButton'' p) in
    let props = rest [''title'', ''description'', ''children'', ''className'', ''showCloseButton''] p in
    el (comp ''Dialog'') [Sp props]
    [el (comp ''DialogHeader'') [At ''className'' (lit ''sr-only'')]
      [el (comp ''DialogTitle'') []
        [title],
        el (comp ''DialogDescription'') []
        [description]],
      el (comp ''DialogContent'') [At ''className'' (cn K [lit ''top-1/3 translate-y-0 overflow-hidden rounded-none p-0'',
            className]),
        At ''showCloseButton'' showCloseButton]
      [children]])\<close>

definition CommandInput :: "lib \<Rightarrow> props \<Rightarrow> val" where
\<open>CommandInput K p =
  (let className = attr ''className'' p in
    let props = rest [''className''] p in
    el (tag ''div'') [At ''data-slot'' (lit ''command-input-wrapper''),
      At ''className'' (lit ''border-b pb-0'')]
    [el (comp ''InputGroup'') [At ''className'' (lit ''h-8 border-none border-input/30 bg-input/30 shadow-none! *:data-[slot=input-group-addon]:pl-2!'')]
      [el (comp ''CommandPrimitive.Input'') [At ''data-slot'' (lit ''command-input''),
          At ''className'' (cn K [lit ''w-full text-xs outline-hidden disabled:cursor-not-allowed disabled:opacity-50'',
              className]),
          Sp props]
        [],
        el (comp ''InputGroupAddon'') []
        [el (comp ''SearchIcon'') [At ''className'' (lit ''size-4 shrink-0 opacity-50'')]
          []]]])\<close>

definition CommandList :: "lib \<Rightarrow> props \<Rightarrow> val" where
\<open>CommandList K p =
  (let className = attr ''className'' p in
    let props = rest [''className''] p in
    el (comp ''CommandPrimitive.List'') [At ''data-slot'' (lit ''command-list''),
      At ''className'' (cn K [lit ''no-scrollbar max-h-72 scroll-py-0 overflow-x-hidden overflow-y-auto outline-none'',
          className]),
      Sp props]
    [])\<close>

definition CommandEmpty :: "lib \<Rightarrow> props \<Rightarrow> val" where
\<open>CommandEmpty K p =
  (let className = attr ''className'' p in
    let props = rest [''className''] p in
    el (comp ''CommandPrimitive.Empty'') [At ''data-slot'' (lit ''command-empty''),
      At ''className'' (cn K [lit ''py-6 text-center text-xs'',
          className]),
      Sp props]
    [])\<close>

definition CommandGroup :: "lib \<Rightarrow> props \<Rightarrow> val" where
\<open>CommandGroup K p =
  (let className = attr ''className'' p in
    let props = rest [''className''] p in
    el (comp ''CommandPrimitive.Group'') [At ''data-slot'' (lit ''command-group''),
      At ''className'' (cn K [lit ''overflow-hidden text-foreground **:[[cmdk-group-heading]]:px-2 **:[[cmdk-group-heading]]:py-1.5 **:[[cmdk-group-heading]]:text-xs **:[[cmdk-group-heading]]:text-muted-foreground'',
          className]),
      Sp props]
    [])\<close>

definition CommandSeparator :: "lib \<Rightarrow> props \<Rightarrow> val" where
\<open>CommandSeparator K p =
  (let className = attr ''className'' p in
    let props = rest [''className''] p in
    el (comp ''CommandPrimitive.Separator'') [At ''data-slot'' (lit ''command-separator''),
      At ''className'' (cn K [lit ''-mx-1 h-px bg-border'',
          className]),
      Sp props]
    [])\<close>

definition CommandItem :: "lib \<Rightarrow> props \<Rightarrow> val" where
\<open>CommandItem K p =
  (let className = attr ''className'' p in
    let children = attr ''children'' p in
    let props = rest [''className'', ''children''] p in
    el (comp ''CommandPrimitive.Item'') [At ''data-slot'' (lit ''command-item''),
      At ''className'' (cn K [lit ''group/command-item relative flex cursor-default items-center gap-2 rounded-none px-2 py-2 text-xs outline-hidden select-none in-data-[slot=dialog-content]:rounded-none! data-[disabled=true]:pointer-events-none data-[disabled=true]:opacity-50 data-selected:bg-muted data-selected:text-foreground [&_svg]:pointer-events-none [&_svg]:shrink-0 [&_svg:not([class*='size-'])]:size-4 data-selected:*:[svg]:text-foreground'',
          className]),
      Sp props]
    [children,
      el (comp ''CheckIcon'') [At ''className'' (lit ''ml-auto opacity-0 group-has-data-[slot=command-shortcut]/command-item:hidden group-data-[checked=true]/command-item:opacity-100'')]
      []])\<close>

definition CommandShortcut :: "lib \<Rightarrow> props \<Rightarrow> val" where
\<open>CommandShortcut K p =
  (let className = attr ''className'' p in
    let props = rest [''className''] p in
    el (tag ''span'') [At ''data-slot'' (lit ''command-shortcut''),
      At ''className'' (cn K [lit ''ml-auto text-xs tracking-widest text-muted-foreground group-data-selected/command-item:text-foreground'',
          className]),
      Sp props]
    [])\<close>

section \<open>ui/context-menu.tsx\<close>

definition ContextMenu :: "lib \<Rightarrow> props \<Rightarrow> val" where
\<open>ContextMenu K p =
  (let props = rest [] p in
    el (comp ''ContextMenuPrimitive.Root'') [At ''data-slot'' (lit ''context-menu''),
      Sp props]
    [])\<close>

definition ContextMenuPortal :: "lib \<Rightarrow> props \<Rightarrow> val" where
\<open>ContextMenuPortal K p =
  (let props = rest [] p in
    el (comp ''ContextMenuPrimitive.Portal'') [At ''data-slot'' (lit ''context-menu-portal''),
      Sp props]
    [])\<close>

definition ContextMenuTrigger :: "lib \<Rightarrow> props \<Rightarrow> val" where
\<open>ContextMenuTrigger K p =
  (let className = attr ''className'' p in
    let props = rest [''className''] p in
    el (comp ''ContextMenuPrimitive.Trigger'') [At ''data-slot'' (lit ''context-menu-trigger''),
      At ''className'' (cn K [lit ''select-none'',
          className]),
      Sp props]
    [])\<close>

definition ContextMenuContent :: "lib \<Rightarrow> props \<Rightarrow> val" where
\<open>ContextMenuContent K p =
  (let className = attr ''className'' p in
    let align = dflt (lit ''start'') (attr ''align'' p) in
    let alignOffset = dflt (VNum 4) (attr ''alignOffset'' p) in
    let side = dflt (lit ''right'') (attr ''side'' p) in
    let sideOffset = dflt (VNum 0) (attr ''sideOffset'' p) in
    let props = rest [''className'', ''align'', ''alignOffset'', ''side'', ''sideOffset''] p in
    el (comp ''ContextMenuPrimitive.Portal'') []
    [el (comp ''ContextMenuPrimitive.Positioner'') [At ''className'' (lit ''isolate z-50 outline-none''),
        At ''align'' align,
        At ''alignOffset'' alignOffset,
        At ''side'' side,
        At ''sideOffset'' sideOffset]
      [el (comp ''ContextMenuPrimitive.Popup'') [At ''data-slot'' (lit ''context-menu-content''),
          At ''className'' (cn K [lit ''z-50 max-h-(--available-height) min-w-36 origin-(--transform-origin) overflow-x-hidden overflow-y-auto rounded-none bg-popover text-popover-foreground shadow-md ring-1 ring-foreground/10 duration-100 outline-none data-[side=bottom]:slide-in-from-top-2 data-[side=inline-end]:slide-in-from-left-2 data-[side=inline-start]:slide-in-from-right-2 data-[side=left]:slide-in-from-right-2 data-[side=right]:slide-in-from-left-2 data-[side=top]:slide-in-from-bottom-2 data-open:animate-in data-open:fade-in-0 data-open:zoom-in-95 data-closed:animate-out data-closed:fade-out-0 data-closed:zoom-out-95'',
              className]),
          Sp props]
        []]])\<close>

definition ContextMenuGroup :: "lib \<Rightarrow> props \<Rightarrow> val" where
\<open>ContextMenuGroup K p =
  (let props = rest [] p in
    el (comp ''ContextMenuPrimitive.Group'') [At ''data-slot'' (lit ''context-menu-group''),
      Sp props]
    [])\<close>

definition ContextMenuLabel :: "lib \<Rightarrow> props \<Rightarrow> val" where
\<open>ContextMenuLabel K p =
  (let className = attr ''className'' p in
    let inset = attr ''inset'' p in
    let props = rest [''className'', ''inset''] p in
    el (comp ''ContextMenuPrimitive.GroupLabel'') [At ''data-slot'' (lit ''context-menu-label''),
      At ''data-inset'' inset,
      At ''className'' (cn K [lit ''px-2 py-2 text-xs text-muted-foreground data-inset:pl-7'',
          className]),
      Sp props]
    [])\<close>

definition ContextMenuItem :: "lib \<Rightarrow> props \<Rightarrow> val" where
\<open>ContextMenuItem K p =
  (let className = attr ''className'' p in
    let inset = attr ''inset'' p in
    let variant = dflt (lit ''default'') (attr ''variant'' p) in
    let props = rest [''className'', ''inset'', ''variant''] p in
    el (comp ''ContextMenuPrimitive.Item'') [At ''data-slot'' (lit ''context-menu-item''),
      At ''data-inset'' inset,
      At ''data-variant'' variant,
      At ''className'' (cn K [lit ''group/context-menu-item relative flex cursor-default items-center gap-2 rounded-none px-2 py-2 text-xs outline-hidden select-none focus:bg-accent focus:text-accent-foreground data-inset:pl-7 data-[variant=destructive]:text-destructive data-[variant=destructive]:focus:bg-destructive/10 data-[variant=destructive]:focus:text-destructive dark:data-[variant=destructive]:focus:bg-destructive/20 data-disabled:pointer-events-none data-disabled:opacity-50 [&_svg]:pointer-events-none [&_svg]:shrink-0 [&_svg:not([class*='size-'])]:size-4 focus:*:[svg]:text-accent-foreground data-[variant=destructive]:*:[svg]:text-destructive'',
          className]),
      Sp props]
    [])\<close>

definition ContextMenuSub :: "lib \<Rightarrow> props \<Rightarrow> val" where
\<open>ContextMenuSub K p =
  (let props = rest [] p in
    el (comp ''ContextMenuPrimitive.SubmenuRoot'') [At ''data-slot'' (lit ''context-menu-sub''),
      Sp props]
    [])\<close>

definition ContextMenuSubTrigger :: "lib \<Rightarrow> props \<Rightarrow> val" where
\<open>ContextMenuSubTrigger K p =
  (let className = attr ''className'' p in
    let inset = attr ''inset'' p in
    let children = attr ''children'' p in
    let props = rest [''className'', ''inset'', ''children''] p in
    el (comp ''ContextMenuPrimitive.SubmenuTrigger'') [At ''data-slot'' (lit ''context-menu-sub-trigger''),
      At ''data-inset'' inset,
      At ''className'' (cn K [lit ''flex cursor-default items-center gap-2 rounded-none px-2 py-2 text-xs outline-hidden select-none focus:bg-accent focus:text-accent-foreground data-inset:pl-7 data-open:bg-accent data-open:text-accent-foreground [&_svg]:pointer-events-none [&_svg]:shrink-0 [&_svg:not([class*='size-'])]:size-4'',
          className]),
      Sp props]
    [children,
      el (comp ''ChevronRightIcon'') [At ''className'' (lit ''ml-auto'')]
      []])\<close>

definition ContextMenuSubContent :: "lib \<Rightarrow> props \<Rightarrow> val" where
\<open>ContextMenuSubContent K p =
  (let props = rest [] p in
    el (comp ''ContextMenuContent'') [At ''data-slot'' (lit ''context-menu-sub-content''),
      At ''className'' (lit ''shadow-lg''),
      At ''side'' (lit ''right''),
      Sp props]
    [])\<close>

definition ContextMenuCheckboxItem :: "lib \<Rightarrow> props \<Rightarrow> val" where
\<open>ContextMenuCheckboxItem K p =
  (let className = attr ''className'' p in
    let children = attr ''children'' p in
    let checked = attr ''checked'' p in
    let inset = attr ''inset'' p in
    let props = rest [''className'', ''children'', ''checked'', ''inset''] p in
    el (comp ''ContextMenuPrimitive.CheckboxItem'') [At ''data-slot'' (lit ''context-menu-checkbox-item''),
      At ''data-inset'' inset,
      At ''className'' (cn K [lit ''relative flex cursor-default items-center gap-2 rounded-none py-2 pr-8 pl-2 text-xs outline-hidden select-none focus:bg-accent focus:text-accent-foreground data-inset:pl-7 data-disabled:pointer-events-none data-disabled:opacity-50 [&_svg]:pointer-events-none [&_svg]:shrink-0 [&_svg:not([class*='size-'])]:size-4'',
          className]),
      At ''checked'' checked,
      Sp props]
    [el (tag ''span'') [At ''className'' (lit ''pointer-events-none absolute right-2'')]
      [el (comp ''ContextMenuPrimitive.CheckboxItemIndicator'') []
        [el (comp ''CheckIcon'') []
          []]],
      children])\<close>

definition ContextMenuRadioGroup :: "lib \<Rightarrow> props \<Rightarrow> val" where
\<open>ContextMenuRadioGroup K p =
  (let props = rest [] p in
    el (comp ''ContextMenuPrimitive.RadioGroup'') [At ''data-slot'' (lit ''context-menu-radio-group''),
      Sp props]
    [])\<close>

definition ContextMenuRadioItem :: "lib \<Rightarrow> props \<Rightarrow> val" where
\<open>ContextMenuRadioItem K p =
  (let className = attr ''className'' p in
    let children = attr ''children'' p in
    let inset = attr ''inset'' p in
    let props = rest [''className'', ''children'', ''inset''] p in
    el (comp ''ContextMenuPrimitive.RadioItem'') [At ''data-slot'' (lit ''context-menu-radio-item''),
      At ''data-inset'' inset,
      At ''className'' (cn K [lit ''relative flex cursor-default items-center gap-2 rounded-none py-2 pr-8 pl-2 text-xs outline-hidden select-none focus:bg-accent focus:text-accent-foreground data-inset:pl-7 data-disabled:pointer-events-none data-disabled:opacity-50 [&_svg]:pointer-events-none [&_svg]:shrink-0 [&_svg:not([class*='size-'])]:size-4'',
          className]),
      Sp props]
    [el (tag ''span'') [At ''className'' (lit ''pointer-events-none absolute right-2'')]
      [el (comp ''ContextMenuPrimitive.RadioItemIndicator'') []
        [el (comp ''CheckIcon'') []
          []]],
      children])\<close>

definition ContextMenuSeparator :: "lib \<Rightarrow> props \<Rightarrow> val" where
\<open>ContextMenuSeparator K p =
  (let className = attr ''className'' p in
    let props = rest [''className''] p in
    el (comp ''ContextMenuPrimitive.Separator'') [At ''data-slot'' (lit ''context-menu-separator''),
      At ''className'' (cn K [lit ''-mx-1 h-px bg-border'',
          className]),
      Sp props]
    [])\<close>

definition ContextMenuShortcut :: "lib \<Rightarrow> props \<Rightarrow> val" where
\<open>ContextMenuShortcut K p =
  (let className = attr ''className'' p in
    let props = rest [''className''] p in
    el (tag ''span'') [At ''data-slot'' (lit ''context-menu-shortcut''),
      At ''className'' (cn K [lit ''ml-auto text-xs tracking-widest text-muted-foreground group-focus/context-menu-item:text-accent-foreground'',
          className]),
      Sp props]
    [])\<close>

section \<open>ui/dropdown-menu.tsx\<close>

definition DropdownMenu :: "lib \<Rightarrow> props \<Rightarrow> val" where
\<open>DropdownMenu K p =
  (let props = rest [] p in
    el (comp ''MenuPrimitive.Root'') [At ''data-slot'' (lit ''dropdown-menu''),
      Sp props]
    [])\<close>

definition DropdownMenuPortal :: "lib \<Rightarrow> props \<Rightarrow> val" where
\<open>DropdownMenuPortal K p =
  (let props = rest [] p in
    el (comp ''MenuPrimitive.Portal'') [At ''data-slot'' (lit ''dropdown-menu-portal''),
      Sp props]
    [])\<close>

definition DropdownMenuTrigger :: "lib \<Rightarrow> props \<Rightarrow> val" where
\<open>DropdownMenuTrigger K p =
  (let props = rest [] p in
    el (comp ''MenuPrimitive.Trigger'') [At ''data-slot'' (lit ''dropdown-menu-trigger''),
      Sp props]
    [])\<close>

definition DropdownMenuContent :: "lib \<Rightarrow> props \<Rightarrow> val" where
\<open>DropdownMenuContent K p =
  (let align = dflt (lit ''start'') (attr ''align'' p) in
    let alignOffset = dflt (VNum 0) (attr ''alignOffset'' p) in
    let side = dflt (lit ''bottom'') (attr ''side'' p) in
    let sideOffset = dflt (VNum 4) (attr ''sideOffset'' p) in
    let className = attr ''className'' p in
    let props = rest [''align'', ''alignOffset'', ''side'', ''sideOffset'', ''className''] p in
    el (comp ''MenuPrimitive.Portal'') []
    [el (comp ''MenuPrimitive.Positioner'') [At ''className'' (lit ''isolate z-50 outline-none''),
        At ''align'' align,
        At ''alignOffset'' alignOffset,
        At ''side'' side,
        At ''sideOffset'' sideOffset]
      [el (comp ''MenuPrimitive.Popup'') [At ''data-slot'' (lit ''dropdown-menu-content''),
          At ''className'' (cn K [lit ''z-50 max-h-(--available-height) w-(--anchor-width) min-w-32 origin-(--transform-origin) overflow-x-hidden overflow-y-auto rounded-none bg-popover text-popover-foreground shadow-md ring-1 ring-foreground/10 duration-100 outline-none data-[side=bottom]:slide-in-from-top-2 data-[side=inline-end]:slide-in-from-left-2 data-[side=inline-start]:slide-in-from-right-2 data-[side=left]:slide-in-from-right-2 data-[side=right]:slide-in-from-left-2 data-[side=top]:slide-in-from-bottom-2 data-open:animate-in data-open:fade-in-0 data-open:zoom-in-95 data-closed:animate-out data-closed:overflow-hidden data-closed:fade-out-0 data-closed:zoom-out-95'',
              className]),
          Sp props]
        []]])\<close>

definition DropdownMenuGroup :: "lib \<Rightarrow> props \<Rightarrow> val" where
\<open>DropdownMenuGroup K p =
  (let props = rest [] p in
    el (comp ''MenuPrimitive.Group'') [At ''data-slot'' (lit ''dropdown-menu-group''),
      Sp props]
    [])\<close>

definition DropdownMenuLabel :: "lib \<Rightarrow> props \<Rightarrow> val" where
\<open>DropdownMenuLabel K p =
  (let className = attr ''className'' p in
    let inset = attr ''inset'' p in
    let props = rest [''className'', ''inset''] p in
    el (comp ''MenuPrimitive.GroupLabel'') [At ''data-slot'' (lit ''dropdown-menu-label''),
      At ''data-inset'' inset,
      At ''className'' (cn K [lit ''px-2 py-2 text-xs text-muted-foreground data-inset:pl-7'',
          className]),
      Sp props]
    [])\<close>

definition DropdownMenuItem :: "lib \<Rightarrow> props \<Rightarrow> val" where
\<open>DropdownMenuItem K p =
  (let className = attr ''className'' p in
    let inset = attr ''inset'' p in
    let variant = dflt (lit ''default'') (attr ''variant'' p) in
    let props = rest [''className'', ''inset'', ''variant''] p in
    el (comp ''MenuPrimitive.Item'') [At ''data-slot'' (lit ''dropdown-menu-item''),
      At ''data-inset'' inset,
      At ''data-variant'' variant,
      At ''className'' (cn K [lit ''group/dropdown-menu-item relative flex cursor-default items-center gap-2 rounded-none px-2 py-2 text-xs outline-hidden select-none focus:bg-accent focus:text-accent-foreground not-data-[variant=destructive]:focus:**:text-accent-foreground data-inset:pl-7 data-[variant=destructive]:text-destructive data-[variant=destructive]:focus:bg-destructive/10 data-[variant=destructive]:focus:text-destructive dark:data-[variant=destructive]:focus:bg-destructive/20 data-disabled:pointer-events-none data-disabled:opacity-50 [&_svg]:pointer-events-none [&_svg]:shrink-0 [&_svg:not([class*='size-'])]:size-4 data-[variant=destructive]:*:[svg]:text-destructive'',
          className]),
      Sp props]
    [])\<close>

definition DropdownMenuSub :: "lib \<Rightarrow> props \<Rightarrow> val" where
\<open>DropdownMenuSub K p =
  (let props = rest [] p in
    el (comp ''MenuPrimitive.SubmenuRoot'') [At ''data-slot'' (lit ''dropdown-menu-sub''),
      Sp props]
    [])\<close>

definition DropdownMenuSubTrigger :: "lib \<Rightarrow> props \<Rightarrow> val" where
\<open>DropdownMenuSubTrigger K p =
  (let className = attr ''className'' p in
    let inset = attr ''inset'' p in
    let children = attr ''children'' p in
    let props = rest [''className'', ''inset'', ''children''] p in
    el (comp ''MenuPrimitive.SubmenuTrigger'') [At ''data-slot'' (lit ''dropdown-menu-sub-trigger''),
      At ''data-inset'' inset,
      At ''className'' (cn K [lit ''flex cursor-default items-center gap-2 rounded-none px-2 py-2 text-xs outline-hidden select-none focus:bg-accent focus:text-accent-foreground not-data-[variant=destructive]:focus:**:text-accent-foreground data-inset:pl-7 data-popup-open:bg-accent data-popup-open:text-accent-foreground data-open:bg-accent data-open:text-accent-foreground [&_svg]:pointer-events-none [&_svg]:shrink-0 [&_svg:not([class*='size-'])]:size-4'',
          className]),
      Sp props]
    [children,
      el (comp ''ChevronRightIcon'') [At ''className'' (lit ''ml-auto'')]
      []])\<close>

definition DropdownMenuSubContent :: "lib \<Rightarrow> props \<Rightarrow> val" where
\<open>DropdownMenuSubContent K p =
  (let align = dflt (lit ''start'') (attr ''align'' p) in
    let alignOffset = dflt (VNum (- 3)) (attr ''alignOffset'' p) in
    let side = dflt (lit ''right'') (attr ''side'' p) in
    let sideOffset = dflt (VNum 0) (attr ''sideOffset'' p) in
    let className = attr ''className'' p in
    let props = rest [''align'', ''alignOffset'', ''side'', ''sideOffset'', ''className''] p in
    el (comp ''DropdownMenuContent'') [At ''data-slot'' (lit ''dropdown-menu-sub-content''),
      At ''className'' (cn K [lit ''w-auto min-w-[96px] rounded-none bg-popover text-popover-foreground shadow-lg ring-1 ring-foreground/10 duration-100 data-[side=bottom]:slide-in-from-top-2 data-[side=left]:slide-in-from-right-2 data-[side=right]:slide-in-from-left-2 data-[side=top]:slide-in-from-bottom-2 data-open:animate-in data-open:fade-in-0 data-open:zoom-in-95 data-closed:animate-out data-closed:fade-out-0 data-closed:zoom-out-95'',
          className]),
      At ''align'' align,
      At ''alignOffset'' alignOffset,
      At ''side'' side,
      At ''sideOffset'' sideOffset,
      Sp props]
    [])\<close>

definition DropdownMenuCheckboxItem :: "lib \<Rightarrow> props \<Rightarrow> val" where
\<open>DropdownMenuCheckboxItem K p =
  (let className = attr ''className'' p in
    let children = attr ''children'' p in
    let checked = attr ''checked'' p in
    let inset = attr ''inset'' p in
    let props = rest [''className'', ''children'', ''checked'', ''inset''] p in
    el (comp ''MenuPrimitive.CheckboxItem'') [At ''data-slot'' (lit ''dropdown-menu-checkbox-item''),
      At ''data-inset'' inset,
      At ''className'' (cn K [lit ''relative flex cursor-default items-center gap-2 rounded-none py-2 pr-8 pl-2 text-xs outline-hidden select-none focus:bg-accent focus:text-accent-foreground focus:**:text-accent-foreground data-inset:pl-7 data-disabled:pointer-events-none data-disabled:opacity-50 [&_svg]:pointer-events-none [&_svg]:shrink-0 [&_svg:not([class*='size-'])]:size-4'',
          className]),
      At ''checked'' checked,
      Sp props]
    [el (tag ''span'') [At ''className'' (lit ''pointer-events-none absolute right-2 flex items-center justify-center''),
        At ''data-slot'' (lit ''dropdown-menu-checkbox-item-indicator'')]
      [el (comp ''MenuPrimitive.CheckboxItemIndicator'') []
        [el (comp ''CheckIcon'') []
          []]],
      children])\<close>

definition DropdownMenuRadioGroup :: "lib \<Rightarrow> props \<Rightarrow> val" where
\<open>DropdownMenuRadioGroup K p =
  (let props = rest [] p in
    el (comp ''MenuPrimitive.RadioGroup'') [At ''data-slot'' (lit ''dropdown-menu-radio-group''),
      Sp props]
    [])\<close>

definition DropdownMenuRadioItem :: "lib \<Rightarrow> props \<Rightarrow> val" where
\<open>DropdownMenuRadioItem K p =
  (let className = attr ''className'' p in
    let children = attr ''children'' p in
    let inset = attr ''inset'' p in
    let props = rest [''className'', ''children'', ''inset''] p in
    el (comp ''MenuPrimitive.RadioItem'') [At ''data-slot'' (lit ''dropdown-menu-radio-item''),
      At ''data-inset'' inset,
      At ''className'' (cn K [lit ''relative flex cursor-default items-center gap-2 rounded-none py-2 pr-8 pl-2 text-xs outline-hidden select-none focus:bg-accent focus:text-accent-foreground focus:**:text-accent-foreground data-inset:pl-7 data-disabled:pointer-events-none data-disabled:opacity-50 [&_svg]:pointer-events-none [&_svg]:shrink-0 [&_svg:not([class*='size-'])]:size-4'',
          className]),
      Sp props]
    [el (tag ''span'') [At ''className'' (lit ''pointer-events-none absolute right-2 flex items-center justify-center''),
        At ''data-slot'' (lit ''dropdown-menu-radio-item-indicator'')]
      [el (comp ''MenuPrimitive.RadioItemIndicator'') []
        [el (comp ''CheckIcon'') []
          []]],
      children])\<close>

definition DropdownMenuSeparator :: "lib \<Rightarrow> props \<Rightarrow> val" where
\<open>DropdownMenuSeparator K p =
  (let className = attr ''className'' p in
    let props = rest [''className''] p in
    el (comp ''MenuPrimitive.Separator'') [At ''data-slot'' (lit ''dropdown-menu-separator''),
      At ''className'' (cn K [lit ''-mx-1 h-px bg-border'',
          className]),
      Sp props]
    [])\<close>

definition DropdownMenuShortcut :: "lib \<Rightarrow> props \<Rightarrow> val" where
\<open>DropdownMenuShortcut K p =
  (let className = attr ''className'' p in
    let props = rest [''className''] p in
    el (tag ''span'') [At ''data-slot'' (lit ''dropdown-menu-shortcut''),
      At ''className'' (cn K [lit ''ml-auto text-xs tracking-widest text-muted-foreground group-focus/dropdown-menu-item:text-accent-foreground'',
          className]),
      Sp props]
    [])\<close>

section \<open>ui/menubar.tsx\<close>

definition Menubar :: "lib \<Rightarrow> props \<Rightarrow> val" where
\<open>Menubar K p =
  (let className = attr ''className'' p in
    let props = rest [''className''] p in
    el (comp ''MenubarPrimitive'') [At ''data-slot'' (lit ''menubar''),
      At ''className'' (cn K [lit ''flex h-8 items-center gap-0.5 rounded-none border p-1'',
          className]),
      Sp props]
    [])\<close>

definition MenubarMenu :: "lib \<Rightarrow> props \<Rightarrow> val" where
\<open>MenubarMenu K p =
  (let props = rest [] p in
    el (comp ''DropdownMenu'') [At ''data-slot'' (lit ''menubar-menu''),
      Sp props]
    [])\<close>

definition MenubarGroup :: "lib \<Rightarrow> props \<Rightarrow> val" where
\<open>MenubarGroup K p =
  (let props = rest [] p in
    el (comp ''DropdownMenuGroup'') [At ''data-slot'' (lit ''menubar-group''),
      Sp props]
    [])\<close>

definition MenubarPortal :: "lib \<Rightarrow> props \<Rightarrow> val" where
\<open>MenubarPortal K p =
  (let props = rest [] p in
    el (comp ''DropdownMenuPortal'') [At ''data-slot'' (lit ''menubar-portal''),
      Sp props]
    [])\<close>

definition MenubarTrigger :: "lib \<Rightarrow> props \<Rightarrow> val" where
\<open>MenubarTrigger K p =
  (let className = attr ''className'' p in
    let props = rest [''className''] p in
    el (comp ''DropdownMenuTrigger'') [At ''data-slot'' (lit ''menubar-trigger''),
      At ''className'' (cn K [lit ''flex items-center rounded-none px-1.5 py-[calc(--spacing(0.8))] text-xs font-medium outline-hidden select-none hover:bg-muted aria-expanded:bg-muted'',
          className]),
      Sp props]
    [])\<close>

definition MenubarContent :: "lib \<Rightarrow> props \<Rightarrow> val" where
\<open>MenubarContent K p =
  (let className = attr ''className'' p in
    let align = dflt (lit ''start'') (attr ''align'' p) in
    let alignOffset = dflt (VNum (- 4)) (attr ''alignOffset'' p) in
    let sideOffset = dflt (VNum 8) (attr ''sideOffset'' p) in
    let props = rest [''className'', ''align'', ''alignOffset'', ''sideOffset''] p in
    el (comp ''DropdownMenuContent'') [At ''data-slot'' (lit ''menubar-content''),
      At ''align'' align,
      At ''alignOffset'' alignOffset,
      At ''sideOffset'' sideOffset,
      At ''className'' (cn K [lit ''min-w-36 rounded-none bg-popover text-popover-foreground shadow-md ring-1 ring-foreground/10 duration-100 data-[side=bottom]:slide-in-from-top-2 data-[side=inline-end]:slide-in-from-left-2 data-[side=inline-start]:slide-in-from-right-2 data-[side=left]:slide-in-from-right-2 data-[side=right]:slide-in-from-left-2 data-[side=top]:slide-in-from-bottom-2 data-open:animate-in data-open:fade-in-0 data-open:zoom-in-95'',
          className]),
      Sp props]
    [])\<close>

definition MenubarItem :: "lib \<Rightarrow> props \<Rightarrow> val" where
\<open>MenubarItem K p =
  (let className = attr ''className'' p in
    let inset = attr ''inset'' p in
    let variant = dflt (lit ''default'') (attr ''variant'' p) in
    let props = rest [''className'', ''inset'', ''variant''] p in
    el (comp ''DropdownMenuItem'') [At ''data-slot'' (lit ''menubar-item''),
      At ''data-inset'' inset,
      At ''data-variant'' variant,
      At ''className'' (cn K [lit ''group/menubar-item gap-2 rounded-none px-2 py-2 text-xs focus:bg-accent focus:text-accent-foreground not-data-[variant=destructive]:focus:**:text-accent-foreground data-inset:pl-8 data-[variant=destructive]:text-destructive data-[variant=destructive]:focus:bg-destructive/10 data-[variant=destructive]:focus:text-destructive dark:data-[variant=destructive]:focus:bg-destructive/20 data-disabled:opacity-50 [&_svg:not([class*='size-'])]:size-4 data-[variant=destructive]:*:[svg]:text-destructive!'',
          className]),
      Sp props]
    [])\<close>

definition MenubarCheckboxItem :: "lib \<Rightarrow> props \<Rightarrow> val" where
\<open>MenubarCheckboxItem K p =
  (let className = attr ''className'' p in
    let children = attr ''children'' p in
    let checked = attr ''checked'' p in
    let inset = attr ''inset'' p in
    let props = rest [''className'', ''children'', ''checked'', ''inset''] p in
    el (comp ''MenuPrimitive.CheckboxItem'') [At ''data-slot'' (lit ''menubar-checkbox-item''),
      At ''data-inset'' inset,
      At ''className'' (cn K [lit ''relative flex cursor-default items-center gap-2 rounded-none py-2 pr-28 pl-8 text-xs outline-hidden select-none focus:bg-accent focus:text-accent-foreground focus:**:text-accent-foreground data-inset:pl-8 data-disabled:pointer-events-none data-disabled:opacity-50 [&_svg]:pointer-events-none [&_svg]:shrink-0'',
          className]),
      At ''checked'' checked,
      Sp props]
    [el (tag ''span'') [At ''className'' (lit ''pointer-events-none absolute left-1.5 flex size-4 items-center justify-center [&_svg:not([class*='size-'])]:size-4'')]
      [el (comp ''MenuPrimitive.CheckboxItemIndicator'') []
        [el (comp ''CheckIcon'') []
          []]],
      children])\<close>

definition MenubarRadioGroup :: "lib \<Rightarrow> props \<Rightarrow> val" where
\<open>MenubarRadioGroup K p =
  (let props = rest [] p in
    el (comp ''DropdownMenuRadioGroup'') [At ''data-slot'' (lit ''menubar-radio-group''),
      Sp props]
    [])\<close>

definition MenubarRadioItem :: "lib \<Rightarrow> props \<Rightarrow> val" where
\<open>MenubarRadioItem K p =
  (let className = attr ''className'' p in
    let children = attr ''children'' p in
    let inset = attr ''inset'' p in
    let props = rest [''className'', ''children'', ''inset''] p in
    el (comp ''MenuPrimitive.RadioItem'') [At ''data-slot'' (lit ''menubar-radio-item''),
      At ''data-inset'' inset,
      At ''className'' (cn K [lit ''relative flex cursor-default items-center gap-2 rounded-none py-2 pr-2 pl-8 text-xs outline-hidden select-none focus:bg-accent focus:text-accent-foreground focus:**:text-accent-foreground data-inset:pl-8 data-disabled:pointer-events-none data-disabled:opacity-50 [&_svg]:pointer-events-none [&_svg]:shrink-0 [&_svg:not([class*='size-'])]:size-4'',
          className]),
      Sp props]
    [el (tag ''span'') [At ''className'' (lit ''pointer-events-none absolute left-1.5 flex size-4 items-center justify-center [&_svg:not([class*='size-'])]:size-4'')]
      [el (comp ''MenuPrimitive.RadioItemIndicator'') []
        [el (comp ''CheckIcon'') []
          []]],
      children])\<close>

definition MenubarLabel :: "lib \<Rightarrow> props \<Rightarrow> val" where
\<open>MenubarLabel K p =
  (let className = attr ''className'' p in
    let inset = attr ''inset'' p in
    let props = rest [''className'', ''inset''] p in
    el (comp ''DropdownMenuLabel'') [At ''data-slot'' (lit ''menubar-label''),
      At ''data-inset'' inset,
      At ''className'' (cn K [lit ''px-2 py-2 text-xs data-inset:pl-8'',
          className]),
      Sp props]
    [])\<close>

definition MenubarSeparator :: "lib \<Rightarrow> props \<Rightarrow> val" where
\<open>MenubarSeparator K p =
  (let className = attr ''className'' p in
    let props = rest [''className''] p in
    el (comp ''DropdownMenuSeparator'') [At ''data-slot'' (lit ''menubar-separator''),
      At ''className'' (cn K [lit ''-mx-1 my-1 h-px bg-border'',
          className]),
      Sp props]
    [])\<close>

definition MenubarShortcut :: "lib \<Rightarrow> props \<Rightarrow> val" where
\<open>MenubarShortcut K p =
  (let className = attr ''className'' p in
    let props = rest [''className''] p in
    el (comp ''DropdownMenuShortcut'') [At ''data-slot'' (lit ''menubar-shortcut''),
      At ''className'' (cn K [lit ''ml-auto text-xs tracking-widest text-muted-foreground group-focus/menubar-item:text-accent-foreground'',
          className]),
      Sp props]
    [])\<close>

definition MenubarSub :: "lib \<Rightarrow> props \<Rightarrow> val" where
\<open>MenubarSub K p =
  (let props = rest [] p in
    el (comp ''DropdownMenuSub'') [At ''data-slot'' (lit ''menubar-sub''),
      Sp props]
    [])\<close>

definition MenubarSubTrigger :: "lib \<Rightarrow> props \<Rightarrow> val" where
\<open>MenubarSubTrigger K p =
  (let className = attr ''className'' p in
    let inset = attr ''inset'' p in
    let props = rest [''className'', ''inset''] p in
    el (comp ''DropdownMenuSubTrigger'') [At ''data-slot'' (lit ''menubar-sub-trigger''),
      At ''data-inset'' inset,
      At ''className'' (cn K [lit ''gap-2 rounded-none px-2 py-2 text-xs focus:bg-accent focus:text-accent-foreground data-inset:pl-8 data-open:bg-accent data-open:text-accent-foreground [&_svg:not([class*='size-'])]:size-4'',
          className]),
      Sp props]
    [])\<close>

definition MenubarSubContent :: "lib \<Rightarrow> props \<Rightarrow> val" where
\<open>MenubarSubContent K p =
  (let className = attr ''className'' p in
    let props = rest [''className''] p in
    el (comp ''DropdownMenuSubContent'') [At ''data-slot'' (lit ''menubar-sub-content''),
      At ''className'' (cn K [lit ''min-w-32 rounded-none bg-popover text-popover-foreground shadow-lg ring-1 ring-foreground/10 duration-100 data-[side=bottom]:slide-in-from-top-2 data-[side=left]:slide-in-from-right-2 data-[side=right]:slide-in-from-left-2 data-[side=top]:slide-in-from-bottom-2 data-open:animate-in data-open:fade-in-0 data-open:zoom-in-95 data-closed:animate-out data-closed:fade-out-0 data-closed:zoom-out-95'',
          className]),
      Sp props]
    [])\<close>

section \<open>ui/navigation-menu.tsx\<close>

definition NavigationMenu :: "lib \<Rightarrow> props \<Rightarrow> val" where
\<open>NavigationMenu K p =
  (let align = dflt (lit ''start'') (attr ''align'' p) in
    let className = attr ''className'' p in
    let children = attr ''children'' p in
    let props = rest [''align'', ''className'', ''children''] p in
    el (comp ''NavigationMenuPrimitive.Root'') [At ''data-slot'' (lit ''navigation-menu''),
      At ''className'' (cn K [lit ''group/navigation-menu relative flex max-w-max flex-1 items-center justify-center'',
          className]),
      Sp props]
    [children,
      el (comp ''NavigationMenuPositioner'') [At ''align'' align]
      []])\<close>

definition NavigationMenuList :: "lib \<Rightarrow> props \<Rightarrow> val" where
\<open>NavigationMenuList K p =
  (let className = attr ''className'' p in
    let props = rest [''className''] p in
    el (comp ''NavigationMenuPrimitive.List'') [At ''data-slot'' (lit ''navigation-menu-list''),
      At ''className'' (cn K [lit ''group flex flex-1 list-none items-center justify-center gap-0'',
          className]),
      Sp props]
    [])\<close>

definition NavigationMenuItem :: "lib \<Rightarrow> props \<Rightarrow> val" where
\<open>NavigationMenuItem K p =
  (let className = attr ''className'' p in
    let props = rest [''className''] p in
    el (comp ''NavigationMenuPrimitive.Item'') [At ''data-slot'' (lit ''navigation-menu-item''),
      At ''className'' (cn K [lit ''relative'',
          className]),
      Sp props]
    [])\<close>

definition navigationMenuTriggerStyle :: "val list" where
\<open>navigationMenuTriggerStyle =
  [lit ''group/navigation-menu-trigger inline-flex h-9 w-max items-center justify-center rounded-none px-2.5 py-1.5 text-xs font-medium transition-all outline-none hover:bg-muted focus:bg-muted focus-visible:ring-1 focus-visible:ring-ring/50 focus-visible:outline-1 disabled:pointer-events-none disabled:opacity-50 data-popup-open:bg-muted/50 data-popup-open:hover:bg-muted data-open:bg-muted/50 data-open:hover:bg-muted data-open:focus:bg-muted'']\<close>

definition NavigationMenuTrigger :: "lib \<Rightarrow> props \<Rightarrow> val" where
\<open>NavigationMenuTrigger K p =
  (let className = attr ''className'' p in
    let children = attr ''children'' p in
    let props = rest [''className'', ''children''] p in
    el (comp ''NavigationMenuPrimitive.Trigger'') [At ''data-slot'' (lit ''navigation-menu-trigger''),
      At ''className'' (cn K [cva K navigationMenuTriggerStyle VUndef,
          lit ''group'',
          className]),
      Sp props]
    [children,
      lit '' '',
      el (comp ''ChevronDownIcon'') [At ''className'' (lit ''relative top-px ml-1 size-3 transition duration-300 group-data-popup-open/navigation-menu-trigger:rotate-180 group-data-open/navigation-menu-trigger:rotate-180''),
        At ''aria-hidden'' (lit ''true'')]
      []])\<close>

definition NavigationMenuContent :: "lib \<Rightarrow> props \<Rightarrow> val" where
\<open>NavigationMenuContent K p =
  (let className = attr ''className'' p in
    let props = rest [''className''] p in
    el (comp ''NavigationMenuPrimitive.Content'') [At ''data-slot'' (lit ''navigation-menu-content''),
      At ''className'' (cn K [lit ''data-ending-style:data-activation-direction=left:translate-x-[50%] data-ending-style:data-activation-direction=right:translate-x-[-50%] data-starting-style:data-activation-direction=left:translate-x-[-50%] data-starting-style:data-activation-direction=right:translate-x-[50%] h-full w-auto p-1 transition-[opacity,transform,translate] duration-[0.35s] ease-[cubic-bezier(0.22,1,0.36,1)] group-data-[viewport=false]/navigation-menu:rounded-none group-data-[viewport=false]/navigation-menu:bg-popover group-data-[viewport=false]/navigation-menu:text-popover-foreground group-data-[viewport=false]/navigation-menu:shadow group-data-[viewport=false]/navigation-menu:ring-1 group-data-[viewport=false]/navigation-menu:ring-foreground/10 group-data-[viewport=false]/navigation-menu:duration-300 data-ending-style:opacity-0 data-starting-style:opacity-0 data-[motion=from-end]:slide-in-from-right-52 data-[motion=from-start]:slide-in-from-left-52 data-[motion=to-end]:slide-out-to-right-52 data-[motion=to-start]:slide-out-to-left-52 data-[motion^=from-]:animate-in data-[motion^=from-]:fade-in data-[motion^=to-]:animate-out data-[motion^=to-]:fade-out **:data-[slot=navigation-menu-link]:focus:ring-0 **:data-[slot=navigation-menu-link]:focus:outline-none group-data-[viewport=false]/navigation-menu:data-open:animate-in group-data-[viewport=false]/navigation-menu:data-open:fade-in-0 group-data-[viewport=false]/navigation-menu:data-open:zoom-in-95 group-data-[viewport=false]/navigation-menu:data-closed:animate-out group-data-[viewport=false]/navigation-menu:data-closed:fade-out-0 group-data-[viewport=false]/navigation-menu:data-closed:zoom-out-95'',
          className]),
      Sp props]
    [])\<close>

definition NavigationMenuPositioner :: "lib \<Rightarrow> props \<Rightarrow> val" where
\<open>NavigationMenuPositioner K p =
  (let className = attr ''className'' p in
    let side = dflt (lit ''bottom'') (attr ''side'' p) in
    let sideOffset = dflt (VNum 8) (attr ''sideOffset'' p) in
    let align = dflt (lit ''start'') (attr ''align'' p) in
    let alignOffset = dflt (VNum 0) (attr ''alignOffset'' p) in
    let props = rest [''className'', ''side'', ''sideOffset'', ''align'', ''alignOffset''] p in
    el (comp ''NavigationMenuPrimitive.Portal'') []
    [el (comp ''NavigationMenuPrimitive.Positioner'') [At ''side'' side,
        At ''sideOffset'' sideOffset,
        At ''align'' align,
        At ''alignOffset'' alignOffset,
        At ''className'' (cn K [lit ''isolate z-50 h-(--positioner-height) w-(--positioner-width) max-w-(--available-width) transition-[top,left,right,bottom] duration-[0.35s] ease-[cubic-bezier(0.22,1,0.36,1)] data-instant:transition-none data-[side=bottom]:before:top-[-10px] data-[side=bottom]:before:right-0 data-[side=bottom]:before:left-0'',
            className]),
        Sp props]
      [el (comp ''NavigationMenuPrimitive.Popup'') [At ''className'' (lit ''data-[ending-style]:easing-[ease] xs:w-(--popup-width) relative h-(--popup-height) w-(--popup-width) origin-(--transform-origin) rounded-none bg-popover text-popover-foreground shadow ring-1 ring-foreground/10 transition-[opacity,transform,width,height,scale,translate] duration-[0.35s] ease-[cubic-bezier(0.22,1,0.36,1)] outline-none data-ending-style:scale-90 data-ending-style:opacity-0 data-ending-style:duration-150 data-starting-style:scale-90 data-starting-style:opacity-0'')]
        [el (comp ''NavigationMenuPrimitive.Viewport'') [At ''className'' (lit ''relative size-full overflow-hidden'')]
          []]]])\<close>

definition NavigationMenuLink :: "lib \<Rightarrow> props \<Rightarrow> val" where
\<open>NavigationMenuLink K p =
  (let className = attr ''className'' p in
    let props = rest [''className''] p in
    el (comp ''NavigationMenuPrimitive.Link'') [At ''data-slot'' (lit ''navigation-menu-link''),
      At ''className'' (cn K [lit ''flex items-center gap-2 rounded-none p-2 text-xs transition-all outline-none hover:bg-muted focus:bg-muted focus-visible:ring-1 focus-visible:ring-ring/50 focus-visible:outline-1 in-data-[slot=navigation-menu-content]:rounded-none data-active:bg-muted/50 data-active:hover:bg-muted data-active:focus:bg-muted [&_svg:not([class*='size-'])]:size-4'',
          className]),
      Sp props]
    [])\<close>

definition NavigationMenuIndicator :: "lib \<Rightarrow> props \<Rightarrow> val" where
\<open>NavigationMenuIndicator K p =
  (let className = attr ''className'' p in
    let props = rest [''className''] p in
    el (comp ''NavigationMenuPrimitive.Icon'') [At ''data-slot'' (lit ''navigation-menu-indicator''),
      At ''className'' (cn K [lit ''top-full z-1 flex h-1.5 items-end justify-center overflow-hidden data-[state=hidden]:animate-out data-[state=hidden]:fade-out data-[state=visible]:animate-in data-[state=visible]:fade-in'',
          className]),
      Sp props]
    [el (tag ''div'') [At ''className'' (lit ''relative top-[60%] h-2 w-2 rotate-45 rounded-none bg-border shadow-md'')]
      []])\<close>

section \<open>The contract\<close>

text \<open>The rows: slot, the properties read, whether the caller's classes are merged, the component.\<close>

definition kit_menus :: "lib \<Rightarrow> kit_row list" where
\<open>kit_menus K = [
  (''command'', [''className''], True, Command K),
  ('''', [''title'', ''description'', ''children'', ''className'', ''showCloseButton''], False, CommandDialog K),
  (''command-input'', [''className''], True, CommandInput K),
  (''command-list'', [''className''], True, CommandList K),
  (''command-empty'', [''className''], True, CommandEmpty K),
  (''command-group'', [''className''], True, CommandGroup K),
  (''command-separator'', [''className''], True, CommandSeparator K),
  (''command-item'', [''className'', ''children''], True, CommandItem K),
  (''command-shortcut'', [''className''], True, CommandShortcut K),
  (''context-menu'', [], False, ContextMenu K),
  (''context-menu-portal'', [], False, ContextMenuPortal K),
  (''context-menu-trigger'', [''className''], True, ContextMenuTrigger K),
  (''context-menu-content'', [''className'', ''align'', ''alignOffset'', ''side'', ''sideOffset''], True, ContextMenuContent K),
  (''context-menu-group'', [], False, ContextMenuGroup K),
  (''context-menu-label'', [''className'', ''inset''], True, ContextMenuLabel K),
  (''context-menu-item'', [''className'', ''inset'', ''variant''], True, ContextMenuItem K),
  (''context-menu-sub'', [], False, ContextMenuSub K),
  (''context-menu-sub-trigger'', [''className'', ''inset'', ''children''], True, ContextMenuSubTrigger K),
  (''context-menu-sub-content'', [], False, ContextMenuSubContent K),
  (''context-menu-checkbox-item'', [''className'', ''children'', ''checked'', ''inset''], True, ContextMenuCheckboxItem K),
  (''context-menu-radio-group'', [], False, ContextMenuRadioGroup K),
  (''context-menu-radio-item'', [''className'', ''children'', ''inset''], True, ContextMenuRadioItem K),
  (''context-menu-separator'', [''className''], True, ContextMenuSeparator K),
  (''context-menu-shortcut'', [''className''], True, ContextMenuShortcut K),
  (''dropdown-menu'', [], False, DropdownMenu K),
  (''dropdown-menu-portal'', [], False, DropdownMenuPortal K),
  (''dropdown-menu-trigger'', [], False, DropdownMenuTrigger K),
  (''dropdown-menu-content'', [''align'', ''alignOffset'', ''side'', ''sideOffset'', ''className''], True, DropdownMenuContent K),
  (''dropdown-menu-group'', [], False, DropdownMenuGroup K),
  (''dropdown-menu-label'', [''className'', ''inset''], True, DropdownMenuLabel K),
  (''dropdown-menu-item'', [''className'', ''inset'', ''variant''], True, DropdownMenuItem K),
  (''dropdown-menu-sub'', [], False, DropdownMenuSub K),
  (''dropdown-menu-sub-trigger'', [''className'', ''inset'', ''children''], True, DropdownMenuSubTrigger K),
  (''dropdown-menu-sub-content'', [''align'', ''alignOffset'', ''side'', ''sideOffset'', ''className''], True, DropdownMenuSubContent K),
  (''dropdown-menu-checkbox-item'', [''className'', ''children'', ''checked'', ''inset''], True, DropdownMenuCheckboxItem K),
  (''dropdown-menu-radio-group'', [], False, DropdownMenuRadioGroup K),
  (''dropdown-menu-radio-item'', [''className'', ''children'', ''inset''], True, DropdownMenuRadioItem K),
  (''dropdown-menu-separator'', [''className''], True, DropdownMenuSeparator K),
  (''dropdown-menu-shortcut'', [''className''], True, DropdownMenuShortcut K),
  (''menubar'', [''className''], True, Menubar K),
  (''menubar-menu'', [], False, MenubarMenu K),
  (''menubar-group'', [], False, MenubarGroup K),
  (''menubar-portal'', [], False, MenubarPortal K),
  (''menubar-trigger'', [''className''], True, MenubarTrigger K),
  (''menubar-content'', [''className'', ''align'', ''alignOffset'', ''sideOffset''], True, MenubarContent K),
  (''menubar-item'', [''className'', ''inset'', ''variant''], True, MenubarItem K),
  (''menubar-checkbox-item'', [''className'', ''children'', ''checked'', ''inset''], True, MenubarCheckboxItem K),
  (''menubar-radio-group'', [], False, MenubarRadioGroup K),
  (''menubar-radio-item'', [''className'', ''children'', ''inset''], True, MenubarRadioItem K),
  (''menubar-label'', [''className'', ''inset''], True, MenubarLabel K),
  (''menubar-separator'', [''className''], True, MenubarSeparator K),
  (''menubar-shortcut'', [''className''], True, MenubarShortcut K),
  (''menubar-sub'', [], False, MenubarSub K),
  (''menubar-sub-trigger'', [''className'', ''inset''], True, MenubarSubTrigger K),
  (''menubar-sub-content'', [''className''], True, MenubarSubContent K),
  (''navigation-menu'', [''align'', ''className'', ''children''], True, NavigationMenu K),
  (''navigation-menu-list'', [''className''], True, NavigationMenuList K),
  (''navigation-menu-item'', [''className''], True, NavigationMenuItem K),
  (''navigation-menu-trigger'', [''className'', ''children''], True, NavigationMenuTrigger K),
  (''navigation-menu-content'', [''className''], True, NavigationMenuContent K),
  ('''', [''className'', ''side'', ''sideOffset'', ''align'', ''alignOffset''], True, NavigationMenuPositioner K),
  (''navigation-menu-link'', [''className''], True, NavigationMenuLink K),
  (''navigation-menu-indicator'', [''className''], True, NavigationMenuIndicator K)]\<close>

lemma Command_ok [kit_rows]: "kit_ok K (''command'', [''className''], True, Command K)"
  by (simp add: kit_simps Command_def)

lemma CommandDialog_ok [kit_rows]: "kit_ok K ('''', [''title'', ''description'', ''children'', ''className'', ''showCloseButton''], False, CommandDialog K)"
  by (simp add: kit_simps CommandDialog_def)

lemma CommandInput_ok [kit_rows]: "kit_ok K (''command-input'', [''className''], True, CommandInput K)"
  by (simp add: kit_simps CommandInput_def)

lemma CommandList_ok [kit_rows]: "kit_ok K (''command-list'', [''className''], True, CommandList K)"
  by (simp add: kit_simps CommandList_def)

lemma CommandEmpty_ok [kit_rows]: "kit_ok K (''command-empty'', [''className''], True, CommandEmpty K)"
  by (simp add: kit_simps CommandEmpty_def)

lemma CommandGroup_ok [kit_rows]: "kit_ok K (''command-group'', [''className''], True, CommandGroup K)"
  by (simp add: kit_simps CommandGroup_def)

lemma CommandSeparator_ok [kit_rows]: "kit_ok K (''command-separator'', [''className''], True, CommandSeparator K)"
  by (simp add: kit_simps CommandSeparator_def)

lemma CommandItem_ok [kit_rows]: "kit_ok K (''command-item'', [''className'', ''children''], True, CommandItem K)"
  by (simp add: kit_simps CommandItem_def)

lemma CommandShortcut_ok [kit_rows]: "kit_ok K (''command-shortcut'', [''className''], True, CommandShortcut K)"
  by (simp add: kit_simps CommandShortcut_def)

lemma ContextMenu_ok [kit_rows]: "kit_ok K (''context-menu'', [], False, ContextMenu K)"
  by (simp add: kit_simps ContextMenu_def)

lemma ContextMenuPortal_ok [kit_rows]: "kit_ok K (''context-menu-portal'', [], False, ContextMenuPortal K)"
  by (simp add: kit_simps ContextMenuPortal_def)

lemma ContextMenuTrigger_ok [kit_rows]: "kit_ok K (''context-menu-trigger'', [''className''], True, ContextMenuTrigger K)"
  by (simp add: kit_simps ContextMenuTrigger_def)

lemma ContextMenuContent_ok [kit_rows]: "kit_ok K (''context-menu-content'', [''className'', ''align'', ''alignOffset'', ''side'', ''sideOffset''], True, ContextMenuContent K)"
  by (simp add: kit_simps ContextMenuContent_def)

lemma ContextMenuGroup_ok [kit_rows]: "kit_ok K (''context-menu-group'', [], False, ContextMenuGroup K)"
  by (simp add: kit_simps ContextMenuGroup_def)

lemma ContextMenuLabel_ok [kit_rows]: "kit_ok K (''context-menu-label'', [''className'', ''inset''], True, ContextMenuLabel K)"
  by (simp add: kit_simps ContextMenuLabel_def)

lemma ContextMenuItem_ok [kit_rows]: "kit_ok K (''context-menu-item'', [''className'', ''inset'', ''variant''], True, ContextMenuItem K)"
  by (simp add: kit_simps ContextMenuItem_def)

lemma ContextMenuSub_ok [kit_rows]: "kit_ok K (''context-menu-sub'', [], False, ContextMenuSub K)"
  by (simp add: kit_simps ContextMenuSub_def)

lemma ContextMenuSubTrigger_ok [kit_rows]: "kit_ok K (''context-menu-sub-trigger'', [''className'', ''inset'', ''children''], True, ContextMenuSubTrigger K)"
  by (simp add: kit_simps ContextMenuSubTrigger_def)

lemma ContextMenuSubContent_ok [kit_rows]: "kit_ok K (''context-menu-sub-content'', [], False, ContextMenuSubContent K)"
  by (simp add: kit_simps ContextMenuSubContent_def)

lemma ContextMenuCheckboxItem_ok [kit_rows]: "kit_ok K (''context-menu-checkbox-item'', [''className'', ''children'', ''checked'', ''inset''], True, ContextMenuCheckboxItem K)"
  by (simp add: kit_simps ContextMenuCheckboxItem_def)

lemma ContextMenuRadioGroup_ok [kit_rows]: "kit_ok K (''context-menu-radio-group'', [], False, ContextMenuRadioGroup K)"
  by (simp add: kit_simps ContextMenuRadioGroup_def)

lemma ContextMenuRadioItem_ok [kit_rows]: "kit_ok K (''context-menu-radio-item'', [''className'', ''children'', ''inset''], True, ContextMenuRadioItem K)"
  by (simp add: kit_simps ContextMenuRadioItem_def)

lemma ContextMenuSeparator_ok [kit_rows]: "kit_ok K (''context-menu-separator'', [''className''], True, ContextMenuSeparator K)"
  by (simp add: kit_simps ContextMenuSeparator_def)

lemma ContextMenuShortcut_ok [kit_rows]: "kit_ok K (''context-menu-shortcut'', [''className''], True, ContextMenuShortcut K)"
  by (simp add: kit_simps ContextMenuShortcut_def)

lemma DropdownMenu_ok [kit_rows]: "kit_ok K (''dropdown-menu'', [], False, DropdownMenu K)"
  by (simp add: kit_simps DropdownMenu_def)

lemma DropdownMenuPortal_ok [kit_rows]: "kit_ok K (''dropdown-menu-portal'', [], False, DropdownMenuPortal K)"
  by (simp add: kit_simps DropdownMenuPortal_def)

lemma DropdownMenuTrigger_ok [kit_rows]: "kit_ok K (''dropdown-menu-trigger'', [], False, DropdownMenuTrigger K)"
  by (simp add: kit_simps DropdownMenuTrigger_def)

lemma DropdownMenuContent_ok [kit_rows]: "kit_ok K (''dropdown-menu-content'', [''align'', ''alignOffset'', ''side'', ''sideOffset'', ''className''], True, DropdownMenuContent K)"
  by (simp add: kit_simps DropdownMenuContent_def)

lemma DropdownMenuGroup_ok [kit_rows]: "kit_ok K (''dropdown-menu-group'', [], False, DropdownMenuGroup K)"
  by (simp add: kit_simps DropdownMenuGroup_def)

lemma DropdownMenuLabel_ok [kit_rows]: "kit_ok K (''dropdown-menu-label'', [''className'', ''inset''], True, DropdownMenuLabel K)"
  by (simp add: kit_simps DropdownMenuLabel_def)

lemma DropdownMenuItem_ok [kit_rows]: "kit_ok K (''dropdown-menu-item'', [''className'', ''inset'', ''variant''], True, DropdownMenuItem K)"
  by (simp add: kit_simps DropdownMenuItem_def)

lemma DropdownMenuSub_ok [kit_rows]: "kit_ok K (''dropdown-menu-sub'', [], False, DropdownMenuSub K)"
  by (simp add: kit_simps DropdownMenuSub_def)

lemma DropdownMenuSubTrigger_ok [kit_rows]: "kit_ok K (''dropdown-menu-sub-trigger'', [''className'', ''inset'', ''children''], True, DropdownMenuSubTrigger K)"
  by (simp add: kit_simps DropdownMenuSubTrigger_def)

lemma DropdownMenuSubContent_ok [kit_rows]: "kit_ok K (''dropdown-menu-sub-content'', [''align'', ''alignOffset'', ''side'', ''sideOffset'', ''className''], True, DropdownMenuSubContent K)"
  by (simp add: kit_simps DropdownMenuSubContent_def)

lemma DropdownMenuCheckboxItem_ok [kit_rows]: "kit_ok K (''dropdown-menu-checkbox-item'', [''className'', ''children'', ''checked'', ''inset''], True, DropdownMenuCheckboxItem K)"
  by (simp add: kit_simps DropdownMenuCheckboxItem_def)

lemma DropdownMenuRadioGroup_ok [kit_rows]: "kit_ok K (''dropdown-menu-radio-group'', [], False, DropdownMenuRadioGroup K)"
  by (simp add: kit_simps DropdownMenuRadioGroup_def)

lemma DropdownMenuRadioItem_ok [kit_rows]: "kit_ok K (''dropdown-menu-radio-item'', [''className'', ''children'', ''inset''], True, DropdownMenuRadioItem K)"
  by (simp add: kit_simps DropdownMenuRadioItem_def)

lemma DropdownMenuSeparator_ok [kit_rows]: "kit_ok K (''dropdown-menu-separator'', [''className''], True, DropdownMenuSeparator K)"
  by (simp add: kit_simps DropdownMenuSeparator_def)

lemma DropdownMenuShortcut_ok [kit_rows]: "kit_ok K (''dropdown-menu-shortcut'', [''className''], True, DropdownMenuShortcut K)"
  by (simp add: kit_simps DropdownMenuShortcut_def)

lemma Menubar_ok [kit_rows]: "kit_ok K (''menubar'', [''className''], True, Menubar K)"
  by (simp add: kit_simps Menubar_def)

lemma MenubarMenu_ok [kit_rows]: "kit_ok K (''menubar-menu'', [], False, MenubarMenu K)"
  by (simp add: kit_simps MenubarMenu_def)

lemma MenubarGroup_ok [kit_rows]: "kit_ok K (''menubar-group'', [], False, MenubarGroup K)"
  by (simp add: kit_simps MenubarGroup_def)

lemma MenubarPortal_ok [kit_rows]: "kit_ok K (''menubar-portal'', [], False, MenubarPortal K)"
  by (simp add: kit_simps MenubarPortal_def)

lemma MenubarTrigger_ok [kit_rows]: "kit_ok K (''menubar-trigger'', [''className''], True, MenubarTrigger K)"
  by (simp add: kit_simps MenubarTrigger_def)

lemma MenubarContent_ok [kit_rows]: "kit_ok K (''menubar-content'', [''className'', ''align'', ''alignOffset'', ''sideOffset''], True, MenubarContent K)"
  by (simp add: kit_simps MenubarContent_def)

lemma MenubarItem_ok [kit_rows]: "kit_ok K (''menubar-item'', [''className'', ''inset'', ''variant''], True, MenubarItem K)"
  by (simp add: kit_simps MenubarItem_def)

lemma MenubarCheckboxItem_ok [kit_rows]: "kit_ok K (''menubar-checkbox-item'', [''className'', ''children'', ''checked'', ''inset''], True, MenubarCheckboxItem K)"
  by (simp add: kit_simps MenubarCheckboxItem_def)

lemma MenubarRadioGroup_ok [kit_rows]: "kit_ok K (''menubar-radio-group'', [], False, MenubarRadioGroup K)"
  by (simp add: kit_simps MenubarRadioGroup_def)

lemma MenubarRadioItem_ok [kit_rows]: "kit_ok K (''menubar-radio-item'', [''className'', ''children'', ''inset''], True, MenubarRadioItem K)"
  by (simp add: kit_simps MenubarRadioItem_def)

lemma MenubarLabel_ok [kit_rows]: "kit_ok K (''menubar-label'', [''className'', ''inset''], True, MenubarLabel K)"
  by (simp add: kit_simps MenubarLabel_def)

lemma MenubarSeparator_ok [kit_rows]: "kit_ok K (''menubar-separator'', [''className''], True, MenubarSeparator K)"
  by (simp add: kit_simps MenubarSeparator_def)

lemma MenubarShortcut_ok [kit_rows]: "kit_ok K (''menubar-shortcut'', [''className''], True, MenubarShortcut K)"
  by (simp add: kit_simps MenubarShortcut_def)

lemma MenubarSub_ok [kit_rows]: "kit_ok K (''menubar-sub'', [], False, MenubarSub K)"
  by (simp add: kit_simps MenubarSub_def)

lemma MenubarSubTrigger_ok [kit_rows]: "kit_ok K (''menubar-sub-trigger'', [''className'', ''inset''], True, MenubarSubTrigger K)"
  by (simp add: kit_simps MenubarSubTrigger_def)

lemma MenubarSubContent_ok [kit_rows]: "kit_ok K (''menubar-sub-content'', [''className''], True, MenubarSubContent K)"
  by (simp add: kit_simps MenubarSubContent_def)

lemma NavigationMenu_ok [kit_rows]: "kit_ok K (''navigation-menu'', [''align'', ''className'', ''children''], True, NavigationMenu K)"
  by (simp add: kit_simps NavigationMenu_def)

lemma NavigationMenuList_ok [kit_rows]: "kit_ok K (''navigation-menu-list'', [''className''], True, NavigationMenuList K)"
  by (simp add: kit_simps NavigationMenuList_def)

lemma NavigationMenuItem_ok [kit_rows]: "kit_ok K (''navigation-menu-item'', [''className''], True, NavigationMenuItem K)"
  by (simp add: kit_simps NavigationMenuItem_def)

lemma NavigationMenuTrigger_ok [kit_rows]: "kit_ok K (''navigation-menu-trigger'', [''className'', ''children''], True, NavigationMenuTrigger K)"
  by (simp add: kit_simps NavigationMenuTrigger_def)

lemma NavigationMenuContent_ok [kit_rows]: "kit_ok K (''navigation-menu-content'', [''className''], True, NavigationMenuContent K)"
  by (simp add: kit_simps NavigationMenuContent_def)

lemma NavigationMenuPositioner_ok [kit_rows]: "kit_ok K ('''', [''className'', ''side'', ''sideOffset'', ''align'', ''alignOffset''], True, NavigationMenuPositioner K)"
  by (simp add: kit_simps NavigationMenuPositioner_def)

lemma NavigationMenuLink_ok [kit_rows]: "kit_ok K (''navigation-menu-link'', [''className''], True, NavigationMenuLink K)"
  by (simp add: kit_simps NavigationMenuLink_def)

lemma NavigationMenuIndicator_ok [kit_rows]: "kit_ok K (''navigation-menu-indicator'', [''className''], True, NavigationMenuIndicator K)"
  by (simp add: kit_simps NavigationMenuIndicator_def)

lemma kit_menus_ok: "list_all (kit_ok K) (kit_menus K)"
  by (simp add: kit_menus_def kit_rows)

end
