(* ===== verification/UiMessages.thy ===== *)
theory UiMessages
  imports UiControls
begin

text \<open>
  The component kit, the parts of a conversation: one definition per component of the files named by the sections,
  from its props to the element it renders.
\<close>

section \<open>ui/attachment.tsx\<close>

definition attachmentVariants :: "val list" where
\<open>attachmentVariants =
  [lit ''group/attachment relative flex w-fit max-w-full min-w-0 shrink-0 flex-wrap rounded-none border bg-card text-card-foreground transition-colors focus-within:ring-1 focus-within:ring-ring/50 has-[>a,>button]:hover:bg-muted/50 data-[state=error]:border-destructive/30 data-[state=idle]:border-dashed'',
    obj [At ''variants'' (obj [At ''size'' (obj [At ''default'' (lit ''gap-2 text-xs has-data-[slot=attachment-content]:px-2 has-data-[slot=attachment-content]:py-1.5 has-data-[slot=attachment-media]:p-1.5''),
              At ''sm'' (lit ''gap-2.5 text-xs has-data-[slot=attachment-content]:px-1.5 has-data-[slot=attachment-content]:py-1 has-data-[slot=attachment-media]:p-1''),
              At ''xs'' (lit ''gap-1.5 rounded-none text-xs has-data-[slot=attachment-content]:px-1.5 has-data-[slot=attachment-content]:py-1 has-data-[slot=attachment-media]:p-1'')]),
          At ''orientation'' (obj [At ''horizontal'' (lit ''min-w-40 items-center''),
              At ''vertical'' (lit ''w-24 flex-col has-data-[slot=attachment-content]:w-30'')])])]]\<close>

definition Attachment :: "lib \<Rightarrow> props \<Rightarrow> val" where
\<open>Attachment K p =
  (let className = attr ''className'' p in
    let state = dflt (lit ''done'') (attr ''state'' p) in
    let size' = dflt (lit ''default'') (attr ''size'' p) in
    let orientation = dflt (lit ''horizontal'') (attr ''orientation'' p) in
    let props = rest [''className'', ''state'', ''size'', ''orientation''] p in
    el (tag ''div'') [At ''data-slot'' (lit ''attachment''),
      At ''data-state'' state,
      At ''data-size'' size',
      At ''data-orientation'' orientation,
      At ''className'' (cn K [cva K attachmentVariants (obj [At ''size'' size',
              At ''orientation'' orientation]),
          className]),
      Sp props]
    [])\<close>

definition attachmentMediaVariants :: "val list" where
\<open>attachmentMediaVariants =
  [lit ''relative flex aspect-square w-10 shrink-0 items-center justify-center overflow-hidden rounded-none bg-muted text-foreground group-data-[orientation=vertical]/attachment:w-full group-data-[size=sm]/attachment:w-8 group-data-[size=xs]/attachment:w-7 group-data-[size=xs]/attachment:rounded-none group-data-[state=error]/attachment:bg-destructive/10 group-data-[state=error]/attachment:text-destructive group-data-[orientation=vertical]/attachment:*:data-[slot=spinner]:size-6! [&_svg]:pointer-events-none [&_svg:not([class*='size-'])]:size-4 group-data-[orientation=vertical]/attachment:[&_svg:not([class*='size-'])]:size-6 group-data-[size=xs]/attachment:[&_svg:not([class*='size-'])]:size-3.5'',
    obj [At ''variants'' (obj [At ''variant'' (obj [At ''icon'' (lit ''''),
              At ''image'' (lit ''opacity-60 group-data-[state=done]/attachment:opacity-100 group-data-[state=idle]/attachment:opacity-100 *:[img]:aspect-square *:[img]:w-full *:[img]:object-cover'')])]),
      At ''defaultVariants'' (obj [At ''variant'' (lit ''icon'')])]]\<close>

definition AttachmentMedia :: "lib \<Rightarrow> props \<Rightarrow> val" where
\<open>AttachmentMedia K p =
  (let className = attr ''className'' p in
    let variant = dflt (lit ''icon'') (attr ''variant'' p) in
    let props = rest [''className'', ''variant''] p in
    el (tag ''div'') [At ''data-slot'' (lit ''attachment-media''),
      At ''data-variant'' variant,
      At ''className'' (cn K [cva K attachmentMediaVariants (obj [At ''variant'' variant]),
          className]),
      Sp props]
    [])\<close>

definition AttachmentContent :: "lib \<Rightarrow> props \<Rightarrow> val" where
\<open>AttachmentContent K p =
  (let className = attr ''className'' p in
    let props = rest [''className''] p in
    el (tag ''div'') [At ''data-slot'' (lit ''attachment-content''),
      At ''className'' (cn K [lit ''max-w-full min-w-0 flex-1 leading-tight group-data-[orientation=vertical]/attachment:px-1'',
          className]),
      Sp props]
    [])\<close>

definition AttachmentTitle :: "lib \<Rightarrow> props \<Rightarrow> val" where
\<open>AttachmentTitle K p =
  (let className = attr ''className'' p in
    let props = rest [''className''] p in
    el (tag ''span'') [At ''data-slot'' (lit ''attachment-title''),
      At ''className'' (cn K [lit ''block max-w-full min-w-0 truncate font-medium group-data-[state=processing]/attachment:shimmer group-data-[state=uploading]/attachment:shimmer'',
          className]),
      Sp props]
    [])\<close>

definition AttachmentDescription :: "lib \<Rightarrow> props \<Rightarrow> val" where
\<open>AttachmentDescription K p =
  (let className = attr ''className'' p in
    let props = rest [''className''] p in
    el (tag ''span'') [At ''data-slot'' (lit ''attachment-description''),
      At ''className'' (cn K [lit ''mt-0.5 block min-w-0 truncate text-xs text-muted-foreground group-data-[state=error]/attachment:text-destructive/80'',
          lit ''max-w-full'',
          className]),
      Sp props]
    [])\<close>

definition AttachmentActions :: "lib \<Rightarrow> props \<Rightarrow> val" where
\<open>AttachmentActions K p =
  (let className = attr ''className'' p in
    let props = rest [''className''] p in
    el (tag ''div'') [At ''data-slot'' (lit ''attachment-actions''),
      At ''className'' (cn K [lit ''relative z-20 flex shrink-0 items-center group-data-[orientation=vertical]/attachment:absolute group-data-[orientation=vertical]/attachment:top-3 group-data-[orientation=vertical]/attachment:right-3 group-data-[orientation=vertical]/attachment:gap-1'',
          className]),
      Sp props]
    [])\<close>

definition AttachmentAction :: "lib \<Rightarrow> props \<Rightarrow> val" where
\<open>AttachmentAction K p =
  (let className = attr ''className'' p in
    let variant = attr ''variant'' p in
    let size' = dflt (lit ''icon-xs'') (attr ''size'' p) in
    let props = rest [''className'', ''variant'', ''size''] p in
    el (comp ''Button'') [At ''data-slot'' (lit ''attachment-action''),
      At ''variant'' (jcoal variant (lit ''ghost'')),
      At ''size'' size',
      At ''className'' (cn K [className]),
      Sp props]
    [])\<close>

definition AttachmentTrigger :: "lib \<Rightarrow> props \<Rightarrow> val" where
\<open>AttachmentTrigger K p =
  (let className = attr ''className'' p in
    let render = attr ''render'' p in
    let type' = attr ''type'' p in
    let props = rest [''className'', ''render'', ''type''] p in
    K ''useRender'' [obj [At ''defaultTagName'' (lit ''button''),
        At ''props'' (K ''mergeProps'' [obj [At ''type'' ((if truthy render
                  then type'
                  else jcoal type' (lit ''button''))),
              At ''className'' (cn K [lit ''absolute inset-0 z-10 outline-none'',
                  className])], props]),
        At ''render'' render,
        At ''state'' (obj [At ''slot'' (lit ''attachment-trigger'')])]])\<close>

definition AttachmentGroup :: "lib \<Rightarrow> props \<Rightarrow> val" where
\<open>AttachmentGroup K p =
  (let className = attr ''className'' p in
    let props = rest [''className''] p in
    el (tag ''div'') [At ''data-slot'' (lit ''attachment-group''),
      At ''className'' (cn K [lit ''flex min-w-0 scroll-fade-x snap-x snap-mandatory scroll-px-1 scrollbar-none gap-3 overflow-x-auto overscroll-x-contain py-1 *:data-[slot=attachment]:flex-none *:data-[slot=attachment]:snap-start'',
          className]),
      Sp props]
    [])\<close>

section \<open>ui/bubble.tsx\<close>

definition BubbleGroup :: "lib \<Rightarrow> props \<Rightarrow> val" where
\<open>BubbleGroup K p =
  (let className = attr ''className'' p in
    let props = rest [''className''] p in
    el (tag ''div'') [At ''data-slot'' (lit ''bubble-group''),
      At ''className'' (cn K [lit ''flex min-w-0 flex-col gap-2'',
          className]),
      Sp props]
    [])\<close>

definition bubbleVariants :: "val list" where
\<open>bubbleVariants =
  [lit ''group/bubble relative flex w-fit max-w-[80%] min-w-0 flex-col gap-1 group-data-[align=end]/message:self-end data-[align=end]:self-end data-[variant=ghost]:max-w-full'',
    obj [At ''variants'' (obj [At ''variant'' (obj [At ''default'' (lit ''*:data-[slot=bubble-content]:bg-primary *:data-[slot=bubble-content]:text-primary-foreground [&>[data-slot=bubble-content]:is(button,a):hover]:bg-primary/80''),
              At ''secondary'' (lit ''*:data-[slot=bubble-content]:bg-secondary *:data-[slot=bubble-content]:text-secondary-foreground [&>[data-slot=bubble-content]:is(button,a):hover]:bg-[color-mix(in_oklch,var(--secondary),var(--foreground)_5%)]''),
              At ''muted'' (lit ''*:data-[slot=bubble-content]:bg-muted [&>[data-slot=bubble-content]:is(button,a):hover]:bg-[color-mix(in_oklch,var(--muted),var(--foreground)_5%)]''),
              At ''tinted'' (lit ''*:data-[slot=bubble-content]:bg-[oklch(from_var(--primary)_0.93_calc(c*0.4)_h)] *:data-[slot=bubble-content]:text-foreground dark:*:data-[slot=bubble-content]:bg-[oklch(from_var(--primary)_0.3_calc(c*0.4)_h)] [&>[data-slot=bubble-content]:is(button,a):hover]:bg-[oklch(from_var(--primary)_0.88_calc(c*0.5)_h)] dark:[&>[data-slot=bubble-content]:is(button,a):hover]:bg-[oklch(from_var(--primary)_0.35_calc(c*0.5)_h)]''),
              At ''outline'' (lit ''*:data-[slot=bubble-content]:border-border *:data-[slot=bubble-content]:bg-background [&>[data-slot=bubble-content]:is(button,a):hover]:bg-muted [&>[data-slot=bubble-content]:is(button,a):hover]:text-foreground dark:[&>[data-slot=bubble-content]:is(button,a):hover]:bg-input/30''),
              At ''ghost'' (lit ''border-none *:data-[slot=bubble-content]:rounded-none *:data-[slot=bubble-content]:bg-transparent *:data-[slot=bubble-content]:p-0 [&>[data-slot=bubble-content]:is(button,a):hover]:bg-muted [&>[data-slot=bubble-content]:is(button,a):hover]:text-foreground dark:[&>[data-slot=bubble-content]:is(button,a):hover]:bg-muted/50''),
              At ''destructive'' (lit ''*:data-[slot=bubble-content]:bg-destructive/10 *:data-[slot=bubble-content]:text-destructive dark:*:data-[slot=bubble-content]:bg-destructive/20 [&>[data-slot=bubble-content]:is(button,a):hover]:bg-destructive/20 dark:[&>[data-slot=bubble-content]:is(button,a):hover]:bg-destructive/30'')])]),
      At ''defaultVariants'' (obj [At ''variant'' (lit ''default'')])]]\<close>

definition Bubble :: "lib \<Rightarrow> props \<Rightarrow> val" where
\<open>Bubble K p =
  (let variant = dflt (lit ''default'') (attr ''variant'' p) in
    let align = dflt (lit ''start'') (attr ''align'' p) in
    let className = attr ''className'' p in
    let props = rest [''variant'', ''align'', ''className''] p in
    el (tag ''div'') [At ''data-slot'' (lit ''bubble''),
      At ''data-variant'' variant,
      At ''data-align'' align,
      At ''className'' (cn K [cva K bubbleVariants (obj [At ''variant'' variant]),
          className]),
      Sp props]
    [])\<close>

definition BubbleContent :: "lib \<Rightarrow> props \<Rightarrow> val" where
\<open>BubbleContent K p =
  (let className = attr ''className'' p in
    let render = attr ''render'' p in
    let props = rest [''className'', ''render''] p in
    K ''useRender'' [obj [At ''defaultTagName'' (lit ''div''),
        At ''props'' (K ''mergeProps'' [obj [At ''className'' (cn K [lit ''w-fit max-w-full min-w-0 overflow-hidden rounded-none border border-transparent px-2.5 py-2 text-xs leading-relaxed wrap-break-word group-data-[align=end]/bubble:self-end [button]:text-left [button,a]:transition-colors [button,a]:outline-none [button,a]:focus-visible:border-ring [button,a]:focus-visible:ring-1 [button,a]:focus-visible:ring-ring/50'',
                  className])], props]),
        At ''render'' render,
        At ''state'' (obj [At ''slot'' (lit ''bubble-content'')])]])\<close>

definition bubbleReactionsVariants :: "val list" where
\<open>bubbleReactionsVariants =
  [lit ''absolute z-10 flex w-fit shrink-0 items-center justify-center gap-1 rounded-none bg-muted px-1.5 py-0.5 text-xs ring-2 ring-card has-[button]:p-0'',
    obj [At ''variants'' (obj [At ''side'' (obj [At ''top'' (lit ''top-0 -translate-y-3/4''),
              At ''bottom'' (lit ''bottom-0 translate-y-3/4'')]),
          At ''align'' (obj [At ''start'' (lit ''left-3''),
              At ''end'' (lit ''right-3'')])]),
      At ''defaultVariants'' (obj [At ''side'' (lit ''bottom''),
          At ''align'' (lit ''end'')])]]\<close>

definition BubbleReactions :: "lib \<Rightarrow> props \<Rightarrow> val" where
\<open>BubbleReactions K p =
  (let side = dflt (lit ''bottom'') (attr ''side'' p) in
    let align = dflt (lit ''end'') (attr ''align'' p) in
    let className = attr ''className'' p in
    let props = rest [''side'', ''align'', ''className''] p in
    el (tag ''div'') [At ''data-slot'' (lit ''bubble-reactions''),
      At ''data-align'' align,
      At ''data-side'' side,
      At ''className'' (cn K [cva K bubbleReactionsVariants (obj [At ''side'' side,
              At ''align'' align]),
          className]),
      Sp props]
    [])\<close>

section \<open>ui/marker.tsx\<close>

definition markerVariants :: "val list" where
\<open>markerVariants =
  [lit ''group/marker relative flex min-h-4 w-full items-center gap-2 text-left text-xs text-muted-foreground [&_svg:not([class*='size-'])]:size-3.5 [a]:underline [a]:underline-offset-3 [a]:hover:text-foreground'',
    obj [At ''variants'' (obj [At ''variant'' (obj [At ''default'' (lit ''''),
              At ''separator'' (lit ''before:mr-1 before:h-px before:min-w-0 before:flex-1 before:bg-border after:ml-1 after:h-px after:min-w-0 after:flex-1 after:bg-border''),
              At ''border'' (lit ''border-b border-border pb-2'')])])]]\<close>

definition Marker :: "lib \<Rightarrow> props \<Rightarrow> val" where
\<open>Marker K p =
  (let className = attr ''className'' p in
    let variant = dflt (lit ''default'') (attr ''variant'' p) in
    let render = attr ''render'' p in
    let props = rest [''className'', ''variant'', ''render''] p in
    K ''useRender'' [obj [At ''defaultTagName'' (lit ''div''),
        At ''props'' (K ''mergeProps'' [obj [At ''className'' (cn K [cva K markerVariants (obj [At ''variant'' variant,
                      At ''className'' className])])], props]),
        At ''render'' render,
        At ''state'' (obj [At ''slot'' (lit ''marker''),
            At ''variant'' variant])]])\<close>

definition MarkerIcon :: "lib \<Rightarrow> props \<Rightarrow> val" where
\<open>MarkerIcon K p =
  (let className = attr ''className'' p in
    let props = rest [''className''] p in
    el (tag ''span'') [At ''data-slot'' (lit ''marker-icon''),
      At ''aria-hidden'' (lit ''true''),
      At ''className'' (cn K [lit ''size-3.5 shrink-0 [&_svg:not([class*='size-'])]:size-3.5'',
          className]),
      Sp props]
    [])\<close>

definition MarkerContent :: "lib \<Rightarrow> props \<Rightarrow> val" where
\<open>MarkerContent K p =
  (let className = attr ''className'' p in
    let props = rest [''className''] p in
    el (tag ''span'') [At ''data-slot'' (lit ''marker-content''),
      At ''className'' (cn K [lit ''min-w-0 wrap-break-word group-data-[variant=separator]/marker:flex-none group-data-[variant=separator]/marker:text-center *:[a]:underline *:[a]:underline-offset-3 *:[a]:hover:text-foreground'',
          className]),
      Sp props]
    [])\<close>

section \<open>ui/message.tsx\<close>

definition MessageGroup :: "lib \<Rightarrow> props \<Rightarrow> val" where
\<open>MessageGroup K p =
  (let className = attr ''className'' p in
    let props = rest [''className''] p in
    el (tag ''div'') [At ''data-slot'' (lit ''message-group''),
      At ''className'' (cn K [lit ''flex min-w-0 flex-col gap-1.5'',
          className]),
      Sp props]
    [])\<close>

definition Message :: "lib \<Rightarrow> props \<Rightarrow> val" where
\<open>Message K p =
  (let className = attr ''className'' p in
    let align = dflt (lit ''start'') (attr ''align'' p) in
    let props = rest [''className'', ''align''] p in
    el (tag ''div'') [At ''data-slot'' (lit ''message''),
      At ''data-align'' align,
      At ''className'' (cn K [lit ''group/message relative flex w-full min-w-0 gap-1.5 text-xs data-[align=end]:flex-row-reverse'',
          className]),
      Sp props]
    [])\<close>

definition MessageAvatar :: "lib \<Rightarrow> props \<Rightarrow> val" where
\<open>MessageAvatar K p =
  (let className = attr ''className'' p in
    let props = rest [''className''] p in
    el (tag ''div'') [At ''data-slot'' (lit ''message-avatar''),
      At ''className'' (cn K [lit ''flex w-fit min-w-8 shrink-0 items-center justify-center self-end overflow-hidden rounded-full bg-muted group-has-data-[slot=message-footer]/message:-translate-y-8'',
          className]),
      Sp props]
    [])\<close>

definition MessageContent :: "lib \<Rightarrow> props \<Rightarrow> val" where
\<open>MessageContent K p =
  (let className = attr ''className'' p in
    let props = rest [''className''] p in
    el (tag ''div'') [At ''data-slot'' (lit ''message-content''),
      At ''className'' (cn K [lit ''flex w-full min-w-0 flex-col gap-2 wrap-break-word group-data-[align=end]/message:*:data-slot:self-end'',
          className]),
      Sp props]
    [])\<close>

definition MessageHeader :: "lib \<Rightarrow> props \<Rightarrow> val" where
\<open>MessageHeader K p =
  (let className = attr ''className'' p in
    let props = rest [''className''] p in
    el (tag ''div'') [At ''data-slot'' (lit ''message-header''),
      At ''className'' (cn K [lit ''flex max-w-full min-w-0 items-center px-2.5 text-xs font-medium text-muted-foreground group-has-data-[variant=ghost]/message:px-0'',
          className]),
      Sp props]
    [])\<close>

definition MessageFooter :: "lib \<Rightarrow> props \<Rightarrow> val" where
\<open>MessageFooter K p =
  (let className = attr ''className'' p in
    let props = rest [''className''] p in
    el (tag ''div'') [At ''data-slot'' (lit ''message-footer''),
      At ''className'' (cn K [lit ''flex max-w-full min-w-0 items-center px-2.5 text-xs font-medium text-muted-foreground group-has-data-[variant=ghost]/message:px-0 group-data-[align=end]/message:justify-end'',
          className]),
      Sp props]
    [])\<close>

section \<open>ui/message-scroller.tsx\<close>

definition MessageScrollerProvider :: "lib \<Rightarrow> props \<Rightarrow> val" where
\<open>MessageScrollerProvider K p =
  (let props = VObj p in
    el (comp ''MessageScrollerPrimitive.Provider'') [Sp props]
    [])\<close>

definition MessageScroller :: "lib \<Rightarrow> props \<Rightarrow> val" where
\<open>MessageScroller K p =
  (let className = attr ''className'' p in
    let props = rest [''className''] p in
    el (comp ''MessageScrollerPrimitive.Root'') [At ''data-slot'' (lit ''message-scroller''),
      At ''className'' (cn K [lit ''group/message-scroller relative flex size-full min-h-0 flex-col overflow-hidden'',
          className]),
      Sp props]
    [])\<close>

definition MessageScrollerViewport :: "lib \<Rightarrow> props \<Rightarrow> val" where
\<open>MessageScrollerViewport K p =
  (let className = attr ''className'' p in
    let props = rest [''className''] p in
    el (comp ''MessageScrollerPrimitive.Viewport'') [At ''data-slot'' (lit ''message-scroller-viewport''),
      At ''className'' (cn K [lit ''size-full min-h-0 min-w-0 scroll-fade-b scrollbar-thin scrollbar-gutter-stable overflow-y-auto overscroll-contain contain-content data-autoscrolling:scrollbar-thumb-transparent data-autoscrolling:scrollbar-track-transparent'',
          className]),
      Sp props]
    [])\<close>

definition MessageScrollerContent :: "lib \<Rightarrow> props \<Rightarrow> val" where
\<open>MessageScrollerContent K p =
  (let className = attr ''className'' p in
    let props = rest [''className''] p in
    el (comp ''MessageScrollerPrimitive.Content'') [At ''data-slot'' (lit ''message-scroller-content''),
      At ''className'' (cn K [lit ''flex h-max min-h-full flex-col gap-6'',
          className]),
      Sp props]
    [])\<close>

definition MessageScrollerItem :: "lib \<Rightarrow> props \<Rightarrow> val" where
\<open>MessageScrollerItem K p =
  (let className = attr ''className'' p in
    let scrollAnchor = dflt (VBool False) (attr ''scrollAnchor'' p) in
    let props = rest [''className'', ''scrollAnchor''] p in
    el (comp ''MessageScrollerPrimitive.Item'') [At ''data-slot'' (lit ''message-scroller-item''),
      At ''scrollAnchor'' scrollAnchor,
      At ''className'' (cn K [lit ''min-w-0 shrink-0 [contain-intrinsic-size:auto_10rem] [content-visibility:auto]'',
          className]),
      Sp props]
    [])\<close>

definition MessageScrollerButton :: "lib \<Rightarrow> props \<Rightarrow> val" where
\<open>MessageScrollerButton K p =
  (let direction = dflt (lit ''end'') (attr ''direction'' p) in
    let className = attr ''className'' p in
    let children = attr ''children'' p in
    let render = attr ''render'' p in
    let variant = dflt (lit ''secondary'') (attr ''variant'' p) in
    let size' = dflt (lit ''icon-sm'') (attr ''size'' p) in
    let props = rest [''direction'', ''className'', ''children'', ''render'', ''variant'', ''size''] p in
    el (comp ''MessageScrollerPrimitive.Button'') [At ''data-slot'' (lit ''message-scroller-button''),
      At ''data-direction'' direction,
      At ''data-variant'' variant,
      At ''data-size'' size',
      At ''direction'' direction,
      At ''className'' (cn K [lit ''absolute inset-s-1/2 -translate-x-1/2 border-border bg-background text-foreground transition-[translate,scale,opacity] duration-200 hover:bg-muted hover:text-foreground data-[active=false]:pointer-events-none data-[active=false]:scale-95 data-[active=false]:opacity-0 data-[active=false]:duration-400 data-[active=false]:ease-[cubic-bezier(0.7,0,0.84,0)] data-[active=true]:translate-y-0 data-[active=true]:scale-100 data-[active=true]:opacity-100 data-[active=true]:ease-[cubic-bezier(0.23,1,0.32,1)] data-[direction=end]:bottom-4 data-[direction=end]:data-[active=false]:translate-y-full data-[direction=start]:top-4 data-[direction=start]:data-[active=false]:-translate-y-full rtl:translate-x-1/2 data-[direction=start]:[&_svg]:rotate-180'',
          className]),
      At ''render'' (jcoal render (el (comp ''Button'') [At ''variant'' variant,
            At ''size'' size']
          [])),
      Sp props]
    [jcoal children (el (comp ''Fragment'') []
        [el (comp ''ArrowDownIcon'') []
          [],
          el (tag ''span'') [At ''className'' (lit ''sr-only'')]
          [(if (direction = lit ''end'')
              then lit ''Scroll to end''
              else lit ''Scroll to start'')]])])\<close>

section \<open>The contract\<close>

text \<open>The rows: slot, the properties read, whether the caller's classes are merged, the component.\<close>

definition kit_messages :: "lib \<Rightarrow> kit_row list" where
\<open>kit_messages K = [
  (''attachment'', [''className'', ''state'', ''size'', ''orientation''], True, Attachment K),
  (''attachment-media'', [''className'', ''variant''], True, AttachmentMedia K),
  (''attachment-content'', [''className''], True, AttachmentContent K),
  (''attachment-title'', [''className''], True, AttachmentTitle K),
  (''attachment-description'', [''className''], True, AttachmentDescription K),
  (''attachment-actions'', [''className''], True, AttachmentActions K),
  (''attachment-action'', [''className'', ''variant'', ''size''], True, AttachmentAction K),
  (''attachment-group'', [''className''], True, AttachmentGroup K),
  (''bubble-group'', [''className''], True, BubbleGroup K),
  (''bubble'', [''variant'', ''align'', ''className''], True, Bubble K),
  (''bubble-reactions'', [''side'', ''align'', ''className''], True, BubbleReactions K),
  (''marker-icon'', [''className''], True, MarkerIcon K),
  (''marker-content'', [''className''], True, MarkerContent K),
  (''message-group'', [''className''], True, MessageGroup K),
  (''message'', [''className'', ''align''], True, Message K),
  (''message-avatar'', [''className''], True, MessageAvatar K),
  (''message-content'', [''className''], True, MessageContent K),
  (''message-header'', [''className''], True, MessageHeader K),
  (''message-footer'', [''className''], True, MessageFooter K),
  (''message-scroller'', [''className''], True, MessageScroller K),
  (''message-scroller-viewport'', [''className''], True, MessageScrollerViewport K),
  (''message-scroller-content'', [''className''], True, MessageScrollerContent K),
  (''message-scroller-item'', [''className'', ''scrollAnchor''], True, MessageScrollerItem K),
  (''message-scroller-button'', [''direction'', ''className'', ''children'', ''render'', ''variant'', ''size''], True, MessageScrollerButton K)]\<close>

lemma Attachment_ok [kit_rows]: "kit_ok K (''attachment'', [''className'', ''state'', ''size'', ''orientation''], True, Attachment K)"
  by (simp add: kit_simps Attachment_def)

lemma AttachmentMedia_ok [kit_rows]: "kit_ok K (''attachment-media'', [''className'', ''variant''], True, AttachmentMedia K)"
  by (simp add: kit_simps AttachmentMedia_def)

lemma AttachmentContent_ok [kit_rows]: "kit_ok K (''attachment-content'', [''className''], True, AttachmentContent K)"
  by (simp add: kit_simps AttachmentContent_def)

lemma AttachmentTitle_ok [kit_rows]: "kit_ok K (''attachment-title'', [''className''], True, AttachmentTitle K)"
  by (simp add: kit_simps AttachmentTitle_def)

lemma AttachmentDescription_ok [kit_rows]: "kit_ok K (''attachment-description'', [''className''], True, AttachmentDescription K)"
  by (simp add: kit_simps AttachmentDescription_def)

lemma AttachmentActions_ok [kit_rows]: "kit_ok K (''attachment-actions'', [''className''], True, AttachmentActions K)"
  by (simp add: kit_simps AttachmentActions_def)

lemma AttachmentAction_ok [kit_rows]: "kit_ok K (''attachment-action'', [''className'', ''variant'', ''size''], True, AttachmentAction K)"
  by (simp add: kit_simps AttachmentAction_def)

lemma AttachmentGroup_ok [kit_rows]: "kit_ok K (''attachment-group'', [''className''], True, AttachmentGroup K)"
  by (simp add: kit_simps AttachmentGroup_def)

lemma BubbleGroup_ok [kit_rows]: "kit_ok K (''bubble-group'', [''className''], True, BubbleGroup K)"
  by (simp add: kit_simps BubbleGroup_def)

lemma Bubble_ok [kit_rows]: "kit_ok K (''bubble'', [''variant'', ''align'', ''className''], True, Bubble K)"
  by (simp add: kit_simps Bubble_def)

lemma BubbleReactions_ok [kit_rows]: "kit_ok K (''bubble-reactions'', [''side'', ''align'', ''className''], True, BubbleReactions K)"
  by (simp add: kit_simps BubbleReactions_def)

lemma MarkerIcon_ok [kit_rows]: "kit_ok K (''marker-icon'', [''className''], True, MarkerIcon K)"
  by (simp add: kit_simps MarkerIcon_def)

lemma MarkerContent_ok [kit_rows]: "kit_ok K (''marker-content'', [''className''], True, MarkerContent K)"
  by (simp add: kit_simps MarkerContent_def)

lemma MessageGroup_ok [kit_rows]: "kit_ok K (''message-group'', [''className''], True, MessageGroup K)"
  by (simp add: kit_simps MessageGroup_def)

lemma Message_ok [kit_rows]: "kit_ok K (''message'', [''className'', ''align''], True, Message K)"
  by (simp add: kit_simps Message_def)

lemma MessageAvatar_ok [kit_rows]: "kit_ok K (''message-avatar'', [''className''], True, MessageAvatar K)"
  by (simp add: kit_simps MessageAvatar_def)

lemma MessageContent_ok [kit_rows]: "kit_ok K (''message-content'', [''className''], True, MessageContent K)"
  by (simp add: kit_simps MessageContent_def)

lemma MessageHeader_ok [kit_rows]: "kit_ok K (''message-header'', [''className''], True, MessageHeader K)"
  by (simp add: kit_simps MessageHeader_def)

lemma MessageFooter_ok [kit_rows]: "kit_ok K (''message-footer'', [''className''], True, MessageFooter K)"
  by (simp add: kit_simps MessageFooter_def)

lemma MessageScroller_ok [kit_rows]: "kit_ok K (''message-scroller'', [''className''], True, MessageScroller K)"
  by (simp add: kit_simps MessageScroller_def)

lemma MessageScrollerViewport_ok [kit_rows]: "kit_ok K (''message-scroller-viewport'', [''className''], True, MessageScrollerViewport K)"
  by (simp add: kit_simps MessageScrollerViewport_def)

lemma MessageScrollerContent_ok [kit_rows]: "kit_ok K (''message-scroller-content'', [''className''], True, MessageScrollerContent K)"
  by (simp add: kit_simps MessageScrollerContent_def)

lemma MessageScrollerItem_ok [kit_rows]: "kit_ok K (''message-scroller-item'', [''className'', ''scrollAnchor''], True, MessageScrollerItem K)"
  by (simp add: kit_simps MessageScrollerItem_def)

lemma MessageScrollerButton_ok [kit_rows]: "kit_ok K (''message-scroller-button'', [''direction'', ''className'', ''children'', ''render'', ''variant'', ''size''], True, MessageScrollerButton K)"
  by (simp add: kit_simps MessageScrollerButton_def)

lemma kit_messages_ok: "list_all (kit_ok K) (kit_messages K)"
  by (simp add: kit_messages_def kit_rows)

end
