(* ===== verification/UiField.thy ===== *)
theory UiField
  imports UiLayout
begin

text \<open>
  The component kit, form fields and their error messages: one definition per component of the files named by the sections,
  from its props to the element it renders.
\<close>

section \<open>ui/field.tsx\<close>

definition FieldSet :: "lib \<Rightarrow> props \<Rightarrow> val" where
\<open>FieldSet K p =
  (let className = attr ''className'' p in
    let props = rest [''className''] p in
    el (tag ''fieldset'') [At ''data-slot'' (lit ''field-set''),
      At ''className'' (cn K [lit ''flex flex-col gap-4 has-[>[data-slot=checkbox-group]]:gap-3 has-[>[data-slot=radio-group]]:gap-3'',
          className]),
      Sp props]
    [])\<close>

definition FieldLegend :: "lib \<Rightarrow> props \<Rightarrow> val" where
\<open>FieldLegend K p =
  (let className = attr ''className'' p in
    let variant = dflt (lit ''legend'') (attr ''variant'' p) in
    let props = rest [''className'', ''variant''] p in
    el (tag ''legend'') [At ''data-slot'' (lit ''field-legend''),
      At ''data-variant'' variant,
      At ''className'' (cn K [lit ''mb-2.5 font-medium data-[variant=label]:text-xs data-[variant=legend]:text-sm'',
          className]),
      Sp props]
    [])\<close>

definition FieldGroup :: "lib \<Rightarrow> props \<Rightarrow> val" where
\<open>FieldGroup K p =
  (let className = attr ''className'' p in
    let props = rest [''className''] p in
    el (tag ''div'') [At ''data-slot'' (lit ''field-group''),
      At ''className'' (cn K [lit ''group/field-group @container/field-group flex w-full flex-col gap-5 data-[slot=checkbox-group]:gap-3 *:data-[slot=field-group]:gap-4'',
          className]),
      Sp props]
    [])\<close>

definition fieldVariants :: "val list" where
\<open>fieldVariants =
  [lit ''group/field flex w-full gap-2 data-[invalid=true]:text-destructive'',
    obj [At ''variants'' (obj [At ''orientation'' (obj [At ''vertical'' (lit ''flex-col *:w-full [&>.sr-only]:w-auto''),
              At ''horizontal'' (lit ''flex-row items-center has-[>[data-slot=field-content]]:items-start *:data-[slot=field-label]:flex-auto has-[>[data-slot=field-content]]:[&>[role=checkbox],[role=radio]]:mt-px''),
              At ''responsive'' (lit ''flex-col *:w-full @md/field-group:flex-row @md/field-group:items-center @md/field-group:*:w-auto @md/field-group:has-[>[data-slot=field-content]]:items-start @md/field-group:*:data-[slot=field-label]:flex-auto [&>.sr-only]:w-auto @md/field-group:has-[>[data-slot=field-content]]:[&>[role=checkbox],[role=radio]]:mt-px'')])]),
      At ''defaultVariants'' (obj [At ''orientation'' (lit ''vertical'')])]]\<close>

definition Field_ui :: "lib \<Rightarrow> props \<Rightarrow> val" where
\<open>Field_ui K p =
  (let className = attr ''className'' p in
    let orientation = dflt (lit ''vertical'') (attr ''orientation'' p) in
    let props = rest [''className'', ''orientation''] p in
    el (tag ''div'') [At ''role'' (lit ''group''),
      At ''data-slot'' (lit ''field''),
      At ''data-orientation'' orientation,
      At ''className'' (cn K [cva K fieldVariants (obj [At ''orientation'' orientation]),
          className]),
      Sp props]
    [])\<close>

definition FieldContent :: "lib \<Rightarrow> props \<Rightarrow> val" where
\<open>FieldContent K p =
  (let className = attr ''className'' p in
    let props = rest [''className''] p in
    el (tag ''div'') [At ''data-slot'' (lit ''field-content''),
      At ''className'' (cn K [lit ''group/field-content flex flex-1 flex-col gap-0.5 leading-snug'',
          className]),
      Sp props]
    [])\<close>

definition FieldLabel :: "lib \<Rightarrow> props \<Rightarrow> val" where
\<open>FieldLabel K p =
  (let className = attr ''className'' p in
    let props = rest [''className''] p in
    el (comp ''Label'') [At ''data-slot'' (lit ''field-label''),
      At ''className'' (cn K [lit ''group/field-label peer/field-label flex w-fit gap-2 leading-snug group-data-[disabled=true]/field:opacity-50 has-data-checked:border-primary/30 has-data-checked:bg-primary/5 has-[>[data-slot=field]]:rounded-none has-[>[data-slot=field]]:border *:data-[slot=field]:p-2 dark:has-data-checked:border-primary/20 dark:has-data-checked:bg-primary/10'',
          lit ''has-[>[data-slot=field]]:w-full has-[>[data-slot=field]]:flex-col'',
          className]),
      Sp props]
    [])\<close>

definition FieldTitle :: "lib \<Rightarrow> props \<Rightarrow> val" where
\<open>FieldTitle K p =
  (let className = attr ''className'' p in
    let props = rest [''className''] p in
    el (tag ''div'') [At ''data-slot'' (lit ''field-label''),
      At ''className'' (cn K [lit ''flex w-fit items-center gap-2 text-xs/relaxed group-data-[disabled=true]/field:opacity-50'',
          className]),
      Sp props]
    [])\<close>

definition FieldDescription :: "lib \<Rightarrow> props \<Rightarrow> val" where
\<open>FieldDescription K p =
  (let className = attr ''className'' p in
    let props = rest [''className''] p in
    el (tag ''p'') [At ''data-slot'' (lit ''field-description''),
      At ''className'' (cn K [lit ''text-left text-xs/relaxed leading-normal font-normal text-muted-foreground group-has-data-horizontal/field:text-balance [[data-variant=legend]+&]:-mt-1.5'',
          lit ''last:mt-0 nth-last-2:-mt-1'',
          lit ''[&>a]:underline [&>a]:underline-offset-4 [&>a:hover]:text-primary'',
          className]),
      Sp props]
    [])\<close>

definition FieldSeparator :: "lib \<Rightarrow> props \<Rightarrow> val" where
\<open>FieldSeparator K p =
  (let children = attr ''children'' p in
    let className = attr ''className'' p in
    let props = rest [''children'', ''className''] p in
    el (tag ''div'') [At ''data-slot'' (lit ''field-separator''),
      At ''data-content'' (VBool (\<not> (\<not> (truthy children)))),
      At ''className'' (cn K [lit ''relative -my-2 h-5 text-xs group-data-[variant=outline]/field-group:-mb-2'',
          className]),
      Sp props]
    [el (comp ''Separator'') [At ''className'' (lit ''absolute inset-0 top-1/2'')]
      [],
      jand children
      (el (tag ''span'') [At ''className'' (lit ''relative mx-auto block w-fit bg-background px-2 text-muted-foreground''),
          At ''data-slot'' (lit ''field-separator-content'')]
        [children])])\<close>

text \<open>
  The messages of a field. \<open>new Map(errors.map(e => [e?.message, e])).values()\<close> keeps one entry
  per message, where the message first occurred, with the last error that had it.
\<close>

primrec map_set :: "val \<Rightarrow> val \<Rightarrow> (val \<times> val) list \<Rightarrow> (val \<times> val) list" where
  "map_set k v [] = [(k, v)]"
| "map_set k v (e # m) = (if fst e = k then (k, v) # m else e # map_set k v m)"

definition uniqueErrors :: "val list \<Rightarrow> val list" where
  "uniqueErrors errors =
     map snd (fold (\<lambda>error. map_set (dot error ''message'') error) errors [])"

definition FieldError_content :: "val \<Rightarrow> val \<Rightarrow> val" where
  "FieldError_content children errors =
    (if truthy children then children
     else if \<not> truthy (dot errors ''length'') then VNull
     else
       let unique = uniqueErrors (items errors) in
       if length unique = 1 then dot (hd unique) ''message''
       else el (tag ''ul'') [At ''className'' (lit ''ml-4 flex list-disc flex-col gap-1'')]
         [jmap (\<lambda>error index. jand (dot error ''message'')
             (elk (tag ''li'') index [] [dot error ''message'']))
           (VArr unique)])"

definition FieldError :: "lib \<Rightarrow> props \<Rightarrow> val" where
  "FieldError K p =
    (let className = attr ''className'' p;
         content = FieldError_content (attr ''children'' p) (attr ''errors'' p) in
     if \<not> truthy content then VNull
     else el (tag ''div'')
       [At ''role'' (lit ''alert''),
        At ''data-slot'' (lit ''field-error''),
        At ''className'' (cn K [lit ''text-xs font-normal text-destructive'', className]),
        Sp (rest [''className'', ''children'', ''errors''] p)]
       [content])"

lemma map_set_keys:
  "map fst (map_set k v m) = (if k \<in> fst ` set m then map fst m else map fst m @ [k])"
  by (induction m) auto

lemma map_set_messages:
  "\<forall>(k, v) \<in> set m. dot v ''message'' = k \<Longrightarrow>
   \<forall>(k, v) \<in> set (map_set (dot e ''message'') e m). dot v ''message'' = k"
  by (induction m) auto

lemma map_set_set: "snd ` set (map_set k v m) \<subseteq> insert v (snd ` set m)"
  by (induction m) auto

lemma uniqueErrors_fold:
  assumes "\<forall>(k, v) \<in> set m. dot v ''message'' = k" and "distinct (map fst m)"
  shows "let r = fold (\<lambda>e. map_set (dot e ''message'') e) errors m in
    (\<forall>(k, v) \<in> set r. dot v ''message'' = k) \<and> distinct (map fst r) \<and>
    fst ` set r = fst ` set m \<union> (\<lambda>e. dot e ''message'') ` set errors \<and>
    snd ` set r \<subseteq> snd ` set m \<union> set errors"
  using assms
proof (induction errors arbitrary: m)
  case (Cons e es)
  let ?m = "map_set (dot e ''message'') e m"
  have keys: "fst ` set ?m = insert (dot e ''message'') (fst ` set m)"
    using arg_cong [OF map_set_keys [of "dot e ''message''" e m], of set]
    by (auto split: if_splits simp: image_iff)
  have dist: "distinct (map fst ?m)"
    using Cons.prems(2) by (auto simp: map_set_keys)
  let ?r = "fold (\<lambda>e. map_set (dot e ''message'') e) es ?m"
  have r: "\<forall>(k, v) \<in> set ?r. dot v ''message'' = k" "distinct (map fst ?r)"
      "fst ` set ?r = fst ` set ?m \<union> (\<lambda>e. dot e ''message'') ` set es"
      "snd ` set ?r \<subseteq> snd ` set ?m \<union> set es"
    using Cons.IH [OF map_set_messages [OF Cons.prems(1), of e] dist] by (simp_all add: Let_def)
  have "snd ` set ?r \<subseteq> snd ` set m \<union> set (e # es)"
  proof (rule order_trans [OF r(4) Un_least])
    show "snd ` set ?m \<subseteq> snd ` set m \<union> set (e # es)" by (rule order_trans [OF map_set_set]) auto
  qed auto
  then show ?case using r(1-3) keys by (simp add: Let_def)
qed simp

text \<open>One error per message, every message is kept and nothing is made up.\<close>

lemma uniqueErrors_distinct: "distinct (map (\<lambda>e. dot e ''message'') (uniqueErrors errors))"
  and uniqueErrors_complete:
    "(\<lambda>e. dot e ''message'') ` set (uniqueErrors errors) = (\<lambda>e. dot e ''message'') ` set errors"
  and uniqueErrors_subset: "set (uniqueErrors errors) \<subseteq> set errors"
proof -
  let ?r = "fold (\<lambda>e. map_set (dot e ''message'') e) errors []"
  have f: "\<forall>(k, v) \<in> set ?r. dot v ''message'' = k" "distinct (map fst ?r)"
      "fst ` set ?r = (\<lambda>e. dot e ''message'') ` set errors" "snd ` set ?r \<subseteq> set errors"
    using uniqueErrors_fold [of "[]" errors] by (simp_all add: Let_def)
  have eq: "map (\<lambda>e. dot e ''message'') (uniqueErrors errors) = map fst ?r"
    using f(1) by (auto simp: uniqueErrors_def)
  show "distinct (map (\<lambda>e. dot e ''message'') (uniqueErrors errors))"
    unfolding eq by (rule f(2))
  show "(\<lambda>e. dot e ''message'') ` set (uniqueErrors errors) = (\<lambda>e. dot e ''message'') ` set errors"
    using arg_cong [OF eq, of set] f(3) by simp
  show "set (uniqueErrors errors) \<subseteq> set errors"
    using f(4) by (simp add: uniqueErrors_def)
qed

section \<open>The contract\<close>

text \<open>The rows: slot, the properties read, whether the caller's classes are merged, the component.\<close>

definition kit_field :: "lib \<Rightarrow> kit_row list" where
\<open>kit_field K = [
  (''field-set'', [''className''], True, FieldSet K),
  (''field-legend'', [''className'', ''variant''], True, FieldLegend K),
  (''field-group'', [''className''], True, FieldGroup K),
  (''field'', [''className'', ''orientation''], True, Field_ui K),
  (''field-content'', [''className''], True, FieldContent K),
  (''field-label'', [''className''], True, FieldLabel K),
  (''field-label'', [''className''], True, FieldTitle K),
  (''field-description'', [''className''], True, FieldDescription K),
  (''field-separator'', [''children'', ''className''], True, FieldSeparator K)]\<close>

lemma FieldSet_ok [kit_rows]: "kit_ok K (''field-set'', [''className''], True, FieldSet K)"
  by (simp add: kit_simps FieldSet_def)

lemma FieldLegend_ok [kit_rows]: "kit_ok K (''field-legend'', [''className'', ''variant''], True, FieldLegend K)"
  by (simp add: kit_simps FieldLegend_def)

lemma FieldGroup_ok [kit_rows]: "kit_ok K (''field-group'', [''className''], True, FieldGroup K)"
  by (simp add: kit_simps FieldGroup_def)

lemma Field_ui_ok [kit_rows]: "kit_ok K (''field'', [''className'', ''orientation''], True, Field_ui K)"
  by (simp add: kit_simps Field_ui_def)

lemma FieldContent_ok [kit_rows]: "kit_ok K (''field-content'', [''className''], True, FieldContent K)"
  by (simp add: kit_simps FieldContent_def)

lemma FieldLabel_ok [kit_rows]: "kit_ok K (''field-label'', [''className''], True, FieldLabel K)"
  by (simp add: kit_simps FieldLabel_def)

lemma FieldTitle_ok [kit_rows]: "kit_ok K (''field-label'', [''className''], True, FieldTitle K)"
  by (simp add: kit_simps FieldTitle_def)

lemma FieldDescription_ok [kit_rows]: "kit_ok K (''field-description'', [''className''], True, FieldDescription K)"
  by (simp add: kit_simps FieldDescription_def)

lemma FieldSeparator_ok [kit_rows]: "kit_ok K (''field-separator'', [''children'', ''className''], True, FieldSeparator K)"
  by (simp add: kit_simps FieldSeparator_def)

lemma kit_field_ok: "list_all (kit_ok K) (kit_field K)"
  by (simp add: kit_field_def kit_rows)

end
