(* ===== verification/UiCarousel.thy ===== *)
theory UiCarousel
  imports UiControls
begin

text \<open>
  The component kit, the carousel: one definition per component of the files named by the sections,
  from its props to the element it renders.
\<close>

section \<open>ui/carousel.tsx\<close>

text \<open>The hook: the context's value, or the error a use outside the provider throws.\<close>

definition useCarousel :: "val \<Rightarrow> jstr + val" where
\<open>useCarousel c = (if truthy c then Inr c else Inl (js ''useCarousel must be used within a <Carousel />''))\<close>

definition Carousel :: "lib \<Rightarrow> val \<Rightarrow> val \<Rightarrow> props \<Rightarrow> val" where
\<open>Carousel K canScrollPrev canScrollNext p =
  (let orientation = dflt (lit ''horizontal'') (attr ''orientation'' p) in
    let opts = attr ''opts'' p in
    let setApi = attr ''setApi'' p in
    let plugins = attr ''plugins'' p in
    let className = attr ''className'' p in
    let children = attr ''children'' p in
    let props = rest [''orientation'', ''opts'', ''setApi'', ''plugins'', ''className'', ''children''] p in
    let e' = K ''useEmblaCarousel'' [obj [Sp opts,
        At ''axis'' ((if (orientation = lit ''horizontal'')
            then lit ''x''
            else lit ''y''))], plugins] in
    let carouselRef = item e' (VNum 0) in
    let api = item e' (VNum 1) in
    let setCanScrollPrev = VFun ''Carousel.setCanScrollPrev'' [] in
    let setCanScrollNext = VFun ''Carousel.setCanScrollNext'' [] in
    let onSelect = VFun ''Carousel.onSelect'' [setCanScrollPrev, setCanScrollNext] in
    let scrollPrev = VFun ''Carousel.scrollPrev'' [api] in
    let scrollNext = VFun ''Carousel.scrollNext'' [api] in
    let handleKeyDown = VFun ''Carousel.handleKeyDown'' [scrollPrev, scrollNext] in
    el (comp ''CarouselContext.Provider'') [At ''value'' (obj [At ''carouselRef'' carouselRef,
          At ''api'' api,
          At ''opts'' opts,
          At ''orientation'' (jor orientation ((if (dot opts ''axis'' = lit ''y'')
                then lit ''vertical''
                else lit ''horizontal''))),
          At ''scrollPrev'' scrollPrev,
          At ''scrollNext'' scrollNext,
          At ''canScrollPrev'' canScrollPrev,
          At ''canScrollNext'' canScrollNext])]
    [el (tag ''div'') [At ''onKeyDownCapture'' handleKeyDown,
        At ''className'' (cn K [lit ''relative'',
            className]),
        At ''role'' (lit ''region''),
        At ''aria-roledescription'' (lit ''carousel''),
        At ''data-slot'' (lit ''carousel''),
        Sp props]
      [children]])\<close>

definition CarouselContent :: "lib \<Rightarrow> val \<Rightarrow> props \<Rightarrow> jstr + val" where
\<open>CarouselContent K c p =
  (case useCarousel c of Inl e \<Rightarrow> Inl e | Inr x' \<Rightarrow>
    (let className = attr ''className'' p in
      let props = rest [''className''] p in
      let carouselRef = dot x' ''carouselRef'' in
      let orientation = dot x' ''orientation'' in
      Inr (el (tag ''div'') [At ''ref'' carouselRef,
          At ''className'' (lit ''overflow-hidden''),
          At ''data-slot'' (lit ''carousel-content'')]
        [el (tag ''div'') [At ''className'' (cn K [lit ''flex'',
                (if (orientation = lit ''horizontal'')
                  then lit ''-ml-4''
                  else lit ''-mt-4 flex-col''),
                className]),
            Sp props]
          []])))\<close>

definition CarouselItem :: "lib \<Rightarrow> val \<Rightarrow> props \<Rightarrow> jstr + val" where
\<open>CarouselItem K c p =
  (case useCarousel c of Inl e \<Rightarrow> Inl e | Inr x' \<Rightarrow>
    (let className = attr ''className'' p in
      let props = rest [''className''] p in
      let orientation = dot x' ''orientation'' in
      Inr (el (tag ''div'') [At ''role'' (lit ''group''),
          At ''aria-roledescription'' (lit ''slide''),
          At ''data-slot'' (lit ''carousel-item''),
          At ''className'' (cn K [lit ''min-w-0 shrink-0 grow-0 basis-full'',
              (if (orientation = lit ''horizontal'')
                then lit ''pl-4''
                else lit ''pt-4''),
              className]),
          Sp props]
        [])))\<close>

definition CarouselPrevious :: "lib \<Rightarrow> val \<Rightarrow> props \<Rightarrow> jstr + val" where
\<open>CarouselPrevious K c p =
  (case useCarousel c of Inl e \<Rightarrow> Inl e | Inr x' \<Rightarrow>
    (let className = attr ''className'' p in
      let variant = dflt (lit ''outline'') (attr ''variant'' p) in
      let size' = dflt (lit ''icon-sm'') (attr ''size'' p) in
      let props = rest [''className'', ''variant'', ''size''] p in
      let orientation = dot x' ''orientation'' in
      let scrollPrev = dot x' ''scrollPrev'' in
      let canScrollPrev = dot x' ''canScrollPrev'' in
      Inr (el (comp ''Button'') [At ''data-slot'' (lit ''carousel-previous''),
          At ''variant'' variant,
          At ''size'' size',
          At ''className'' (cn K [lit ''absolute touch-manipulation'',
              (if (orientation = lit ''horizontal'')
                then lit ''inset-y-0 -left-12 my-auto''
                else lit ''-top-12 left-1/2 -translate-x-1/2 rotate-90''),
              className]),
          At ''disabled'' (VBool (\<not> (truthy canScrollPrev))),
          At ''onClick'' scrollPrev,
          Sp props]
        [el (comp ''ChevronLeftIcon'') []
          [],
          el (tag ''span'') [At ''className'' (lit ''sr-only'')]
          [lit ''Previous slide'']])))\<close>

definition CarouselNext :: "lib \<Rightarrow> val \<Rightarrow> props \<Rightarrow> jstr + val" where
\<open>CarouselNext K c p =
  (case useCarousel c of Inl e \<Rightarrow> Inl e | Inr x' \<Rightarrow>
    (let className = attr ''className'' p in
      let variant = dflt (lit ''outline'') (attr ''variant'' p) in
      let size' = dflt (lit ''icon-sm'') (attr ''size'' p) in
      let props = rest [''className'', ''variant'', ''size''] p in
      let orientation = dot x' ''orientation'' in
      let scrollNext = dot x' ''scrollNext'' in
      let canScrollNext = dot x' ''canScrollNext'' in
      Inr (el (comp ''Button'') [At ''data-slot'' (lit ''carousel-next''),
          At ''variant'' variant,
          At ''size'' size',
          At ''className'' (cn K [lit ''absolute touch-manipulation'',
              (if (orientation = lit ''horizontal'')
                then lit ''inset-y-0 -right-12 my-auto''
                else lit ''-bottom-12 left-1/2 -translate-x-1/2 rotate-90''),
              className]),
          At ''disabled'' (VBool (\<not> (truthy canScrollNext))),
          At ''onClick'' scrollNext,
          Sp props]
        [el (comp ''ChevronRightIcon'') []
          [],
          el (tag ''span'') [At ''className'' (lit ''sr-only'')]
          [lit ''Next slide'']])))\<close>

section \<open>The carousel's state and handlers\<close>

text \<open>
  The state of a carousel: the two flags of its buttons and the listeners it has registered on the
  scroller, by event. The scroller is Embla's: what it answers for \<open>canScrollPrev()\<close> and
  \<open>canScrollNext()\<close> is an argument, and there is none until it is mounted.
\<close>

record carousel_state =
  cs_prev :: bool
  cs_next :: bool
  cs_on :: "jstr list"

datatype scroll = Prev | Next

definition carousel_init :: carousel_state where
  "carousel_init = \<lparr>cs_prev = False, cs_next = False, cs_on = []\<rparr>"

definition onSelect :: "(bool \<times> bool) option \<Rightarrow> carousel_state \<Rightarrow> carousel_state" where
  "onSelect api s = (case api of None \<Rightarrow> s | Some (p, n) \<Rightarrow> s\<lparr>cs_prev := p, cs_next := n\<rparr>)"

definition scroll_calls :: "(bool \<times> bool) option \<Rightarrow> scroll \<Rightarrow> scroll list" where
  "scroll_calls api d = (if api = None then [] else [d])"

definition carousel_handleKeyDown :: "(bool \<times> bool) option \<Rightarrow> jstr \<Rightarrow> bool \<times> scroll list" where
  "carousel_handleKeyDown api key =
    (if key = js ''ArrowLeft'' then (True, scroll_calls api Prev)
     else if key = js ''ArrowRight'' then (True, scroll_calls api Next)
     else (False, []))"

text \<open>The first effect hands the scroller to the caller: the calls of \<open>setApi\<close>.\<close>

definition carousel_setApi :: "val \<Rightarrow> val \<Rightarrow> val list" where
  "carousel_setApi api setApi = (if \<not> truthy api \<or> \<not> truthy setApi then [] else [api])"

text \<open>The second effect and its clean-up, which takes off one of the two listeners.\<close>

definition carousel_effect :: "(bool \<times> bool) option \<Rightarrow> carousel_state \<Rightarrow> carousel_state" where
  "carousel_effect api s =
    (if api = None then s
     else let s' = onSelect api s in s'\<lparr>cs_on := cs_on s' @ [js ''reInit'', js ''select'']\<rparr>)"

definition carousel_cleanup :: "(bool \<times> bool) option \<Rightarrow> carousel_state \<Rightarrow> carousel_state" where
  "carousel_cleanup api s =
    (if api = None then s else s\<lparr>cs_on := remove1 (js ''select'') (cs_on s)\<rparr>)"

text \<open>One mount and unmount on the same scroller, as the double run of effects in strict mode is.\<close>

definition remount :: "(bool \<times> bool) option \<Rightarrow> carousel_state \<Rightarrow> carousel_state" where
  "remount api s = carousel_cleanup api (carousel_effect api s)"

lemma remount_on:
  "js ''select'' \<notin> set (cs_on s) \<Longrightarrow> cs_on (remount (Some b) s) = cs_on s @ [js ''reInit'']"
  by (cases b) (simp add: remount_def carousel_cleanup_def carousel_effect_def onSelect_def
      remove1_append)

lemma remounts_on:
  assumes "js ''select'' \<notin> set (cs_on s)"
  shows "cs_on ((remount (Some b) ^^ n) s) = cs_on s @ replicate n (js ''reInit'')"
proof (induction n)
  case (Suc n)
  have "js ''select'' \<notin> set (cs_on ((remount (Some b) ^^ n) s))"
    using assms by (simp add: Suc set_replicate_conv_if)
  then show ?case
    by (simp add: remount_on Suc replicate_append_same)
qed simp

section \<open>The contract\<close>

text \<open>The rows: slot, the properties read, whether the caller's classes are merged, the component, with what its context holds.\<close>

definition kit_carousel :: "lib \<Rightarrow> props \<Rightarrow> kit_row list" where
\<open>kit_carousel K c = [
  ('''', [''className''], True, \<lambda>p. projr (CarouselContent K (VObj c) p)),
  (''carousel-item'', [''className''], True, \<lambda>p. projr (CarouselItem K (VObj c) p)),
  (''carousel-previous'', [''className'', ''variant'', ''size''], True, \<lambda>p. projr (CarouselPrevious K (VObj c) p)),
  (''carousel-next'', [''className'', ''variant'', ''size''], True, \<lambda>p. projr (CarouselNext K (VObj c) p))]\<close>

lemma CarouselContent_ok [kit_rows]: "kit_ok K ('''', [''className''], True, \<lambda>p. projr (CarouselContent K (VObj c) p))"
  by (simp add: kit_simps CarouselContent_def useCarousel_def)

lemma CarouselItem_ok [kit_rows]: "kit_ok K (''carousel-item'', [''className''], True, \<lambda>p. projr (CarouselItem K (VObj c) p))"
  by (simp add: kit_simps CarouselItem_def useCarousel_def)

lemma CarouselPrevious_ok [kit_rows]: "kit_ok K (''carousel-previous'', [''className'', ''variant'', ''size''], True, \<lambda>p. projr (CarouselPrevious K (VObj c) p))"
  by (simp add: kit_simps CarouselPrevious_def useCarousel_def)

lemma CarouselNext_ok [kit_rows]: "kit_ok K (''carousel-next'', [''className'', ''variant'', ''size''], True, \<lambda>p. projr (CarouselNext K (VObj c) p))"
  by (simp add: kit_simps CarouselNext_def useCarousel_def)

lemma kit_carousel_ok: "list_all (kit_ok K) (kit_carousel K c)"
  by (simp add: kit_carousel_def kit_rows)

end
