(* ===== verification/UiChart.thy ===== *)
theory UiChart
  imports Ui
begin

text \<open>
  The component kit, the chart wrapper: one definition per component of the files named by the sections,
  from its props to the element it renders.
\<close>

section \<open>ui/chart.tsx\<close>

text \<open>The hook: the context's value, or the error a use outside the provider throws.\<close>

definition useChart :: "val \<Rightarrow> jstr + val" where
\<open>useChart c = (if truthy c then Inr c else Inl (js ''useChart must be used within a <ChartContainer />''))\<close>

text \<open>The configuration of a series: under the string the point carries for the key, or the string
  the point's own payload carries, or under the key itself.\<close>

definition is_object :: "val \<Rightarrow> bool" where
  "is_object v \<longleftrightarrow> typeof v = ''object'' \<and> v \<noteq> VNull"

definition getPayloadConfigFromPayload :: "val \<Rightarrow> val \<Rightarrow> val \<Rightarrow> val" where
  "getPayloadConfigFromPayload config payload key =
    (if \<not> is_object payload then VUndef
     else
       let k = str_of key;
           payloadPayload = (if has_key (js ''payload'') payload \<and> is_object (dot payload ''payload'')
             then dot payload ''payload'' else VUndef);
           configLabelKey =
             (if has_key k payload \<and> typeof (fld k payload) = ''string'' then str_of (fld k payload)
              else if truthy payloadPayload \<and> has_key k payloadPayload
                  \<and> typeof (fld k payloadPayload) = ''string'' then str_of (fld k payloadPayload)
              else k)
       in if has_key configLabelKey config then fld configLabelKey config else fld k config)"

definition THEMES :: val where
\<open>THEMES =
  obj [At ''light'' (lit ''''),
    At ''dark'' (lit ''.dark'')]\<close>

definition INITIAL_DIMENSION :: val where
\<open>INITIAL_DIMENSION =
  obj [At ''width'' (VNum 320),
    At ''height'' (VNum 200)]\<close>

definition ChartContainer :: "lib \<Rightarrow> props \<Rightarrow> val" where
\<open>ChartContainer K p =
  (let id' = attr ''id'' p in
    let className = attr ''className'' p in
    let children = attr ''children'' p in
    let config = attr ''config'' p in
    let initialDimension = dflt INITIAL_DIMENSION (attr ''initialDimension'' p) in
    let props = rest [''id'', ''className'', ''children'', ''config'', ''initialDimension''] p in
    let uniqueId = K ''useId'' [] in
    let chartId = tpl K [lit ''chart-'', jcoal id' (VStr (filter (\<lambda>u. u \<noteq> 58) (str_of uniqueId)))] in
    el (comp ''ChartContext.Provider'') [At ''value'' (obj [At ''config'' config])]
    [el (tag ''div'') [At ''data-slot'' (lit ''chart''),
        At ''data-chart'' chartId,
        At ''className'' (cn K [lit ''flex aspect-video justify-center text-xs [&_.recharts-cartesian-axis-tick_text]:fill-muted-foreground [&_.recharts-cartesian-grid_line[stroke='#ccc']]:stroke-border/50 [&_.recharts-curve.recharts-tooltip-cursor]:stroke-border [&_.recharts-dot[stroke='#fff']]:stroke-transparent [&_.recharts-layer]:outline-hidden [&_.recharts-polar-grid_[stroke='#ccc']]:stroke-border [&_.recharts-radial-bar-background-sector]:fill-muted [&_.recharts-rectangle.recharts-tooltip-cursor]:fill-muted [&_.recharts-reference-line_[stroke='#ccc']]:stroke-border [&_.recharts-sector]:outline-hidden [&_.recharts-sector[stroke='#fff']]:stroke-transparent [&_.recharts-surface]:outline-hidden'',
            className]),
        Sp props]
      [el (comp ''ChartStyle'') [At ''id'' chartId,
          At ''config'' config]
        [],
        el (comp ''RechartsPrimitive.ResponsiveContainer'') [At ''initialDimension'' initialDimension]
        [children]]])\<close>

definition ChartStyle :: "lib \<Rightarrow> props \<Rightarrow> val" where
\<open>ChartStyle K p =
  (let id' = attr ''id'' p in
    let config = attr ''config'' p in
    let colorConfig = jfilter (\<lambda>e'. let config = item e' (VNum 1) in truthy (jcoal (dot config ''theme'') (dot config ''color''))) (jentries config) in
    (if \<not> (truthy (dot colorConfig ''length''))
      then VNull
      else el (tag ''style'') [At ''dangerouslySetInnerHTML'' (obj [At ''__html'' (array_join K ([10]) (jmap (\<lambda>e' _. let theme = item e' (VNum 0) in let prefix = item e' (VNum 1) in tpl K [VStr [10], prefix, lit '' [data-chart='', id', VStr (js ''] {'' @ [10]), array_join K ([10]) (jmap (\<lambda>e' _. let key' = item e' (VNum 0) in let itemConfig = item e' (VNum 1) in let color = jcoal (item (dot itemConfig ''theme'') theme) (dot itemConfig ''color'') in
                        (if truthy color
                          then tpl K [lit ''  --color-'', key', lit '': '', color, lit '';'']
                          else VNull)) colorConfig), VStr ([10] @ js ''}'' @ [10])]) (jentries THEMES)))])]
      []))\<close>

definition ChartTooltip :: val where
\<open>ChartTooltip =
  comp ''RechartsPrimitive.Tooltip''\<close>

definition ChartTooltipContent :: "lib \<Rightarrow> val \<Rightarrow> props \<Rightarrow> jstr + val" where
\<open>ChartTooltipContent K c p =
  (case useChart c of Inl e \<Rightarrow> Inl e | Inr x' \<Rightarrow>
    (let active = attr ''active'' p in
      let payload = attr ''payload'' p in
      let className = attr ''className'' p in
      let indicator = dflt (lit ''dot'') (attr ''indicator'' p) in
      let hideLabel = dflt (VBool False) (attr ''hideLabel'' p) in
      let hideIndicator = dflt (VBool False) (attr ''hideIndicator'' p) in
      let label = attr ''label'' p in
      let labelFormatter = attr ''labelFormatter'' p in
      let labelClassName = attr ''labelClassName'' p in
      let formatter = attr ''formatter'' p in
      let color = attr ''color'' p in
      let nameKey = attr ''nameKey'' p in
      let labelKey = attr ''labelKey'' p in
      let config = dot x' ''config'' in
      let tooltipLabel = ((if (truthy hideLabel \<or> \<not> (truthy (dot payload ''length'')))
          then VNull
          else let item' = item payload (VNum 0) in
          let key' = tpl K [jcoal (jcoal (jcoal labelKey (dot item' ''dataKey'')) (dot item' ''name'')) (lit ''value'')] in
          let itemConfig = getPayloadConfigFromPayload config item' key' in
          let value' = (if (\<not> (truthy labelKey) \<and> (typeof label = ''string''))
            then jcoal (dot (item config label) ''label'') label
            else dot itemConfig ''label'') in
          (if truthy labelFormatter
            then el (tag ''div'') [At ''className'' (cn K [lit ''font-medium'',
                  labelClassName])]
            [K ''call'' [labelFormatter, value', payload]]
            else (if \<not> (truthy value')
              then VNull
              else el (tag ''div'') [At ''className'' (cn K [lit ''font-medium'',
                    labelClassName])]
              [value'])))) in
      (if (\<not> (truthy active) \<or> \<not> (truthy (dot payload ''length'')))
        then Inr (VNull)
        else let nestLabel = jand (VBool ((dot payload ''length'' = VNum 1)))
        (VBool (\<not> (indicator = lit ''dot''))) in
        Inr (el (tag ''div'') [At ''className'' (cn K [lit ''grid min-w-32 items-start gap-1.5 rounded-none border border-border/50 bg-background px-2.5 py-1.5 text-xs shadow-xl'',
                className])]
          [(if \<not> (truthy nestLabel)
              then tooltipLabel
              else VNull),
            el (tag ''div'') [At ''className'' (lit ''grid gap-1.5'')]
            [jmap (\<lambda>item' index'. let key' = tpl K [jcoal (jcoal (jcoal nameKey (dot item' ''name'')) (dot item' ''dataKey'')) (lit ''value'')] in
                let itemConfig = getPayloadConfigFromPayload config item' key' in
                let indicatorColor = jcoal (jcoal color (dot (dot item' ''payload'') ''fill'')) (dot item' ''color'') in
                elk (tag ''div'') index' [At ''className'' (cn K [lit ''flex w-full flex-wrap items-stretch gap-2 [&>svg]:h-2.5 [&>svg]:w-2.5 [&>svg]:text-muted-foreground'',
                      jand (VBool ((indicator = lit ''dot'')))
                      (lit ''items-center'')])]
                [(if ((truthy formatter \<and> \<not> (dot item' ''value'' = VUndef)) \<and> truthy (dot item' ''name''))
                    then K ''call'' [formatter, dot item' ''value'', dot item' ''name'', item', index', dot item' ''payload'']
                    else el (comp ''Fragment'') []
                    [(if truthy (dot itemConfig ''icon'')
                        then el (dot itemConfig ''icon'') []
                        []
                        else jand (VBool (\<not> (truthy hideIndicator)))
                        (el (tag ''div'') [At ''className'' (cn K [lit ''shrink-0 rounded-[2px] border-(--color-border) bg-(--color-bg)'',
                                obj [At ''h-2.5 w-2.5'' (VBool ((indicator = lit ''dot''))),
                                  At ''w-1'' (VBool ((indicator = lit ''line''))),
                                  At ''w-0 border-[1.5px] border-dashed bg-transparent'' (VBool ((indicator = lit ''dashed''))),
                                  At ''my-0.5'' (jand nestLabel
                                    (VBool ((indicator = lit ''dashed''))))]]),
                            At ''style'' (obj [At ''--color-bg'' indicatorColor,
                                At ''--color-border'' indicatorColor])]
                          [])),
                      el (tag ''div'') [At ''className'' (cn K [lit ''flex flex-1 justify-between leading-none'',
                            (if truthy nestLabel
                              then lit ''items-end''
                              else lit ''items-center'')])]
                      [el (tag ''div'') [At ''className'' (lit ''grid gap-1.5'')]
                        [(if truthy nestLabel
                            then tooltipLabel
                            else VNull),
                          el (tag ''span'') [At ''className'' (lit ''text-muted-foreground'')]
                          [jcoal (dot itemConfig ''label'') (dot item' ''name'')]],
                        jand (VBool (\<not> (nullish (dot item' ''value''))))
                        (el (tag ''span'') [At ''className'' (lit ''font-mono font-medium text-foreground tabular-nums'')]
                          [(if (typeof (dot item' ''value'') = ''number'')
                              then K ''toLocaleString'' [dot item' ''value'']
                              else VStr (to_str K (dot item' ''value'')))])]])]) (jfilter (\<lambda>item'. \<not> (dot item' ''type'' = lit ''none'')) payload)]]))))\<close>

definition ChartLegend :: val where
\<open>ChartLegend =
  comp ''RechartsPrimitive.Legend''\<close>

definition ChartLegendContent :: "lib \<Rightarrow> val \<Rightarrow> props \<Rightarrow> jstr + val" where
\<open>ChartLegendContent K c p =
  (case useChart c of Inl e \<Rightarrow> Inl e | Inr x' \<Rightarrow>
    (let className = attr ''className'' p in
      let hideIcon = dflt (VBool False) (attr ''hideIcon'' p) in
      let payload = attr ''payload'' p in
      let verticalAlign = dflt (lit ''bottom'') (attr ''verticalAlign'' p) in
      let nameKey = attr ''nameKey'' p in
      let config = dot x' ''config'' in
      (if \<not> (truthy (dot payload ''length''))
        then Inr (VNull)
        else Inr (el (tag ''div'') [At ''className'' (cn K [lit ''flex items-center justify-center gap-4'',
                (if (verticalAlign = lit ''top'')
                  then lit ''pb-3''
                  else lit ''pt-3''),
                className])]
          [jmap (\<lambda>item' index'. let key' = tpl K [jcoal (jcoal nameKey (dot item' ''dataKey'')) (lit ''value'')] in
              let itemConfig = getPayloadConfigFromPayload config item' key' in
              elk (tag ''div'') index' [At ''className'' (cn K [lit ''flex items-center gap-1.5 [&>svg]:h-3 [&>svg]:w-3 [&>svg]:text-muted-foreground''])]
              [(if (truthy (dot itemConfig ''icon'') \<and> \<not> (truthy hideIcon))
                  then el (dot itemConfig ''icon'') []
                  []
                  else el (tag ''div'') [At ''className'' (lit ''h-2 w-2 shrink-0 rounded-[2px]''),
                    At ''style'' (obj [At ''backgroundColor'' (dot item' ''color'')])]
                  []),
                dot itemConfig ''label'']) (jfilter (\<lambda>item'. \<not> (dot item' ''type'' = lit ''none'')) payload)]))))\<close>

section \<open>The contract\<close>

text \<open>The rows: slot, the properties read, whether the caller's classes are merged, the component.\<close>

definition kit_chart :: "lib \<Rightarrow> kit_row list" where
\<open>kit_chart K = [
  (''chart'', [''id'', ''className'', ''children'', ''config'', ''initialDimension''], True, ChartContainer K)]\<close>

lemma ChartContainer_ok [kit_rows]: "kit_ok K (''chart'', [''id'', ''className'', ''children'', ''config'', ''initialDimension''], True, ChartContainer K)"
  by (simp add: kit_simps ChartContainer_def)

lemma kit_chart_ok: "list_all (kit_ok K) (kit_chart K)"
  by (simp add: kit_chart_def kit_rows)

end
