(* ===== verification/UiOverlays.thy ===== *)
theory UiOverlays
  imports UiControls
begin

text \<open>
  The component kit, the dialogs, drawers and popups: one definition per component of the files named by the sections,
  from its props to the element it renders.
\<close>

section \<open>ui/alert-dialog.tsx\<close>

definition AlertDialog :: "lib \<Rightarrow> props \<Rightarrow> val" where
\<open>AlertDialog K p =
  (let props = rest [] p in
    el (comp ''AlertDialogPrimitive.Root'') [At ''data-slot'' (lit ''alert-dialog''),
      Sp props]
    [])\<close>

definition AlertDialogTrigger :: "lib \<Rightarrow> props \<Rightarrow> val" where
\<open>AlertDialogTrigger K p =
  (let props = rest [] p in
    el (comp ''AlertDialogPrimitive.Trigger'') [At ''data-slot'' (lit ''alert-dialog-trigger''),
      Sp props]
    [])\<close>

definition AlertDialogPortal :: "lib \<Rightarrow> props \<Rightarrow> val" where
\<open>AlertDialogPortal K p =
  (let props = rest [] p in
    el (comp ''AlertDialogPrimitive.Portal'') [At ''data-slot'' (lit ''alert-dialog-portal''),
      Sp props]
    [])\<close>

definition AlertDialogOverlay :: "lib \<Rightarrow> props \<Rightarrow> val" where
\<open>AlertDialogOverlay K p =
  (let className = attr ''className'' p in
    let props = rest [''className''] p in
    el (comp ''AlertDialogPrimitive.Backdrop'') [At ''data-slot'' (lit ''alert-dialog-overlay''),
      At ''className'' (cn K [lit ''fixed inset-0 isolate z-50 bg-black/10 duration-100 supports-backdrop-filter:backdrop-blur-xs data-open:animate-in data-open:fade-in-0 data-closed:animate-out data-closed:fade-out-0'',
          className]),
      Sp props]
    [])\<close>

definition AlertDialogContent :: "lib \<Rightarrow> props \<Rightarrow> val" where
\<open>AlertDialogContent K p =
  (let className = attr ''className'' p in
    let size' = dflt (lit ''default'') (attr ''size'' p) in
    let props = rest [''className'', ''size''] p in
    el (comp ''AlertDialogPortal'') []
    [el (comp ''AlertDialogOverlay'') []
      [],
      el (comp ''AlertDialogPrimitive.Popup'') [At ''data-slot'' (lit ''alert-dialog-content''),
        At ''data-size'' size',
        At ''className'' (cn K [lit ''group/alert-dialog-content fixed top-1/2 left-1/2 z-50 grid w-full -translate-x-1/2 -translate-y-1/2 gap-4 rounded-none bg-popover p-4 text-popover-foreground ring-1 ring-foreground/10 duration-100 outline-none data-[size=default]:max-w-xs data-[size=sm]:max-w-xs data-[size=default]:sm:max-w-sm data-open:animate-in data-open:fade-in-0 data-open:zoom-in-95 data-closed:animate-out data-closed:fade-out-0 data-closed:zoom-out-95'',
            className]),
        Sp props]
      []])\<close>

definition AlertDialogHeader :: "lib \<Rightarrow> props \<Rightarrow> val" where
\<open>AlertDialogHeader K p =
  (let className = attr ''className'' p in
    let props = rest [''className''] p in
    el (tag ''div'') [At ''data-slot'' (lit ''alert-dialog-header''),
      At ''className'' (cn K [lit ''grid grid-rows-[auto_1fr] place-items-center gap-1.5 text-center has-data-[slot=alert-dialog-media]:grid-rows-[auto_auto_1fr] has-data-[slot=alert-dialog-media]:gap-x-4 sm:group-data-[size=default]/alert-dialog-content:place-items-start sm:group-data-[size=default]/alert-dialog-content:text-left sm:group-data-[size=default]/alert-dialog-content:has-data-[slot=alert-dialog-media]:grid-rows-[auto_1fr]'',
          className]),
      Sp props]
    [])\<close>

definition AlertDialogFooter :: "lib \<Rightarrow> props \<Rightarrow> val" where
\<open>AlertDialogFooter K p =
  (let className = attr ''className'' p in
    let props = rest [''className''] p in
    el (tag ''div'') [At ''data-slot'' (lit ''alert-dialog-footer''),
      At ''className'' (cn K [lit ''flex flex-col-reverse gap-2 group-data-[size=sm]/alert-dialog-content:grid group-data-[size=sm]/alert-dialog-content:grid-cols-2 sm:flex-row sm:justify-end'',
          className]),
      Sp props]
    [])\<close>

definition AlertDialogMedia :: "lib \<Rightarrow> props \<Rightarrow> val" where
\<open>AlertDialogMedia K p =
  (let className = attr ''className'' p in
    let props = rest [''className''] p in
    el (tag ''div'') [At ''data-slot'' (lit ''alert-dialog-media''),
      At ''className'' (cn K [lit ''mb-2 inline-flex size-10 items-center justify-center rounded-none bg-muted sm:group-data-[size=default]/alert-dialog-content:row-span-2 *:[svg:not([class*='size-'])]:size-6'',
          className]),
      Sp props]
    [])\<close>

definition AlertDialogTitle :: "lib \<Rightarrow> props \<Rightarrow> val" where
\<open>AlertDialogTitle K p =
  (let className = attr ''className'' p in
    let props = rest [''className''] p in
    el (comp ''AlertDialogPrimitive.Title'') [At ''data-slot'' (lit ''alert-dialog-title''),
      At ''className'' (cn K [lit ''text-sm font-medium sm:group-data-[size=default]/alert-dialog-content:group-has-data-[slot=alert-dialog-media]/alert-dialog-content:col-start-2'',
          className]),
      Sp props]
    [])\<close>

definition AlertDialogDescription :: "lib \<Rightarrow> props \<Rightarrow> val" where
\<open>AlertDialogDescription K p =
  (let className = attr ''className'' p in
    let props = rest [''className''] p in
    el (comp ''AlertDialogPrimitive.Description'') [At ''data-slot'' (lit ''alert-dialog-description''),
      At ''className'' (cn K [lit ''text-xs/relaxed text-balance text-muted-foreground md:text-pretty *:[a]:underline *:[a]:underline-offset-3 *:[a]:hover:text-foreground'',
          className]),
      Sp props]
    [])\<close>

definition AlertDialogAction :: "lib \<Rightarrow> props \<Rightarrow> val" where
\<open>AlertDialogAction K p =
  (let className = attr ''className'' p in
    let props = rest [''className''] p in
    el (comp ''Button'') [At ''data-slot'' (lit ''alert-dialog-action''),
      At ''className'' (cn K [className]),
      Sp props]
    [])\<close>

definition AlertDialogCancel :: "lib \<Rightarrow> props \<Rightarrow> val" where
\<open>AlertDialogCancel K p =
  (let className = attr ''className'' p in
    let variant = dflt (lit ''outline'') (attr ''variant'' p) in
    let size' = dflt (lit ''default'') (attr ''size'' p) in
    let props = rest [''className'', ''variant'', ''size''] p in
    el (comp ''AlertDialogPrimitive.Close'') [At ''data-slot'' (lit ''alert-dialog-cancel''),
      At ''className'' (cn K [className]),
      At ''render'' (el (comp ''Button'') [At ''variant'' variant,
          At ''size'' size']
        []),
      Sp props]
    [])\<close>

section \<open>ui/dialog.tsx\<close>

definition Dialog :: "lib \<Rightarrow> props \<Rightarrow> val" where
\<open>Dialog K p =
  (let props = rest [] p in
    el (comp ''DialogPrimitive.Root'') [At ''data-slot'' (lit ''dialog''),
      Sp props]
    [])\<close>

definition DialogTrigger :: "lib \<Rightarrow> props \<Rightarrow> val" where
\<open>DialogTrigger K p =
  (let props = rest [] p in
    el (comp ''DialogPrimitive.Trigger'') [At ''data-slot'' (lit ''dialog-trigger''),
      Sp props]
    [])\<close>

definition DialogPortal :: "lib \<Rightarrow> props \<Rightarrow> val" where
\<open>DialogPortal K p =
  (let props = rest [] p in
    el (comp ''DialogPrimitive.Portal'') [At ''data-slot'' (lit ''dialog-portal''),
      Sp props]
    [])\<close>

definition DialogClose :: "lib \<Rightarrow> props \<Rightarrow> val" where
\<open>DialogClose K p =
  (let props = rest [] p in
    el (comp ''DialogPrimitive.Close'') [At ''data-slot'' (lit ''dialog-close''),
      Sp props]
    [])\<close>

definition DialogOverlay :: "lib \<Rightarrow> props \<Rightarrow> val" where
\<open>DialogOverlay K p =
  (let className = attr ''className'' p in
    let props = rest [''className''] p in
    el (comp ''DialogPrimitive.Backdrop'') [At ''data-slot'' (lit ''dialog-overlay''),
      At ''className'' (cn K [lit ''fixed inset-0 isolate z-50 bg-black/10 duration-100 supports-backdrop-filter:backdrop-blur-xs data-open:animate-in data-open:fade-in-0 data-closed:animate-out data-closed:fade-out-0'',
          className]),
      Sp props]
    [])\<close>

definition DialogContent :: "lib \<Rightarrow> props \<Rightarrow> val" where
\<open>DialogContent K p =
  (let className = attr ''className'' p in
    let children = attr ''children'' p in
    let showCloseButton = dflt (VBool True) (attr ''showCloseButton'' p) in
    let props = rest [''className'', ''children'', ''showCloseButton''] p in
    el (comp ''DialogPortal'') []
    [el (comp ''DialogOverlay'') []
      [],
      el (comp ''DialogPrimitive.Popup'') [At ''data-slot'' (lit ''dialog-content''),
        At ''className'' (cn K [lit ''fixed top-1/2 left-1/2 z-50 grid w-full max-w-[calc(100%-2rem)] -translate-x-1/2 -translate-y-1/2 gap-4 rounded-none bg-popover p-4 text-xs/relaxed text-popover-foreground ring-1 ring-foreground/10 duration-100 outline-none sm:max-w-sm data-open:animate-in data-open:fade-in-0 data-open:zoom-in-95 data-closed:animate-out data-closed:fade-out-0 data-closed:zoom-out-95'',
            className]),
        Sp props]
      [children,
        jand showCloseButton
        (el (comp ''DialogPrimitive.Close'') [At ''data-slot'' (lit ''dialog-close''),
            At ''render'' (el (comp ''Button'') [At ''variant'' (lit ''ghost''),
                At ''className'' (lit ''absolute top-2 right-2''),
                At ''size'' (lit ''icon-sm'')]
              [])]
          [el (comp ''XIcon'') []
            [],
            el (tag ''span'') [At ''className'' (lit ''sr-only'')]
            [lit ''Close'']])]])\<close>

definition DialogHeader :: "lib \<Rightarrow> props \<Rightarrow> val" where
\<open>DialogHeader K p =
  (let className = attr ''className'' p in
    let props = rest [''className''] p in
    el (tag ''div'') [At ''data-slot'' (lit ''dialog-header''),
      At ''className'' (cn K [lit ''flex flex-col gap-1 text-left'',
          className]),
      Sp props]
    [])\<close>

definition DialogFooter :: "lib \<Rightarrow> props \<Rightarrow> val" where
\<open>DialogFooter K p =
  (let className = attr ''className'' p in
    let showCloseButton = dflt (VBool False) (attr ''showCloseButton'' p) in
    let children = attr ''children'' p in
    let props = rest [''className'', ''showCloseButton'', ''children''] p in
    el (tag ''div'') [At ''data-slot'' (lit ''dialog-footer''),
      At ''className'' (cn K [lit ''flex flex-col-reverse gap-2 sm:flex-row sm:justify-end'',
          className]),
      Sp props]
    [children,
      jand showCloseButton
      (el (comp ''DialogPrimitive.Close'') [At ''render'' (el (comp ''Button'') [At ''variant'' (lit ''outline'')]
            [])]
        [lit ''Close''])])\<close>

definition DialogTitle :: "lib \<Rightarrow> props \<Rightarrow> val" where
\<open>DialogTitle K p =
  (let className = attr ''className'' p in
    let props = rest [''className''] p in
    el (comp ''DialogPrimitive.Title'') [At ''data-slot'' (lit ''dialog-title''),
      At ''className'' (cn K [lit ''text-sm font-medium'',
          className]),
      Sp props]
    [])\<close>

definition DialogDescription :: "lib \<Rightarrow> props \<Rightarrow> val" where
\<open>DialogDescription K p =
  (let className = attr ''className'' p in
    let props = rest [''className''] p in
    el (comp ''DialogPrimitive.Description'') [At ''data-slot'' (lit ''dialog-description''),
      At ''className'' (cn K [lit ''text-xs/relaxed text-muted-foreground *:[a]:underline *:[a]:underline-offset-3 *:[a]:hover:text-foreground'',
          className]),
      Sp props]
    [])\<close>

section \<open>ui/drawer.tsx\<close>

text \<open>The hook: the context's value, or the error a use outside the provider throws.\<close>

definition useDrawer :: "val \<Rightarrow> jstr + val" where
\<open>useDrawer c = (if truthy c then Inr c else Inl (js ''useDrawer must be used within a Drawer.''))\<close>

definition Drawer :: "lib \<Rightarrow> props \<Rightarrow> val" where
\<open>Drawer K p =
  (let modal = dflt (VBool True) (attr ''modal'' p) in
    let showSwipeHandle = dflt (VBool False) (attr ''showSwipeHandle'' p) in
    let snapPoints = attr ''snapPoints'' p in
    let swipeDirection = dflt (lit ''down'') (attr ''swipeDirection'' p) in
    let props = rest [''modal'', ''showSwipeHandle'', ''snapPoints'', ''swipeDirection''] p in
    let hasSnapPoints = jand (VBool (\<not> (nullish snapPoints)))
    (VBool (jless (VNum 0) (dot snapPoints ''length''))) in
    let contextValue = obj [At ''hasSnapPoints'' hasSnapPoints,
      At ''modal'' modal,
      At ''showSwipeHandle'' showSwipeHandle,
      At ''swipeDirection'' swipeDirection] in
    el (comp ''DrawerContext.Provider'') [At ''value'' contextValue]
    [el (comp ''DrawerPrimitive.Root'') [At ''data-slot'' (lit ''drawer''),
        At ''modal'' modal,
        At ''snapPoints'' snapPoints,
        At ''swipeDirection'' swipeDirection,
        Sp props]
      []])\<close>

definition DrawerTrigger :: "lib \<Rightarrow> props \<Rightarrow> val" where
\<open>DrawerTrigger K p =
  (let props = rest [] p in
    el (comp ''DrawerPrimitive.Trigger'') [At ''data-slot'' (lit ''drawer-trigger''),
      Sp props]
    [])\<close>

definition DrawerPortal :: "lib \<Rightarrow> props \<Rightarrow> val" where
\<open>DrawerPortal K p =
  (let props = rest [] p in
    el (comp ''DrawerPrimitive.Portal'') [At ''data-slot'' (lit ''drawer-portal''),
      Sp props]
    [])\<close>

definition DrawerClose :: "lib \<Rightarrow> props \<Rightarrow> val" where
\<open>DrawerClose K p =
  (let props = rest [] p in
    el (comp ''DrawerPrimitive.Close'') [At ''data-slot'' (lit ''drawer-close''),
      Sp props]
    [])\<close>

definition DrawerOverlay :: "lib \<Rightarrow> props \<Rightarrow> val" where
\<open>DrawerOverlay K p =
  (let className = attr ''className'' p in
    let props = rest [''className''] p in
    el (comp ''DrawerPrimitive.Backdrop'') [At ''data-slot'' (lit ''drawer-overlay''),
      At ''className'' (cn K [lit ''fixed inset-0 z-50 min-h-dvh bg-black/10 opacity-[max(var(--drawer-overlay-min-opacity,0),calc(1-var(--drawer-swipe-progress)))] transition-opacity duration-450 ease-[cubic-bezier(0.32,0.72,0,1)] select-none data-ending-style:pointer-events-none data-ending-style:opacity-0 data-ending-style:duration-[calc(var(--drawer-swipe-strength)*400ms)] data-snap-points:[--drawer-overlay-min-opacity:0.5] data-starting-style:opacity-0 data-swiping:duration-0 supports-backdrop-filter:backdrop-blur-xs supports-[-webkit-touch-callout:none]:absolute'',
          className]),
      Sp props]
    [])\<close>

definition DrawerSwipeHandle :: "lib \<Rightarrow> props \<Rightarrow> val" where
\<open>DrawerSwipeHandle K p =
  (let className = attr ''className'' p in
    let props = rest [''className''] p in
    el (tag ''div'') [At ''data-slot'' (lit ''drawer-swipe-handle''),
      At ''aria-hidden'' (lit ''true''),
      At ''className'' (cn K [lit ''relative z-10 flex shrink-0 cursor-grab transition-opacity duration-200 group-data-nested-drawer-open/drawer-popup:opacity-0 group-data-nested-drawer-swiping/drawer-popup:opacity-100 group-data-[swipe-axis=x]/drawer-popup:h-full group-data-[swipe-axis=x]/drawer-popup:w-3 group-data-[swipe-axis=x]/drawer-popup:items-center group-data-[swipe-axis=y]/drawer-popup:h-3 group-data-[swipe-axis=y]/drawer-popup:w-full group-data-[swipe-axis=y]/drawer-popup:justify-center group-data-[swipe-direction=down]/drawer-popup:items-end group-data-[swipe-direction=left]/drawer-popup:order-last group-data-[swipe-direction=left]/drawer-popup:justify-start group-data-[swipe-direction=right]/drawer-popup:justify-end group-data-[swipe-direction=up]/drawer-popup:order-last group-data-[swipe-direction=up]/drawer-popup:items-start after:block after:shrink-0 after:rounded-none after:bg-muted group-data-[swipe-axis=x]/drawer-popup:after:h-12 group-data-[swipe-axis=x]/drawer-popup:after:w-1 group-data-[swipe-axis=y]/drawer-popup:after:h-1 group-data-[swipe-axis=y]/drawer-popup:after:w-12 active:cursor-grabbing'',
          className]),
      Sp props]
    [])\<close>

definition DrawerContent :: "lib \<Rightarrow> val \<Rightarrow> props \<Rightarrow> jstr + val" where
\<open>DrawerContent K c p =
  (case useDrawer c of Inl e \<Rightarrow> Inl e | Inr x' \<Rightarrow>
    (let className = attr ''className'' p in
      let children = attr ''children'' p in
      let props = rest [''className'', ''children''] p in
      let hasSnapPoints = dot x' ''hasSnapPoints'' in
      let modal = dot x' ''modal'' in
      let showSwipeHandle = dot x' ''showSwipeHandle'' in
      let swipeDirection = dot x' ''swipeDirection'' in
      let swipeAxis = (if ((swipeDirection = lit ''down'') \<or> (swipeDirection = lit ''up''))
        then lit ''y''
        else lit ''x'') in
      Inr (el (comp ''DrawerPortal'') [At ''data-slot'' (lit ''drawer-portal'')]
        [jand (VBool ((modal = VBool True)))
          (el (comp ''DrawerOverlay'') [At ''data-snap-points'' ((if truthy hasSnapPoints
                  then lit ''''
                  else VUndef))]
            []),
          el (comp ''DrawerPrimitive.Viewport'') [At ''data-slot'' (lit ''drawer-viewport''),
            At ''data-modal'' modal,
            At ''className'' (lit ''pointer-events-none fixed inset-0 z-50 select-none data-[modal=true]:pointer-events-auto'')]
          [el (comp ''DrawerPrimitive.Popup'') [At ''data-slot'' (lit ''drawer-popup''),
              At ''data-swipe-axis'' swipeAxis,
              At ''data-snap-points'' ((if truthy hasSnapPoints
                  then lit ''''
                  else VUndef)),
              At ''className'' (cn K [lit ''group/drawer-popup pointer-events-auto fixed z-50 m-(--drawer-inset,0px) flex h-(--drawer-content-height) max-h-(--drawer-content-max-height,none) min-h-0 w-(--drawer-content-width,auto) transform-[translate3d(var(--translate-x,0px),var(--translate-y,0px),0)_scale(var(--stack-scale))] flex-col bg-popover text-xs/relaxed text-popover-foreground transition-[transform,height,opacity,filter] duration-450 ease-[cubic-bezier(0.22,1,0.36,1)] will-change-transform outline-none select-none [interpolate-size:allow-keywords] data-[swipe-direction=down]:rounded-none data-[swipe-direction=down]:border-t data-[swipe-direction=left]:rounded-none data-[swipe-direction=left]:border-r data-[swipe-direction=right]:rounded-none data-[swipe-direction=right]:border-l data-[swipe-direction=up]:rounded-none data-[swipe-direction=up]:border-b'',
                  lit ''data-nested-drawer-open:overflow-hidden data-nested-drawer-open:brightness-95'',
                  lit ''after:pointer-events-none after:absolute after:bg-(--drawer-bleed-background,var(--color-popover)) data-[swipe-axis=x]:after:inset-y-0 data-[swipe-axis=x]:after:w-(--bleed) data-[swipe-axis=y]:after:inset-x-0 data-[swipe-axis=y]:after:h-(--bleed) data-[swipe-direction=down]:after:top-full data-[swipe-direction=left]:after:right-full data-[swipe-direction=right]:after:left-full data-[swipe-direction=up]:after:bottom-full'',
                  lit ''[--drawer-content-height:var(--drawer-height,auto)] data-[swipe-axis=x]:[--drawer-content-width:75%] data-[swipe-axis=y]:[--drawer-content-max-height:calc(100dvh-6rem)] data-[swipe-axis=y]:data-snap-points:[--drawer-content-height:100dvh] data-[swipe-axis=x]:sm:[--drawer-content-width:24rem]'',
                  lit ''[--bleed:3rem] [--peek:1rem] [--stack-height:var(--drawer-frontmost-height,var(--drawer-height,0px))] [--stack-peek-offset:max(0px,calc((var(--nested-drawers)-var(--stack-progress))*var(--peek)))] [--stack-progress:clamp(0,var(--drawer-swipe-progress),1)] [--stack-scale-base:max(0,calc(1-(var(--nested-drawers)*var(--stack-step))))] [--stack-scale:clamp(0,calc(var(--stack-scale-base)+(var(--stack-step)*var(--stack-progress))),1)] [--stack-shrink:calc(1-var(--stack-scale))] [--stack-step:0.05]'',
                  lit ''data-ending-style:transform-(--closed-transform) data-ending-style:opacity-[0.9999] data-ending-style:duration-[calc(var(--drawer-swipe-strength)*400ms)] data-nested-drawer-swiping:duration-0 data-ending-style:data-nested-drawer-swiping:duration-[calc(var(--drawer-swipe-strength)*400ms)] data-starting-style:transform-(--closed-transform) data-swiping:duration-0 data-ending-style:data-swiping:duration-[calc(var(--drawer-swipe-strength)*400ms)]'',
                  lit ''data-[swipe-axis=y]:inset-x-0 data-[swipe-axis=y]:data-nested-drawer-open:h-(--stack-height)'',
                  lit ''data-[swipe-axis=x]:inset-y-0 data-[swipe-axis=x]:flex-row'',
                  lit ''data-[swipe-direction=down]:bottom-0 data-[swipe-direction=down]:origin-bottom data-[swipe-direction=down]:[--closed-transform:translate3d(0,calc(100%+var(--drawer-inset,0px)+2px),0)] data-[swipe-direction=down]:[--translate-y:calc(var(--drawer-snap-point-offset,0px)+var(--drawer-swipe-movement-y)-var(--stack-peek-offset)-(var(--stack-shrink)*var(--stack-height)))]'',
                  lit ''data-[swipe-direction=up]:top-0 data-[swipe-direction=up]:origin-top data-[swipe-direction=up]:[--closed-transform:translate3d(0,calc(-100%-var(--drawer-inset,0px)-2px),0)] data-[swipe-direction=up]:[--translate-y:calc(var(--drawer-snap-point-offset,0px)+var(--drawer-swipe-movement-y)+var(--stack-peek-offset)+(var(--stack-shrink)*var(--stack-height)))]'',
                  lit ''data-[swipe-direction=left]:left-0 data-[swipe-direction=left]:origin-left data-[swipe-direction=left]:[--closed-transform:translate3d(calc(-100%-var(--drawer-inset,0px)-2px),0,0)] data-[swipe-direction=left]:[--translate-x:calc(var(--drawer-swipe-movement-x)+var(--stack-peek-offset)+(var(--stack-shrink)*100%))]'',
                  lit ''data-[swipe-direction=right]:right-0 data-[swipe-direction=right]:origin-right data-[swipe-direction=right]:[--closed-transform:translate3d(calc(100%+var(--drawer-inset,0px)+2px),0,0)] data-[swipe-direction=right]:[--translate-x:calc(var(--drawer-swipe-movement-x)-var(--stack-peek-offset)-(var(--stack-shrink)*100%))]'',
                  className]),
              Sp props]
            [jand showSwipeHandle
              (el (comp ''DrawerSwipeHandle'') []
                []),
              el (comp ''DrawerPrimitive.Content'') [At ''data-slot'' (lit ''drawer-content''),
                At ''className'' (cn K [lit ''flex min-h-0 flex-1 flex-col overflow-hidden overscroll-contain rounded-[inherit] transition-opacity duration-300 ease-[cubic-bezier(0.45,1.005,0,1.005)] select-text group-data-nested-drawer-open/drawer-popup:opacity-0 group-data-nested-drawer-swiping/drawer-popup:opacity-100 group-data-swiping/drawer-popup:select-none''])]
              [children]]]])))\<close>

definition DrawerHeader :: "lib \<Rightarrow> props \<Rightarrow> val" where
\<open>DrawerHeader K p =
  (let className = attr ''className'' p in
    let props = rest [''className''] p in
    el (tag ''div'') [At ''data-slot'' (lit ''drawer-header''),
      At ''className'' (cn K [lit ''flex shrink-0 flex-col gap-0.5 p-4 pb-0 group-data-[swipe-axis=y]/drawer-popup:text-center md:gap-0.5 md:text-left'',
          className]),
      Sp props]
    [])\<close>

definition DrawerFooter :: "lib \<Rightarrow> props \<Rightarrow> val" where
\<open>DrawerFooter K p =
  (let className = attr ''className'' p in
    let props = rest [''className''] p in
    el (tag ''div'') [At ''data-slot'' (lit ''drawer-footer''),
      At ''className'' (cn K [lit ''mt-auto flex shrink-0 flex-col gap-2 p-4 pt-0'',
          className]),
      Sp props]
    [])\<close>

definition DrawerTitle :: "lib \<Rightarrow> props \<Rightarrow> val" where
\<open>DrawerTitle K p =
  (let className = attr ''className'' p in
    let props = rest [''className''] p in
    el (comp ''DrawerPrimitive.Title'') [At ''data-slot'' (lit ''drawer-title''),
      At ''className'' (cn K [lit ''text-sm font-medium text-foreground'',
          className]),
      Sp props]
    [])\<close>

definition DrawerDescription :: "lib \<Rightarrow> props \<Rightarrow> val" where
\<open>DrawerDescription K p =
  (let className = attr ''className'' p in
    let props = rest [''className''] p in
    el (comp ''DrawerPrimitive.Description'') [At ''data-slot'' (lit ''drawer-description''),
      At ''className'' (cn K [lit ''text-xs/relaxed text-balance text-muted-foreground'',
          className]),
      Sp props]
    [])\<close>

section \<open>ui/sheet.tsx\<close>

definition Sheet :: "lib \<Rightarrow> props \<Rightarrow> val" where
\<open>Sheet K p =
  (let props = rest [] p in
    el (comp ''SheetPrimitive.Root'') [At ''data-slot'' (lit ''sheet''),
      Sp props]
    [])\<close>

definition SheetTrigger :: "lib \<Rightarrow> props \<Rightarrow> val" where
\<open>SheetTrigger K p =
  (let props = rest [] p in
    el (comp ''SheetPrimitive.Trigger'') [At ''data-slot'' (lit ''sheet-trigger''),
      Sp props]
    [])\<close>

definition SheetClose :: "lib \<Rightarrow> props \<Rightarrow> val" where
\<open>SheetClose K p =
  (let props = rest [] p in
    el (comp ''SheetPrimitive.Close'') [At ''data-slot'' (lit ''sheet-close''),
      Sp props]
    [])\<close>

definition SheetPortal :: "lib \<Rightarrow> props \<Rightarrow> val" where
\<open>SheetPortal K p =
  (let props = rest [] p in
    el (comp ''SheetPrimitive.Portal'') [At ''data-slot'' (lit ''sheet-portal''),
      Sp props]
    [])\<close>

definition SheetOverlay :: "lib \<Rightarrow> props \<Rightarrow> val" where
\<open>SheetOverlay K p =
  (let className = attr ''className'' p in
    let props = rest [''className''] p in
    el (comp ''SheetPrimitive.Backdrop'') [At ''data-slot'' (lit ''sheet-overlay''),
      At ''className'' (cn K [lit ''fixed inset-0 z-50 bg-black/10 text-xs/relaxed transition-opacity duration-150 data-ending-style:opacity-0 data-starting-style:opacity-0 supports-backdrop-filter:backdrop-blur-xs'',
          className]),
      Sp props]
    [])\<close>

definition SheetContent :: "lib \<Rightarrow> props \<Rightarrow> val" where
\<open>SheetContent K p =
  (let className = attr ''className'' p in
    let children = attr ''children'' p in
    let side = dflt (lit ''right'') (attr ''side'' p) in
    let showCloseButton = dflt (VBool True) (attr ''showCloseButton'' p) in
    let props = rest [''className'', ''children'', ''side'', ''showCloseButton''] p in
    el (comp ''SheetPortal'') []
    [el (comp ''SheetOverlay'') []
      [],
      el (comp ''SheetPrimitive.Popup'') [At ''data-slot'' (lit ''sheet-content''),
        At ''data-side'' side,
        At ''className'' (cn K [lit ''fixed z-50 flex flex-col bg-popover bg-clip-padding text-xs/relaxed text-popover-foreground shadow-lg transition duration-200 ease-in-out data-ending-style:opacity-0 data-starting-style:opacity-0 data-[side=bottom]:inset-x-0 data-[side=bottom]:bottom-0 data-[side=bottom]:h-auto data-[side=bottom]:border-t data-[side=bottom]:data-ending-style:translate-y-[2.5rem] data-[side=bottom]:data-starting-style:translate-y-[2.5rem] data-[side=left]:inset-y-0 data-[side=left]:left-0 data-[side=left]:h-full data-[side=left]:w-3/4 data-[side=left]:border-r data-[side=left]:data-ending-style:translate-x-[-2.5rem] data-[side=left]:data-starting-style:translate-x-[-2.5rem] data-[side=right]:inset-y-0 data-[side=right]:right-0 data-[side=right]:h-full data-[side=right]:w-3/4 data-[side=right]:border-l data-[side=right]:data-ending-style:translate-x-[2.5rem] data-[side=right]:data-starting-style:translate-x-[2.5rem] data-[side=top]:inset-x-0 data-[side=top]:top-0 data-[side=top]:h-auto data-[side=top]:border-b data-[side=top]:data-ending-style:translate-y-[-2.5rem] data-[side=top]:data-starting-style:translate-y-[-2.5rem] data-[side=left]:sm:max-w-sm data-[side=right]:sm:max-w-sm'',
            className]),
        Sp props]
      [children,
        jand showCloseButton
        (el (comp ''SheetPrimitive.Close'') [At ''data-slot'' (lit ''sheet-close''),
            At ''render'' (el (comp ''Button'') [At ''variant'' (lit ''ghost''),
                At ''className'' (lit ''absolute top-3 right-3''),
                At ''size'' (lit ''icon-sm'')]
              [])]
          [el (comp ''XIcon'') []
            [],
            el (tag ''span'') [At ''className'' (lit ''sr-only'')]
            [lit ''Close'']])]])\<close>

definition SheetHeader :: "lib \<Rightarrow> props \<Rightarrow> val" where
\<open>SheetHeader K p =
  (let className = attr ''className'' p in
    let props = rest [''className''] p in
    el (tag ''div'') [At ''data-slot'' (lit ''sheet-header''),
      At ''className'' (cn K [lit ''flex flex-col gap-0.5 p-4'',
          className]),
      Sp props]
    [])\<close>

definition SheetFooter :: "lib \<Rightarrow> props \<Rightarrow> val" where
\<open>SheetFooter K p =
  (let className = attr ''className'' p in
    let props = rest [''className''] p in
    el (tag ''div'') [At ''data-slot'' (lit ''sheet-footer''),
      At ''className'' (cn K [lit ''mt-auto flex flex-col gap-2 p-4'',
          className]),
      Sp props]
    [])\<close>

definition SheetTitle :: "lib \<Rightarrow> props \<Rightarrow> val" where
\<open>SheetTitle K p =
  (let className = attr ''className'' p in
    let props = rest [''className''] p in
    el (comp ''SheetPrimitive.Title'') [At ''data-slot'' (lit ''sheet-title''),
      At ''className'' (cn K [lit ''text-sm font-medium text-foreground'',
          className]),
      Sp props]
    [])\<close>

definition SheetDescription :: "lib \<Rightarrow> props \<Rightarrow> val" where
\<open>SheetDescription K p =
  (let className = attr ''className'' p in
    let props = rest [''className''] p in
    el (comp ''SheetPrimitive.Description'') [At ''data-slot'' (lit ''sheet-description''),
      At ''className'' (cn K [lit ''text-xs/relaxed text-muted-foreground'',
          className]),
      Sp props]
    [])\<close>

section \<open>ui/popover.tsx\<close>

definition Popover :: "lib \<Rightarrow> props \<Rightarrow> val" where
\<open>Popover K p =
  (let props = rest [] p in
    el (comp ''PopoverPrimitive.Root'') [At ''data-slot'' (lit ''popover''),
      Sp props]
    [])\<close>

definition PopoverTrigger :: "lib \<Rightarrow> props \<Rightarrow> val" where
\<open>PopoverTrigger K p =
  (let props = rest [] p in
    el (comp ''PopoverPrimitive.Trigger'') [At ''data-slot'' (lit ''popover-trigger''),
      Sp props]
    [])\<close>

definition PopoverContent :: "lib \<Rightarrow> props \<Rightarrow> val" where
\<open>PopoverContent K p =
  (let className = attr ''className'' p in
    let align = dflt (lit ''center'') (attr ''align'' p) in
    let alignOffset = dflt (VNum 0) (attr ''alignOffset'' p) in
    let side = dflt (lit ''bottom'') (attr ''side'' p) in
    let sideOffset = dflt (VNum 4) (attr ''sideOffset'' p) in
    let props = rest [''className'', ''align'', ''alignOffset'', ''side'', ''sideOffset''] p in
    el (comp ''PopoverPrimitive.Portal'') []
    [el (comp ''PopoverPrimitive.Positioner'') [At ''align'' align,
        At ''alignOffset'' alignOffset,
        At ''side'' side,
        At ''sideOffset'' sideOffset,
        At ''className'' (lit ''isolate z-50'')]
      [el (comp ''PopoverPrimitive.Popup'') [At ''data-slot'' (lit ''popover-content''),
          At ''className'' (cn K [lit ''z-50 flex w-72 origin-(--transform-origin) flex-col gap-2.5 rounded-none bg-popover p-2.5 text-xs text-popover-foreground shadow-md ring-1 ring-foreground/10 outline-hidden duration-100 data-[side=bottom]:slide-in-from-top-2 data-[side=inline-end]:slide-in-from-left-2 data-[side=inline-start]:slide-in-from-right-2 data-[side=left]:slide-in-from-right-2 data-[side=right]:slide-in-from-left-2 data-[side=top]:slide-in-from-bottom-2 data-open:animate-in data-open:fade-in-0 data-open:zoom-in-95 data-closed:animate-out data-closed:fade-out-0 data-closed:zoom-out-95'',
              className]),
          Sp props]
        []]])\<close>

definition PopoverHeader :: "lib \<Rightarrow> props \<Rightarrow> val" where
\<open>PopoverHeader K p =
  (let className = attr ''className'' p in
    let props = rest [''className''] p in
    el (tag ''div'') [At ''data-slot'' (lit ''popover-header''),
      At ''className'' (cn K [lit ''flex flex-col gap-1 text-xs'',
          className]),
      Sp props]
    [])\<close>

definition PopoverTitle :: "lib \<Rightarrow> props \<Rightarrow> val" where
\<open>PopoverTitle K p =
  (let className = attr ''className'' p in
    let props = rest [''className''] p in
    el (comp ''PopoverPrimitive.Title'') [At ''data-slot'' (lit ''popover-title''),
      At ''className'' (cn K [lit ''text-sm font-medium'',
          className]),
      Sp props]
    [])\<close>

definition PopoverDescription :: "lib \<Rightarrow> props \<Rightarrow> val" where
\<open>PopoverDescription K p =
  (let className = attr ''className'' p in
    let props = rest [''className''] p in
    el (comp ''PopoverPrimitive.Description'') [At ''data-slot'' (lit ''popover-description''),
      At ''className'' (cn K [lit ''text-xs/relaxed text-muted-foreground'',
          className]),
      Sp props]
    [])\<close>

section \<open>ui/hover-card.tsx\<close>

definition HoverCard :: "lib \<Rightarrow> props \<Rightarrow> val" where
\<open>HoverCard K p =
  (let props = rest [] p in
    el (comp ''PreviewCardPrimitive.Root'') [At ''data-slot'' (lit ''hover-card''),
      Sp props]
    [])\<close>

definition HoverCardTrigger :: "lib \<Rightarrow> props \<Rightarrow> val" where
\<open>HoverCardTrigger K p =
  (let props = rest [] p in
    el (comp ''PreviewCardPrimitive.Trigger'') [At ''data-slot'' (lit ''hover-card-trigger''),
      Sp props]
    [])\<close>

definition HoverCardContent :: "lib \<Rightarrow> props \<Rightarrow> val" where
\<open>HoverCardContent K p =
  (let className = attr ''className'' p in
    let side = dflt (lit ''bottom'') (attr ''side'' p) in
    let sideOffset = dflt (VNum 4) (attr ''sideOffset'' p) in
    let align = dflt (lit ''center'') (attr ''align'' p) in
    let alignOffset = dflt (VNum 4) (attr ''alignOffset'' p) in
    let props = rest [''className'', ''side'', ''sideOffset'', ''align'', ''alignOffset''] p in
    el (comp ''PreviewCardPrimitive.Portal'') [At ''data-slot'' (lit ''hover-card-portal'')]
    [el (comp ''PreviewCardPrimitive.Positioner'') [At ''align'' align,
        At ''alignOffset'' alignOffset,
        At ''side'' side,
        At ''sideOffset'' sideOffset,
        At ''className'' (lit ''isolate z-50'')]
      [el (comp ''PreviewCardPrimitive.Popup'') [At ''data-slot'' (lit ''hover-card-content''),
          At ''className'' (cn K [lit ''z-50 w-64 origin-(--transform-origin) rounded-none bg-popover p-2.5 text-xs/relaxed text-popover-foreground shadow-md ring-1 ring-foreground/10 outline-hidden duration-100 data-[side=bottom]:slide-in-from-top-2 data-[side=inline-end]:slide-in-from-left-2 data-[side=inline-start]:slide-in-from-right-2 data-[side=left]:slide-in-from-right-2 data-[side=right]:slide-in-from-left-2 data-[side=top]:slide-in-from-bottom-2 data-open:animate-in data-open:fade-in-0 data-open:zoom-in-95 data-closed:animate-out data-closed:fade-out-0 data-closed:zoom-out-95'',
              className]),
          Sp props]
        []]])\<close>

section \<open>ui/tooltip.tsx\<close>

definition TooltipProvider :: "lib \<Rightarrow> props \<Rightarrow> val" where
\<open>TooltipProvider K p =
  (let delay = dflt (VNum 0) (attr ''delay'' p) in
    let props = rest [''delay''] p in
    el (comp ''TooltipPrimitive.Provider'') [At ''data-slot'' (lit ''tooltip-provider''),
      At ''delay'' delay,
      Sp props]
    [])\<close>

definition Tooltip :: "lib \<Rightarrow> props \<Rightarrow> val" where
\<open>Tooltip K p =
  (let props = rest [] p in
    el (comp ''TooltipPrimitive.Root'') [At ''data-slot'' (lit ''tooltip''),
      Sp props]
    [])\<close>

definition TooltipTrigger :: "lib \<Rightarrow> props \<Rightarrow> val" where
\<open>TooltipTrigger K p =
  (let props = rest [] p in
    el (comp ''TooltipPrimitive.Trigger'') [At ''data-slot'' (lit ''tooltip-trigger''),
      Sp props]
    [])\<close>

definition TooltipContent :: "lib \<Rightarrow> props \<Rightarrow> val" where
\<open>TooltipContent K p =
  (let className = attr ''className'' p in
    let side = dflt (lit ''top'') (attr ''side'' p) in
    let sideOffset = dflt (VNum 4) (attr ''sideOffset'' p) in
    let align = dflt (lit ''center'') (attr ''align'' p) in
    let alignOffset = dflt (VNum 0) (attr ''alignOffset'' p) in
    let children = attr ''children'' p in
    let props = rest [''className'', ''side'', ''sideOffset'', ''align'', ''alignOffset'', ''children''] p in
    el (comp ''TooltipPrimitive.Portal'') []
    [el (comp ''TooltipPrimitive.Positioner'') [At ''align'' align,
        At ''alignOffset'' alignOffset,
        At ''side'' side,
        At ''sideOffset'' sideOffset,
        At ''className'' (lit ''isolate z-50'')]
      [el (comp ''TooltipPrimitive.Popup'') [At ''data-slot'' (lit ''tooltip-content''),
          At ''className'' (cn K [lit ''z-50 inline-flex w-fit max-w-xs origin-(--transform-origin) items-center gap-1.5 rounded-none bg-foreground px-3 py-1.5 text-xs text-background has-data-[slot=kbd]:pr-1.5 data-[side=bottom]:slide-in-from-top-2 data-[side=inline-end]:slide-in-from-left-2 data-[side=inline-start]:slide-in-from-right-2 data-[side=left]:slide-in-from-right-2 data-[side=right]:slide-in-from-left-2 data-[side=top]:slide-in-from-bottom-2 **:data-[slot=kbd]:relative **:data-[slot=kbd]:isolate **:data-[slot=kbd]:z-50 **:data-[slot=kbd]:rounded-none data-[state=delayed-open]:animate-in data-[state=delayed-open]:fade-in-0 data-[state=delayed-open]:zoom-in-95 data-open:animate-in data-open:fade-in-0 data-open:zoom-in-95 data-closed:animate-out data-closed:fade-out-0 data-closed:zoom-out-95'',
              className]),
          Sp props]
        [children,
          el (comp ''TooltipPrimitive.Arrow'') [At ''className'' (lit ''z-50 size-2.5 translate-y-[calc(-50%-2px)] rotate-45 rounded-none bg-foreground fill-foreground data-[side=bottom]:top-1 data-[side=inline-end]:top-1/2! data-[side=inline-end]:-left-1 data-[side=inline-end]:-translate-y-1/2 data-[side=inline-start]:top-1/2! data-[side=inline-start]:-right-1 data-[side=inline-start]:-translate-y-1/2 data-[side=left]:top-1/2! data-[side=left]:-right-1 data-[side=left]:-translate-y-1/2 data-[side=right]:top-1/2! data-[side=right]:-left-1 data-[side=right]:-translate-y-1/2 data-[side=top]:-bottom-2.5'')]
          []]]])\<close>

section \<open>ui/sonner.tsx\<close>

definition Toaster :: "lib \<Rightarrow> props \<Rightarrow> val" where
\<open>Toaster K p =
  (let props = rest [] p in
    let e' = K ''useTheme'' [] in
    let theme = dflt (lit ''system'') (dot e' ''theme'') in
    el (comp ''Sonner'') [At ''theme'' theme,
      At ''className'' (lit ''toaster group''),
      At ''icons'' (obj [At ''success'' (el (comp ''CircleCheckIcon'') [At ''className'' (lit ''size-4'')]
            []),
          At ''info'' (el (comp ''InfoIcon'') [At ''className'' (lit ''size-4'')]
            []),
          At ''warning'' (el (comp ''TriangleAlertIcon'') [At ''className'' (lit ''size-4'')]
            []),
          At ''error'' (el (comp ''OctagonXIcon'') [At ''className'' (lit ''size-4'')]
            []),
          At ''loading'' (el (comp ''Loader2Icon'') [At ''className'' (lit ''size-4 animate-spin'')]
            [])]),
      At ''style'' (obj [At ''--normal-bg'' (lit ''var(--popover)''),
          At ''--normal-text'' (lit ''var(--popover-foreground)''),
          At ''--normal-border'' (lit ''var(--border)''),
          At ''--border-radius'' (lit ''var(--radius)'')]),
      At ''toastOptions'' (obj [At ''classNames'' (obj [At ''toast'' (lit ''cn-toast'')])]),
      Sp props]
    [])\<close>

section \<open>The contract\<close>

text \<open>The rows: slot, the properties read, whether the caller's classes are merged, the component.\<close>

definition kit_overlays :: "lib \<Rightarrow> kit_row list" where
\<open>kit_overlays K = [
  (''alert-dialog'', [], False, AlertDialog K),
  (''alert-dialog-trigger'', [], False, AlertDialogTrigger K),
  (''alert-dialog-portal'', [], False, AlertDialogPortal K),
  (''alert-dialog-overlay'', [''className''], True, AlertDialogOverlay K),
  (''alert-dialog-content'', [''className'', ''size''], True, AlertDialogContent K),
  (''alert-dialog-header'', [''className''], True, AlertDialogHeader K),
  (''alert-dialog-footer'', [''className''], True, AlertDialogFooter K),
  (''alert-dialog-media'', [''className''], True, AlertDialogMedia K),
  (''alert-dialog-title'', [''className''], True, AlertDialogTitle K),
  (''alert-dialog-description'', [''className''], True, AlertDialogDescription K),
  (''alert-dialog-action'', [''className''], True, AlertDialogAction K),
  (''alert-dialog-cancel'', [''className'', ''variant'', ''size''], True, AlertDialogCancel K),
  (''dialog'', [], False, Dialog K),
  (''dialog-trigger'', [], False, DialogTrigger K),
  (''dialog-portal'', [], False, DialogPortal K),
  (''dialog-close'', [], False, DialogClose K),
  (''dialog-overlay'', [''className''], True, DialogOverlay K),
  (''dialog-content'', [''className'', ''children'', ''showCloseButton''], True, DialogContent K),
  (''dialog-header'', [''className''], True, DialogHeader K),
  (''dialog-footer'', [''className'', ''showCloseButton'', ''children''], True, DialogFooter K),
  (''dialog-title'', [''className''], True, DialogTitle K),
  (''dialog-description'', [''className''], True, DialogDescription K),
  (''drawer'', [''modal'', ''showSwipeHandle'', ''snapPoints'', ''swipeDirection''], False, Drawer K),
  (''drawer-trigger'', [], False, DrawerTrigger K),
  (''drawer-portal'', [], False, DrawerPortal K),
  (''drawer-close'', [], False, DrawerClose K),
  (''drawer-overlay'', [''className''], True, DrawerOverlay K),
  (''drawer-swipe-handle'', [''className''], True, DrawerSwipeHandle K),
  (''drawer-header'', [''className''], True, DrawerHeader K),
  (''drawer-footer'', [''className''], True, DrawerFooter K),
  (''drawer-title'', [''className''], True, DrawerTitle K),
  (''drawer-description'', [''className''], True, DrawerDescription K),
  (''sheet'', [], False, Sheet K),
  (''sheet-trigger'', [], False, SheetTrigger K),
  (''sheet-close'', [], False, SheetClose K),
  (''sheet-portal'', [], False, SheetPortal K),
  (''sheet-overlay'', [''className''], True, SheetOverlay K),
  (''sheet-content'', [''className'', ''children'', ''side'', ''showCloseButton''], True, SheetContent K),
  (''sheet-header'', [''className''], True, SheetHeader K),
  (''sheet-footer'', [''className''], True, SheetFooter K),
  (''sheet-title'', [''className''], True, SheetTitle K),
  (''sheet-description'', [''className''], True, SheetDescription K),
  (''popover'', [], False, Popover K),
  (''popover-trigger'', [], False, PopoverTrigger K),
  (''popover-content'', [''className'', ''align'', ''alignOffset'', ''side'', ''sideOffset''], True, PopoverContent K),
  (''popover-header'', [''className''], True, PopoverHeader K),
  (''popover-title'', [''className''], True, PopoverTitle K),
  (''popover-description'', [''className''], True, PopoverDescription K),
  (''hover-card'', [], False, HoverCard K),
  (''hover-card-trigger'', [], False, HoverCardTrigger K),
  (''hover-card-content'', [''className'', ''side'', ''sideOffset'', ''align'', ''alignOffset''], True, HoverCardContent K),
  (''tooltip-provider'', [''delay''], False, TooltipProvider K),
  (''tooltip'', [], False, Tooltip K),
  (''tooltip-trigger'', [], False, TooltipTrigger K),
  (''tooltip-content'', [''className'', ''side'', ''sideOffset'', ''align'', ''alignOffset'', ''children''], True, TooltipContent K),
  ('''', [], False, Toaster K)]\<close>

lemma AlertDialog_ok [kit_rows]: "kit_ok K (''alert-dialog'', [], False, AlertDialog K)"
  by (simp add: kit_simps AlertDialog_def)

lemma AlertDialogTrigger_ok [kit_rows]: "kit_ok K (''alert-dialog-trigger'', [], False, AlertDialogTrigger K)"
  by (simp add: kit_simps AlertDialogTrigger_def)

lemma AlertDialogPortal_ok [kit_rows]: "kit_ok K (''alert-dialog-portal'', [], False, AlertDialogPortal K)"
  by (simp add: kit_simps AlertDialogPortal_def)

lemma AlertDialogOverlay_ok [kit_rows]: "kit_ok K (''alert-dialog-overlay'', [''className''], True, AlertDialogOverlay K)"
  by (simp add: kit_simps AlertDialogOverlay_def)

lemma AlertDialogContent_ok [kit_rows]: "kit_ok K (''alert-dialog-content'', [''className'', ''size''], True, AlertDialogContent K)"
  by (simp add: kit_simps AlertDialogContent_def)

lemma AlertDialogHeader_ok [kit_rows]: "kit_ok K (''alert-dialog-header'', [''className''], True, AlertDialogHeader K)"
  by (simp add: kit_simps AlertDialogHeader_def)

lemma AlertDialogFooter_ok [kit_rows]: "kit_ok K (''alert-dialog-footer'', [''className''], True, AlertDialogFooter K)"
  by (simp add: kit_simps AlertDialogFooter_def)

lemma AlertDialogMedia_ok [kit_rows]: "kit_ok K (''alert-dialog-media'', [''className''], True, AlertDialogMedia K)"
  by (simp add: kit_simps AlertDialogMedia_def)

lemma AlertDialogTitle_ok [kit_rows]: "kit_ok K (''alert-dialog-title'', [''className''], True, AlertDialogTitle K)"
  by (simp add: kit_simps AlertDialogTitle_def)

lemma AlertDialogDescription_ok [kit_rows]: "kit_ok K (''alert-dialog-description'', [''className''], True, AlertDialogDescription K)"
  by (simp add: kit_simps AlertDialogDescription_def)

lemma AlertDialogAction_ok [kit_rows]: "kit_ok K (''alert-dialog-action'', [''className''], True, AlertDialogAction K)"
  by (simp add: kit_simps AlertDialogAction_def)

lemma AlertDialogCancel_ok [kit_rows]: "kit_ok K (''alert-dialog-cancel'', [''className'', ''variant'', ''size''], True, AlertDialogCancel K)"
  by (simp add: kit_simps AlertDialogCancel_def)

lemma Dialog_ok [kit_rows]: "kit_ok K (''dialog'', [], False, Dialog K)"
  by (simp add: kit_simps Dialog_def)

lemma DialogTrigger_ok [kit_rows]: "kit_ok K (''dialog-trigger'', [], False, DialogTrigger K)"
  by (simp add: kit_simps DialogTrigger_def)

lemma DialogPortal_ok [kit_rows]: "kit_ok K (''dialog-portal'', [], False, DialogPortal K)"
  by (simp add: kit_simps DialogPortal_def)

lemma DialogClose_ok [kit_rows]: "kit_ok K (''dialog-close'', [], False, DialogClose K)"
  by (simp add: kit_simps DialogClose_def)

lemma DialogOverlay_ok [kit_rows]: "kit_ok K (''dialog-overlay'', [''className''], True, DialogOverlay K)"
  by (simp add: kit_simps DialogOverlay_def)

lemma DialogContent_ok [kit_rows]: "kit_ok K (''dialog-content'', [''className'', ''children'', ''showCloseButton''], True, DialogContent K)"
  by (simp add: kit_simps DialogContent_def)

lemma DialogHeader_ok [kit_rows]: "kit_ok K (''dialog-header'', [''className''], True, DialogHeader K)"
  by (simp add: kit_simps DialogHeader_def)

lemma DialogFooter_ok [kit_rows]: "kit_ok K (''dialog-footer'', [''className'', ''showCloseButton'', ''children''], True, DialogFooter K)"
  by (simp add: kit_simps DialogFooter_def)

lemma DialogTitle_ok [kit_rows]: "kit_ok K (''dialog-title'', [''className''], True, DialogTitle K)"
  by (simp add: kit_simps DialogTitle_def)

lemma DialogDescription_ok [kit_rows]: "kit_ok K (''dialog-description'', [''className''], True, DialogDescription K)"
  by (simp add: kit_simps DialogDescription_def)

lemma Drawer_ok [kit_rows]: "kit_ok K (''drawer'', [''modal'', ''showSwipeHandle'', ''snapPoints'', ''swipeDirection''], False, Drawer K)"
  by (simp add: kit_simps Drawer_def)

lemma DrawerTrigger_ok [kit_rows]: "kit_ok K (''drawer-trigger'', [], False, DrawerTrigger K)"
  by (simp add: kit_simps DrawerTrigger_def)

lemma DrawerPortal_ok [kit_rows]: "kit_ok K (''drawer-portal'', [], False, DrawerPortal K)"
  by (simp add: kit_simps DrawerPortal_def)

lemma DrawerClose_ok [kit_rows]: "kit_ok K (''drawer-close'', [], False, DrawerClose K)"
  by (simp add: kit_simps DrawerClose_def)

lemma DrawerOverlay_ok [kit_rows]: "kit_ok K (''drawer-overlay'', [''className''], True, DrawerOverlay K)"
  by (simp add: kit_simps DrawerOverlay_def)

lemma DrawerSwipeHandle_ok [kit_rows]: "kit_ok K (''drawer-swipe-handle'', [''className''], True, DrawerSwipeHandle K)"
  by (simp add: kit_simps DrawerSwipeHandle_def)

lemma DrawerHeader_ok [kit_rows]: "kit_ok K (''drawer-header'', [''className''], True, DrawerHeader K)"
  by (simp add: kit_simps DrawerHeader_def)

lemma DrawerFooter_ok [kit_rows]: "kit_ok K (''drawer-footer'', [''className''], True, DrawerFooter K)"
  by (simp add: kit_simps DrawerFooter_def)

lemma DrawerTitle_ok [kit_rows]: "kit_ok K (''drawer-title'', [''className''], True, DrawerTitle K)"
  by (simp add: kit_simps DrawerTitle_def)

lemma DrawerDescription_ok [kit_rows]: "kit_ok K (''drawer-description'', [''className''], True, DrawerDescription K)"
  by (simp add: kit_simps DrawerDescription_def)

lemma Sheet_ok [kit_rows]: "kit_ok K (''sheet'', [], False, Sheet K)"
  by (simp add: kit_simps Sheet_def)

lemma SheetTrigger_ok [kit_rows]: "kit_ok K (''sheet-trigger'', [], False, SheetTrigger K)"
  by (simp add: kit_simps SheetTrigger_def)

lemma SheetClose_ok [kit_rows]: "kit_ok K (''sheet-close'', [], False, SheetClose K)"
  by (simp add: kit_simps SheetClose_def)

lemma SheetPortal_ok [kit_rows]: "kit_ok K (''sheet-portal'', [], False, SheetPortal K)"
  by (simp add: kit_simps SheetPortal_def)

lemma SheetOverlay_ok [kit_rows]: "kit_ok K (''sheet-overlay'', [''className''], True, SheetOverlay K)"
  by (simp add: kit_simps SheetOverlay_def)

lemma SheetContent_ok [kit_rows]: "kit_ok K (''sheet-content'', [''className'', ''children'', ''side'', ''showCloseButton''], True, SheetContent K)"
  by (simp add: kit_simps SheetContent_def)

lemma SheetHeader_ok [kit_rows]: "kit_ok K (''sheet-header'', [''className''], True, SheetHeader K)"
  by (simp add: kit_simps SheetHeader_def)

lemma SheetFooter_ok [kit_rows]: "kit_ok K (''sheet-footer'', [''className''], True, SheetFooter K)"
  by (simp add: kit_simps SheetFooter_def)

lemma SheetTitle_ok [kit_rows]: "kit_ok K (''sheet-title'', [''className''], True, SheetTitle K)"
  by (simp add: kit_simps SheetTitle_def)

lemma SheetDescription_ok [kit_rows]: "kit_ok K (''sheet-description'', [''className''], True, SheetDescription K)"
  by (simp add: kit_simps SheetDescription_def)

lemma Popover_ok [kit_rows]: "kit_ok K (''popover'', [], False, Popover K)"
  by (simp add: kit_simps Popover_def)

lemma PopoverTrigger_ok [kit_rows]: "kit_ok K (''popover-trigger'', [], False, PopoverTrigger K)"
  by (simp add: kit_simps PopoverTrigger_def)

lemma PopoverContent_ok [kit_rows]: "kit_ok K (''popover-content'', [''className'', ''align'', ''alignOffset'', ''side'', ''sideOffset''], True, PopoverContent K)"
  by (simp add: kit_simps PopoverContent_def)

lemma PopoverHeader_ok [kit_rows]: "kit_ok K (''popover-header'', [''className''], True, PopoverHeader K)"
  by (simp add: kit_simps PopoverHeader_def)

lemma PopoverTitle_ok [kit_rows]: "kit_ok K (''popover-title'', [''className''], True, PopoverTitle K)"
  by (simp add: kit_simps PopoverTitle_def)

lemma PopoverDescription_ok [kit_rows]: "kit_ok K (''popover-description'', [''className''], True, PopoverDescription K)"
  by (simp add: kit_simps PopoverDescription_def)

lemma HoverCard_ok [kit_rows]: "kit_ok K (''hover-card'', [], False, HoverCard K)"
  by (simp add: kit_simps HoverCard_def)

lemma HoverCardTrigger_ok [kit_rows]: "kit_ok K (''hover-card-trigger'', [], False, HoverCardTrigger K)"
  by (simp add: kit_simps HoverCardTrigger_def)

lemma HoverCardContent_ok [kit_rows]: "kit_ok K (''hover-card-content'', [''className'', ''side'', ''sideOffset'', ''align'', ''alignOffset''], True, HoverCardContent K)"
  by (simp add: kit_simps HoverCardContent_def)

lemma TooltipProvider_ok [kit_rows]: "kit_ok K (''tooltip-provider'', [''delay''], False, TooltipProvider K)"
  by (simp add: kit_simps TooltipProvider_def)

lemma Tooltip_ok [kit_rows]: "kit_ok K (''tooltip'', [], False, Tooltip K)"
  by (simp add: kit_simps Tooltip_def)

lemma TooltipTrigger_ok [kit_rows]: "kit_ok K (''tooltip-trigger'', [], False, TooltipTrigger K)"
  by (simp add: kit_simps TooltipTrigger_def)

lemma TooltipContent_ok [kit_rows]: "kit_ok K (''tooltip-content'', [''className'', ''side'', ''sideOffset'', ''align'', ''alignOffset'', ''children''], True, TooltipContent K)"
  by (simp add: kit_simps TooltipContent_def)

lemma Toaster_ok [kit_rows]: "kit_ok K ('''', [], False, Toaster K)"
  by (simp add: kit_simps Toaster_def)

lemma kit_overlays_ok: "list_all (kit_ok K) (kit_overlays K)"
  by (simp add: kit_overlays_def kit_rows)

end
