(* ===== verification/UiSidebar.thy ===== *)
theory UiSidebar
  imports UiOverlays
begin

text \<open>
  The component kit, the sidebar: one definition per component of the files named by the sections,
  from its props to the element it renders.
\<close>

section \<open>ui/sidebar.tsx\<close>

text \<open>The hook: the context's value, or the error a use outside the provider throws.\<close>

definition useSidebar :: "val \<Rightarrow> jstr + val" where
\<open>useSidebar c = (if truthy c then Inr c else Inl (js ''useSidebar must be used within a SidebarProvider.''))\<close>

definition SIDEBAR_COOKIE_NAME :: val where
\<open>SIDEBAR_COOKIE_NAME =
  lit ''sidebar_state''\<close>

definition SIDEBAR_COOKIE_MAX_AGE :: val where
\<open>SIDEBAR_COOKIE_MAX_AGE =
  VNum 604800\<close>

definition SIDEBAR_WIDTH :: val where
\<open>SIDEBAR_WIDTH =
  lit ''16rem''\<close>

definition SIDEBAR_WIDTH_MOBILE :: val where
\<open>SIDEBAR_WIDTH_MOBILE =
  lit ''18rem''\<close>

definition SIDEBAR_WIDTH_ICON :: val where
\<open>SIDEBAR_WIDTH_ICON =
  lit ''3rem''\<close>

definition SIDEBAR_KEYBOARD_SHORTCUT :: val where
\<open>SIDEBAR_KEYBOARD_SHORTCUT =
  lit ''b''\<close>

definition SidebarProvider :: "lib \<Rightarrow> val \<Rightarrow> val \<Rightarrow> val \<Rightarrow> props \<Rightarrow> val" where
\<open>SidebarProvider K isMobile openMobile open0 p =
  (let defaultOpen = dflt (VBool True) (attr ''defaultOpen'' p) in
    let openProp = attr ''open'' p in
    let setOpenProp = attr ''onOpenChange'' p in
    let className = attr ''className'' p in
    let style = attr ''style'' p in
    let children = attr ''children'' p in
    let props = rest [''defaultOpen'', ''open'', ''onOpenChange'', ''className'', ''style'', ''children''] p in
    let setOpenMobile = VFun ''SidebarProvider.setOpenMobile'' [] in
    let setOpen0 = VFun ''SidebarProvider._setOpen'' [] in
    let open' = jcoal openProp open0 in
    let setOpen = VFun ''SidebarProvider.setOpen'' [open', setOpenProp, setOpen0] in
    let toggleSidebar = VFun ''SidebarProvider.toggleSidebar'' [isMobile, setOpenMobile, setOpen] in
    let state = (if truthy open'
      then lit ''expanded''
      else lit ''collapsed'') in
    let contextValue = obj [At ''state'' state,
      At ''open'' open',
      At ''setOpen'' setOpen,
      At ''isMobile'' isMobile,
      At ''openMobile'' openMobile,
      At ''setOpenMobile'' setOpenMobile,
      At ''toggleSidebar'' toggleSidebar] in
    el (comp ''SidebarContext.Provider'') [At ''value'' contextValue]
    [el (tag ''div'') [At ''data-slot'' (lit ''sidebar-wrapper''),
        At ''style'' (obj [At ''--sidebar-width'' SIDEBAR_WIDTH,
            At ''--sidebar-width-icon'' SIDEBAR_WIDTH_ICON,
            Sp style]),
        At ''className'' (cn K [lit ''group/sidebar-wrapper flex min-h-svh w-full has-data-[variant=inset]:bg-sidebar'',
            className]),
        Sp props]
      [children]])\<close>

definition Sidebar :: "lib \<Rightarrow> val \<Rightarrow> props \<Rightarrow> jstr + val" where
\<open>Sidebar K c p =
  (case useSidebar c of Inl e \<Rightarrow> Inl e | Inr x' \<Rightarrow>
    (let side = dflt (lit ''left'') (attr ''side'' p) in
      let variant = dflt (lit ''sidebar'') (attr ''variant'' p) in
      let collapsible = dflt (lit ''offcanvas'') (attr ''collapsible'' p) in
      let className = attr ''className'' p in
      let children = attr ''children'' p in
      let dir = attr ''dir'' p in
      let props = rest [''side'', ''variant'', ''collapsible'', ''className'', ''children'', ''dir''] p in
      let isMobile = dot x' ''isMobile'' in
      let state = dot x' ''state'' in
      let openMobile = dot x' ''openMobile'' in
      let setOpenMobile = dot x' ''setOpenMobile'' in
      (if (collapsible = lit ''none'')
        then Inr (el (tag ''div'') [At ''data-slot'' (lit ''sidebar''),
            At ''className'' (cn K [lit ''flex h-full w-(--sidebar-width) flex-col bg-sidebar text-sidebar-foreground'',
                className]),
            Sp props]
          [children])
        else (if truthy isMobile
          then Inr (el (comp ''Sheet'') [At ''open'' openMobile,
              At ''onOpenChange'' setOpenMobile,
              Sp props]
            [el (comp ''SheetContent'') [At ''dir'' dir,
                At ''data-sidebar'' (lit ''sidebar''),
                At ''data-slot'' (lit ''sidebar''),
                At ''data-mobile'' (lit ''true''),
                At ''className'' (lit ''w-(--sidebar-width) bg-sidebar p-0 text-sidebar-foreground [&>button]:hidden''),
                At ''style'' (obj [At ''--sidebar-width'' SIDEBAR_WIDTH_MOBILE]),
                At ''side'' side]
              [el (comp ''SheetHeader'') [At ''className'' (lit ''sr-only'')]
                [el (comp ''SheetTitle'') []
                  [lit ''Sidebar''],
                  el (comp ''SheetDescription'') []
                  [lit ''Displays the mobile sidebar.'']],
                el (tag ''div'') [At ''className'' (lit ''flex h-full w-full flex-col'')]
                [children]]])
          else Inr (el (tag ''div'') [At ''className'' (lit ''group peer hidden text-sidebar-foreground md:block''),
              At ''data-state'' state,
              At ''data-collapsible'' ((if (state = lit ''collapsed'')
                  then collapsible
                  else lit '''')),
              At ''data-variant'' variant,
              At ''data-side'' side,
              At ''data-slot'' (lit ''sidebar'')]
            [el (tag ''div'') [At ''data-slot'' (lit ''sidebar-gap''),
                At ''className'' (cn K [lit ''relative w-(--sidebar-width) bg-transparent transition-[width] duration-200 ease-linear'',
                    lit ''group-data-[collapsible=offcanvas]:w-0'',
                    lit ''group-data-[side=right]:rotate-180'',
                    (if ((variant = lit ''floating'') \<or> (variant = lit ''inset''))
                      then lit ''group-data-[collapsible=icon]:w-[calc(var(--sidebar-width-icon)+(--spacing(4)))]''
                      else lit ''group-data-[collapsible=icon]:w-(--sidebar-width-icon)'')])]
              [],
              el (tag ''div'') [At ''data-slot'' (lit ''sidebar-container''),
                At ''data-side'' side,
                At ''className'' (cn K [lit ''fixed inset-y-0 z-10 hidden h-svh w-(--sidebar-width) transition-[left,right,width] duration-200 ease-linear data-[side=left]:left-0 data-[side=left]:group-data-[collapsible=offcanvas]:left-[calc(var(--sidebar-width)*-1)] data-[side=right]:right-0 data-[side=right]:group-data-[collapsible=offcanvas]:right-[calc(var(--sidebar-width)*-1)] md:flex'',
                    (if ((variant = lit ''floating'') \<or> (variant = lit ''inset''))
                      then lit ''p-2 group-data-[collapsible=icon]:w-[calc(var(--sidebar-width-icon)+(--spacing(4))+2px)]''
                      else lit ''group-data-[collapsible=icon]:w-(--sidebar-width-icon) group-data-[side=left]:border-r group-data-[side=right]:border-l''),
                    className]),
                Sp props]
              [el (tag ''div'') [At ''data-sidebar'' (lit ''sidebar''),
                  At ''data-slot'' (lit ''sidebar-inner''),
                  At ''className'' (lit ''flex size-full flex-col bg-sidebar group-data-[variant=floating]:rounded-none group-data-[variant=floating]:shadow-sm group-data-[variant=floating]:ring-1 group-data-[variant=floating]:ring-sidebar-border'')]
                [children]]])))))\<close>

definition SidebarTrigger :: "lib \<Rightarrow> val \<Rightarrow> props \<Rightarrow> jstr + val" where
\<open>SidebarTrigger K c p =
  (case useSidebar c of Inl e \<Rightarrow> Inl e | Inr x' \<Rightarrow>
    (let className = attr ''className'' p in
      let onClick = attr ''onClick'' p in
      let props = rest [''className'', ''onClick''] p in
      let toggleSidebar = dot x' ''toggleSidebar'' in
      Inr (el (comp ''Button'') [At ''data-sidebar'' (lit ''trigger''),
          At ''data-slot'' (lit ''sidebar-trigger''),
          At ''variant'' (lit ''ghost''),
          At ''size'' (lit ''icon-sm''),
          At ''className'' (cn K [className]),
          At ''onClick'' (VFun ''SidebarTrigger.onClick'' [onClick, toggleSidebar]),
          Sp props]
        [el (comp ''PanelLeftIcon'') []
          [],
          el (tag ''span'') [At ''className'' (lit ''sr-only'')]
          [lit ''Toggle Sidebar'']])))\<close>

definition SidebarRail :: "lib \<Rightarrow> val \<Rightarrow> props \<Rightarrow> jstr + val" where
\<open>SidebarRail K c p =
  (case useSidebar c of Inl e \<Rightarrow> Inl e | Inr x' \<Rightarrow>
    (let className = attr ''className'' p in
      let props = rest [''className''] p in
      let toggleSidebar = dot x' ''toggleSidebar'' in
      Inr (el (tag ''button'') [At ''data-sidebar'' (lit ''rail''),
          At ''data-slot'' (lit ''sidebar-rail''),
          At ''aria-label'' (lit ''Toggle Sidebar''),
          At ''tabIndex'' (VNum (- 1)),
          At ''onClick'' toggleSidebar,
          At ''title'' (lit ''Toggle Sidebar''),
          At ''className'' (cn K [lit ''absolute inset-y-0 z-20 hidden w-4 transition-all ease-linear group-data-[side=left]:-right-4 group-data-[side=right]:left-0 after:absolute after:inset-y-0 after:start-1/2 after:w-[2px] hover:after:bg-sidebar-border sm:flex ltr:-translate-x-1/2 rtl:-translate-x-1/2'',
              lit ''in-data-[side=left]:cursor-w-resize in-data-[side=right]:cursor-e-resize'',
              lit ''[[data-side=left][data-state=collapsed]_&]:cursor-e-resize [[data-side=right][data-state=collapsed]_&]:cursor-w-resize'',
              lit ''group-data-[collapsible=offcanvas]:translate-x-0 group-data-[collapsible=offcanvas]:after:left-full hover:group-data-[collapsible=offcanvas]:bg-sidebar'',
              lit ''[[data-side=left][data-collapsible=offcanvas]_&]:-right-2'',
              lit ''[[data-side=right][data-collapsible=offcanvas]_&]:-left-2'',
              className]),
          Sp props]
        [])))\<close>

definition SidebarInset :: "lib \<Rightarrow> props \<Rightarrow> val" where
\<open>SidebarInset K p =
  (let className = attr ''className'' p in
    let props = rest [''className''] p in
    el (tag ''main'') [At ''data-slot'' (lit ''sidebar-inset''),
      At ''className'' (cn K [lit ''relative flex w-full flex-1 flex-col bg-background md:peer-data-[variant=inset]:m-2 md:peer-data-[variant=inset]:ml-0 md:peer-data-[variant=inset]:rounded-none md:peer-data-[variant=inset]:shadow-sm md:peer-data-[variant=inset]:peer-data-[state=collapsed]:ml-2'',
          className]),
      Sp props]
    [])\<close>

definition SidebarInput :: "lib \<Rightarrow> props \<Rightarrow> val" where
\<open>SidebarInput K p =
  (let className = attr ''className'' p in
    let props = rest [''className''] p in
    el (comp ''Input'') [At ''data-slot'' (lit ''sidebar-input''),
      At ''data-sidebar'' (lit ''input''),
      At ''className'' (cn K [lit ''h-8 w-full bg-background shadow-none'',
          className]),
      Sp props]
    [])\<close>

definition SidebarHeader :: "lib \<Rightarrow> props \<Rightarrow> val" where
\<open>SidebarHeader K p =
  (let className = attr ''className'' p in
    let props = rest [''className''] p in
    el (tag ''div'') [At ''data-slot'' (lit ''sidebar-header''),
      At ''data-sidebar'' (lit ''header''),
      At ''className'' (cn K [lit ''flex flex-col gap-2 p-2'',
          className]),
      Sp props]
    [])\<close>

definition SidebarFooter :: "lib \<Rightarrow> props \<Rightarrow> val" where
\<open>SidebarFooter K p =
  (let className = attr ''className'' p in
    let props = rest [''className''] p in
    el (tag ''div'') [At ''data-slot'' (lit ''sidebar-footer''),
      At ''data-sidebar'' (lit ''footer''),
      At ''className'' (cn K [lit ''flex flex-col gap-2 p-2'',
          className]),
      Sp props]
    [])\<close>

definition SidebarSeparator :: "lib \<Rightarrow> props \<Rightarrow> val" where
\<open>SidebarSeparator K p =
  (let className = attr ''className'' p in
    let props = rest [''className''] p in
    el (comp ''Separator'') [At ''data-slot'' (lit ''sidebar-separator''),
      At ''data-sidebar'' (lit ''separator''),
      At ''className'' (cn K [lit ''mx-2 w-auto bg-sidebar-border'',
          className]),
      Sp props]
    [])\<close>

definition SidebarContent :: "lib \<Rightarrow> props \<Rightarrow> val" where
\<open>SidebarContent K p =
  (let className = attr ''className'' p in
    let props = rest [''className''] p in
    el (tag ''div'') [At ''data-slot'' (lit ''sidebar-content''),
      At ''data-sidebar'' (lit ''content''),
      At ''className'' (cn K [lit ''no-scrollbar flex min-h-0 flex-1 flex-col gap-0 overflow-auto group-data-[collapsible=icon]:overflow-hidden'',
          className]),
      Sp props]
    [])\<close>

definition SidebarGroup :: "lib \<Rightarrow> props \<Rightarrow> val" where
\<open>SidebarGroup K p =
  (let className = attr ''className'' p in
    let props = rest [''className''] p in
    el (tag ''div'') [At ''data-slot'' (lit ''sidebar-group''),
      At ''data-sidebar'' (lit ''group''),
      At ''className'' (cn K [lit ''relative flex w-full min-w-0 flex-col p-2'',
          className]),
      Sp props]
    [])\<close>

definition SidebarGroupLabel :: "lib \<Rightarrow> props \<Rightarrow> val" where
\<open>SidebarGroupLabel K p =
  (let className = attr ''className'' p in
    let render = attr ''render'' p in
    let props = rest [''className'', ''render''] p in
    K ''useRender'' [obj [At ''defaultTagName'' (lit ''div''),
        At ''props'' (K ''mergeProps'' [obj [At ''className'' (cn K [lit ''flex h-8 shrink-0 items-center rounded-none px-2 text-xs text-sidebar-foreground/70 ring-sidebar-ring outline-hidden transition-[margin,opacity] duration-200 ease-linear group-data-[collapsible=icon]:-mt-8 group-data-[collapsible=icon]:opacity-0 focus-visible:ring-2 [&>svg]:size-4 [&>svg]:shrink-0'',
                  className])], props]),
        At ''render'' render,
        At ''state'' (obj [At ''slot'' (lit ''sidebar-group-label''),
            At ''sidebar'' (lit ''group-label'')])]])\<close>

definition SidebarGroupAction :: "lib \<Rightarrow> props \<Rightarrow> val" where
\<open>SidebarGroupAction K p =
  (let className = attr ''className'' p in
    let render = attr ''render'' p in
    let props = rest [''className'', ''render''] p in
    K ''useRender'' [obj [At ''defaultTagName'' (lit ''button''),
        At ''props'' (K ''mergeProps'' [obj [At ''className'' (cn K [lit ''absolute top-3.5 right-3 flex aspect-square w-5 items-center justify-center rounded-none p-0 text-sidebar-foreground ring-sidebar-ring outline-hidden transition-transform group-data-[collapsible=icon]:hidden after:absolute after:-inset-2 hover:bg-sidebar-accent hover:text-sidebar-accent-foreground focus-visible:ring-2 md:after:hidden [&>svg]:size-4 [&>svg]:shrink-0'',
                  className])], props]),
        At ''render'' render,
        At ''state'' (obj [At ''slot'' (lit ''sidebar-group-action''),
            At ''sidebar'' (lit ''group-action'')])]])\<close>

definition SidebarGroupContent :: "lib \<Rightarrow> props \<Rightarrow> val" where
\<open>SidebarGroupContent K p =
  (let className = attr ''className'' p in
    let props = rest [''className''] p in
    el (tag ''div'') [At ''data-slot'' (lit ''sidebar-group-content''),
      At ''data-sidebar'' (lit ''group-content''),
      At ''className'' (cn K [lit ''w-full text-xs'',
          className]),
      Sp props]
    [])\<close>

definition SidebarMenu :: "lib \<Rightarrow> props \<Rightarrow> val" where
\<open>SidebarMenu K p =
  (let className = attr ''className'' p in
    let props = rest [''className''] p in
    el (tag ''ul'') [At ''data-slot'' (lit ''sidebar-menu''),
      At ''data-sidebar'' (lit ''menu''),
      At ''className'' (cn K [lit ''flex w-full min-w-0 flex-col gap-0'',
          className]),
      Sp props]
    [])\<close>

definition SidebarMenuItem :: "lib \<Rightarrow> props \<Rightarrow> val" where
\<open>SidebarMenuItem K p =
  (let className = attr ''className'' p in
    let props = rest [''className''] p in
    el (tag ''li'') [At ''data-slot'' (lit ''sidebar-menu-item''),
      At ''data-sidebar'' (lit ''menu-item''),
      At ''className'' (cn K [lit ''group/menu-item relative'',
          className]),
      Sp props]
    [])\<close>

definition sidebarMenuButtonVariants :: "val list" where
\<open>sidebarMenuButtonVariants =
  [lit ''peer/menu-button group/menu-button flex w-full items-center gap-2 overflow-hidden rounded-none p-2 text-left text-xs ring-sidebar-ring outline-hidden transition-[width,height,padding] group-has-data-[sidebar=menu-action]/menu-item:pr-8 group-data-[collapsible=icon]:size-8! group-data-[collapsible=icon]:p-2! hover:bg-sidebar-accent hover:text-sidebar-accent-foreground focus-visible:ring-2 active:bg-sidebar-accent active:text-sidebar-accent-foreground disabled:pointer-events-none disabled:opacity-50 aria-disabled:pointer-events-none aria-disabled:opacity-50 data-open:hover:bg-sidebar-accent data-open:hover:text-sidebar-accent-foreground data-active:bg-sidebar-accent data-active:font-medium data-active:text-sidebar-accent-foreground [&_svg]:size-4 [&_svg]:shrink-0 [&>span:last-child]:truncate'',
    obj [At ''variants'' (obj [At ''variant'' (obj [At ''default'' (lit ''hover:bg-sidebar-accent hover:text-sidebar-accent-foreground''),
              At ''outline'' (lit ''bg-background shadow-[0_0_0_1px_var(--sidebar-border)] hover:bg-sidebar-accent hover:text-sidebar-accent-foreground hover:shadow-[0_0_0_1px_var(--sidebar-accent)]'')]),
          At ''size'' (obj [At ''default'' (lit ''h-8 text-xs''),
              At ''sm'' (lit ''h-7 text-xs''),
              At ''lg'' (lit ''h-12 text-xs group-data-[collapsible=icon]:p-0!'')])]),
      At ''defaultVariants'' (obj [At ''variant'' (lit ''default''),
          At ''size'' (lit ''default'')])]]\<close>

definition SidebarMenuButton :: "lib \<Rightarrow> val \<Rightarrow> props \<Rightarrow> jstr + val" where
\<open>SidebarMenuButton K c p =
  (case useSidebar c of Inl e \<Rightarrow> Inl e | Inr x' \<Rightarrow>
    (let render = attr ''render'' p in
      let isActive = dflt (VBool False) (attr ''isActive'' p) in
      let variant = dflt (lit ''default'') (attr ''variant'' p) in
      let size' = dflt (lit ''default'') (attr ''size'' p) in
      let tooltip = attr ''tooltip'' p in
      let className = attr ''className'' p in
      let props = rest [''render'', ''isActive'', ''variant'', ''size'', ''tooltip'', ''className''] p in
      let isMobile = dot x' ''isMobile'' in
      let state = dot x' ''state'' in
      let comp' = K ''useRender'' [obj [At ''defaultTagName'' (lit ''button''),
          At ''props'' (K ''mergeProps'' [obj [At ''className'' (cn K [cva K sidebarMenuButtonVariants (obj [At ''variant'' variant,
                        At ''size'' size']),
                    className])], props]),
          At ''render'' ((if \<not> (truthy tooltip)
              then render
              else el (comp ''TooltipTrigger'') [At ''render'' render]
              [])),
          At ''state'' (obj [At ''slot'' (lit ''sidebar-menu-button''),
              At ''sidebar'' (lit ''menu-button''),
              At ''size'' size',
              At ''active'' isActive])]] in
      (if \<not> (truthy tooltip)
        then Inr (comp')
        else let tooltip = (if (typeof tooltip = ''string'') then obj [At ''children'' tooltip] else tooltip) in
        Inr (el (comp ''Tooltip'') []
          [comp',
            el (comp ''TooltipContent'') [At ''side'' (lit ''right''),
              At ''align'' (lit ''center''),
              At ''hidden'' (jor (VBool (\<not> (state = lit ''collapsed''))) isMobile),
              Sp tooltip]
            []]))))\<close>

definition SidebarMenuAction :: "lib \<Rightarrow> props \<Rightarrow> val" where
\<open>SidebarMenuAction K p =
  (let className = attr ''className'' p in
    let render = attr ''render'' p in
    let showOnHover = dflt (VBool False) (attr ''showOnHover'' p) in
    let props = rest [''className'', ''render'', ''showOnHover''] p in
    K ''useRender'' [obj [At ''defaultTagName'' (lit ''button''),
        At ''props'' (K ''mergeProps'' [obj [At ''className'' (cn K [lit ''absolute top-1.5 right-1 flex aspect-square w-5 items-center justify-center rounded-none p-0 text-sidebar-foreground ring-sidebar-ring outline-hidden transition-transform group-data-[collapsible=icon]:hidden peer-hover/menu-button:text-sidebar-accent-foreground peer-data-[size=default]/menu-button:top-1.5 peer-data-[size=lg]/menu-button:top-2.5 peer-data-[size=sm]/menu-button:top-1 after:absolute after:-inset-2 hover:bg-sidebar-accent hover:text-sidebar-accent-foreground focus-visible:ring-2 md:after:hidden [&>svg]:size-4 [&>svg]:shrink-0'',
                  jand showOnHover
                  (lit ''group-focus-within/menu-item:opacity-100 group-hover/menu-item:opacity-100 peer-data-active/menu-button:text-sidebar-accent-foreground aria-expanded:opacity-100 md:opacity-0''),
                  className])], props]),
        At ''render'' render,
        At ''state'' (obj [At ''slot'' (lit ''sidebar-menu-action''),
            At ''sidebar'' (lit ''menu-action'')])]])\<close>

definition SidebarMenuBadge :: "lib \<Rightarrow> props \<Rightarrow> val" where
\<open>SidebarMenuBadge K p =
  (let className = attr ''className'' p in
    let props = rest [''className''] p in
    el (tag ''div'') [At ''data-slot'' (lit ''sidebar-menu-badge''),
      At ''data-sidebar'' (lit ''menu-badge''),
      At ''className'' (cn K [lit ''pointer-events-none absolute right-1 flex h-5 min-w-5 items-center justify-center rounded-none px-1 text-xs font-medium text-sidebar-foreground tabular-nums select-none group-data-[collapsible=icon]:hidden peer-hover/menu-button:text-sidebar-accent-foreground peer-data-[size=default]/menu-button:top-1.5 peer-data-[size=lg]/menu-button:top-2.5 peer-data-[size=sm]/menu-button:top-1 peer-data-active/menu-button:text-sidebar-accent-foreground'',
          className]),
      Sp props]
    [])\<close>

definition SidebarMenuSkeleton :: "lib \<Rightarrow> val \<Rightarrow> props \<Rightarrow> val" where
\<open>SidebarMenuSkeleton K width p =
  (let className = attr ''className'' p in
    let showIcon = dflt (VBool False) (attr ''showIcon'' p) in
    let props = rest [''className'', ''showIcon''] p in
    el (tag ''div'') [At ''data-slot'' (lit ''sidebar-menu-skeleton''),
      At ''data-sidebar'' (lit ''menu-skeleton''),
      At ''className'' (cn K [lit ''flex h-8 items-center gap-2 rounded-none px-2'',
          className]),
      Sp props]
    [jand showIcon
      (el (comp ''Skeleton'') [At ''className'' (lit ''size-4 rounded-none''),
          At ''data-sidebar'' (lit ''menu-skeleton-icon'')]
        []),
      el (comp ''Skeleton'') [At ''className'' (lit ''h-4 max-w-(--skeleton-width) flex-1''),
        At ''data-sidebar'' (lit ''menu-skeleton-text''),
        At ''style'' (obj [At ''--skeleton-width'' width])]
      []])\<close>

definition SidebarMenuSub :: "lib \<Rightarrow> props \<Rightarrow> val" where
\<open>SidebarMenuSub K p =
  (let className = attr ''className'' p in
    let props = rest [''className''] p in
    el (tag ''ul'') [At ''data-slot'' (lit ''sidebar-menu-sub''),
      At ''data-sidebar'' (lit ''menu-sub''),
      At ''className'' (cn K [lit ''mx-3.5 flex min-w-0 translate-x-px flex-col gap-1 border-l border-sidebar-border px-2.5 py-0.5 group-data-[collapsible=icon]:hidden'',
          className]),
      Sp props]
    [])\<close>

definition SidebarMenuSubItem :: "lib \<Rightarrow> props \<Rightarrow> val" where
\<open>SidebarMenuSubItem K p =
  (let className = attr ''className'' p in
    let props = rest [''className''] p in
    el (tag ''li'') [At ''data-slot'' (lit ''sidebar-menu-sub-item''),
      At ''data-sidebar'' (lit ''menu-sub-item''),
      At ''className'' (cn K [lit ''group/menu-sub-item relative'',
          className]),
      Sp props]
    [])\<close>

definition SidebarMenuSubButton :: "lib \<Rightarrow> props \<Rightarrow> val" where
\<open>SidebarMenuSubButton K p =
  (let render = attr ''render'' p in
    let size' = dflt (lit ''md'') (attr ''size'' p) in
    let isActive = dflt (VBool False) (attr ''isActive'' p) in
    let className = attr ''className'' p in
    let props = rest [''render'', ''size'', ''isActive'', ''className''] p in
    K ''useRender'' [obj [At ''defaultTagName'' (lit ''a''),
        At ''props'' (K ''mergeProps'' [obj [At ''className'' (cn K [lit ''flex h-7 min-w-0 -translate-x-px items-center gap-2 overflow-hidden rounded-none px-2 text-sidebar-foreground ring-sidebar-ring outline-hidden group-data-[collapsible=icon]:hidden hover:bg-sidebar-accent hover:text-sidebar-accent-foreground focus-visible:ring-2 active:bg-sidebar-accent active:text-sidebar-accent-foreground disabled:pointer-events-none disabled:opacity-50 aria-disabled:pointer-events-none aria-disabled:opacity-50 data-[size=md]:text-xs data-[size=sm]:text-xs data-active:bg-sidebar-accent data-active:text-sidebar-accent-foreground [&>span:last-child]:truncate [&>svg]:size-4 [&>svg]:shrink-0 [&>svg]:text-sidebar-accent-foreground'',
                  className])], props]),
        At ''render'' render,
        At ''state'' (obj [At ''slot'' (lit ''sidebar-menu-sub-button''),
            At ''sidebar'' (lit ''menu-sub-button''),
            At ''size'' size',
            At ''active'' isActive])]])\<close>

section \<open>The provider's state and handlers\<close>

text \<open>
  The state of a provider: its own \<open>_open\<close>, \<open>openMobile\<close>, the \<open>open\<close> of the last render, which is
  the one its callbacks close over, the cookie it last wrote and the calls of \<open>onOpenChange\<close>. A
  provider is controlled when it was given \<open>onOpenChange\<close>; \<open>openProp\<close> is its \<open>open\<close> property.
\<close>

record sidebar_state =
  sb_open :: bool
  sb_mobile :: bool
  sb_shown :: bool
  sb_cookie :: "jstr option"
  sb_told :: "bool list"

datatype new_open = Set_to bool | Change "bool \<Rightarrow> bool"

definition sidebar_init :: "bool option \<Rightarrow> bool \<Rightarrow> sidebar_state" where
  "sidebar_init openProp defaultOpen =
     \<lparr>sb_open = defaultOpen, sb_mobile = False,
      sb_shown = (case openProp of Some b \<Rightarrow> b | None \<Rightarrow> defaultOpen),
      sb_cookie = None, sb_told = []\<rparr>"

definition sidebar_render :: "bool option \<Rightarrow> sidebar_state \<Rightarrow> sidebar_state" where
  "sidebar_render openProp s =
     s\<lparr>sb_shown := (case openProp of Some b \<Rightarrow> b | None \<Rightarrow> sb_open s)\<rparr>"

definition cookie_of :: "lib \<Rightarrow> bool \<Rightarrow> jstr" where
  "cookie_of K openState = str_of (tpl K [SIDEBAR_COOKIE_NAME, lit ''='', VBool openState,
     lit ''; path=/; max-age='', SIDEBAR_COOKIE_MAX_AGE])"

definition setOpen :: "lib \<Rightarrow> bool \<Rightarrow> new_open \<Rightarrow> sidebar_state \<Rightarrow> sidebar_state" where
  "setOpen K controlled value s =
    (let openState = (case value of Set_to b \<Rightarrow> b | Change f \<Rightarrow> f (sb_shown s));
         s' = (if controlled then s\<lparr>sb_told := sb_told s @ [openState]\<rparr>
               else s\<lparr>sb_open := openState\<rparr>)
     in s'\<lparr>sb_cookie := Some (cookie_of K openState)\<rparr>)"

definition toggleSidebar :: "lib \<Rightarrow> bool \<Rightarrow> bool \<Rightarrow> sidebar_state \<Rightarrow> sidebar_state" where
  "toggleSidebar K isMobile controlled s =
    (if isMobile then s\<lparr>sb_mobile := \<not> sb_mobile s\<rparr> else setOpen K controlled (Change Not) s)"

text \<open>The keyboard shortcut: whether the default action is prevented, and the state after it.\<close>

definition sidebar_handleKeyDown ::
    "lib \<Rightarrow> bool \<Rightarrow> bool \<Rightarrow> jstr \<Rightarrow> bool \<Rightarrow> bool \<Rightarrow> sidebar_state \<Rightarrow> bool \<times> sidebar_state" where
  "sidebar_handleKeyDown K isMobile controlled key metaKey ctrlKey s =
    (if VStr key = SIDEBAR_KEYBOARD_SHORTCUT \<and> (metaKey \<or> ctrlKey)
     then (True, toggleSidebar K isMobile controlled s)
     else (False, s))"

text \<open>What can happen to a provider that is not controlled.\<close>

inductive sidebar_step :: "lib \<Rightarrow> sidebar_state \<Rightarrow> sidebar_state \<Rightarrow> bool" for K where
  set_open: "sidebar_step K s (setOpen K False value s)"
| toggle: "sidebar_step K s (toggleSidebar K isMobile False s)"
| key: "sidebar_step K s (snd (sidebar_handleKeyDown K isMobile False k m c s))"
| set_mobile: "sidebar_step K s (s\<lparr>sb_mobile := b\<rparr>)"
| render: "sidebar_step K s (sidebar_render None s)"

inductive_cases sidebar_stepE: "sidebar_step K s t"

definition sidebar_ok :: "lib \<Rightarrow> bool \<Rightarrow> sidebar_state \<Rightarrow> bool" where
  "sidebar_ok K defaultOpen s \<longleftrightarrow> sb_told s = [] \<and>
     (case sb_cookie s of None \<Rightarrow> sb_open s = defaultOpen
      | Some c \<Rightarrow> c = cookie_of K (sb_open s))"

lemma setOpen_ok: "sidebar_ok K d s \<Longrightarrow> sidebar_ok K d (setOpen K False value s)"
  by (simp add: sidebar_ok_def setOpen_def Let_def)

lemma sidebar_ok_other [simp]:
  "sidebar_ok K d (s\<lparr>sb_mobile := b\<rparr>) = sidebar_ok K d s"
  "sidebar_ok K d (s\<lparr>sb_shown := b\<rparr>) = sidebar_ok K d s"
  by (cases "sb_cookie s"; simp add: sidebar_ok_def)+

lemma toggle_ok: "sidebar_ok K d s \<Longrightarrow> sidebar_ok K d (toggleSidebar K isMobile False s)"
  by (simp add: toggleSidebar_def setOpen_ok)

lemma sidebar_step_ok: "sidebar_step K s t \<Longrightarrow> sidebar_ok K d s \<Longrightarrow> sidebar_ok K d t"
  by (induction rule: sidebar_step.induct)
    (simp_all add: setOpen_ok toggle_ok sidebar_handleKeyDown_def sidebar_render_def)

lemma sidebar_steps_ok:
  assumes "(sidebar_step K)\<^sup>*\<^sup>* (sidebar_init None d) t"
  shows "sidebar_ok K d t"
  using assms
proof (induction rule: rtranclp_induct)
  case base
  show ?case by (simp add: sidebar_ok_def sidebar_init_def)
next
  case (step s t)
  then show ?case by (blast intro: sidebar_step_ok)
qed

lemma cookie_of_str:
  "cookie_of K b = js (''sidebar_state='' @ (if b then ''true'' else ''false'') @
     ''; path=/; max-age=604800'')"
  by (simp add: cookie_of_def SIDEBAR_COOKIE_NAME_def SIDEBAR_COOKIE_MAX_AGE_def tpl_def
      num_str_def digits.simps js_def)

section \<open>The contract\<close>

text \<open>The rows: slot, the properties read, whether the caller's classes are merged, the component, with what its context holds.\<close>

definition kit_sidebar :: "lib \<Rightarrow> props \<Rightarrow> kit_row list" where
\<open>kit_sidebar K c = [
  (''sidebar-trigger'', [''className'', ''onClick''], True, \<lambda>p. projr (SidebarTrigger K (VObj c) p)),
  (''sidebar-rail'', [''className''], True, \<lambda>p. projr (SidebarRail K (VObj c) p)),
  (''sidebar-inset'', [''className''], True, SidebarInset K),
  (''sidebar-input'', [''className''], True, SidebarInput K),
  (''sidebar-header'', [''className''], True, SidebarHeader K),
  (''sidebar-footer'', [''className''], True, SidebarFooter K),
  (''sidebar-separator'', [''className''], True, SidebarSeparator K),
  (''sidebar-content'', [''className''], True, SidebarContent K),
  (''sidebar-group'', [''className''], True, SidebarGroup K),
  (''sidebar-group-content'', [''className''], True, SidebarGroupContent K),
  (''sidebar-menu'', [''className''], True, SidebarMenu K),
  (''sidebar-menu-item'', [''className''], True, SidebarMenuItem K),
  (''sidebar-menu-badge'', [''className''], True, SidebarMenuBadge K),
  (''sidebar-menu-sub'', [''className''], True, SidebarMenuSub K),
  (''sidebar-menu-sub-item'', [''className''], True, SidebarMenuSubItem K)]\<close>

lemma SidebarTrigger_ok [kit_rows]: "kit_ok K (''sidebar-trigger'', [''className'', ''onClick''], True, \<lambda>p. projr (SidebarTrigger K (VObj c) p))"
  by (simp add: kit_simps SidebarTrigger_def useSidebar_def)

lemma SidebarRail_ok [kit_rows]: "kit_ok K (''sidebar-rail'', [''className''], True, \<lambda>p. projr (SidebarRail K (VObj c) p))"
  by (simp add: kit_simps SidebarRail_def useSidebar_def)

lemma SidebarInset_ok [kit_rows]: "kit_ok K (''sidebar-inset'', [''className''], True, SidebarInset K)"
  by (simp add: kit_simps SidebarInset_def)

lemma SidebarInput_ok [kit_rows]: "kit_ok K (''sidebar-input'', [''className''], True, SidebarInput K)"
  by (simp add: kit_simps SidebarInput_def)

lemma SidebarHeader_ok [kit_rows]: "kit_ok K (''sidebar-header'', [''className''], True, SidebarHeader K)"
  by (simp add: kit_simps SidebarHeader_def)

lemma SidebarFooter_ok [kit_rows]: "kit_ok K (''sidebar-footer'', [''className''], True, SidebarFooter K)"
  by (simp add: kit_simps SidebarFooter_def)

lemma SidebarSeparator_ok [kit_rows]: "kit_ok K (''sidebar-separator'', [''className''], True, SidebarSeparator K)"
  by (simp add: kit_simps SidebarSeparator_def)

lemma SidebarContent_ok [kit_rows]: "kit_ok K (''sidebar-content'', [''className''], True, SidebarContent K)"
  by (simp add: kit_simps SidebarContent_def)

lemma SidebarGroup_ok [kit_rows]: "kit_ok K (''sidebar-group'', [''className''], True, SidebarGroup K)"
  by (simp add: kit_simps SidebarGroup_def)

lemma SidebarGroupContent_ok [kit_rows]: "kit_ok K (''sidebar-group-content'', [''className''], True, SidebarGroupContent K)"
  by (simp add: kit_simps SidebarGroupContent_def)

lemma SidebarMenu_ok [kit_rows]: "kit_ok K (''sidebar-menu'', [''className''], True, SidebarMenu K)"
  by (simp add: kit_simps SidebarMenu_def)

lemma SidebarMenuItem_ok [kit_rows]: "kit_ok K (''sidebar-menu-item'', [''className''], True, SidebarMenuItem K)"
  by (simp add: kit_simps SidebarMenuItem_def)

lemma SidebarMenuBadge_ok [kit_rows]: "kit_ok K (''sidebar-menu-badge'', [''className''], True, SidebarMenuBadge K)"
  by (simp add: kit_simps SidebarMenuBadge_def)

lemma SidebarMenuSub_ok [kit_rows]: "kit_ok K (''sidebar-menu-sub'', [''className''], True, SidebarMenuSub K)"
  by (simp add: kit_simps SidebarMenuSub_def)

lemma SidebarMenuSubItem_ok [kit_rows]: "kit_ok K (''sidebar-menu-sub-item'', [''className''], True, SidebarMenuSubItem K)"
  by (simp add: kit_simps SidebarMenuSubItem_def)

lemma kit_sidebar_ok: "list_all (kit_ok K) (kit_sidebar K c)"
  by (simp add: kit_sidebar_def kit_rows)

end
