(* ===== verification/UiProps.thy ===== *)
theory UiProps
  imports UiMenus UiMessages UiField UiCarousel UiChart UiSidebar
begin

text \<open>
  The properties of the component kit: the contract every thin component keeps, what the hooks
  answer inside and outside their providers, and the parts of the kit that keep a state.
\<close>

definition kit :: "lib \<Rightarrow> props \<Rightarrow> kit_row list" where
  "kit K c = kit_layout K @ kit_controls K c @ kit_overlays K @ kit_menus K @ kit_messages K @
     kit_field K @ kit_carousel K c @ kit_chart K @ kit_sidebar K c"

lemma kit_rows_ok: "list_all (kit_ok K) (kit K c)"
  by (simp add: kit_def kit_layout_ok kit_controls_ok kit_overlays_ok kit_menus_ok kit_messages_ok
      kit_field_ok kit_carousel_ok kit_chart_ok kit_sidebar_ok)

definition sample_lib :: lib where
  "sample_lib f xs = (if f = ''String'' then VStr [] else VObj [(js f, VArr xs)])"

section \<open>The contract\<close>

text \<open>
  C35: every thin component of the kit, whatever the packages below it do, draws an element that
  carries each attribute the caller gave and the component does not read itself, with the caller's
  value even where the component has one of its own; that is named by the component's
  \<open>data-slot\<close> unless the caller names it; and whose class is the merge of the component's classes
  with the caller's, which come last.
\<close>

theorem kit_contract:
  assumes "(slot, ns, m, C) \<in> set (kit K c)" and "distinct (keys p)"
  shows "\<exists>t ky ps. VEl t ky ps \<in> set (nodes (C p)) \<and>
    (\<forall>k \<in> set (keys p). k \<notin> js ` set ns \<and> k \<noteq> js ''children'' \<longrightarrow> get k ps = get k p) \<and>
    (slot \<noteq> [] \<and> js ''data-slot'' \<notin> set (keys p) \<longrightarrow> get (js ''data-slot'') ps = lit slot) \<and>
    (m \<longrightarrow> carries K (attr ''className'' p) (get (js ''className'') ps))"
proof -
  have "kit_ok K (slot, ns, m, C)"
    using kit_rows_ok [of K c] assms(1) by (auto simp: list_all_iff)
  then show ?thesis
    using assms(2) by (simp add: kit_ok_def reaches_def passes_on_def)
qed

definition sample_props :: props where
  "sample_props = [(js ''id'', lit ''go''), (js ''data-slot'', lit ''mine'')]"

lemma Button_row: "(''button'', [''className'', ''variant'', ''size''], True, Button K) \<in> set (kit K c)"
  by (simp add: kit_def kit_controls_def)

theorem kit_contract_witness:
  "\<exists>t ky ps. VEl t ky ps \<in> set (nodes (Button sample_lib sample_props)) \<and>
     get (js ''id'') ps = lit ''go'' \<and> get (js ''data-slot'') ps = lit ''mine''"
proof -
  have d: "distinct (keys sample_props)" by (simp add: sample_props_def)
  obtain t ky ps where n: "VEl t ky ps \<in> set (nodes (Button sample_lib sample_props))"
    and k: "\<forall>k \<in> set (keys sample_props). k \<notin> js ` set [''className'', ''variant'', ''size''] \<and>
       k \<noteq> js ''children'' \<longrightarrow> get k ps = get k sample_props"
    using kit_contract [OF Button_row d] by blast
  then show ?thesis by (intro exI [of _ t] exI [of _ ky] exI [of _ ps]) (auto simp: sample_props_def)
qed

section \<open>Providers and hooks\<close>

text \<open>The value a provider element gives to the components below it.\<close>

definition provided :: "val \<Rightarrow> val" where
  "provided e = dot (dot e ''props'') ''value''"

lemma provided_el [simp]:
  "provided (elk t k (At ''value'' v # fs) xs) =
     get (js ''value'') (fold add_field fs [(js ''value'', v)])"
  by (simp add: provided_def elk_def)

lemma truthy_obj [simp]: "truthy (obj fs)"
  by (simp add: obj_def)

lemmas hook_defs = useSidebar_def useCarousel_def useChart_def useDrawer_def

text \<open>
  C36: a part that needs its provider throws exactly when it is drawn outside of one, and each
  provider gives a value under which its parts are drawn.
\<close>

theorem parts_need_their_provider:
  "(isl (Sidebar K c p) \<longleftrightarrow> \<not> truthy c) \<and>
   (isl (SidebarTrigger K c p) \<longleftrightarrow> \<not> truthy c) \<and>
   (isl (SidebarRail K c p) \<longleftrightarrow> \<not> truthy c) \<and>
   (isl (SidebarMenuButton K c p) \<longleftrightarrow> \<not> truthy c) \<and>
   (isl (CarouselContent K c p) \<longleftrightarrow> \<not> truthy c) \<and>
   (isl (CarouselItem K c p) \<longleftrightarrow> \<not> truthy c) \<and>
   (isl (CarouselPrevious K c p) \<longleftrightarrow> \<not> truthy c) \<and>
   (isl (CarouselNext K c p) \<longleftrightarrow> \<not> truthy c) \<and>
   (isl (ChartTooltipContent K c p) \<longleftrightarrow> \<not> truthy c) \<and>
   (isl (ChartLegendContent K c p) \<longleftrightarrow> \<not> truthy c) \<and>
   (isl (DrawerContent K c p) \<longleftrightarrow> \<not> truthy c) \<and>
   truthy (provided (SidebarProvider K isMobile openMobile opened p)) \<and>
   truthy (provided (Carousel K canPrev canNext p)) \<and>
   truthy (provided (ChartContainer K p)) \<and>
   truthy (provided (Drawer K p))"
  by (cases "truthy c";
      intro conjI;
      simp add: hook_defs Let_def Sidebar_def SidebarTrigger_def SidebarRail_def SidebarMenuButton_def
        CarouselContent_def CarouselItem_def CarouselPrevious_def CarouselNext_def
        ChartTooltipContent_def ChartLegendContent_def DrawerContent_def
        SidebarProvider_def Carousel_def ChartContainer_def Drawer_def)+

section \<open>Error messages of a field\<close>

definition message :: "val \<Rightarrow> val" where
  "message e = dot e ''message''"

lemma remdups_replicate_Suc: "remdups (replicate (Suc n) x) = [x]"
  by (induction n) auto

lemma unique_messages:
  "map fst (fold (\<lambda>e. map_set (dot e ''message'') e) es []) = rev (remdups (rev (map message es)))"
proof (induction es rule: rev_induct)
  case (snoc e es)
  have "dot e ''message'' \<in> fst ` set (fold (\<lambda>e. map_set (dot e ''message'') e) es []) \<longleftrightarrow>
      message e \<in> set (map message es)"
    using arg_cong [OF snoc, of set] by (simp add: message_def)
  then show ?case by (simp add: map_set_keys snoc message_def)
qed simp

lemma uniqueErrors_messages: "map message (uniqueErrors es) = rev (remdups (rev (map message es)))"
proof -
  have "\<forall>(k, v) \<in> set (fold (\<lambda>e. map_set (dot e ''message'') e) es []). dot v ''message'' = k"
    using uniqueErrors_fold [of "[]" es] by (simp add: Let_def)
  then have "map message (uniqueErrors es) = map fst (fold (\<lambda>e. map_set (dot e ''message'') e) es [])"
    by (auto simp: uniqueErrors_def message_def)
  then show ?thesis by (simp only: unique_messages)
qed

lemma jmap_upt: "jmap f (VArr xs) = VArr (map (\<lambda>i. f (xs ! i) (VNum (int i))) [0..<length xs])"
  by (auto simp: jmap_def indexed_def intro!: nth_equalityI)

lemma jmap_messages: "jmap (\<lambda>e. f (message e)) (VArr xs) = jmap f (VArr (map message xs))"
  by (simp add: jmap_def indexed_def zip_map1 comp_def case_prod_unfold)

text \<open>
  C37: what a field shows of its errors. Children of its own come before any error. Otherwise it shows
  nothing when there are no errors, the message itself when all of them have the same one, and else a
  list with one item for every distinct message that is not empty, in the order of the first error
  that has it. The alert is drawn around exactly that content, and not at all when it is empty.
\<close>

theorem field_error_messages:
  "FieldError_content c (VArr es) =
    (let ms = rev (remdups (rev (map message es))) in
     if truthy c then c
     else if es = [] then VNull
     else if length ms = 1 then hd ms
     else el (tag ''ul'') [At ''className'' (lit ''ml-4 flex list-disc flex-col gap-1'')]
       [VArr (map (\<lambda>i. if truthy (ms ! i) then elk (tag ''li'') (VNum (int i)) [] [ms ! i] else ms ! i)
          [0..<length ms])]) \<and>
   (let shown = FieldError_content (attr ''children'' p) (attr ''errors'' p) in
    if truthy shown then is_element (FieldError K p) \<and> dot (dot (FieldError K p) ''props'') ''children'' = shown
    else FieldError K p = VNull)"
proof (intro conjI)
  let ?ms = "rev (remdups (rev (map message es)))"
  have u: "map message (uniqueErrors es) = ?ms" by (rule uniqueErrors_messages)
  have l: "length (uniqueErrors es) = length ?ms" using arg_cong [OF u, of length] by simp
  have h: "dot (hd (uniqueErrors es)) ''message'' = hd ?ms" if "length ?ms = 1"
  proof -
    from that l have "uniqueErrors es \<noteq> []" by auto
    then have "hd (map message (uniqueErrors es)) = message (hd (uniqueErrors es))" by (rule hd_map)
    then show ?thesis by (simp add: u message_def)
  qed
  have m: "jmap (\<lambda>e i. jand (dot e ''message'') (elk (tag ''li'') i [] [dot e ''message''])) (VArr (uniqueErrors es))
      = VArr (map (\<lambda>i. if truthy (?ms ! i) then elk (tag ''li'') (VNum (int i)) [] [?ms ! i] else ?ms ! i)
          [0..<length ?ms])"
    using jmap_messages [of "\<lambda>v i. jand v (elk (tag ''li'') i [] [v])" "uniqueErrors es"]
    by (simp only: message_def [symmetric] u jmap_upt jand_def)
  have e: "truthy (dot (VArr es) ''length'') \<longleftrightarrow> es \<noteq> []" by simp
  show "FieldError_content c (VArr es) =
    (let ms = ?ms in
     if truthy c then c
     else if es = [] then VNull
     else if length ms = 1 then hd ms
     else el (tag ''ul'') [At ''className'' (lit ''ml-4 flex list-disc flex-col gap-1'')]
       [VArr (map (\<lambda>i. if truthy (ms ! i) then elk (tag ''li'') (VNum (int i)) [] [ms ! i] else ms ! i)
          [0..<length ms])])"
    unfolding FieldError_content_def Let_def e items.simps m l
    by (cases "length ?ms = 1") (simp_all only: h not_not if_True if_False cong: if_cong)
  show "let shown = FieldError_content (attr ''children'' p) (attr ''errors'' p) in
    if truthy shown then is_element (FieldError K p) \<and> dot (dot (FieldError K p) ''props'') ''children'' = shown
    else FieldError K p = VNull"
    by (simp add: FieldError_def Let_def is_element_def elk_def)
qed

section \<open>The sidebar\<close>

text \<open>
  C38: whatever sequence of clicks, shortcuts, calls and renders an uncontrolled sidebar goes
  through, the cookie it last wrote records the state it is in, and the parent is never called.
\<close>

theorem sidebar_cookie_agrees:
  assumes "(sidebar_step K)\<^sup>*\<^sup>* (sidebar_init None defaultOpen) s"
  shows "sb_told s = [] \<and> (if sb_cookie s = None then sb_open s = defaultOpen
    else sb_cookie s = Some (js (''sidebar_state='' @ (if sb_open s then ''true'' else ''false'') @
      ''; path=/; max-age=604800'')))"
  using sidebar_steps_ok [OF assms]
  by (auto simp: sidebar_ok_def cookie_of_str split: option.splits)

theorem sidebar_cookie_agrees_witness:
  "sb_cookie (toggleSidebar sample_lib False False (sidebar_init None True)) =
     Some (js ''sidebar_state=false; path=/; max-age=604800'') \<and>
   sb_told (toggleSidebar sample_lib False False (sidebar_init None True)) = []"
proof -
  have "(sidebar_step sample_lib)\<^sup>*\<^sup>* (sidebar_init None True)
      (toggleSidebar sample_lib False False (sidebar_init None True))"
    by (rule r_into_rtranclp) (rule sidebar_step.toggle)
  from sidebar_cookie_agrees [OF this] show ?thesis
    by (auto simp: toggleSidebar_def setOpen_def sidebar_init_def)
qed

text \<open>A parent that controls the sidebar: its own flag, and that it takes the value it was last told.\<close>

definition obeying :: "lib \<Rightarrow> bool \<times> sidebar_state \<Rightarrow> bool \<times> sidebar_state" where
  "obeying K = (\<lambda>(b, s). let t = toggleSidebar K False True (sidebar_render (Some b) s) in (last (sb_told t), t))"

lemma toggle_shown: "sb_shown (toggleSidebar K False ctl s) = sb_shown s"
  by (simp add: toggleSidebar_def setOpen_def Let_def)

lemma toggles_shown: "sb_shown ((toggleSidebar K False ctl ^^ n) s) = sb_shown s"
  by (induction n) (simp_all add: toggle_shown)

lemma toggles_unrendered:
  "sb_open ((toggleSidebar K False False ^^ Suc n) s) = (\<not> sb_shown s)"
  "sb_told ((toggleSidebar K False True ^^ n) s) = sb_told s @ replicate n (\<not> sb_shown s)"
  "sb_open ((toggleSidebar K False True ^^ n) s) = sb_open s"
proof -
  have o: "sb_open (toggleSidebar K False False t) = (\<not> sb_shown t)" for t
    by (simp add: toggleSidebar_def setOpen_def Let_def)
  show "sb_open ((toggleSidebar K False False ^^ Suc n) s) = (\<not> sb_shown s)" by (simp add: o toggles_shown)
  have t: "sb_told (toggleSidebar K False True t) = sb_told t @ [\<not> sb_shown t]" for t
    by (simp add: toggleSidebar_def setOpen_def Let_def)
  show "sb_told ((toggleSidebar K False True ^^ n) s) = sb_told s @ replicate n (\<not> sb_shown s)"
    by (induction n) (simp_all add: t toggles_shown replicate_append_same)
  have o: "sb_open (toggleSidebar K False True t) = sb_open t" for t
    by (simp add: toggleSidebar_def setOpen_def Let_def)
  show "sb_open ((toggleSidebar K False True ^^ n) s) = sb_open s" by (induction n) (simp_all add: o)
qed

text \<open>
  C39: any number of toggles of the sidebar. On a phone, and on a desktop when a render comes before
  each of them, they alternate: an odd number of them changes the state and an even number does not,
  also when a parent controls the sidebar and takes what it is told. Without a render in between they
  all close over the state that was last drawn, so that on a desktop any number of them acts as one, and a
  controlling parent is told the same value every time.
\<close>

theorem sidebar_toggles:
  "sb_mobile ((toggleSidebar K True ctl ^^ n) s) = (sb_mobile s = even n) \<and>
   sb_mobile (((\<lambda>t. toggleSidebar K True ctl (sidebar_render prop t)) ^^ n) s) = (sb_mobile s = even n) \<and>
   sb_open (((\<lambda>t. toggleSidebar K False False (sidebar_render None t)) ^^ n) s) = (sb_open s = even n) \<and>
   fst ((obeying K ^^ n) (b, s)) = (b = even n) \<and>
   sb_open ((toggleSidebar K False False ^^ Suc n) (sidebar_render None s)) = (\<not> sb_open s) \<and>
   sb_open ((toggleSidebar K False True ^^ n) (sidebar_render (Some b) s)) = sb_open s \<and>
   sb_told ((toggleSidebar K False True ^^ n) (sidebar_render (Some b) s)) = sb_told s @ replicate n (\<not> b)"
proof (intro conjI)
  show "sb_mobile ((toggleSidebar K True ctl ^^ n) s) = (sb_mobile s = even n)"
    by (induction n) (auto simp: toggleSidebar_def)
  show "sb_mobile (((\<lambda>t. toggleSidebar K True ctl (sidebar_render prop t)) ^^ n) s) = (sb_mobile s = even n)"
    by (induction n) (auto simp: toggleSidebar_def sidebar_render_def)
  show "sb_open (((\<lambda>t. toggleSidebar K False False (sidebar_render None t)) ^^ n) s) = (sb_open s = even n)"
    by (induction n) (auto simp: toggleSidebar_def sidebar_render_def setOpen_def Let_def)
  show "fst ((obeying K ^^ n) (b, s)) = (b = even n)"
    by (induction n) (auto simp: obeying_def toggleSidebar_def sidebar_render_def setOpen_def Let_def split_beta)
  show "sb_open ((toggleSidebar K False False ^^ Suc n) (sidebar_render None s)) = (\<not> sb_open s)"
    using toggles_unrendered(1) [where s = "sidebar_render None s" and K = K and n = n] by (simp add: sidebar_render_def)
  show "sb_open ((toggleSidebar K False True ^^ n) (sidebar_render (Some b) s)) = sb_open s"
    using toggles_unrendered(3) [where s = "sidebar_render (Some b) s" and K = K and n = n] by (simp add: sidebar_render_def)
  show "sb_told ((toggleSidebar K False True ^^ n) (sidebar_render (Some b) s)) = sb_told s @ replicate n (\<not> b)"
    using toggles_unrendered(2) [where s = "sidebar_render (Some b) s" and K = K and n = n] by (simp add: sidebar_render_def)
qed

section \<open>The carousel and the calendar\<close>

text \<open>
  C40: every time the carousel's effect is run and cleaned up on one scroller a listener stays
  behind: the clean-up takes off the one of \<open>select\<close> and leaves the one of \<open>reInit\<close>.
\<close>

theorem carousel_listeners_stay:
  "cs_on ((remount (Some api) ^^ n) carousel_init) = replicate n (js ''reInit'')"
  by (simp add: remounts_on carousel_init_def)

text \<open>
  the reference a day button of the calendar creates for its focus effect is on no element:
  the reference of the element it draws is the caller's, and when the caller gives none the effect
  has nothing to focus.
\<close>

theorem calendar_ref_unattached:
  assumes "distinct (keys p)"
  shows "dot (dot (CalendarDayButton K p) ''props'') ''ref'' = attr ''ref'' p \<and>
    CalendarDayButton_effect modifiers VNull = []"
  using assms
  by (simp add: CalendarDayButton_def Let_def elk_def attr_def get_outside get_spread rest_def
      distinct_omit keys_omit CalendarDayButton_effect_def nullish_def)

theorem calendar_ref_unattached_witness:
  "dot (dot (CalendarDayButton sample_lib sample_props) ''props'') ''ref'' = VUndef"
  using calendar_ref_unattached [of sample_props sample_lib]
  by (simp add: sample_props_def attr_def)

end
