(* ===== verification/Regex.thy ===== *)
theory Regex
  imports Js
begin

text \<open>
  Regular expressions with the backtracking semantics of JavaScript: \<open>ms\<close> lists the ways an
  expression matches from a position, in the order the engine tries them, so that its first entry
  is the match the engine finds. A repetition goes on only when it has consumed something. The
  expressions of the source are spelled with the constructors; classes are predicates on units.
\<close>

type_synonym caps = "(nat \<times> jstr) list"

datatype re = Eps | Cls "nat \<Rightarrow> bool" | Seq re re | Alt re re | Star bool re | Cap nat re
  | Bol bool | Eol bool

definition slice :: "nat \<Rightarrow> nat \<Rightarrow> 'a list \<Rightarrow> 'a list" where
  "slice i j s = take (j - i) (drop i s)"

definition line_end :: "nat \<Rightarrow> bool" where
  "line_end u \<longleftrightarrow> u \<in> set [10, 13, 8232, 8233]"

function ms :: "re \<Rightarrow> jstr \<Rightarrow> nat \<Rightarrow> caps \<Rightarrow> (nat \<times> caps) list" where
  "ms Eps s i c = [(i, c)]"
| "ms (Cls P) s i c = (if i < length s \<and> P (s ! i) then [(Suc i, c)] else [])"
| "ms (Seq r q) s i c = concat (map (\<lambda>(j, d). ms q s j d) (ms r s i c))"
| "ms (Alt r q) s i c = ms r s i c @ ms q s i c"
| "ms (Star greedy r) s i c =
    (let more = concat (map (\<lambda>(j, d). if i < j \<and> j \<le> length s then ms (Star greedy r) s j d else [])
        (ms r s i c))
     in if greedy then more @ [(i, c)] else (i, c) # more)"
| "ms (Cap n r) s i c = map (\<lambda>(j, d). (j, (n, slice i j s) # d)) (ms r s i c)"
| "ms (Bol m) s i c = (if i = 0 \<or> m \<and> i \<le> length s \<and> line_end (s ! (i - 1)) then [(i, c)] else [])"
| "ms (Eol m) s i c = (if i = length s \<or> m \<and> i < length s \<and> line_end (s ! i) then [(i, c)] else [])"
  by pat_completeness auto
termination
  by (relation "measures [\<lambda>(r, s, i, c). size r, \<lambda>(r, s, i, c). length s - i]") auto

declare ms.simps(5) [simp del]

section \<open>Spelling\<close>

fun word :: "jstr \<Rightarrow> re" where
  "word [] = Eps"
| "word [u] = Cls ((=) u)"
| "word (u # us) = Seq (Cls ((=) u)) (word us)"

abbreviation lit_re :: "string \<Rightarrow> re" where "lit_re s \<equiv> word (js s)"

fun seq :: "re list \<Rightarrow> re" where
  "seq [] = Eps"
| "seq [r] = r"
| "seq (r # rs) = Seq r (seq rs)"

definition many :: "re \<Rightarrow> re" where "many = Star True"
definition lazily :: "re \<Rightarrow> re" where "lazily = Star False"
definition some_of :: "re \<Rightarrow> re" where "some_of r = Seq r (many r)"
definition opt :: "re \<Rightarrow> re" where "opt r = Alt r Eps"

fun times :: "nat \<Rightarrow> re \<Rightarrow> re" where
  "times 0 r = Eps"
| "times (Suc n) r = Seq r (times n r)"

definition any_of :: "string \<Rightarrow> re" where "any_of cs = Cls (\<lambda>u. u \<in> set (js cs))"
definition none_of :: "string \<Rightarrow> re" where "none_of cs = Cls (\<lambda>u. u \<notin> set (js cs))"

definition digit_unit :: "nat \<Rightarrow> bool" where "digit_unit u \<longleftrightarrow> 48 \<le> u \<and> u \<le> 57"

text \<open>\<open>\\s\<close>, which is also what \<open>trim\<close> takes off.\<close>

definition space_unit :: "nat \<Rightarrow> bool" where
  "space_unit u \<longleftrightarrow> 9 \<le> u \<and> u \<le> 13 \<or> u = 32 \<or> u = 160 \<or> u = 5760 \<or> 8192 \<le> u \<and> u \<le> 8202 \<or>
     u = 8232 \<or> u = 8233 \<or> u = 8239 \<or> u = 8287 \<or> u = 12288 \<or> u = 65279"

abbreviation digit :: re where "digit \<equiv> Cls digit_unit"
abbreviation space :: re where "space \<equiv> Cls space_unit"
abbreviation dot_re :: re where "dot_re \<equiv> Cls (\<lambda>u. \<not> line_end u)"
abbreviation anything :: re where "anything \<equiv> Cls (\<lambda>u. True)"

section \<open>Searching, replacing, splitting\<close>

text \<open>The first match that starts at or after a position: where it starts and ends, its groups.\<close>

definition match_from :: "re \<Rightarrow> jstr \<Rightarrow> nat \<Rightarrow> (nat \<times> nat \<times> caps) option" where
  "match_from r s k =
    (case filter (\<lambda>i. ms r s i [] \<noteq> []) [k..<Suc (length s)] of
       [] \<Rightarrow> None
     | i # _ \<Rightarrow> Some (i, fst (hd (ms r s i [])), snd (hd (ms r s i []))))"

definition exec :: "re \<Rightarrow> jstr \<Rightarrow> caps option" where
  "exec r s = map_option (\<lambda>(i, j, c). (0, slice i j s) # c) (match_from r s 0)"

definition cap :: "nat \<Rightarrow> caps \<Rightarrow> jstr" where
  "cap n c = (case map_of c n of Some x \<Rightarrow> x | None \<Rightarrow> [])"

definition replace1 :: "re \<Rightarrow> (caps \<Rightarrow> jstr) \<Rightarrow> jstr \<Rightarrow> jstr" where
  "replace1 r f s = (case match_from r s 0 of None \<Rightarrow> s | Some (i, j, c) \<Rightarrow> take i s @ f c @ drop j s)"

text \<open>With the flag g: from the end of each match to the next, one unit further after an empty one.\<close>

function replace_from :: "re \<Rightarrow> (caps \<Rightarrow> jstr) \<Rightarrow> jstr \<Rightarrow> nat \<Rightarrow> jstr" where
  "replace_from r f s k =
    (case match_from r s k of
       None \<Rightarrow> drop k s
     | Some (i, j, c) \<Rightarrow>
         if k \<le> i \<and> i < j \<and> j \<le> length s then slice k i s @ f c @ replace_from r f s j
         else if k \<le> i \<and> i < length s then slice k i s @ f c @ slice i (Suc i) s @ replace_from r f s (Suc i)
         else slice k i s @ f c)"
  by pat_completeness auto
termination
  by (relation "measure (\<lambda>(r, f, s, k). length s - k)") auto

declare replace_from.simps [simp del]

definition replace_all :: "re \<Rightarrow> (caps \<Rightarrow> jstr) \<Rightarrow> jstr \<Rightarrow> jstr" where
  "replace_all r f s = replace_from r f s 0"

text \<open>\<open>split\<close> at an expression that matches no empty string.\<close>

function split_from :: "re \<Rightarrow> jstr \<Rightarrow> nat \<Rightarrow> jstr list" where
  "split_from r s k =
    (case match_from r s k of
       None \<Rightarrow> [drop k s]
     | Some (i, j, c) \<Rightarrow>
         if k \<le> i \<and> i < j \<and> j \<le> length s then slice k i s # split_from r s j else [drop k s])"
  by pat_completeness auto
termination
  by (relation "measure (\<lambda>(r, s, k). length s - k)") auto

declare split_from.simps [simp del]

definition re_split :: "re \<Rightarrow> jstr \<Rightarrow> jstr list" where
  "re_split r s = split_from r s 0"

section \<open>String methods\<close>

definition trim :: "jstr \<Rightarrow> jstr" where
  "trim s = rev (dropWhile space_unit (rev (dropWhile space_unit s)))"

definition starts :: "jstr \<Rightarrow> string \<Rightarrow> bool" where
  "starts s p \<longleftrightarrow> take (length p) s = js p"

fun split_on :: "nat \<Rightarrow> jstr \<Rightarrow> jstr list" where
  "split_on u [] = [[]]"
| "split_on u (x # xs) = (if x = u then [] # split_on u xs
     else (case split_on u xs of y # ys \<Rightarrow> (x # y) # ys | [] \<Rightarrow> [[x]]))"

definition contains :: "jstr \<Rightarrow> jstr \<Rightarrow> bool" where
  "contains s p \<longleftrightarrow> list_ex (\<lambda>i. take (length p) (drop i s) = p) [0..<Suc (length s)]"

definition padStart2 :: "jstr \<Rightarrow> jstr" where
  "padStart2 s = replicate (2 - length s) 48 @ s"

section \<open>Laws\<close>

lemma split_on_ne [simp]: "split_on u s \<noteq> []"
  by (induction s) (auto split: list.splits)

lemma split_on_join: "join [u] (split_on u s) = s"
proof (induction s)
  case (Cons x s)
  obtain y ys where y: "split_on u s = y # ys" by (cases "split_on u s") auto
  then show ?case using Cons by (auto simp: join_def)
qed (simp add: join_def)

lemma split_on_free: "p \<in> set (split_on u s) \<Longrightarrow> u \<notin> set p"
proof (induction s arbitrary: p)
  case (Cons x s)
  obtain y ys where "split_on u s = y # ys" by (cases "split_on u s") auto
  then show ?case using Cons by (auto split: if_splits)
qed simp

lemma ms_bound: "(j, d) \<in> set (ms r s i c) \<Longrightarrow> i \<le> length s \<Longrightarrow> i \<le> j \<and> j \<le> length s"
proof (induction r s i c arbitrary: j d rule: ms.induct)
  case (3 r q s i c)
  obtain j' d' where m: "(j', d') \<in> set (ms r s i c)" "(j, d) \<in> set (ms q s j' d')"
    using 3(3) by auto
  then show ?case using 3(1) [OF m(1) 3(4)] 3(2) [OF m(1) refl m(2)] by simp
next
  case (5 greedy r s i c)
  show ?case
  proof (cases "j = i")
    case False
    then obtain j' d' where m: "(j', d') \<in> set (ms r s i c)" "i < j'" "j' \<le> length s"
        "(j, d) \<in> set (ms (Star greedy r) s j' d')"
      using 5(3) False unfolding ms.simps(5) [of greedy r s i c] Let_def
      by (auto split: if_splits)
    show ?thesis using 5(2) [OF m(1) refl _ m(4) m(3)] m(2,3) by auto
  qed (simp add: 5(4))
next
  case (4 r q s i c)
  have "(j, d) \<in> set (ms r s i c) \<or> (j, d) \<in> set (ms q s i c)" using 4(3) by simp
  then show ?case using 4(1,2) 4(4) by blast
next
  case (6 n r s i c)
  obtain d' where "(j, d') \<in> set (ms r s i c)" using 6(2) by auto
  then show ?case using 6(1,3) by blast
qed (simp_all split: if_splits)

lemma match_from_bound:
  assumes "match_from r s k = Some (i, j, c)"
  shows "k \<le> i \<and> i \<le> j \<and> j \<le> length s"
proof -
  obtain is' where f: "filter (\<lambda>i. ms r s i [] \<noteq> []) [k..<Suc (length s)] = i # is'"
      and j: "j = fst (hd (ms r s i []))"
    using assms by (auto simp: match_from_def split: list.splits)
  have i: "i \<in> set [k..<Suc (length s)]" and ne: "ms r s i [] \<noteq> []"
    using arg_cong [OF f, of set] by auto
  have "(j, snd (hd (ms r s i []))) \<in> set (ms r s i [])"
    using ne j by (metis hd_in_set prod.collapse)
  then show ?thesis using ms_bound [of j _ r s i "[]"] i by auto
qed

lemma match_from_None: "match_from r s k = None \<longleftrightarrow> (\<forall>i. k \<le> i \<and> i \<le> length s \<longrightarrow> ms r s i [] = [])"
proof -
  have "match_from r s k = None \<longleftrightarrow> filter (\<lambda>i. ms r s i [] \<noteq> []) [k..<Suc (length s)] = []"
    unfolding match_from_def by (auto split: list.split simp del: upt_Suc)
  then show ?thesis by (auto simp: filter_empty_conv less_Suc_eq_le simp del: upt_Suc)
qed

lemma slice_length [simp]: "j \<le> length s \<Longrightarrow> i \<le> j \<Longrightarrow> length (slice i j s) = j - i"
  by (simp add: slice_def)

lemma set_slice: "set (slice i j s) \<subseteq> set s"
  unfolding slice_def by (meson order_trans set_drop_subset set_take_subset)

lemma ms_word:
  "i \<le> length s \<Longrightarrow> ms (word w) s i c = (if take (length w) (drop i s) = w then [(i + length w, c)] else [])"
proof (induction w arbitrary: i rule: word.induct)
  case (2 u)
  then show ?case by (cases "drop i s") (auto simp: drop_eq_Nil2 nth_via_drop hd_drop_conv_nth [symmetric])
next
  case (3 u v us)
  show ?case
  proof (cases "i < length s")
    case True
    then have "drop i s = s ! i # drop (Suc i) s" by (simp add: Cons_nth_drop_Suc)
    then show ?thesis using 3(1) [of "Suc i"] True by auto
  qed (use 3 in auto)
qed simp

text \<open>A run of a class: all the ways to match it, the longest first.\<close>

definition run :: "(nat \<Rightarrow> bool) \<Rightarrow> jstr \<Rightarrow> nat \<Rightarrow> nat" where
  "run P s i = length (takeWhile P (drop i s))"

lemma run_step: "run P s i = (if i < length s \<and> P (s ! i) then Suc (run P s (Suc i)) else 0)"
proof (cases "i < length s")
  case True
  then have "drop i s = s ! i # drop (Suc i) s" by (simp add: Cons_nth_drop_Suc)
  then show ?thesis using True by (simp add: run_def)
qed (simp add: run_def)

lemma run_le: "run P s i \<le> length s - i"
  unfolding run_def by (metis length_drop length_takeWhile_le)

lemma ms_many:
  "ms (many (Cls P)) s i c = map (\<lambda>n. (i + n, c)) (rev [0..<Suc (run P s i)])"
proof (induction "run P s i" arbitrary: i)
  case 0
  then have "\<not> (i < length s \<and> P (s ! i))" using run_step [of P s i] by (auto split: if_splits)
  then show ?case using 0 by (auto simp: many_def ms.simps(5) [of True "Cls P" s i])
next
  case (Suc m)
  then have i: "i < length s" "P (s ! i)" and m: "m = run P s (Suc i)"
    using run_step [of P s i] by (auto split: if_splits)
  have "ms (many (Cls P)) s i c = ms (many (Cls P)) s (Suc i) c @ [(i, c)]"
    using i by (simp add: many_def ms.simps(5) [of True "Cls P" s i])
  also have "\<dots> = map (\<lambda>n. (i + Suc n, c)) (rev [0..<Suc m]) @ [(i, c)]"
    using Suc(1) [OF m] m by simp
  also have "\<dots> = map (\<lambda>n. (i + n, c)) (rev (map Suc [0..<Suc m]) @ [0])"
    by (simp add: rev_map)
  also have "rev (map Suc [0..<Suc m]) @ [0] = rev [0..<Suc (Suc m)]"
    by (simp only: map_Suc_upt rev.simps(2) [symmetric] upt_conv_Cons [of 0 "Suc (Suc m)"] zero_less_Suc)
  finally show ?case using Suc(2) by simp
qed

lemma ms_some_of:
  "ms (some_of (Cls P)) s i c = map (\<lambda>n. (i + n, c)) (rev [1..<Suc (run P s i)])"
proof (cases "i < length s \<and> P (s ! i)")
  case True
  have "map (\<lambda>n. (Suc i + n, c)) (rev [0..<Suc (run P s (Suc i))]) =
      map (\<lambda>n. (i + n, c)) (rev (map Suc [0..<Suc (run P s (Suc i))]))"
    by (simp add: rev_map)
  then show ?thesis
    using True run_step [of P s i] by (simp add: some_of_def ms_many map_Suc_upt del: upt_Suc)
qed (use run_step [of P s i] in \<open>auto simp: some_of_def\<close>)

lemma match_fromI:
  assumes "k \<le> i" and "i \<le> length s" and "ms r s i [] = (j, d) # ms'"
    and "\<And>i'. k \<le> i' \<Longrightarrow> i' < i \<Longrightarrow> ms r s i' [] = []"
  shows "match_from r s k = Some (i, j, d)"
proof -
  have "[k..<Suc (length s)] = [k..<i] @ i # [Suc i..<Suc (length s)]"
    using upt_add_eq_append [of k i "Suc (length s) - i"] upt_conv_Cons [of i "Suc (length s)"] assms(1,2)
    by (simp del: upt_Suc)
  moreover have "filter (\<lambda>i. ms r s i [] \<noteq> []) [k..<i] = []"
    using assms(4) by (auto simp: filter_empty_conv)
  ultimately show ?thesis using assms(3) by (simp add: match_from_def del: upt_Suc)
qed

end
