(* ===== verification/Uri.thy ===== *)
theory Uri
  imports Regex
begin

text \<open>
  The URL functions of the language and of the browser that the reader uses: UTF-16 and UTF-8,
  \<open>encodeURIComponent\<close>, \<open>decodeURIComponent\<close> (both fail with a URIError), and the query string:
  what \<open>history.pushState\<close> makes of it and what \<open>URLSearchParams\<close> reads from it, which replaces
  ill-formed UTF-8 by U+FFFD instead of failing.
\<close>

section \<open>UTF-16 and UTF-8\<close>

definition is_high :: "nat \<Rightarrow> bool" where "is_high u \<longleftrightarrow> 55296 \<le> u \<and> u < 56320"
definition is_low :: "nat \<Rightarrow> bool" where "is_low u \<longleftrightarrow> 56320 \<le> u \<and> u < 57344"

fun code_points :: "jstr \<Rightarrow> nat list" where
  "code_points (u # v # r) =
     (if is_high u \<and> is_low v then (65536 + (u - 55296) * 1024 + (v - 56320)) # code_points r
      else u # code_points (v # r))"
| "code_points [u] = [u]"
| "code_points [] = []"

definition units :: "nat \<Rightarrow> jstr" where
  "units c = (if c < 65536 then [c]
     else [55296 + (c - 65536) div 1024, 56320 + (c - 65536) mod 1024])"

definition scalar :: "nat \<Rightarrow> bool" where
  "scalar c \<longleftrightarrow> c < 1114112 \<and> \<not> is_high c \<and> \<not> is_low c"

definition utf8 :: "nat \<Rightarrow> nat list" where
  "utf8 c =
    (if c < 128 then [c]
     else if c < 2048 then [192 + c div 64, 128 + c mod 64]
     else if c < 65536 then [224 + c div 4096, 128 + c div 64 mod 64, 128 + c mod 64]
     else [240 + c div 262144, 128 + c div 4096 mod 64, 128 + c div 64 mod 64, 128 + c mod 64])"

text \<open>The bytes that can follow a lead byte: how many, the bounds of the first, the bits so far.\<close>

definition lead :: "nat \<Rightarrow> (nat \<times> nat \<times> nat \<times> nat) option" where
  "lead b =
    (if 194 \<le> b \<and> b \<le> 223 then Some (1, 128, 191, b - 192)
     else if b = 224 then Some (2, 160, 191, 0)
     else if b = 237 then Some (2, 128, 159, 13)
     else if 225 \<le> b \<and> b \<le> 239 then Some (2, 128, 191, b - 224)
     else if b = 240 then Some (3, 144, 191, 0)
     else if 241 \<le> b \<and> b \<le> 243 then Some (3, 128, 191, b - 240)
     else if b = 244 then Some (3, 128, 143, 4)
     else None)"

fun follow :: "nat \<Rightarrow> nat \<Rightarrow> nat \<Rightarrow> nat \<Rightarrow> nat list \<Rightarrow> nat option \<times> nat list" where
  "follow 0 lo hi acc bs = (Some acc, bs)"
| "follow (Suc n) lo hi acc [] = (None, [])"
| "follow (Suc n) lo hi acc (b # bs) =
     (if lo \<le> b \<and> b \<le> hi then follow n 128 191 (acc * 64 + (b - 128)) bs else (None, b # bs))"

lemma follow_length: "length (snd (follow n lo hi acc bs)) \<le> length bs"
  by (induction n lo hi acc bs rule: follow.induct) auto

function utf8_decode :: "nat list \<Rightarrow> jstr" where
  "utf8_decode [] = []"
| "utf8_decode (b # bs) =
    (if b < 128 then b # utf8_decode bs
     else case lead b of
       None \<Rightarrow> 65533 # utf8_decode bs
     | Some (n, lo, hi, acc) \<Rightarrow>
         (case fst (follow n lo hi acc bs) of Some c \<Rightarrow> units c | None \<Rightarrow> [65533])
         @ utf8_decode (snd (follow n lo hi acc bs)))"
  by pat_completeness auto
termination
  by (relation "measure length") (auto simp: less_Suc_eq_le follow_length)

section \<open>encodeURIComponent and decodeURIComponent\<close>

definition unreserved :: "nat \<Rightarrow> bool" where
  "unreserved u \<longleftrightarrow> 65 \<le> u \<and> u \<le> 90 \<or> 97 \<le> u \<and> u \<le> 122 \<or> 48 \<le> u \<and> u \<le> 57 \<or>
     u \<in> set [45, 95, 46, 33, 126, 42, 39, 40, 41]"

definition hex :: "nat \<Rightarrow> nat" where
  "hex n = (if n < 10 then 48 + n else 55 + n)"

definition unhex :: "nat \<Rightarrow> nat option" where
  "unhex u = (if 48 \<le> u \<and> u \<le> 57 then Some (u - 48)
     else if 65 \<le> u \<and> u \<le> 70 then Some (u - 55)
     else if 97 \<le> u \<and> u \<le> 102 then Some (u - 87) else None)"

definition percent :: "nat \<Rightarrow> jstr" where
  "percent b = [37, hex (b div 16), hex (b mod 16)]"

definition encode_point :: "nat \<Rightarrow> jstr" where
  "encode_point c = (if unreserved c then [c] else concat (map percent (utf8 c)))"

definition encodeURIComponent :: "jstr \<Rightarrow> jstr option" where
  "encodeURIComponent s =
    (if list_all scalar (code_points s) then Some (concat (map encode_point (code_points s))) else None)"

fun decode_follow :: "nat \<Rightarrow> nat \<Rightarrow> nat \<Rightarrow> nat \<Rightarrow> jstr \<Rightarrow> (nat \<times> jstr) option" where
  "decode_follow 0 lo hi acc s = Some (acc, s)"
| "decode_follow (Suc n) lo hi acc (u # h # l # s) =
    (case (unhex h, unhex l) of
       (Some x, Some y) \<Rightarrow>
         if u = 37 \<and> lo \<le> 16 * x + y \<and> 16 * x + y \<le> hi
         then decode_follow n 128 191 (acc * 64 + (16 * x + y - 128)) s else None
     | _ \<Rightarrow> None)"
| "decode_follow (Suc n) lo hi acc _ = None"

lemma decode_follow_length: "decode_follow n lo hi acc s = Some (c, t) \<Longrightarrow> length t \<le> length s"
proof (induction n lo hi acc s rule: decode_follow.induct)
  case (2 n lo hi acc u h l s)
  obtain x y where "unhex h = Some x" "unhex l = Some y" "u = 37 \<and> lo \<le> 16 * x + y \<and> 16 * x + y \<le> hi"
    using 2(2) by (auto split: option.splits if_splits)
  then show ?case using 2 by fastforce
qed auto

function decodeURIComponent :: "jstr \<Rightarrow> jstr option" where
  "decodeURIComponent [] = Some []"
| "decodeURIComponent (u # s) =
    (if u \<noteq> 37 then map_option ((#) u) (decodeURIComponent s)
     else case s of
       h # l # t \<Rightarrow>
         (case (unhex h, unhex l) of
            (Some x, Some y) \<Rightarrow>
              if 16 * x + y < 128 then map_option ((#) (16 * x + y)) (decodeURIComponent t)
              else (case lead (16 * x + y) of
                 None \<Rightarrow> None
               | Some (n, lo, hi, acc) \<Rightarrow>
                   (case decode_follow n lo hi acc t of
                      None \<Rightarrow> None
                    | Some (c, t') \<Rightarrow> map_option ((@) (units c)) (decodeURIComponent t')))
          | _ \<Rightarrow> None)
     | _ \<Rightarrow> None)"
  by pat_completeness auto
termination
  by (relation "measure length") (auto dest: decode_follow_length)

section \<open>The query string\<close>

text \<open>The part of the address after \<open>?\<close> as the browser stores it: an apostrophe is escaped.\<close>

definition stored_query :: "jstr \<Rightarrow> jstr" where
  "stored_query q = concat (map (\<lambda>u. if u = 39 then percent 39 else [u]) q)"

fun percent_decode :: "nat list \<Rightarrow> nat list" where
  "percent_decode (u # h # l # s) =
    (if u = 37 then (case (unhex h, unhex l) of
         (Some x, Some y) \<Rightarrow> (16 * x + y) # percent_decode s
       | _ \<Rightarrow> u # percent_decode (h # l # s))
     else u # percent_decode (h # l # s))"
| "percent_decode [u, h] = [u, h]"
| "percent_decode [u] = [u]"
| "percent_decode [] = []"

definition form_decode :: "jstr \<Rightarrow> jstr" where
  "form_decode s = utf8_decode (percent_decode (map (\<lambda>u. if u = 43 then 32 else u) s))"

definition params :: "jstr \<Rightarrow> (jstr \<times> jstr) list" where
  "params search =
    (let q = (if take 1 search = [63] then drop 1 search else search) in
     map (\<lambda>p. (form_decode (takeWhile (\<lambda>u. u \<noteq> 61) p), form_decode (drop 1 (dropWhile (\<lambda>u. u \<noteq> 61) p))))
       (filter (\<lambda>p. p \<noteq> []) (split_on 38 q)))"

definition search_get :: "jstr \<Rightarrow> jstr \<Rightarrow> jstr option" where
  "search_get search name = map_of (params search) name"

section \<open>A query value comes back as it was\<close>

lemma units_code_points: "list_all (\<lambda>u. u < 65536) s \<Longrightarrow> concat (map units (code_points s)) = s"
proof (induction s rule: code_points.induct)
  case (1 u v r)
  show ?case
  proof (cases "is_high u \<and> is_low v")
    case True
    obtain a b where "u = 55296 + a" "v = 56320 + b" "b < 1024"
      using True by (auto simp: is_high_def is_low_def le_iff_add)
    then have "units (65536 + (u - 55296) * 1024 + (v - 56320)) = [u, v]"
      by (simp add: units_def)
    then show ?thesis using 1 True by simp
  next
    case False
    then have cp: "code_points (u # v # r) = u # code_points (v # r)" by auto
    have "units u = [u]" using 1(3) by (simp add: units_def)
    then show ?thesis using 1(2) [OF False] 1(3) by (simp only: cp) simp
  qed
qed (auto simp: units_def)

lemma unhex_hex [simp]: "n < 16 \<Longrightarrow> unhex (hex n) = Some n"
  by (auto simp: unhex_def hex_def)

lemma utf8_bytes: "scalar c \<Longrightarrow> b \<in> set (utf8 c) \<Longrightarrow> b < 256"
  by (auto simp: utf8_def scalar_def split: if_splits)

lemma percent_decode_percent: "b < 256 \<Longrightarrow> percent_decode (percent b @ r) = b # percent_decode r"
  by (simp add: percent_def)

lemma percent_decode_bytes:
  "list_all (\<lambda>b. b < 256) bs \<Longrightarrow>
   percent_decode (concat (map percent bs) @ r) = bs @ percent_decode r"
  by (induction bs) (simp_all add: percent_decode_percent)

lemma percent_decode_plain: "u \<noteq> 37 \<Longrightarrow> percent_decode (u # r) = u # percent_decode r"
  by (cases "u # r" rule: percent_decode.cases) auto

lemma stored_percent: "b < 256 \<Longrightarrow> stored_query (percent b) = percent b"
proof -
  have "hex n \<noteq> 39" for n by (simp add: hex_def)
  then show ?thesis by (simp add: stored_query_def percent_def)
qed

lemma stored_append: "stored_query (a @ b) = stored_query a @ stored_query b"
  by (simp add: stored_query_def)

lemma stored_bytes:
  "list_all (\<lambda>b. b < 256) bs \<Longrightarrow> stored_query (concat (map percent bs)) = concat (map percent bs)"
  by (induction bs) (simp_all add: stored_append stored_percent, simp add: stored_query_def)

lemma utf8_ascii: "unreserved c \<Longrightarrow> utf8 c = [c]"
  by (auto simp: unreserved_def utf8_def)

lemma percent_decode_point:
  assumes "scalar c"
  shows "percent_decode (stored_query (encode_point c) @ r) = utf8 c @ percent_decode r"
proof (cases "unreserved c")
  case True
  then have "c \<noteq> 37" by (auto simp: unreserved_def)
  then show ?thesis using True
    by (cases "c = 39") (simp_all add: encode_point_def stored_query_def percent_decode_percent
        utf8_ascii percent_decode_plain)
next
  case False
  have "list_all (\<lambda>b. b < 256) (utf8 c)" using utf8_bytes [OF assms] by (auto simp: list_all_iff)
  then show ?thesis using False by (simp add: encode_point_def stored_bytes percent_decode_bytes)
qed

lemma six_bits:
  fixes c :: nat
  shows "c div 4096 * 4096 + c div 64 mod 64 * 64 + c mod 64 = c"
    and "c div 262144 * 262144 + c div 4096 mod 64 * 4096 + c div 64 mod 64 * 64 + c mod 64 = c"
proof -
  have a: "c div 64 * 64 + c mod 64 = c" by simp
  have b: "c div 4096 * 64 + c div 64 mod 64 = c div 64"
    using div_mult_mod_eq [of "c div 64" 64] by (simp add: div_mult2_eq [symmetric])
  have d: "c div 262144 * 64 + c div 4096 mod 64 = c div 4096"
    using div_mult_mod_eq [of "c div 4096" 64] by (simp add: div_mult2_eq [symmetric])
  show "c div 4096 * 4096 + c div 64 mod 64 * 64 + c mod 64 = c" using a b by linarith
  show "c div 262144 * 262144 + c div 4096 mod 64 * 4096 + c div 64 mod 64 * 64 + c mod 64 = c"
    using a b d by linarith
qed

lemma utf8_decode_lead:
  assumes "128 \<le> b" and "lead b = Some (n, lo, hi, acc)" and "follow n lo hi acc bs = (Some c, r)"
  shows "utf8_decode (b # bs) = units c @ utf8_decode r"
  using assms by simp

lemma utf8_decode_point:
  assumes "scalar c"
  shows "utf8_decode (utf8 c @ r) = units c @ utf8_decode r"
proof -
  consider "c < 128" | "128 \<le> c" "c < 2048" | "2048 \<le> c" "c < 65536" | "65536 \<le> c" by linarith
  then show ?thesis
  proof cases
    case 1
    then show ?thesis by (simp add: utf8_def units_def)
  next
    case 2
    have "2 \<le> c div 64" "c div 64 < 32" using 2 by (auto simp: less_mult_imp_div_less)
    then show ?thesis using 2 by (simp add: utf8_def units_def lead_def)
  next
    case 3
    define a m l where "a = c div 4096" and "m = c div 64 mod 64" and "l = c mod 64"
    have c: "c = a * 4096 + m * 64 + l" and "m < 64" "l < 64"
      using six_bits(1) [of c] by (simp_all add: a_def m_def l_def)
    have "a < 16" "a = 0 \<longrightarrow> 32 \<le> m" "a = 13 \<longrightarrow> m < 32"
      using 3 c \<open>m < 64\<close> \<open>l < 64\<close> assms by (auto simp: scalar_def is_high_def is_low_def)
    then have "utf8_decode ((224 + a) # (128 + m) # (128 + l) # r) = units c @ utf8_decode r"
      using \<open>m < 64\<close> \<open>l < 64\<close> c
      by (intro utf8_decode_lead [where n = 2 and lo = "if a = 0 then 160 else 128"
            and hi = "if a = 13 then 159 else 191" and acc = a])
        (auto simp: lead_def numeral_2_eq_2)
    then show ?thesis using 3 by (simp add: utf8_def a_def m_def l_def)
  next
    case 4
    define a k m l where "a = c div 262144" and "k = c div 4096 mod 64" and "m = c div 64 mod 64"
      and "l = c mod 64"
    have c: "c = a * 262144 + k * 4096 + m * 64 + l" and "k < 64" "m < 64" "l < 64"
      using six_bits(2) [of c] by (simp_all add: a_def k_def m_def l_def)
    have "a < 5" "a = 0 \<longrightarrow> 16 \<le> k" "a = 4 \<longrightarrow> k < 16"
      using 4 c \<open>k < 64\<close> \<open>m < 64\<close> \<open>l < 64\<close> assms by (auto simp: scalar_def)
    then have "utf8_decode ((240 + a) # (128 + k) # (128 + m) # (128 + l) # r) = units c @ utf8_decode r"
      using \<open>k < 64\<close> \<open>m < 64\<close> \<open>l < 64\<close> c
      by (intro utf8_decode_lead [where n = 3 and lo = "if a = 0 then 144 else 128"
            and hi = "if a = 4 then 143 else 191" and acc = a])
        (auto simp: lead_def numeral_3_eq_3)
    then show ?thesis using 4 by (simp add: utf8_def a_def k_def m_def l_def)
  qed
qed

lemma form_decode_points:
  "list_all scalar cs \<Longrightarrow>
   utf8_decode (percent_decode (stored_query (concat (map encode_point cs)))) = concat (map units cs)"
proof (induction cs)
  case (Cons c cs)
  then show ?case
    by (simp add: stored_append percent_decode_point utf8_decode_point)
qed (simp add: stored_query_def)

text \<open>The units an encoded component can have: no separator of a query string is among them.\<close>

lemma encoded_units:
  assumes "scalar c" and "u \<in> set (stored_query (encode_point c))"
  shows "u \<noteq> 38 \<and> u \<noteq> 61 \<and> u \<noteq> 43"
proof -
  have h: "hex n \<noteq> 38 \<and> hex n \<noteq> 61 \<and> hex n \<noteq> 43" if "n < 16" for n
    using that by (simp add: hex_def)
  have p: "v \<noteq> 38 \<and> v \<noteq> 61 \<and> v \<noteq> 43" if "b < 256" "v \<in> set (percent b)" for b v
    using that h [of "b div 16"] h [of "b mod 16"] less_mult_imp_div_less [of b 16 16]
    by (auto simp: percent_def)
  show ?thesis
  proof (cases "unreserved c")
    case True
    then show ?thesis using assms(2) p [of 39 u]
      by (auto simp: encode_point_def stored_query_def unreserved_def split: if_splits)
  next
    case False
    have "list_all (\<lambda>b. b < 256) (utf8 c)" using utf8_bytes [OF assms(1)] by (auto simp: list_all_iff)
    then show ?thesis using False assms(2) p
      by (auto simp: encode_point_def stored_bytes list_all_iff)
  qed
qed

lemma split_on_none: "u \<notin> set s \<Longrightarrow> split_on u s = [s]"
  by (induction s) auto

lemma stored_concat: "stored_query (concat xs) = concat (map stored_query xs)"
  by (induction xs) (simp_all add: stored_append, simp add: stored_query_def)

lemma search_get_encoded:
  assumes "encodeURIComponent s = Some e" and "list_all (\<lambda>u. u < 65536) s"
  shows "search_get (63 # stored_query (js ''doc='' @ e)) (js ''doc'') = Some s"
proof -
  let ?cs = "code_points s" and ?e = "stored_query e"
  have sc: "list_all scalar ?cs" and e: "e = concat (map encode_point ?cs)"
    using assms(1) by (auto simp: encodeURIComponent_def split: if_splits)
  have doc: "stored_query (js ''doc='' @ e) = js ''doc='' @ ?e"
    by (simp add: stored_append) (simp add: stored_query_def js_def)
  have "\<forall>u \<in> set ?e. u \<noteq> 38 \<and> u \<noteq> 61 \<and> u \<noteq> 43"
    using sc encoded_units by (auto simp: e stored_concat list_all_iff)
  then have free: "38 \<notin> set ?e" and eq: "takeWhile (\<lambda>u. u \<noteq> 61) ?e = ?e"
    and plus: "map (\<lambda>u. if u = 43 then 32 else u) ?e = ?e"
    by (auto intro: map_idI)
  have "split_on 38 (js ''doc='' @ ?e) = [js ''doc='' @ ?e]"
    using free by (intro split_on_none) (simp add: js_def)
  moreover have "utf8_decode (percent_decode ?e) = s"
    using form_decode_points [OF sc] units_code_points [OF assms(2)] by (simp add: e)
  then have "form_decode ?e = s" by (simp add: form_decode_def plus)
  ultimately show ?thesis
    by (simp add: search_get_def params_def doc)
      (simp add: js_def form_decode_def)
qed

end
