(* ===== verification/Documents.thy ===== *)
theory Documents
  imports Uri
begin

text \<open>
  docs/src/documents.tsx: from the path and the text of each plan to the document the reader
  lists. Every regular expression of the source is an expression of the theory Regex, in the order
  of the file. The two maps that Vite's \<open>import.meta.glob\<close> builds are arguments, the lower case of
  a string and the locale's order of two titles go through the parameter \<open>K\<close> and \<open>loc\<close>. A throw
  is a left value; the warnings of the console are part of the result.
\<close>

section \<open>slugify, of docs/src/mdx-components.tsx\<close>

definition lower :: "lib \<Rightarrow> jstr \<Rightarrow> jstr" where
  "lower K s = str_of (K ''toLowerCase'' [VStr s])"

text \<open>Whether a code point is in \<open>\\p{L}\<close> or \<open>\\p{N}\<close>, from the tables of Unicode.\<close>

definition letter :: "lib \<Rightarrow> nat \<Rightarrow> bool" where
  "letter K c = truthy (K ''letterOrNumber'' [VNum (int c)])"

definition slugify :: "lib \<Rightarrow> jstr \<Rightarrow> jstr" where
  "slugify K value =
    (let s1 = lower K value;
         s2 = replace_all (any_of ''`*_'') (\<lambda>_. []) s1;
         s3 = replace_all (some_of (Cls (\<lambda>c. \<not> letter K c))) (\<lambda>_. [45]) (code_points s2)
     in replace_all (Alt (seq [Bol False, some_of (lit_re ''-'')]) (seq [some_of (lit_re ''-''), Eol False]))
          (\<lambda>_. []) (concat (map units s3)))"

section \<open>The data\<close>

record DocumentHeading =
  depth :: nat
  hd_title :: jstr
  hd_id :: jstr

datatype Roadmap = Future (number: jstr) | Completed (completedOn: "jstr option") (number: jstr)

record ReaderDocument =
  path :: jstr
  route :: jstr
  title :: jstr
  navTitle :: jstr
  roadmap :: Roadmap
  description :: jstr
  order :: nat
  readingMinutes :: nat
  headings :: "DocumentHeading list"
  source :: jstr
  searchText :: jstr
  Component :: val

section \<open>Its parts\<close>

definition filePath :: "jstr \<Rightarrow> jstr" where
  "filePath modulePath = replace1 (seq [Bol False, lit_re ''../'']) (\<lambda>_. []) modulePath"

definition ext_re :: re where
  "ext_re = seq [lit_re ''.'', Cap 1 (Alt (lit_re ''md'') (lit_re ''mdx'')), Eol False]"

definition routeFor :: "jstr \<Rightarrow> jstr" where
  "routeFor p = replace1 ext_re (\<lambda>_. []) p"

definition number_re :: re where
  "number_re = seq [Bol False, lit_re ''plans/'', Alt (lit_re ''open'') (lit_re ''closed''), lit_re ''/'',
     Cap 1 (some_of digit), lit_re ''-'']"

definition completed_re :: re where
  "completed_re = seq [lit_re ''{/* Completed '',
     Cap 1 (seq [times 4 digit, lit_re ''-'', times 2 digit, lit_re ''-'', times 2 digit]), lit_re ''.'']"

definition roadmapFor :: "jstr \<Rightarrow> jstr \<Rightarrow> jstr + (Roadmap \<times> jstr list)" where
  "roadmapFor p src =
    (case map_option (cap 1) (exec number_re p) of
       None \<Rightarrow> Inl (p @ js '' does not follow the numbered roadmap filename convention'')
     | Some n \<Rightarrow>
         if starts p ''plans/open/'' then Inr (Future n, [])
         else
           let on = map_option (cap 1) (exec completed_re src) in
           Inr (Completed on n,
             if on = None then [p @ js '' is closed but has no completion date''] else []))"

definition last_segment :: "jstr \<Rightarrow> jstr" where
  "last_segment p = last (split_on 47 p)"

definition title_re :: re where
  "title_re = seq [Bol True, lit_re ''#'', some_of space, Cap 1 (some_of dot_re), Eol True]"

definition titleFor :: "jstr \<Rightarrow> jstr \<Rightarrow> jstr" where
  "titleFor p src =
    (case exec title_re src of
       Some c \<Rightarrow> trim (replace_all (any_of ''*_`'') (\<lambda>_. []) (cap 1 c))
     | None \<Rightarrow> replace_all (any_of ''-_'') (\<lambda>_. [32]) (replace1 ext_re (\<lambda>_. []) (last_segment p)))"

definition code_re :: re where
  "code_re = seq [lit_re ''```'', lazily anything, lit_re ''```'']"

definition blank_re :: re where
  "blank_re = seq [Cls ((=) 10), many space, Cls ((=) 10)]"

definition link_re :: re where
  "link_re = seq [lit_re ''['', Cap 1 (some_of (none_of '']'')), lit_re '']('', some_of (none_of '')''), lit_re '')'']"

definition is_prose :: "jstr \<Rightarrow> bool" where
  "is_prose paragraph \<longleftrightarrow>
    (let text = trim paragraph in
     length text > 60 \<and> \<not> starts text ''#'' \<and> \<not> starts text ''Depends on:'' \<and> \<not> starts text ''<'' \<and>
     \<not> starts text ''- '')"

definition descriptionFor :: "jstr \<Rightarrow> jstr" where
  "descriptionFor src =
    (let withoutCode = replace_all code_re (\<lambda>_. []) src;
         paragraphs = re_split blank_re withoutCode;
         d = (case List.find is_prose paragraphs of Some x \<Rightarrow> x | None \<Rightarrow> js ''Quickspin project documentation.'');
         d1 = replace_all link_re (cap 1) d;
         d2 = replace_all (any_of ''*_`>#'') (\<lambda>_. []) d1;
         d3 = replace_all (some_of space) (\<lambda>_. [32]) d2
     in take 190 (trim d3))"

definition heading_re :: re where
  "heading_re = seq [Bol False, Cap 1 (seq [lit_re ''##'', opt (lit_re ''#'')]), some_of space,
     Cap 2 (some_of dot_re), Eol False]"

definition headingOf :: "lib \<Rightarrow> jstr \<Rightarrow> DocumentHeading list" where
  "headingOf K line =
    (case exec heading_re line of
       None \<Rightarrow> []
     | Some c \<Rightarrow>
         let t = trim (replace_all (any_of ''*_`'') (\<lambda>_. []) (replace_all link_re (cap 1) (cap 2 c)))
         in [\<lparr>depth = length (cap 1 c), hd_title = t, hd_id = slugify K t\<rparr>])"

definition headingsFor :: "lib \<Rightarrow> jstr \<Rightarrow> DocumentHeading list" where
  "headingsFor K src = concat (map (headingOf K) (split_on 10 src))"

definition tag_re :: re where
  "tag_re = seq [lit_re ''<'', some_of (none_of ''>''), lit_re ''>'']"

definition readingMinutesFor :: "jstr \<Rightarrow> nat" where
  "readingMinutesFor src =
    (let words = length (re_split (some_of space)
           (trim (replace_all tag_re (\<lambda>_. []) (replace_all code_re (\<lambda>_. []) src))))
     in max 1 ((words + 219) div 220))"

definition decimal :: "jstr \<Rightarrow> nat" where
  "decimal s = fold (\<lambda>u n. 10 * n + (u - 48)) s 0"

definition orderFor :: "jstr \<Rightarrow> nat" where
  "orderFor p = (case exec (seq [Bol False, Cap 1 (some_of digit)]) (last_segment p) of
     Some c \<Rightarrow> decimal (cap 1 c) | None \<Rightarrow> 999)"

definition nav_re :: re where
  "nav_re = seq [Bol False, some_of digit, some_of space, Cls (\<lambda>u. u = 8212 \<or> u = 45), some_of space]"

definition buildDocument ::
    "lib \<Rightarrow> jstr \<Rightarrow> jstr \<Rightarrow> val \<Rightarrow> jstr + (ReaderDocument \<times> jstr list)" where
  "buildDocument K p src c =
    (let t = titleFor p src; d = descriptionFor src in
     case roadmapFor p src of
       Inl e \<Rightarrow> Inl e
     | Inr (r, warnings) \<Rightarrow> Inr
         (\<lparr>path = p, route = routeFor p, title = t, navTitle = replace1 nav_re (\<lambda>_. []) t,
           roadmap = r, description = d, order = orderFor p, readingMinutes = readingMinutesFor src,
           headings = headingsFor K src, source = src,
           searchText = lower K (t @ [32] @ d @ [32] @ src), Component = c\<rparr>, warnings))"

section \<open>The list of documents\<close>

fun mdxDocuments ::
    "lib \<Rightarrow> (jstr \<Rightarrow> jstr option) \<Rightarrow> (jstr \<times> val) list \<Rightarrow> jstr + (ReaderDocument list \<times> jstr list)" where
  "mdxDocuments K raw [] = Inr ([], [])"
| "mdxDocuments K raw ((modulePath, loadModule) # mods) =
    (case buildDocument K (filePath modulePath) (case raw modulePath of Some s \<Rightarrow> s | None \<Rightarrow> [])
        (K ''lazy'' [loadModule]) of
       Inl e \<Rightarrow> Inl e
     | Inr (d, w) \<Rightarrow> (case mdxDocuments K raw mods of Inl e \<Rightarrow> Inl e | Inr (ds, ws) \<Rightarrow> Inr (d # ds, w @ ws)))"

text \<open>The comparison function of the sort: negative, zero or positive.\<close>

definition compare_documents :: "(jstr \<Rightarrow> jstr \<Rightarrow> int) \<Rightarrow> ReaderDocument \<Rightarrow> ReaderDocument \<Rightarrow> int" where
  "compare_documents loc a b =
    (if order a \<noteq> order b then int (order a) - int (order b) else loc (title a) (title b))"

text \<open>\<open>Array.prototype.sort\<close> with a comparison that is an order: the stable sort.\<close>

fun sort_in :: "('a \<Rightarrow> 'a \<Rightarrow> int) \<Rightarrow> 'a \<Rightarrow> 'a list \<Rightarrow> 'a list" where
  "sort_in cmp x [] = [x]"
| "sort_in cmp x (y # ys) = (if cmp x y \<le> 0 then x # y # ys else y # sort_in cmp x ys)"

definition js_sort :: "('a \<Rightarrow> 'a \<Rightarrow> int) \<Rightarrow> 'a list \<Rightarrow> 'a list" where
  "js_sort cmp xs = foldr (sort_in cmp) xs []"

definition documents ::
    "lib \<Rightarrow> (jstr \<Rightarrow> jstr \<Rightarrow> int) \<Rightarrow> (jstr \<Rightarrow> jstr option) \<Rightarrow> (jstr \<times> val) list \<Rightarrow>
      jstr + ReaderDocument list" where
  "documents K loc raw modules =
    (case mdxDocuments K raw modules of
       Inl e \<Rightarrow> Inl e
     | Inr (ds, _) \<Rightarrow> Inr (js_sort (compare_documents loc) ds))"

definition slash_re :: re where
  "slash_re = Alt (seq [Bol False, lit_re ''/'']) (seq [lit_re ''/'', Eol False])"

definition resolveDocument :: "ReaderDocument list \<Rightarrow> jstr option \<Rightarrow> ReaderDocument option" where
  "resolveDocument docs r =
    (let normalized = replace1 ext_re (\<lambda>_. []) (replace_all slash_re (\<lambda>_. [])
           (case r of Some s \<Rightarrow> s | None \<Rightarrow> []))
     in case List.find (\<lambda>d. route d = normalized) docs of
          Some d \<Rightarrow> Some d
        | None \<Rightarrow> (case docs of [] \<Rightarrow> None | d # _ \<Rightarrow> Some d))"

end
