(* ===== verification/Mdx.thy ===== *)
theory Mdx
  imports Documents
begin

text \<open>
  docs/src/mdx-components.tsx: the components a document can use, from their props to the element
  they render, and the table that maps the names of MDX to them. \<open>slugify\<close> is in Documents, the
  rendering of diagrams in Mermaid. A state of a component is an argument; \<open>Children.toArray\<close> and
  \<open>useId\<close> are React's, asked of the parameter \<open>K\<close>.
\<close>

section \<open>childText\<close>

lemma size_get: "size (get k ps) \<le> size_list (size_prod (\<lambda>x. 0) size) ps"
  by (induction ps) auto

lemma size_get_get: "get k ps = VObj qs \<Longrightarrow>
   size (get k' qs) \<le> size_list (size_prod (\<lambda>x. 0) size) ps"
  using size_get [of k ps] size_get [of k' qs] by simp

text \<open>Of an object with props it is the text of their children, as of an element.\<close>

function childText :: "val \<Rightarrow> jstr" where
  "childText (VStr s) = s"
| "childText (VNum n) = num_str n"
| "childText (VArr xs) = join [] (map childText xs)"
| "childText (VEl t k ps) = childText (get (js ''children'') ps)"
| "childText (VObj ps) =
    (case get (js ''props'') ps of VObj qs \<Rightarrow> childText (get (js ''children'') qs) | _ \<Rightarrow> [])"
| "childText VUndef = []"
| "childText VNull = []"
| "childText (VBool b) = []"
| "childText (VFun f vs) = []"
  by pat_completeness auto
termination
  by (relation "measure size")
    (auto simp: size_get size_get_get less_Suc_eq_le size_list_estimation' trans_le_add1)

definition Heading :: "lib \<Rightarrow> props \<Rightarrow> val" where
\<open>Heading K p =
  (let level = attr ''level'' p in
    let children = attr ''children'' p in
    let id' = attr ''id'' p in
    let props = rest [''level'', ''children'', ''id''] p in
    let Component = tpl K [lit ''h'', level] in
    let anchor = jcoal id' (VStr (slugify K (str_of (VStr (childText children))))) in
    el Component [At ''id'' anchor,
      Sp props]
    [(if jless (VNum 1) level
        then el (tag ''a'') [At ''className'' (lit ''heading-anchor''),
          At ''href'' (tpl K [lit ''#'', anchor]),
          At ''aria-label'' (lit ''Link to this section'')]
        [lit ''#'']
        else VNull),
      children])\<close>

definition SmartLink :: "lib \<Rightarrow> props \<Rightarrow> val" where
\<open>SmartLink K p =
  (let children = attr ''children'' p in
    let props = rest [''children''] p in
    let external = jstarts (dot props ''href'') ''http'' in
    el (tag ''a'') [Sp props,
      Sp ((if truthy external
          then obj [At ''target'' (lit ''_blank''),
            At ''rel'' (lit ''noreferrer'')]
          else obj []))]
    [children,
      (if truthy external
        then el (tag ''span'') [At ''className'' (lit ''external-mark'')]
        [VStr [8599]]
        else VNull)])\<close>

definition Callout :: "lib \<Rightarrow> props \<Rightarrow> val" where
\<open>Callout K p =
  (let tone = dflt (lit ''note'') (attr ''tone'' p) in
    let title = attr ''title'' p in
    let children = attr ''children'' p in
    let labels = obj [At ''note'' (lit ''Field note''),
      At ''idea'' (lit ''Working idea''),
      At ''warning'' (lit ''Watch the edge''),
      At ''system'' (lit ''System behavior'')] in
    el (tag ''aside'') [At ''className'' (tpl K [lit ''callout callout--'', tone])]
    [el (tag ''div'') [At ''className'' (lit ''callout__label'')]
      [jcoal title (item labels tone)],
      el (tag ''div'') [At ''className'' (lit ''callout__body'')]
      [children]])\<close>

definition StudyPrompt :: "lib \<Rightarrow> props \<Rightarrow> val" where
\<open>StudyPrompt K p =
  (let question = attr ''question'' p in
    let children = attr ''children'' p in
    let label = dflt (lit ''Reveal a hint'') (attr ''label'' p) in
    el (tag ''section'') [At ''className'' (lit ''study-prompt'')]
    [el (tag ''p'') [At ''className'' (lit ''study-prompt__eyebrow'')]
      [lit ''Pause & reason''],
      el (tag ''h3'') []
      [question],
      el (tag ''details'') []
      [el (tag ''summary'') []
        [label],
        el (tag ''div'') [At ''className'' (lit ''study-prompt__answer'')]
        [children]]])\<close>

definition KeyPoint :: "lib \<Rightarrow> props \<Rightarrow> val" where
\<open>KeyPoint K p =
  (let label = dflt (lit ''Key point'') (attr ''label'' p) in
    let children = attr ''children'' p in
    el (tag ''div'') [At ''className'' (lit ''key-point'')]
    [el (tag ''span'') []
      [label],
      el (tag ''div'') []
      [children]])\<close>

definition Steps :: "lib \<Rightarrow> props \<Rightarrow> val" where
\<open>Steps K p =
  (let children = attr ''children'' p in
    el (tag ''ol'') [At ''className'' (lit ''study-steps'')]
    [children])\<close>

definition Step :: "lib \<Rightarrow> props \<Rightarrow> val" where
\<open>Step K p =
  (let title = attr ''title'' p in
    let children = attr ''children'' p in
    el (tag ''li'') []
    [el (tag ''div'') [At ''className'' (lit ''study-step__marker''),
        At ''aria-hidden'' (lit ''true'')]
      [],
      el (tag ''div'') []
      [el (tag ''strong'') []
        [title],
        el (tag ''div'') []
        [children]]])\<close>

definition Compare :: "lib \<Rightarrow> props \<Rightarrow> val" where
\<open>Compare K p =
  (let children = attr ''children'' p in
    el (tag ''div'') [At ''className'' (lit ''compare-grid'')]
    [children])\<close>

definition CompareItem :: "lib \<Rightarrow> props \<Rightarrow> val" where
\<open>CompareItem K p =
  (let title = attr ''title'' p in
    let eyebrow = attr ''eyebrow'' p in
    let children = attr ''children'' p in
    el (tag ''section'') [At ''className'' (lit ''compare-card'')]
    [(if truthy eyebrow
        then el (tag ''span'') []
        [eyebrow]
        else VNull),
      el (tag ''h3'') []
      [title],
      el (tag ''div'') []
      [children]])\<close>

definition Task :: "lib \<Rightarrow> props \<Rightarrow> val" where
\<open>Task K p =
  (let props0 = VObj p in
    VNull)\<close>

definition TaskList :: "lib \<Rightarrow> props \<Rightarrow> val" where
\<open>TaskList K p =
  (let children = attr ''children'' p in
    let tasks = jfilter is_element (K ''Children.toArray'' [children]) in
    el (tag ''section'') [At ''className'' (lit ''task-list'')]
    [el (tag ''header'') [At ''className'' (lit ''task-list__header'')]
      [el (tag ''span'') [At ''className'' (lit ''task-list__eyebrow'')]
        [lit ''Implementation tasks'']],
      el (tag ''ol'') [At ''className'' (lit ''task-list__items'')]
      [jmap (\<lambda>task index'. elk (tag ''li'') (jcoal (dot (dot task ''props'') ''id'') (jor (VStr (slugify K (str_of (dot (dot task ''props'') ''title'')))) index')) []
          [el (tag ''span'') [At ''className'' (lit ''task__body'')]
            [el (tag ''strong'') []
              [dot (dot task ''props'') ''title''],
              (if truthy (dot (dot task ''props'') ''children'')
                then el (tag ''span'') []
                [dot (dot task ''props'') ''children'']
                else VNull)]]) tasks]])\<close>

definition Hint :: "lib \<Rightarrow> props \<Rightarrow> val" where
\<open>Hint K p =
  (let props0 = VObj p in
    VNull)\<close>

definition HintSteps :: "lib \<Rightarrow> val \<Rightarrow> props \<Rightarrow> val" where
\<open>HintSteps K revealed p =
  (let children = attr ''children'' p in
    let hints = jfilter is_element (K ''Children.toArray'' [children]) in
    let setRevealed = VFun ''HintSteps.setRevealed'' [] in
    el (tag ''section'') [At ''className'' (lit ''hint-steps'')]
    [el (tag ''header'') [At ''className'' (lit ''hint-steps__header'')]
      [el (tag ''span'') [At ''className'' (lit ''hint-steps__eyebrow'')]
        [lit ''Progressive hints''],
        el (tag ''span'') [At ''className'' (lit ''hint-steps__count'')]
        [revealed,
          lit '' of '',
          dot hints ''length'',
          lit '' revealed'']],
      el (tag ''p'') [At ''className'' (lit ''hint-steps__note'')]
      [lit ''Consult these only when blocked. Hints unlock in order so a later hint cannot spoil an earlier task.''],
      el (tag ''ol'') [At ''className'' (lit ''hint-steps__items'')]
      [jmap (\<lambda>hint index'. let open' = VBool (jless index' revealed) in
          elk (tag ''li'') index' [At ''className'' ((if truthy open'
                then lit ''hint--open''
                else lit ''hint--locked''))]
          [el (tag ''div'') [At ''className'' (lit ''hint__title'')]
            [el (tag ''span'') [At ''className'' (lit ''hint__number'')]
              [jplus index' (VNum 1)],
              el (tag ''span'') []
              [dot (dot hint ''props'') ''title'']],
            (if truthy open'
              then el (tag ''div'') [At ''className'' (lit ''hint__body'')]
              [dot (dot hint ''props'') ''children'',
                (if truthy (dot (dot hint ''props'') ''check'')
                  then el (tag ''p'') [At ''className'' (lit ''hint__check'')]
                  [el (tag ''strong'') []
                    [lit ''Back on track when:''],
                    lit '' '',
                    dot (dot hint ''props'') ''check'']
                  else VNull)]
              else VNull)]) hints],
      el (tag ''div'') [At ''className'' (lit ''hint-steps__controls'')]
      [(if jless revealed (dot hints ''length'')
          then el (tag ''button'') [At ''type'' (lit ''button''),
            At ''onClick'' (VFun ''HintSteps.onClick'' [setRevealed])]
          [lit ''Reveal hint '',
            jplus revealed (VNum 1)]
          else VNull),
        (if jless (VNum 0) revealed
          then el (tag ''button'') [At ''type'' (lit ''button''),
            At ''className'' (lit ''hint-steps__reset''),
            At ''onClick'' (VFun ''HintSteps.onClick2'' [setRevealed])]
          [lit ''Hide all'']
          else VNull)]])\<close>

definition resourceKindLabels :: val where
\<open>resourceKindLabels =
  obj [At ''docs'' (lit ''Docs''),
    At ''article'' (lit ''Article''),
    At ''book'' (lit ''Book''),
    At ''video'' (lit ''Video''),
    At ''paper'' (lit ''Paper'')]\<close>

definition Resources :: "lib \<Rightarrow> props \<Rightarrow> val" where
\<open>Resources K p =
  (let children = attr ''children'' p in
    el (tag ''ul'') [At ''className'' (lit ''resource-list'')]
    [children])\<close>

definition Resource :: "lib \<Rightarrow> props \<Rightarrow> val" where
\<open>Resource K p =
  (let kind = dflt (lit ''article'') (attr ''kind'' p) in
    let title = attr ''title'' p in
    let href = attr ''href'' p in
    let by = attr ''by'' p in
    let children = attr ''children'' p in
    el (tag ''li'') [At ''className'' (tpl K [lit ''resource resource--'', kind])]
    [el (tag ''span'') [At ''className'' (lit ''resource__kind'')]
      [item resourceKindLabels kind],
      el (tag ''div'') [At ''className'' (lit ''resource__body'')]
      [el (tag ''span'') [At ''className'' (lit ''resource__title'')]
        [(if truthy href
            then el (tag ''a'') [At ''href'' href,
              At ''target'' (lit ''_blank''),
              At ''rel'' (lit ''noreferrer'')]
            [title,
              el (tag ''span'') [At ''className'' (lit ''external-mark'')]
              [VStr [8599]]]
            else title),
          (if truthy by
            then el (tag ''span'') [At ''className'' (lit ''resource__by'')]
            [VStr (js '' '' @ [8212] @ js '' ''),
              by]
            else VNull)],
        (if truthy children
          then el (tag ''span'') [At ''className'' (lit ''resource__note'')]
          [children]
          else VNull)]])\<close>

definition Figure :: "lib \<Rightarrow> props \<Rightarrow> val" where
\<open>Figure K p =
  (let caption = attr ''caption'' p in
    let children = attr ''children'' p in
    el (tag ''figure'') [At ''className'' (lit ''doc-figure'')]
    [el (tag ''div'') [At ''className'' (lit ''doc-figure__canvas'')]
      [children],
      (if truthy caption
        then el (tag ''figcaption'') []
        [caption]
        else VNull)])\<close>

definition Mermaid :: "lib \<Rightarrow> val \<Rightarrow> props \<Rightarrow> val" where
\<open>Mermaid K result p =
  (let code = attr ''code'' p in
    let caption = attr ''caption'' p in
    let id' = K ''useId'' [] in
    let setResult = VFun ''Mermaid.setResult'' [] in
    let source = VStr (trim (str_of code)) in
    (if (truthy result \<and> has_key (str_of (lit ''error'')) result)
      then el (comp ''Figure'') [At ''caption'' (lit ''This diagram failed to render; its source has a syntax error.'')]
      [el (tag ''pre'') []
        [dot result ''error'']]
      else el (comp ''Figure'') [At ''caption'' caption]
      [el (tag ''div'') [At ''dangerouslySetInnerHTML'' (obj [At ''__html'' ((if truthy result
                  then dot result ''svg''
                  else lit ''''))])]
        []]))\<close>

definition mdxComponents_h1 :: "lib \<Rightarrow> props \<Rightarrow> val" where
\<open>mdxComponents_h1 K p =
  (let props = VObj p in
    el (comp ''Heading'') [At ''level'' (VNum 1),
      Sp props]
    [])\<close>

definition mdxComponents_h2 :: "lib \<Rightarrow> props \<Rightarrow> val" where
\<open>mdxComponents_h2 K p =
  (let props = VObj p in
    el (comp ''Heading'') [At ''level'' (VNum 2),
      Sp props]
    [])\<close>

definition mdxComponents_h3 :: "lib \<Rightarrow> props \<Rightarrow> val" where
\<open>mdxComponents_h3 K p =
  (let props = VObj p in
    el (comp ''Heading'') [At ''level'' (VNum 3),
      Sp props]
    [])\<close>

definition mdxComponents_h4 :: "lib \<Rightarrow> props \<Rightarrow> val" where
\<open>mdxComponents_h4 K p =
  (let props = VObj p in
    el (comp ''Heading'') [At ''level'' (VNum 4),
      Sp props]
    [])\<close>

definition mdxComponents_table :: "lib \<Rightarrow> props \<Rightarrow> val" where
\<open>mdxComponents_table K p =
  (let props = VObj p in
    el (tag ''div'') [At ''className'' (lit ''table-scroll'')]
    [el (tag ''table'') [Sp props]
      []])\<close>

definition mdxComponents_pre :: "lib \<Rightarrow> props \<Rightarrow> val" where
\<open>mdxComponents_pre K p =
  (let props = VObj p in
    el (tag ''div'') [At ''className'' (lit ''code-frame'')]
    [el (tag ''span'') [At ''className'' (lit ''code-frame__label'')]
      [lit ''working notes''],
      el (tag ''pre'') [Sp props]
      []])\<close>

definition mdxComponents_blockquote :: "lib \<Rightarrow> props \<Rightarrow> val" where
\<open>mdxComponents_blockquote K p =
  (let props = VObj p in
    el (tag ''blockquote'') [At ''className'' (lit ''document-quote''),
      Sp props]
    [])\<close>

definition mdxComponents :: val where
\<open>mdxComponents =
  obj [At ''h1'' (VFun ''mdxComponents.h1'' []),
    At ''h2'' (VFun ''mdxComponents.h2'' []),
    At ''h3'' (VFun ''mdxComponents.h3'' []),
    At ''h4'' (VFun ''mdxComponents.h4'' []),
    At ''a'' (comp ''SmartLink''),
    At ''table'' (VFun ''mdxComponents.table'' []),
    At ''pre'' (VFun ''mdxComponents.pre'' []),
    At ''blockquote'' (VFun ''mdxComponents.blockquote'' []),
    At ''Callout'' (comp ''Callout''),
    At ''StudyPrompt'' (comp ''StudyPrompt''),
    At ''KeyPoint'' (comp ''KeyPoint''),
    At ''Steps'' (comp ''Steps''),
    At ''Step'' (comp ''Step''),
    At ''Compare'' (comp ''Compare''),
    At ''CompareItem'' (comp ''CompareItem''),
    At ''TaskList'' (comp ''TaskList''),
    At ''Task'' (comp ''Task''),
    At ''HintSteps'' (comp ''HintSteps''),
    At ''Hint'' (comp ''Hint''),
    At ''Figure'' (comp ''Figure''),
    At ''Mermaid'' (comp ''Mermaid''),
    At ''Resources'' (comp ''Resources''),
    At ''Resource'' (comp ''Resource'')]\<close>

section \<open>The clicks of HintSteps\<close>

text \<open>Reading a rendered element: its children, and the handlers of the buttons in it.\<close>

definition children_of :: "val \<Rightarrow> val list" where
  "children_of v = (case dot (dot v ''props'') ''children'' of VArr xs \<Rightarrow> xs | x \<Rightarrow> [x])"

definition hint_buttons :: "val \<Rightarrow> val list" where
  "hint_buttons view = map (\<lambda>b. dot (dot b ''props'') ''onClick'') (children_of (last (children_of view)))"

definition hint_items :: "val \<Rightarrow> val list" where
  "hint_items view = children_of (children_of view ! 2)"

text \<open>The two handlers, and a click on a button of the current view.\<close>

definition reveal_handler :: val where
  "reveal_handler = VFun ''HintSteps.onClick'' [VFun ''HintSteps.setRevealed'' []]"

definition hide_handler :: val where
  "hide_handler = VFun ''HintSteps.onClick2'' [VFun ''HintSteps.setRevealed'' []]"

definition hint_handler :: "val \<Rightarrow> int \<Rightarrow> int" where
  "hint_handler h n = (if h = reveal_handler then n + 1 else if h = hide_handler then 0 else n)"

inductive hint_click :: "lib \<Rightarrow> props \<Rightarrow> int \<Rightarrow> int \<Rightarrow> bool" for K p where
  "h \<in> set (hint_buttons (HintSteps K (VNum n) p)) \<Longrightarrow> hint_click K p n (hint_handler h n)"

definition hints_of :: "lib \<Rightarrow> props \<Rightarrow> val list" where
  "hints_of K p = filter is_element (items (K ''Children.toArray'' [attr ''children'' p]))"

lemma children_of_elk [simp]: "children_of (elk t k fs (x # y # zs)) = x # y # zs"
  by (simp add: children_of_def elk_def)

lemma children_of_one: "children_of (elk t k fs [x]) = (case x of VArr xs \<Rightarrow> xs | y \<Rightarrow> [y])"
  by (simp add: children_of_def elk_def)

lemma hint_buttons_view:
  "hint_buttons (HintSteps K (VNum n) p) =
    [if n < int (length (hints_of K p)) then reveal_handler else VUndef,
     if 0 < n then hide_handler else VUndef]"
  by (simp add: HintSteps_def Let_def hint_buttons_def hints_of_def jfilter_def reveal_handler_def
      hide_handler_def) (simp add: elk_def)

lemma hint_click_bounds:
  "hint_click K p n m \<Longrightarrow> 0 \<le> n \<and> n \<le> int (length (hints_of K p)) \<Longrightarrow>
   0 \<le> m \<and> m \<le> int (length (hints_of K p))"
  by (erule hint_click.cases)
    (auto simp: hint_buttons_view hint_handler_def reveal_handler_def hide_handler_def Suc_le_eq
      split: if_splits)

lemma hint_clicks_bounds:
  "(hint_click K p)\<^sup>*\<^sup>* 0 n \<Longrightarrow> 0 \<le> n \<and> n \<le> int (length (hints_of K p))"
proof (induction rule: rtranclp_induct)
  case (step n m)
  show ?case by (rule hint_click_bounds [OF step(2,3)])
qed simp

text \<open>
  How an item shows its hint: under its title, and when it is open with its body and its check, each
  the one child of the item after the title.
\<close>

definition hint_part :: "string \<Rightarrow> val \<Rightarrow> val" where
  "hint_part name hint = dot (dot hint ''props'') name"

definition titled :: "val \<Rightarrow> val \<Rightarrow> bool" where
  "titled hint t \<longleftrightarrow> length (children_of t) = 2 \<and>
     dot (dot (children_of t ! 1) ''props'') ''children'' = hint_part ''title'' hint"

definition item_open :: "val \<Rightarrow> val \<Rightarrow> bool" where
  "item_open hint li \<longleftrightarrow> dot (dot li ''props'') ''className'' = lit ''hint--open'' \<and>
     (\<exists>t body check. children_of li = [t, body] \<and> titled hint t \<and> is_element body \<and>
        children_of body = [hint_part ''children'' hint, check] \<and>
        (if truthy (hint_part ''check'' hint)
         then length (children_of check) = 3 \<and> children_of check ! 2 = hint_part ''check'' hint
         else check = VNull))"

definition item_locked :: "val \<Rightarrow> val \<Rightarrow> bool" where
  "item_locked hint li \<longleftrightarrow> dot (dot li ''props'') ''className'' = lit ''hint--locked'' \<and>
     (\<exists>t. children_of li = [t, VNull] \<and> titled hint t)"

lemma hint_items_view:
  "length (hint_items (HintSteps K (VNum n) p)) = length (hints_of K p)"
  "i < length (hints_of K p) \<Longrightarrow>
   (if int i < n then item_open (hints_of K p ! i) (hint_items (HintSteps K (VNum n) p) ! i)
    else item_locked (hints_of K p ! i) (hint_items (HintSteps K (VNum n) p) ! i))"
  by (simp_all add: HintSteps_def Let_def hint_items_def hints_of_def jfilter_def jmap_def indexed_def
      children_of_one item_open_def item_locked_def titled_def hint_part_def)
    (simp_all add: elk_def is_element_def)

text \<open>Two series of hints that a reader who has revealed \<open>n\<close> hints cannot tell apart.\<close>

definition same_so_far :: "int \<Rightarrow> val list \<Rightarrow> val list \<Rightarrow> bool" where
  "same_so_far n xs ys \<longleftrightarrow> length xs = length ys \<and>
     (\<forall>i < length xs. hint_part ''title'' (xs ! i) = hint_part ''title'' (ys ! i) \<and>
        (int i < n \<longrightarrow> hint_part ''children'' (xs ! i) = hint_part ''children'' (ys ! i) \<and>
           hint_part ''check'' (xs ! i) = hint_part ''check'' (ys ! i)))"

lemma jmap_cong:
  "length xs = length ys \<Longrightarrow> (\<And>i. i < length xs \<Longrightarrow> f (xs ! i) (VNum (int i)) = g (ys ! i) (VNum (int i))) \<Longrightarrow>
   jmap f (VArr xs) = jmap g (VArr ys)"
  by (auto simp: jmap_def indexed_def intro: nth_equalityI)

lemma hints_secret:
  assumes "same_so_far n (hints_of K p) (hints_of K q)"
  shows "HintSteps K (VNum n) p = HintSteps K (VNum n) q"
proof -
  have l: "length (hints_of K p) = length (hints_of K q)" using assms by (simp add: same_so_far_def)
  have "jmap f (VArr (hints_of K p)) = jmap f (VArr (hints_of K q))"
    if "\<And>i. i < length (hints_of K p) \<Longrightarrow> f (hints_of K p ! i) (VNum (int i)) = f (hints_of K q ! i) (VNum (int i))" for f
    by (rule jmap_cong [OF l]) (rule that)
  note m = this
  show ?thesis
    unfolding HintSteps_def Let_def jfilter_def hints_of_def [symmetric] jless.simps truthy.simps
    apply (subst m)
    using assms l by (auto simp: same_so_far_def hint_part_def)
qed

end
