(* ===== verification/ReaderView.thy ===== *)
theory ReaderView
  imports Mdx
begin

text \<open>
  docs/src/App.tsx, what it renders: the view of a state, the sidebar, the banner of a roadmap.
  The list of documents and every state are arguments; a handler is the name of its code with the
  values it closes over, and what it does is in the theory Reader.
\<close>

definition defaultReaderPreferences :: val where
\<open>defaultReaderPreferences =
  obj [At ''fontSize'' (lit ''md''),
    At ''readerMode'' (VBool False),
    At ''sidebarCollapsed'' (VBool False)]\<close>

definition fontSizeOptions :: val where
\<open>fontSizeOptions =
  VArr [obj [At ''label'' (lit ''Very small''),
      At ''shortLabel'' (lit ''XS''),
      At ''value'' (lit ''xs'')], obj [At ''label'' (lit ''Small''),
      At ''shortLabel'' (lit ''S''),
      At ''value'' (lit ''sm'')], obj [At ''label'' (lit ''Default''),
      At ''shortLabel'' (lit ''M''),
      At ''value'' (lit ''md'')], obj [At ''label'' (lit ''Large''),
      At ''shortLabel'' (lit ''L''),
      At ''value'' (lit ''lg'')], obj [At ''label'' (lit ''Very large''),
      At ''shortLabel'' (lit ''XL''),
      At ''value'' (lit ''xl'')]]\<close>

definition readerPreferencesKey :: val where
\<open>readerPreferencesKey =
  lit ''quickspin-reader-preferences''\<close>

definition RoadmapStatus :: "lib \<Rightarrow> props \<Rightarrow> val" where
\<open>RoadmapStatus K p =
  (let roadmap = attr ''roadmap'' p in
    let completed = VBool ((dot roadmap ''status'' = lit ''completed'')) in
    let completedOn = (if (truthy completed \<and> truthy (dot roadmap ''completedOn''))
      then K ''completionDateFormatter.format'' [K ''new Date'' [tpl K [dot roadmap ''completedOn'', lit ''T00:00:00Z'']]]
      else VUndef) in
    el (tag ''div'') [At ''className'' (tpl K [lit ''roadmap-status roadmap-status--'', dot roadmap ''status''])]
    [el (tag ''span'') [At ''className'' (lit ''roadmap-status__mark'')]
      [(if truthy completed
          then el (comp ''CheckIcon'') []
          []
          else dot roadmap ''number'')],
      el (tag ''div'') []
      [el (tag ''strong'') []
        [(if truthy completed
            then lit ''Delivered''
            else lit ''Future state'')],
        el (tag ''p'') []
        [(if truthy completed
            then tpl K [(if truthy completedOn
                then tpl K [lit ''Marked complete '', completedOn, lit ''.'']
                else lit ''Marked complete.''), lit '' This roadmap is retained as historical context; current code and tests are authoritative where delivery differs.'']
            else VStr (js ''This roadmap outlines Quickspin'' @ [8217] @ js ''s intended direction, not its current behavior. Use the codebase as the authority for what exists today.''))]]])\<close>

definition ReaderSidebar :: "lib \<Rightarrow> val \<Rightarrow> props \<Rightarrow> val" where
\<open>ReaderSidebar K docs p =
  (let active = attr ''active'' p in
    let query = attr ''query'' p in
    let setQuery = attr ''setQuery'' p in
    let onNavigate = attr ''onNavigate'' p in
    let open' = attr ''open'' p in
    let onClose = attr ''onClose'' p in
    let collapsed = attr ''collapsed'' p in
    let collapseLocked = attr ''collapseLocked'' p in
    let onToggleCollapsed = attr ''onToggleCollapsed'' p in
    let searchRef = attr ''searchRef'' p in
    let filtered = (let needle = K ''toLowerCase'' [VStr (trim (str_of query))] in
      (if \<not> (truthy needle)
        then docs
        else jfilter (\<lambda>document. truthy (VBool (contains (str_of (dot document ''searchText'')) (str_of needle)))) docs)) in
    el (comp ''Fragment'') []
    [el (tag ''button'') [At ''className'' (tpl K [lit ''sidebar-scrim '', (if truthy open'
              then lit ''sidebar-scrim--visible''
              else lit '''')]),
        At ''onClick'' onClose,
        At ''aria-label'' (lit ''Close navigation'')]
      [],
      el (tag ''aside'') [At ''id'' (lit ''documentation-sidebar''),
        At ''className'' (tpl K [lit ''sidebar '', (if truthy open'
              then lit ''sidebar--open''
              else lit ''''), lit '' '', (if truthy collapsed
              then lit ''sidebar--collapsed''
              else lit '''')])]
      [el (tag ''header'') [At ''className'' (lit ''brand'')]
        [el (tag ''button'') [At ''className'' (lit ''brand__mark''),
            At ''onClick'' (VFun ''Sidebar.onClick'' [onNavigate]),
            At ''aria-label'' (lit ''Quickspin documentation home''),
            At ''title'' ((if truthy collapsed
                then lit ''Quickspin home''
                else VUndef))]
          [el (tag ''span'') []
            [lit ''Q'']],
          el (tag ''div'') []
          [el (tag ''p'') []
            [lit ''Quickspin''],
            el (tag ''span'') []
            [lit ''Platform roadmap'']],
          el (tag ''button'') [At ''className'' (lit ''sidebar__close''),
            At ''onClick'' onClose,
            At ''aria-label'' (lit ''Close navigation'')]
          [el (comp ''CloseIcon'') []
            []]],
        (if \<not> (truthy collapseLocked)
          then el (tag ''button'') [At ''className'' (lit ''sidebar__collapse''),
            At ''onClick'' onToggleCollapsed,
            At ''aria-controls'' (lit ''documentation-sidebar''),
            At ''aria-expanded'' (VBool (\<not> (truthy collapsed))),
            At ''aria-label'' ((if truthy collapsed
                then lit ''Expand navigation''
                else lit ''Collapse navigation'')),
            At ''title'' ((if truthy collapsed
                then lit ''Expand navigation''
                else lit ''Collapse navigation''))]
          [el (comp ''ChevronIcon'') []
            []]
          else VNull),
        el (tag ''label'') [At ''className'' (lit ''search'')]
        [el (comp ''SearchIcon'') []
          [],
          el (tag ''input'') [At ''ref'' searchRef,
            At ''value'' query,
            At ''onChange'' (VFun ''Sidebar.onChange'' [setQuery]),
            At ''placeholder'' (lit ''Search the roadmap''),
            At ''aria-label'' (lit ''Search documentation'')]
          [],
          el (tag ''kbd'') []
          [lit ''/'']],
        el (tag ''nav'') [At ''id'' (lit ''document-navigation''),
          At ''className'' (lit ''document-nav''),
          At ''aria-label'' (lit ''Roadmap'')]
        [(if truthy (dot filtered ''length'')
            then el (tag ''section'') [At ''className'' (lit ''nav-section'')]
            [el (tag ''div'') [At ''className'' (lit ''nav-section__heading'')]
              [el (tag ''span'') []
                [lit ''Roadmap''],
                el (tag ''small'') []
                [VStr (padStart2 (str_of (VStr (to_str K (dot filtered ''length'')))))]],
              jmap (\<lambda>document _. elk (tag ''button'') (dot document ''path'') [At ''className'' (tpl K [lit ''nav-item '', (if (dot document ''path'' = dot active ''path'')
                        then lit ''nav-item--active''
                        else lit '''')]),
                  At ''onClick'' (VFun ''Sidebar.onClick2'' [onNavigate, document]),
                  At ''aria-current'' ((if (dot document ''path'' = dot active ''path'')
                      then lit ''page''
                      else VUndef)),
                  At ''title'' ((if truthy collapsed
                      then dot document ''navTitle''
                      else VUndef))]
                [el (tag ''span'') [At ''className'' (lit ''nav-item__number'')]
                  [dot (dot document ''roadmap'') ''number''],
                  el (tag ''span'') [At ''className'' (lit ''nav-item__label'')]
                  [dot document ''navTitle''],
                  (if (dot (dot document ''roadmap'') ''status'' = lit ''completed'')
                    then el (tag ''span'') [At ''className'' (lit ''nav-item__complete''),
                      At ''title'' (lit ''Completed roadmap'')]
                    [el (comp ''CheckIcon'') []
                      [],
                      el (tag ''span'') [At ''className'' (lit ''sr-only'')]
                      [lit ''Completed roadmap'']]
                    else VNull)]) filtered]
            else VNull),
          (if (dot filtered ''length'' = VNum 0)
            then el (tag ''div'') [At ''className'' (lit ''search-empty'')]
            [el (tag ''span'') []
              [lit ''Nothing indexed under''],
              el (tag ''strong'') []
              [VStr [8220],
                query,
                VStr [8221]]]
            else VNull)],
        el (tag ''footer'') [At ''className'' (lit ''sidebar__footer'')]
        [el (tag ''span'') []
          [lit ''MDX reader''],
          el (tag ''span'') [At ''className'' (lit ''pulse-dot'')]
          [],
          el (tag ''span'') []
          [lit ''local'']]]])\<close>

definition App_view :: "lib \<Rightarrow> val \<Rightarrow> val \<Rightarrow> val \<Rightarrow> val \<Rightarrow> val \<Rightarrow> val \<Rightarrow> val \<Rightarrow> val" where
\<open>App_view K docs active query menuOpen readingProgress preferences settingsOpen =
  (let setActive = VFun ''App.setActive'' [] in
    let setQuery = VFun ''App.setQuery'' [] in
    let setMenuOpen = VFun ''App.setMenuOpen'' [] in
    let setReadingProgress = VFun ''App.setReadingProgress'' [] in
    let setPreferences = VFun ''App.setPreferences'' [] in
    let setSettingsOpen = VFun ''App.setSettingsOpen'' [] in
    let searchRef = K ''useRef'' [VNull] in
    let readerControlsRef = K ''useRef'' [VNull] in
    let sidebarCollapsed = jor (dot preferences ''sidebarCollapsed'') (dot preferences ''readerMode'') in
    let activeIndex = jfindIndex (\<lambda>document. (dot document ''path'' = dot active ''path'')) docs in
    let previous = (if jless (VNum 0) activeIndex
      then item docs (jminus activeIndex (VNum 1))
      else VUndef) in
    let next = (if jless activeIndex (jminus (dot docs ''length'') (VNum 1))
      then item docs (jplus activeIndex (VNum 1))
      else VUndef) in
    let navigate = VFun ''App.navigate'' [setActive, setMenuOpen] in
    let closeMenu = VFun ''App.closeMenu'' [setMenuOpen] in
    let handleDocumentClick = VFun ''App.handleDocumentClick'' [active, navigate] in
    let ActiveDocument = dot active ''Component'' in
    let categoryLabel = (if (dot (dot active ''roadmap'') ''status'' = lit ''completed'')
      then lit ''Completed roadmap''
      else lit ''Roadmap'') in
    el (tag ''div'') [At ''className'' (tpl K [lit ''app-shell reader-font--'', dot preferences ''fontSize'', lit '' '', (if truthy sidebarCollapsed
            then lit ''app-shell--sidebar-collapsed''
            else lit ''''), lit '' '', (if truthy (dot preferences ''readerMode'')
            then lit ''app-shell--reader-mode''
            else lit '''')])]
    [el (tag ''div'') [At ''className'' (lit ''reading-progress''),
        At ''style'' (obj [At ''width'' (tpl K [readingProgress, lit ''%''])])]
      [],
      el (comp ''App.Sidebar'') [At ''active'' active,
        At ''query'' query,
        At ''setQuery'' setQuery,
        At ''onNavigate'' navigate,
        At ''open'' menuOpen,
        At ''onClose'' closeMenu,
        At ''collapsed'' sidebarCollapsed,
        At ''collapseLocked'' (dot preferences ''readerMode''),
        At ''onToggleCollapsed'' (VFun ''App.onToggleCollapsed'' [setPreferences]),
        At ''searchRef'' searchRef]
      [],
      el (tag ''header'') [At ''className'' (lit ''mobile-header'')]
      [el (tag ''button'') [At ''onClick'' (VFun ''App.onClick'' [setMenuOpen]),
          At ''aria-label'' (lit ''Open navigation'')]
        [el (comp ''MenuIcon'') []
          []],
        el (tag ''span'') []
        [lit ''Quickspin / roadmap''],
        el (tag ''span'') [At ''className'' (lit ''mobile-header__page'')]
        [VStr (padStart2 (str_of (VStr (to_str K (jplus activeIndex (VNum 1))))))]],
      el (tag ''main'') [At ''className'' (lit ''reader'')]
      [el (tag ''article'') [At ''className'' (lit ''paper'')]
        [el (tag ''div'') [At ''className'' (lit ''document-meta'')]
          [el (tag ''span'') []
            [categoryLabel],
            el (tag ''span'') []
            [dot active ''readingMinutes'',
              lit '' min read''],
            el (tag ''span'') []
            [dot active ''path'']],
          el (comp ''RoadmapStatus'') [At ''roadmap'' (dot active ''roadmap'')]
          [],
          el (tag ''div'') [At ''className'' (lit ''document-body''),
            At ''onClick'' handleDocumentClick]
          [el (comp ''MDXProvider'') [At ''components'' mdxComponents]
            [el (comp ''Suspense'') [At ''fallback'' (el (tag ''div'') [At ''className'' (lit ''document-loading'')]
                  [el (tag ''span'') []
                    [],
                    VStr (js ''Preparing roadmap'' @ [8230])])]
              [el ActiveDocument []
                []]]],
          el (tag ''nav'') [At ''className'' (lit ''page-turner''),
            At ''aria-label'' (lit ''Previous and next document'')]
          [(if truthy previous
              then el (tag ''button'') [At ''className'' (lit ''page-turner__previous''),
                At ''onClick'' (VFun ''App.onClick2'' [navigate, previous])]
              [el (comp ''ArrowIcon'') []
                [],
                el (tag ''span'') []
                [el (tag ''small'') []
                  [lit ''Previous''],
                  dot previous ''title'']]
              else el (tag ''span'') []
              []),
            (if truthy next
              then el (tag ''button'') [At ''className'' (lit ''page-turner__next''),
                At ''onClick'' (VFun ''App.onClick3'' [navigate, next])]
              [el (tag ''span'') []
                [el (tag ''small'') []
                  [lit ''Next''],
                  dot next ''title''],
                el (comp ''ArrowIcon'') []
                []]
              else VNull)]],
        el (tag ''aside'') [At ''className'' (lit ''outline'')]
        [el (tag ''p'') []
          [lit ''On this page''],
          el (tag ''nav'') []
          [(if truthy (dot (dot active ''headings'') ''length'')
              then jmap (\<lambda>heading _. elk (tag ''button'') (tpl K [dot heading ''id'', lit ''-'', dot heading ''depth'']) [At ''className'' ((if (dot heading ''depth'' = VNum 3)
                      then lit ''outline__nested''
                      else lit '''')),
                  At ''onClick'' (VFun ''App.onClick4'' [heading])]
                [dot heading ''title'']) (dot active ''headings'')
              else el (tag ''span'') []
              [lit ''No sections indexed.''])],
          el (tag ''div'') [At ''className'' (lit ''outline__rule'')]
          [],
          el (tag ''p'') [At ''className'' (lit ''outline__folio'')]
          [lit ''QS / '',
            VStr (padStart2 (str_of (VStr (to_str K (jplus activeIndex (VNum 1))))))]]],
      el (tag ''div'') [At ''className'' (lit ''reader-controls''),
        At ''ref'' readerControlsRef]
      [(if truthy settingsOpen
          then el (tag ''div'') [At ''id'' (lit ''reader-settings''),
            At ''className'' (lit ''reader-settings''),
            At ''role'' (lit ''dialog''),
            At ''aria-labelledby'' (lit ''reader-settings-title'')]
          [el (tag ''div'') [At ''className'' (lit ''reader-settings__header'')]
            [el (tag ''div'') []
              [el (tag ''p'') [At ''id'' (lit ''reader-settings-title'')]
                [lit ''Reading settings''],
                el (tag ''span'') []
                [lit ''Choose a comfortable text size.'']],
              el (tag ''span'') [At ''className'' (lit ''reader-settings__folio'')]
              [lit ''Aa / 05'']],
            el (tag ''div'') [At ''className'' (lit ''reader-settings__sizes''),
              At ''role'' (lit ''radiogroup''),
              At ''aria-label'' (lit ''Text size'')]
            [jmap (\<lambda>option _. elk (tag ''button'') (dot option ''value'') [At ''className'' ((if (dot option ''value'' = dot preferences ''fontSize'')
                      then lit ''reader-settings__size reader-settings__size--active''
                      else lit ''reader-settings__size'')),
                  At ''onClick'' (VFun ''App.onClick5'' [setPreferences, option]),
                  At ''role'' (lit ''radio''),
                  At ''aria-checked'' (VBool ((dot option ''value'' = dot preferences ''fontSize''))),
                  At ''aria-label'' (tpl K [dot option ''label'', lit '' text'']),
                  At ''title'' (dot option ''label'')]
                [el (tag ''span'') [At ''className'' (tpl K [lit ''reader-settings__sample reader-settings__sample--'', dot option ''value''])]
                  [lit ''Aa''],
                  el (tag ''small'') []
                  [dot option ''shortLabel'']]) fontSizeOptions],
            el (tag ''p'') [At ''className'' (lit ''reader-settings__current''),
              At ''aria-live'' (lit ''polite'')]
            [dot (jfind (\<lambda>option. (dot option ''value'' = dot preferences ''fontSize'')) fontSizeOptions) ''label'']]
          else VNull),
        el (tag ''div'') [At ''className'' (lit ''reader-controls__dock'')]
        [el (tag ''button'') [At ''className'' ((if truthy settingsOpen
                then lit ''reader-control reader-control--active''
                else lit ''reader-control'')),
            At ''onClick'' (VFun ''App.onClick6'' [setSettingsOpen]),
            At ''aria-controls'' (lit ''reader-settings''),
            At ''aria-expanded'' settingsOpen,
            At ''aria-label'' (lit ''Reading settings''),
            At ''title'' (lit ''Reading settings'')]
          [el (comp ''SettingsIcon'') []
            []],
          el (tag ''span'') [At ''className'' (lit ''reader-controls__divider'')]
          [],
          el (tag ''button'') [At ''className'' ((if truthy (dot preferences ''readerMode'')
                then lit ''reader-control reader-control--active''
                else lit ''reader-control'')),
            At ''onClick'' (VFun ''App.onClick7'' [setPreferences, setSettingsOpen]),
            At ''aria-pressed'' (dot preferences ''readerMode''),
            At ''aria-label'' ((if truthy (dot preferences ''readerMode'')
                then lit ''Exit reader mode''
                else lit ''Enter reader mode'')),
            At ''title'' ((if truthy (dot preferences ''readerMode'')
                then lit ''Exit reader mode''
                else lit ''Enter reader mode''))]
          [el (comp ''ReaderModeIcon'') []
            []]]]])\<close>

end
