(* ===== verification/Json.thy ===== *)
theory Json
  imports Uri
begin

text \<open>
  \<open>JSON.parse\<close> and \<open>JSON.stringify\<close> of the language, over the values of the theory Js. A number
  that is not an integer literal is asked of the parameter \<open>K\<close>. Parsing fails with None where the
  function throws a SyntaxError.
\<close>

section \<open>Parsing\<close>

definition json_space :: "nat \<Rightarrow> bool" where
  "json_space u \<longleftrightarrow> u \<in> set [9, 10, 13, 32]"

abbreviation skip :: "jstr \<Rightarrow> jstr" where "skip \<equiv> dropWhile json_space"

lemma skip_shorter: "skip s = u # t \<Longrightarrow> length t < length s"
  using length_dropWhile_le [of json_space s] by simp

definition escape_unit :: "nat \<Rightarrow> nat option" where
  "escape_unit u = map_of [(34, 34), (92, 92), (47, 47), (98, 8), (102, 12), (110, 10), (114, 13), (116, 9)] u"

fun hex4 :: "jstr \<Rightarrow> nat option" where
  "hex4 [a, b, c, d] =
    (case (unhex a, unhex b, unhex c, unhex d) of
       (Some a, Some b, Some c, Some d) \<Rightarrow> Some (((a * 16 + b) * 16 + c) * 16 + d)
     | _ \<Rightarrow> None)"
| "hex4 _ = None"

text \<open>The rest of a string after its opening quote: its units and what follows the closing one.\<close>

function json_string :: "jstr \<Rightarrow> (jstr \<times> jstr) option" where
  "json_string [] = None"
| "json_string (u # s) =
    (if u = 34 then Some ([], s)
     else if u < 32 then None
     else if u \<noteq> 92 then map_option (apfst ((#) u)) (json_string s)
     else case s of
       [] \<Rightarrow> None
     | e # t \<Rightarrow>
         if e = 117 then (case hex4 (take 4 t) of
             None \<Rightarrow> None
           | Some x \<Rightarrow> map_option (apfst ((#) x)) (json_string (drop 4 t)))
         else (case escape_unit e of
             None \<Rightarrow> None
           | Some x \<Rightarrow> map_option (apfst ((#) x)) (json_string t)))"
  by pat_completeness auto
termination
  by (relation "measure length") auto

definition number_token :: re where
  "number_token = seq [opt (lit_re ''-''),
     Alt (lit_re ''0'') (seq [Cls (\<lambda>u. 49 \<le> u \<and> u \<le> 57), many digit]),
     opt (seq [lit_re ''.'', some_of digit]),
     opt (seq [any_of ''eE'', opt (any_of ''+-''), some_of digit])]"

definition digits_value :: "jstr \<Rightarrow> int" where
  "digits_value s = fold (\<lambda>u n. 10 * n + (int u - 48)) s 0"

definition number_value :: "lib \<Rightarrow> jstr \<Rightarrow> val" where
  "number_value K t =
    (if list_all digit_unit t then VNum (digits_value t)
     else if take 1 t = [45] \<and> list_all digit_unit (drop 1 t) then VNum (- digits_value (drop 1 t))
     else K ''Number'' [VStr t])"

definition json_number :: "lib \<Rightarrow> jstr \<Rightarrow> (val \<times> jstr) option" where
  "json_number K s =
    (case ms number_token s 0 [] of
       [] \<Rightarrow> None
     | (j, _) # _ \<Rightarrow> Some (number_value K (take j s), drop j s))"

text \<open>A value, or the rest of an object or an array after its first entries. What follows a value
  is shorter than the text it was read from, which the guards only make explicit.\<close>

datatype json_mode = Value | Members props | Elements "val list"

function json :: "lib \<Rightarrow> json_mode \<Rightarrow> jstr \<Rightarrow> (val \<times> jstr) option" where
  "json K Value s =
    (case skip s of
       [] \<Rightarrow> None
     | u # t \<Rightarrow>
         if u = 123 then (case skip t of [] \<Rightarrow> None | v # r \<Rightarrow>
             if v = 125 then Some (VObj [], r) else json K (Members []) t)
         else if u = 91 then (case skip t of [] \<Rightarrow> None | v # r \<Rightarrow>
             if v = 93 then Some (VArr [], r) else json K (Elements []) t)
         else if u = 34 then map_option (apfst VStr) (json_string t)
         else if take 4 (u # t) = js ''true'' then Some (VBool True, drop 4 (u # t))
         else if take 5 (u # t) = js ''false'' then Some (VBool False, drop 5 (u # t))
         else if take 4 (u # t) = js ''null'' then Some (VNull, drop 4 (u # t))
         else json_number K (u # t))"
| "json K (Members ps) s =
    (case skip s of
       [] \<Rightarrow> None
     | q # t \<Rightarrow>
         if q \<noteq> 34 then None
         else case json_string t of
           None \<Rightarrow> None
         | Some (k, t1) \<Rightarrow>
             (case skip t1 of
                [] \<Rightarrow> None
              | c # t2 \<Rightarrow>
                  if c \<noteq> 58 \<or> \<not> length t2 < length s then None
                  else case json K Value t2 of
                    None \<Rightarrow> None
                  | Some (v, t3) \<Rightarrow>
                      (case skip t3 of
                         [] \<Rightarrow> None
                       | d # t4 \<Rightarrow>
                           if \<not> length t4 < length s then None
                           else if d = 44 then json K (Members (put k v ps)) t4
                           else if d = 125 then Some (VObj (put k v ps), t4) else None)))"
| "json K (Elements xs) s =
    (case json K Value s of
       None \<Rightarrow> None
     | Some (v, t1) \<Rightarrow>
         (case skip t1 of
            [] \<Rightarrow> None
          | d # t2 \<Rightarrow>
              if \<not> length t2 < length s then None
              else if d = 44 then json K (Elements (xs @ [v])) t2
              else if d = 93 then Some (VArr (xs @ [v]), t2) else None))"
  by pat_completeness auto
termination
  by (relation "measures [\<lambda>(K, m, s). length s, \<lambda>(K, m, s). case m of Value \<Rightarrow> 0 | _ \<Rightarrow> 1]")
    (auto dest: skip_shorter)

definition JSON_parse :: "lib \<Rightarrow> jstr \<Rightarrow> val option" where
  "JSON_parse K s =
    (case json K Value s of Some (v, t) \<Rightarrow> if skip t = [] then Some v else None | None \<Rightarrow> None)"

section \<open>Printing\<close>

definition lower_hex :: "nat \<Rightarrow> nat" where
  "lower_hex n = (if n < 10 then 48 + n else 87 + n)"

definition unit_escape :: "nat \<Rightarrow> jstr" where
  "unit_escape u = [92, 117, lower_hex (u div 4096 mod 16), lower_hex (u div 256 mod 16),
     lower_hex (u div 16 mod 16), lower_hex (u mod 16)]"

definition quote_point :: "nat \<Rightarrow> jstr" where
  "quote_point c =
    (case map_of [(8, 98), (9, 116), (10, 110), (12, 102), (13, 114), (34, 34), (92, 92)] c of
       Some e \<Rightarrow> [92, e]
     | None \<Rightarrow> if c < 32 \<or> \<not> scalar c then unit_escape c else units c)"

definition quote :: "jstr \<Rightarrow> jstr" where
  "quote s = [34] @ concat (map quote_point (code_points s)) @ [34]"

text \<open>A field with no JSON form is left out; at the top the function returns undefined for it.\<close>

fun stringify :: "val \<Rightarrow> jstr option" where
  "stringify VNull = Some (js ''null'')"
| "stringify (VBool b) = Some (if b then js ''true'' else js ''false'')"
| "stringify (VNum n) = Some (num_str n)"
| "stringify (VStr s) = Some (quote s)"
| "stringify (VArr xs) = Some ([91] @ join [44] (map (\<lambda>x. case stringify x of Some t \<Rightarrow> t | None \<Rightarrow> js ''null'') xs) @ [93])"
| "stringify (VObj ps) = Some ([123] @ join [44] (concat (map (\<lambda>(k, v).
     case stringify v of Some t \<Rightarrow> [quote k @ [58] @ t] | None \<Rightarrow> []) ps)) @ [125])"
| "stringify _ = None"

end
