(* ===== verification/DocLaws.thy ===== *)
theory DocLaws
  imports Documents
begin

text \<open>
  What the text functions of the documents compute, without regular expressions: replacing runs of
  a class, taking dashes off both ends, taking off the extension of a path.
\<close>

section \<open>Replacing runs\<close>

function squeeze :: "(nat \<Rightarrow> bool) \<Rightarrow> jstr \<Rightarrow> jstr \<Rightarrow> jstr" where
  "squeeze P x [] = []"
| "squeeze P x (u # us) =
    (if P u then x @ squeeze P x (dropWhile P us) else u # squeeze P x us)"
  by pat_completeness auto
termination
  by (relation "measure (\<lambda>(P, x, s). length s)") (auto simp: less_Suc_eq_le length_dropWhile_le)

lemma run_0: "run P s i = 0 \<longleftrightarrow> length s \<le> i \<or> \<not> P (s ! i)"
  using run_step [of P s i] by auto

lemma ms_some_of_hd:
  "i < length s \<Longrightarrow> P (s ! i) \<Longrightarrow>
   \<exists>ms'. ms (some_of (Cls P)) s i c = (i + run P s i, c) # ms'"
  using run_0 [of P s i] by (simp add: ms_some_of)

lemma ms_some_of_None: "length s \<le> i \<or> \<not> P (s ! i) \<Longrightarrow> ms (some_of (Cls P)) s i c = []"
  using run_0 [of P s i] by (simp add: ms_some_of)

text \<open>The first unit of the class at or after a position.\<close>

lemma first_of:
  fixes P :: "nat \<Rightarrow> bool"
  assumes "k \<le> length s"
  defines "m \<equiv> length (takeWhile (\<lambda>u. \<not> P u) (drop k s))"
  shows "k + m \<le> length s" and "k \<le> i \<Longrightarrow> i < k + m \<Longrightarrow> \<not> P (s ! i)"
    and "k + m < length s \<Longrightarrow> P (s ! (k + m))"
proof -
  let ?t = "takeWhile (\<lambda>u. \<not> P u) (drop k s)"
  have len: "m \<le> length s - k"
    unfolding m_def by (metis length_drop length_takeWhile_le)
  then show "k + m \<le> length s" using assms(1) by simp
  show "\<not> P (s ! i)" if "k \<le> i" "i < k + m"
  proof -
    have "i - k < length ?t" using that by (simp add: m_def)
    then have "\<not> P (drop k s ! (i - k))"
      by (metis nth_mem set_takeWhileD takeWhile_nth)
    then show ?thesis using that len assms(1) by simp
  qed
  show "P (s ! (k + m))" if "k + m < length s"
    using nth_length_takeWhile [of "\<lambda>u. \<not> P u" "drop k s"] that by (simp add: m_def)
qed

lemma drop_run: "drop (i + run P s i) s = dropWhile P (drop i s)"
  by (simp add: run_def dropWhile_eq_drop add.commute)

lemma squeeze_skip:
  "\<forall>u \<in> set a. \<not> P u \<Longrightarrow> squeeze P x (a @ b) = a @ squeeze P x b"
  by (induction a) auto

lemma squeeze_hit:
  "k < length s \<Longrightarrow> P (s ! k) \<Longrightarrow>
   squeeze P x (drop k s) = x @ squeeze P x (drop (k + run P s k) s)"
proof -
  assume a: "k < length s" "P (s ! k)"
  then have d: "drop k s = s ! k # drop (Suc k) s" by (simp add: Cons_nth_drop_Suc)
  have "dropWhile P (drop (Suc k) s) = dropWhile P (drop k s)" using a(2) d by simp
  then show ?thesis using a(2) d by (simp add: drop_run)
qed

text \<open>One step of a replacement, for an expression that matches exactly where a class does.\<close>

definition class_like :: "(nat \<Rightarrow> bool) \<Rightarrow> (nat \<Rightarrow> nat) \<Rightarrow> re \<Rightarrow> jstr \<Rightarrow> bool" where
  "class_like P n r s \<longleftrightarrow>
     (\<forall>i. (i < length s \<and> P (s ! i) \<longrightarrow> (\<exists>ms'. ms r s i [] = (i + n i, []) # ms') \<and> 0 < n i \<and> i + n i \<le> length s) \<and>
          (length s \<le> i \<or> \<not> P (s ! i) \<longrightarrow> ms r s i [] = []))"

lemma replace_step:
  assumes cl: "class_like P n r s" and k: "k \<le> length s"
  defines "m \<equiv> length (takeWhile (\<lambda>u. \<not> P u) (drop k s))"
  shows "replace_from r (\<lambda>_. x) s k = takeWhile (\<lambda>u. \<not> P u) (drop k s) @
    (if k + m < length s then x @ replace_from r (\<lambda>_. x) s (k + m + n (k + m)) else [])"
proof -
  note first = first_of [OF k, where P = P, folded m_def]
  have sl: "slice k (k + m) s = takeWhile (\<lambda>u. \<not> P u) (drop k s)"
    using takeWhile_eq_take [of "\<lambda>u. \<not> P u" "drop k s"] by (simp add: slice_def m_def)
  have miss: "ms r s i [] = []" if "k \<le> i" "i < k + m" for i
    using cl first(2) [OF that] unfolding class_like_def by blast
  show ?thesis
  proof (cases "k + m < length s")
    case True
    obtain ms' where hit: "ms r s (k + m) [] = (k + m + n (k + m), []) # ms'"
      and j: "0 < n (k + m)" "k + m + n (k + m) \<le> length s"
      using cl first(3) [OF True] True unfolding class_like_def by blast
    have "match_from r s k = Some (k + m, k + m + n (k + m), [])"
      by (rule match_fromI [OF _ _ hit]) (use True miss in auto)
    then show ?thesis using j True sl by (subst replace_from.simps) simp
  next
    case False
    then have m: "k + m = length s" using first(1) by simp
    have "ms r s i [] = []" if "k \<le> i" for i
    proof (cases "i < length s")
      case True
      then show ?thesis using miss [OF that] m by simp
    next
      case False
      then show ?thesis using cl unfolding class_like_def by (meson not_le)
    qed
    then have "match_from r s k = None" by (simp add: match_from_None)
    moreover have "takeWhile (\<lambda>u. \<not> P u) (drop k s) = drop k s"
      using m by (metis (no_types) add_diff_cancel_left' drop_take length_drop m_def take_all_iff
          takeWhile_eq_take order_refl)
    ultimately show ?thesis using m
      by (subst replace_from.simps) (simp, metis takeWhile_eq_all_conv)
  qed
qed

lemma class_like_run: "class_like P (run P s) (some_of (Cls P)) s"
proof -
  have "i + run P s i \<le> length s" if "i < length s" for i
    using run_le [of P s i] that by linarith
  then show ?thesis
    using run_0 [of P s] ms_some_of_hd [of _ s P "[]"] ms_some_of_None [of s _ P "[]"]
    by (auto simp: class_like_def not_le simp flip: neq0_conv)
qed

lemma class_like_one: "class_like P (\<lambda>_. 1) (Cls P) s"
  by (simp add: class_like_def)

lemma split_first:
  fixes s :: jstr
  shows "drop k s = takeWhile (\<lambda>u. \<not> P u) (drop k s) @ drop (k + length (takeWhile (\<lambda>u. \<not> P u) (drop k s))) s"
  by (metis add.commute append_take_drop_id drop_drop takeWhile_eq_take)

lemma replace_runs_from:
  "k \<le> length s \<Longrightarrow> replace_from (some_of (Cls P)) (\<lambda>_. x) s k = squeeze P x (drop k s)"
proof (induction "length s - k" arbitrary: k rule: less_induct)
  case less
  let ?t = "takeWhile (\<lambda>u. \<not> P u) (drop k s)"
  define m where "m = length ?t"
  note first = first_of [OF less.prems, where P = P, folded m_def]
  have sq: "squeeze P x (drop k s) = ?t @ squeeze P x (drop (k + m) s)"
    using squeeze_skip [of ?t P x "drop (k + m) s"] split_first [of k s P, folded m_def]
    by (metis set_takeWhileD)
  have step: "replace_from (some_of (Cls P)) (\<lambda>_. x) s k = ?t @ (if k + m < length s
      then x @ replace_from (some_of (Cls P)) (\<lambda>_. x) s (k + m + run P s (k + m)) else [])"
    using replace_step [OF class_like_run less.prems, of P] by (simp add: m_def)
  show ?case
  proof (cases "k + m < length s")
    case True
    let ?j = "k + m + run P s (k + m)"
    have j: "k + m < ?j" "?j \<le> length s"
      using run_0 [of P s "k + m"] True first(3) [OF True] run_le [of P s "k + m"] by auto
    have "replace_from (some_of (Cls P)) (\<lambda>_. x) s ?j = squeeze P x (drop ?j s)"
      using j less.hyps [of ?j] True by simp
    then show ?thesis using step sq squeeze_hit [of "k + m" s P x] True first(3) [OF True] by simp
  next
    case False
    then show ?thesis using step sq first(1) by simp
  qed
qed

lemma replace_runs: "replace_all (some_of (Cls P)) (\<lambda>_. x) s = squeeze P x s"
  using replace_runs_from [of 0 s P x] by (simp add: replace_all_def)

lemma remove_class_from:
  "k \<le> length s \<Longrightarrow> replace_from (Cls P) (\<lambda>_. []) s k = filter (\<lambda>u. \<not> P u) (drop k s)"
proof (induction "length s - k" arbitrary: k rule: less_induct)
  case less
  let ?t = "takeWhile (\<lambda>u. \<not> P u) (drop k s)"
  define m where "m = length ?t"
  note first = first_of [OF less.prems, where P = P, folded m_def]
  have t: "filter (\<lambda>u. \<not> P u) ?t = ?t" by (auto simp: filter_id_conv dest: set_takeWhileD)
  have sq: "filter (\<lambda>u. \<not> P u) (drop k s) = ?t @ filter (\<lambda>u. \<not> P u) (drop (k + m) s)"
    using t split_first [of k s P, folded m_def] by (metis filter_append)
  have step: "replace_from (Cls P) (\<lambda>_. []) s k = ?t @ (if k + m < length s
      then replace_from (Cls P) (\<lambda>_. []) s (k + m + 1) else [])"
    using replace_step [OF class_like_one less.prems, of P "[]"] by (simp add: m_def)
  show ?case
  proof (cases "k + m < length s")
    case True
    then have "drop (k + m) s = s ! (k + m) # drop (k + m + 1) s" by (simp add: Cons_nth_drop_Suc)
    then show ?thesis using step sq True less.hyps [of "k + m + 1"] first(3) [OF True] by simp
  next
    case False
    then show ?thesis using step sq first(1) by simp
  qed
qed

lemma remove_class: "replace_all (any_of cs) (\<lambda>_. []) s = filter (\<lambda>u. u \<notin> set (js cs)) s"
  using remove_class_from [of 0 s] by (simp add: replace_all_def any_of_def)

section \<open>Dashes at both ends\<close>

definition dash :: "nat \<Rightarrow> bool" where "dash u \<longleftrightarrow> u = 45"

definition trim_right :: "jstr \<Rightarrow> jstr" where
  "trim_right s = rev (dropWhile dash (rev s))"

definition dash_re :: re where
  "dash_re = Alt (seq [Bol False, some_of (lit_re ''-'')]) (seq [some_of (lit_re ''-''), Eol False])"

lemma lit_dash: "lit_re ''-'' = Cls dash"
  by (simp add: js_def dash_def fun_eq_iff eq_commute)

lemma ms_dash:
  "ms dash_re s i [] = (if i = 0 then map (\<lambda>n. (n, [])) (rev [1..<Suc (run dash s 0)]) else []) @
     (if 0 < run dash s i \<and> i + run dash s i = length s then [(length s, [])] else [])"
proof -
  have le: "i + n = length s \<longleftrightarrow> n = run dash s i \<and> i + run dash s i = length s"
    if "n \<in> set (rev [1..<Suc (run dash s i)])" for n
    using that run_le [of dash s i] by auto
  have pt: "ms (Eol False) s (i + n) [] =
      (if n = run dash s i \<and> i + run dash s i = length s then [(length s, [])] else [])"
    if "n \<in> set (rev [1..<Suc (run dash s i)])" for n
    using le [OF that] by auto
  have eol: "concat (map (\<lambda>(j, d). ms (Eol False) s j d) (map (\<lambda>n. (i + n, [])) (rev [1..<Suc (run dash s i)])))
      = concat (map (\<lambda>n. if n = run dash s i \<and> i + run dash s i = length s then [(length s, [])] else [])
          (rev [1..<Suc (run dash s i)]))"
    unfolding map_map
    by (intro arg_cong [where f = concat] map_cong refl) (simp only: comp_apply prod.case pt)
  have one: "concat (map (\<lambda>n. if n = m \<and> b then [y] else []) (rev [1..<Suc m])) =
      (if 0 < m \<and> b then [y] else [])" for m b and y :: "nat \<times> caps"
  proof (cases "0 < m \<and> b")
    case True
    then have "rev [1..<Suc m] = m # rev [1..<m]" by simp
    moreover have "concat (map (\<lambda>n. if n = m \<and> b then [y] else []) (rev [1..<m])) = []" by auto
    ultimately show ?thesis using True by simp
  qed auto
  have right: "ms (seq [some_of (Cls dash), Eol False]) s i [] =
      (if 0 < run dash s i \<and> i + run dash s i = length s then [(length s, [])] else [])"
    by (simp only: seq.simps ms.simps(3) ms_some_of eol one)
  have left: "ms (seq [Bol False, some_of (Cls dash)]) s i [] =
      (if i = 0 then map (\<lambda>n. (n, [])) (rev [1..<Suc (run dash s 0)]) else [])"
    by (simp add: ms_some_of)
  show ?thesis by (simp only: dash_re_def lit_dash ms.simps(4) left right)
qed

text \<open>Past the start only a run that reaches the end is taken off.\<close>

lemma trim_right_split:
  "s = a @ replicate n 45 \<Longrightarrow> a = [] \<or> last a \<noteq> 45 \<Longrightarrow> trim_right s = a"
  by (cases a rule: rev_cases) (auto simp: trim_right_def dash_def dropWhile_append)

lemma trim_right_ex: "\<exists>a n. s = a @ replicate n 45 \<and> (a = [] \<or> last a \<noteq> 45)"
proof (induction s rule: rev_induct)
  case (snoc u s)
  then obtain a n where s: "s = a @ replicate n 45" "a = [] \<or> last a \<noteq> 45" by blast
  show ?case
  proof (cases "u = 45")
    case True
    then show ?thesis using s by (intro exI [of _ a] exI [of _ "Suc n"]) (simp add: replicate_append_same)
  next
    case False
    then show ?thesis by (intro exI [of _ "s @ [u]"] exI [of _ 0]) simp
  qed
qed auto

lemma run_dash_end:
  assumes s: "s = a @ replicate n 45" "a = [] \<or> last a \<noteq> 45" and i: "i \<le> length s"
  shows "0 < run dash s i \<and> i + run dash s i = length s \<longleftrightarrow> length a \<le> i \<and> i < length s"
proof -
  have "i + run dash s i = length s \<longleftrightarrow> (\<forall>u \<in> set (drop i s). dash u)"
  proof -
    have "i + run dash s i = length s \<longleftrightarrow> length (takeWhile dash (drop i s)) = length (drop i s)"
      using i by (auto simp: run_def)
    also have "\<dots> \<longleftrightarrow> takeWhile dash (drop i s) = drop i s"
      by (metis takeWhile_eq_take take_all_iff order_refl)
    finally show ?thesis by (simp add: takeWhile_eq_all_conv)
  qed
  also have "\<dots> \<longleftrightarrow> length a \<le> i \<or> i = length s"
  proof (cases "length a \<le> i")
    case True
    then show ?thesis using s by (auto simp: dash_def)
  next
    case False
    then have "last (drop i a) = last a" "drop i a \<noteq> []" by simp_all
    then have "last a \<in> set (drop i a)" by (metis last_in_set)
    moreover have "last a \<noteq> 45" using False s by auto
    ultimately have "last a \<in> set (drop i s)" "last a \<noteq> 45" using False s by simp_all
    then show ?thesis using False s by (auto simp: dash_def)
  qed
  finally show ?thesis using i by auto
qed

lemma ms_dash_right:
  assumes s: "s = a @ replicate n 45" "a = [] \<or> last a \<noteq> 45" and i: "i \<le> length s"
    and z: "i = 0 \<longrightarrow> run dash s 0 = 0"
  shows "ms dash_re s i [] = (if length a \<le> i \<and> i < length s then [(length s, [])] else [])"
  using run_dash_end [OF s i] z by (subst ms_dash) auto

lemma strip_right_from:
  assumes z: "0 < k \<or> run dash s 0 = 0" and "k \<le> length s"
    and s: "s = a @ replicate n 45" "a = [] \<or> last a \<noteq> 45" and k: "k \<le> length a \<or> n = 0"
  shows "replace_from dash_re (\<lambda>_. []) s k = drop k a"
proof -
  note ms_i = ms_dash_right [OF s]
  have z': "i = 0 \<longrightarrow> run dash s 0 = 0" if "k \<le> i" for i using z that by auto
  show ?thesis
  proof (cases "n = 0")
    case True
    have "ms dash_re s i [] = []" if "k \<le> i" "i \<le> length s" for i
      using ms_i [OF that(2) z' [OF that(1)]] True s by auto
    then have "match_from dash_re s k = None" by (simp add: match_from_None)
    then show ?thesis using True s by (subst replace_from.simps) simp
  next
    case False
    then have ka: "k \<le> length a" "length a < length s" using k s by auto
    have hit: "ms dash_re s (length a) [] = (length s, []) # []"
      using ms_i [of "length a", OF _ z' [OF ka(1)]] ka by simp
    have mf: "match_from dash_re s k = Some (length a, length s, [])"
    proof (rule match_fromI [OF ka(1) _ hit])
      fix i assume "k \<le> i" "i < length a"
      then show "ms dash_re s i [] = []" using ms_i [of i, OF _ z'] ka by simp
    qed (use ka in simp)
    have "ms dash_re s (length s) [] = []" using ms_i [of "length s", OF _ z'] ka by simp
    then have "match_from dash_re s (length s) = None" by (auto simp: match_from_None)
    then have "replace_from dash_re (\<lambda>_. []) s (length s) = []"
      by (subst replace_from.simps) simp
    then show ?thesis
      using mf ka s by (subst replace_from.simps) (simp add: slice_def)
  qed
qed

lemma strip_dashes: "replace_all dash_re (\<lambda>_. []) s = trim_right (dropWhile dash s)"
proof -
  obtain a n where s: "s = a @ replicate n 45" "a = [] \<or> last a \<noteq> 45" using trim_right_ex by blast
  let ?m = "run dash s 0"
  have dw: "dropWhile dash s = drop ?m s" using drop_run [of 0 dash s] by simp
  have m: "?m \<le> length s" using run_le [of dash s 0] by simp
  show ?thesis
  proof (cases "?m = length s")
    case True
    then have all: "dropWhile dash s = []" using dw by simp
    show ?thesis
    proof (cases "s = []")
      case False
      then have hit: "\<exists>ms'. ms dash_re s 0 [] = (length s, []) # ms'"
        using True by (subst ms_dash) simp
      then have "match_from dash_re s 0 = Some (0, length s, [])"
        by (auto intro: match_fromI)
      moreover have "replace_from dash_re (\<lambda>_. []) s (length s) = []"
      proof -
        have "ms dash_re s (length s) [] = []" using False by (subst ms_dash) (simp add: run_def)
        then have "match_from dash_re s (length s) = None" by (auto simp: match_from_None)
        then show ?thesis by (subst replace_from.simps) simp
      qed
      ultimately have "replace_all dash_re (\<lambda>_. []) s = []" using False
        unfolding replace_all_def by (subst replace_from.simps) (simp add: slice_def)
      then show ?thesis by (simp add: all trim_right_def)
    next
      case True
      then show ?thesis using strip_right_from [of 0 "[]" "[]" 0]
        by (simp add: replace_all_def trim_right_def run_def)
    qed
  next
    case False
    then have ml: "?m < length s" using m by simp
    have na: "\<not> dash (s ! ?m)"
      using nth_length_takeWhile [of dash s] ml by (simp add: run_def)
    have ma: "?m < length a"
    proof (rule ccontr)
      assume "\<not> ?m < length a"
      then have "s ! ?m = 45" using s(1) ml by (simp add: nth_append)
      then show False using na by (simp add: dash_def)
    qed
    have "trim_right (drop ?m s) = drop ?m a"
      using s ma by (intro trim_right_split [of _ _ n]) auto
    then have right: "trim_right (dropWhile dash s) = drop ?m a" by (simp only: dw)
    show ?thesis
    proof (cases "?m = 0")
      case True
      have "replace_from dash_re (\<lambda>_. []) s 0 = drop 0 a"
        using True ma by (intro strip_right_from [OF _ _ s]) auto
      then show ?thesis using right True by (simp add: replace_all_def)
    next
      case False
      have "\<exists>ms'. ms dash_re s 0 [] = (?m, []) # ms'"
        using False by (subst ms_dash) simp
      then have "match_from dash_re s 0 = Some (0, ?m, [])" by (auto intro: match_fromI)
      then have "replace_all dash_re (\<lambda>_. []) s = replace_from dash_re (\<lambda>_. []) s ?m"
        using False m unfolding replace_all_def by (subst replace_from.simps) (simp add: slice_def)
      also have "\<dots> = drop ?m a"
        using False ma m by (intro strip_right_from [OF _ _ s]) auto
      finally show ?thesis using right by simp
    qed
  qed
qed

section \<open>The shape of an anchor\<close>

text \<open>The maximal runs of a class, in their order.\<close>

function words :: "(nat \<Rightarrow> bool) \<Rightarrow> nat list \<Rightarrow> nat list list" where
  "words L [] = []"
| "words L (u # us) =
    (if L u then (u # takeWhile L us) # words L (dropWhile L us) else words L us)"
  by pat_completeness auto
termination
  by (relation "measure (\<lambda>(L, s). length s)") (auto simp: less_Suc_eq_le length_dropWhile_le)

lemma words_class: "w \<in> set (words L s) \<Longrightarrow> w \<noteq> [] \<and> (\<forall>u \<in> set w. L u)"
proof (induction L s rule: words.induct)
  case (2 L u us)
  show ?case
  proof (cases "L u")
    case True
    have tw: "\<forall>v \<in> set (takeWhile L us). L v" by (metis set_takeWhileD)
    have "w = u # takeWhile L us \<or> w \<in> set (words L (dropWhile L us))" using 2(3) True by simp
    then show ?thesis using 2(1) [OF True] tw True by fastforce
  next
    case False
    have "w \<in> set (words L us)" using 2(3) False by simp
    then show ?thesis by (rule 2(2) [OF False])
  qed
qed simp

lemma trim_right_append: "trim_right b \<noteq> [] \<Longrightarrow> trim_right (a @ b) = a @ trim_right b"
  by (auto simp: trim_right_def dropWhile_append)

lemma trim_right_id: "w = [] \<or> last w \<noteq> 45 \<Longrightarrow> trim_right w = w"
  using trim_right_split [of w w 0] by simp

lemma trim_right_snoc: "trim_right (a @ [45]) = trim_right a"
  by (simp add: trim_right_def dash_def)

lemma join_Cons: "join sep (x # xs) = (if xs = [] then x else x @ sep @ join sep xs)"
  by (cases xs) (simp_all add: join_def)

lemma words_skip: "words L (dropWhile (\<lambda>u. \<not> L u) s) = words L s"
  by (induction s) auto

lemma squeeze_words:
  assumes "\<not> L 45" and "s = [] \<or> L (hd s)"
  shows "trim_right (squeeze (\<lambda>u. \<not> L u) [45] s) = join [45] (words L s)"
  using assms(2)
proof (induction "length s" arbitrary: s rule: less_induct)
  case less
  show ?case
  proof (cases s)
    case (Cons u us)
    define w r where "w = takeWhile L s" and "r = dropWhile L s"
    have u: "L u" using less.prems Cons by simp
    have s: "s = w @ r" by (simp add: w_def r_def)
    have w: "w \<noteq> []" "\<forall>c \<in> set w. L c" using u Cons by (auto simp: w_def dest: set_takeWhileD)
    have lw: "last w \<noteq> 45" using w assms(1) by (metis last_in_set)
    have ws: "words L s = w # words L r" using u Cons by (simp add: w_def r_def)
    have sq: "squeeze (\<lambda>u. \<not> L u) [45] s = w @ squeeze (\<lambda>u. \<not> L u) [45] r"
      using squeeze_skip [of w "\<lambda>u. \<not> L u" "[45]" r] w(2) s by simp
    show ?thesis
    proof (cases r)
      case Nil
      then show ?thesis using sq ws lw by (simp add: trim_right_id join_Cons)
    next
      case (Cons v vs)
      then have v: "\<not> L v" using hd_dropWhile [of L s] r_def by auto
      define t where "t = dropWhile (\<lambda>u. \<not> L u) vs"
      have t: "t = [] \<or> L (hd t)" using hd_dropWhile [of "\<lambda>u. \<not> L u" vs] by (auto simp: t_def)
      have len: "length t < length s"
        using length_dropWhile_le [of "\<lambda>u. \<not> L u" vs] s Cons by (simp add: t_def)
      have sr: "squeeze (\<lambda>u. \<not> L u) [45] r = 45 # squeeze (\<lambda>u. \<not> L u) [45] t"
        using Cons v by (simp add: t_def)
      have wr: "words L r = words L t" using Cons v by (simp add: t_def words_skip)
      have ih: "trim_right (squeeze (\<lambda>u. \<not> L u) [45] t) = join [45] (words L t)"
        using less.hyps [OF len t] .
      show ?thesis
      proof (cases t)
        case Nil
        then show ?thesis
          using sq sr ws wr lw trim_right_snoc [of w] by (simp add: trim_right_id join_Cons)
      next
        case (Cons a b)
        then have ne: "words L t \<noteq> []" using t by simp
        then have "join [45] (words L t) \<noteq> []"
          using words_class [of "hd (words L t)" L t] by (cases "words L t") (auto simp: join_Cons)
        then have "trim_right (45 # squeeze (\<lambda>u. \<not> L u) [45] t) = 45 # join [45] (words L t)"
          using trim_right_append [of "squeeze (\<lambda>u. \<not> L u) [45] t" "[45]"] ih by simp
        moreover have "trim_right (w @ 45 # squeeze (\<lambda>u. \<not> L u) [45] t) =
            w @ trim_right (45 # squeeze (\<lambda>u. \<not> L u) [45] t)"
          using calculation by (intro trim_right_append) simp
        ultimately show ?thesis using sq sr ws wr ne by (simp add: join_Cons)
      qed
    qed
  qed (simp add: trim_right_def join_def)
qed

lemma squeeze_head:
  "\<not> L 45 \<Longrightarrow> s = [] \<or> L (hd s) \<Longrightarrow>
   dropWhile dash (squeeze (\<lambda>u. \<not> L u) [45] s) = squeeze (\<lambda>u. \<not> L u) [45] s"
  by (cases s) (auto simp: dash_def)

lemma strip_squeeze:
  assumes "\<not> L 45"
  shows "trim_right (dropWhile dash (squeeze (\<lambda>u. \<not> L u) [45] s)) = join [45] (words L s)"
proof (cases "s = [] \<or> L (hd s)")
  case True
  then show ?thesis using squeeze_head [OF assms True] squeeze_words [OF assms True] by simp
next
  case False
  then obtain u us where s: "s = u # us" "\<not> L u" by (cases s) auto
  let ?t = "dropWhile (\<lambda>u. \<not> L u) us"
  have t: "?t = [] \<or> L (hd ?t)" using hd_dropWhile [of "\<lambda>u. \<not> L u" us] by auto
  show ?thesis
    using squeeze_head [OF assms t] squeeze_words [OF assms t] s by (simp add: dash_def words_skip)
qed

lemma units_ends: "units c \<noteq> [] \<and> (c \<noteq> 45 \<longrightarrow> hd (units c) \<noteq> 45 \<and> last (units c) \<noteq> 45)"
  by (auto simp: units_def)

lemma units_dash: "units 45 = [45]"
  by (simp add: units_def)

lemma dropWhile_units:
  "dropWhile dash (concat (map units cs)) = concat (map units (dropWhile dash cs))"
proof (induction cs)
  case (Cons c cs)
  show ?case
  proof (cases "c = 45")
    case False
    then have "\<not> dash (hd (units c))" "units c \<noteq> []" using units_ends [of c] by (auto simp: dash_def)
    then show ?thesis using False by (cases "units c") (auto simp: dash_def)
  qed (use Cons in \<open>simp add: units_dash dash_def\<close>)
qed simp

lemma trim_right_units: "trim_right (concat (map units cs)) = concat (map units (trim_right cs))"
proof (induction cs rule: rev_induct)
  case (snoc c cs)
  show ?case
  proof (cases "c = 45")
    case True
    then show ?thesis using snoc by (simp add: units_dash trim_right_snoc)
  next
    case False
    then have "trim_right (cs @ [c]) = cs @ [c]" by (intro trim_right_id) simp
    moreover have "trim_right (concat (map units (cs @ [c]))) = concat (map units (cs @ [c]))"
      by (rule trim_right_id) (use units_ends [of c] False in \<open>simp add: last_append\<close>)
    ultimately show ?thesis by (simp only:)
  qed
qed (simp add: trim_right_def)

lemma slugify_words:
  assumes "\<not> letter K 45"
  shows "slugify K value =
    concat (map units (join [45] (words (letter K)
      (code_points (filter (\<lambda>u. u \<notin> set (js ''`*_'')) (lower K value))))))"
  unfolding slugify_def Let_def dash_re_def [symmetric]
  by (simp add: strip_squeeze [where L = "letter K", OF assms] remove_class replace_runs strip_dashes
      dropWhile_units trim_right_units)

section \<open>Extensions and slashes\<close>

lemma length_js [simp]: "length (js s) = length s"
  by (simp add: js_def)

lemma ms_ext:
  assumes "i \<le> length s"
  shows "ms ext_re s i [] = (if drop i s = js ''.md'' then [(length s, [(1, js ''md'')])]
    else if drop i s = js ''.mdx'' then [(length s, [(1, js ''mdx'')])] else [])"
proof -
  define t where "t = drop i s"
  have len: "length s = i + length t" using assms by (simp add: t_def)
  have d: "drop (Suc i) s = drop 1 t" by (simp add: t_def)
  have sl: "slice (Suc i) j s = take (j - Suc i) (drop 1 t)" for j by (simp add: slice_def d)
  have eol: "ms (Eol False) s j c = (if j = length s then [(j, c)] else [])" for j c by simp
  have w: "ms (lit_re w) s j c =
      (if take (length w) (drop j s) = js w then [(j + length w, c)] else [])" if "j \<le> length s" for j c w
    using ms_word [OF that, of "js w" c] by (simp add: js_def)
  show ?thesis
  proof (cases "take 1 t = js ''.''")
    case True
    then obtain r where t: "t = 46 # r" by (cases t) (auto simp: js_def)
    then have le: "Suc i \<le> length s" using len by simp
    have r: "drop (Suc i) s = r" using d t by simp
    have l: "length s = Suc (i + length r)" using len t by simp
    have two: "take 2 r = js ''md'' \<and> i + 3 = length s \<longleftrightarrow> r = js ''md''"
      using l by (auto simp: js_def)
    have three: "take 3 r = js ''mdx'' \<and> i + 4 = length s \<longleftrightarrow> r = js ''mdx''"
      using l by (auto simp: js_def)
    have m0: "ms (lit_re ''.'') s i c = [(Suc i, c)]" for c
      using True w [OF assms, of "''.''"] by (simp add: t_def)
    have m1: "ms (lit_re ''md'') s (Suc i) c = (if take 2 r = js ''md'' then [(i + 3, c)] else [])" for c
      using w [OF le, of "''md''"] r by (simp add: numeral_2_eq_2 numeral_3_eq_3)
    have m2: "ms (lit_re ''mdx'') s (Suc i) c = (if take 3 r = js ''mdx'' then [(i + 4, c)] else [])" for c
      using w [OF le, of "''mdx''"] r by (simp add: numeral_3_eq_3)
    have s3: "slice (Suc i) (i + 3) s = take 2 r" and s4: "slice (Suc i) (i + 4) s = take 3 r"
      using r by (simp_all add: slice_def)
    have send: "slice (Suc i) (length s) s = r" using r l by (simp add: slice_def)
    have "ms ext_re s i [] = (if take 2 r = js ''md'' \<and> i + 3 = length s then [(length s, [(1, js ''md'')])] else []) @
        (if take 3 r = js ''mdx'' \<and> i + 4 = length s then [(length s, [(1, js ''mdx'')])] else [])"
      unfolding ext_re_def seq.simps ms.simps(3,4,6) m0 eol
      by (simp add: m1 m2 s3 s4 eol send del: ms.simps(8)) (use two three in blast)
    moreover have "\<not> (r = js ''md'' \<and> r = js ''mdx'')" by simp
    ultimately show ?thesis using two three t unfolding t_def [symmetric] by (auto simp: js_def)
  next
    case False
    then have "t \<noteq> js ''.md''" "t \<noteq> js ''.mdx''" by (auto simp: js_def)
    then show ?thesis using False w [OF assms, of "''.''"] by (simp add: ext_re_def t_def)
  qed
qed

text \<open>The extension is taken off the end, and nothing else.\<close>

lemma routeFor_append:
  assumes "e = js ''.md'' \<or> e = js ''.mdx''"
  shows "routeFor (b @ e) = b"
proof -
  have "match_from ext_re (b @ e) 0 = Some (length b, length (b @ e), [(1, tl e)])"
  proof (rule match_fromI)
    show "ms ext_re (b @ e) (length b) [] = (length (b @ e), [(1, tl e)]) # []"
      using assms by (subst ms_ext) (auto simp: js_def)
    fix i assume "i < length b"
    then obtain c cs where c: "drop i (b @ e) = c # cs @ e" by (cases "drop i b") auto
    have "drop i (b @ e) \<noteq> js ''.md''" "drop i (b @ e) \<noteq> js ''.mdx''"
      using assms unfolding c by (cases cs; auto simp: js_def)+
    then show "ms ext_re (b @ e) i [] = []" using \<open>i < length b\<close> by (subst ms_ext) simp_all
  qed auto
  then show ?thesis by (simp add: routeFor_def replace1_def)
qed

definition has_ext :: "jstr \<Rightarrow> bool" where
  "has_ext s \<longleftrightarrow> drop (length s - 3) s = js ''.md'' \<or> drop (length s - 4) s = js ''.mdx''"

lemma routeFor_id:
  assumes "\<not> has_ext s"
  shows "routeFor s = s"
proof -
  have "ms ext_re s i [] = []" if "i \<le> length s" for i
  proof -
    have at: "i = length s - length (drop i s)" using that by simp
    have three: "drop i s \<noteq> js ''.md''"
    proof
      assume d: "drop i s = js ''.md''"
      then have "i = length s - 3" using at by simp
      then show False using d assms by (simp add: has_ext_def)
    qed
    have "drop i s \<noteq> js ''.mdx''"
    proof
      assume d: "drop i s = js ''.mdx''"
      then have "i = length s - 4" using at by simp
      then show False using d assms by (simp add: has_ext_def)
    qed
    note this three
    then show ?thesis using that by (subst ms_ext) simp_all
  qed
  then have "match_from ext_re s 0 = None" by (simp add: match_from_None)
  then show ?thesis by (simp add: routeFor_def replace1_def)
qed

lemma slash_id:
  assumes "s \<noteq> [] \<longrightarrow> hd s \<noteq> 47 \<and> last s \<noteq> 47"
  shows "replace_all slash_re (\<lambda>_. []) s = s"
proof -
  have "ms slash_re s i [] = []" if "i \<le> length s" for i
  proof -
    have a: "\<not> (i < length s \<and> s ! i = 47 \<and> (i = 0 \<or> Suc i = length s))"
    proof
      assume h: "i < length s \<and> s ! i = 47 \<and> (i = 0 \<or> Suc i = length s)"
      then have "s \<noteq> []" and "i = 0 \<or> i = length s - 1" by auto
      then show False using assms h by (auto simp: hd_conv_nth last_conv_nth)
    qed
    have "lit_re ''/'' = Cls ((=) 47)" by (simp add: js_def)
    then show ?thesis using a by (cases i) (auto simp: slash_re_def)
  qed
  then have "match_from slash_re s 0 = None" by (simp add: match_from_None)
  then show ?thesis unfolding replace_all_def by (subst replace_from.simps) simp
qed

end
