(* ===== verification/Reader.thy ===== *)
theory Reader
  imports ReaderView Json DocLaws
begin

text \<open>
  docs/src/App.tsx, what it does: the preferences and their copy in the local storage, the address
  of a document, the links between documents, and the state of the application with its event
  handlers and effects. An effect runs when what it depends on was set, so it is part of the setter.
  A page has one pathname; the history is the entries behind and ahead of the one it shows.
  Scrolling, focus and the title bar's text are the browser's, apart from \<open>document.title\<close>.
\<close>

section \<open>Preferences\<close>

text \<open>The local storage's item: access may be denied, and where it is not a write may fail.\<close>

datatype storage = Denied | Stored bool "jstr option"

definition loadReaderPreferences :: "lib \<Rightarrow> storage \<Rightarrow> val" where
  "loadReaderPreferences K st =
    (case st of
       Denied \<Rightarrow> defaultReaderPreferences
     | Stored _ None \<Rightarrow> defaultReaderPreferences
     | Stored _ (Some text) \<Rightarrow>
         if text = [] then defaultReaderPreferences
         else case JSON_parse K text of
           None \<Rightarrow> defaultReaderPreferences
         | Some parsed \<Rightarrow>
             if nullish parsed then defaultReaderPreferences
             else
               let fontSize = (if list_ex (\<lambda>option. dot option ''value'' = dot parsed ''fontSize'')
                     (items fontSizeOptions)
                   then dot parsed ''fontSize'' else dot defaultReaderPreferences ''fontSize'')
               in obj [At ''fontSize'' fontSize,
                 At ''readerMode'' (VBool (dot parsed ''readerMode'' = VBool True)),
                 At ''sidebarCollapsed'' (VBool (dot parsed ''sidebarCollapsed'' = VBool True))])"

definition storePreferences :: "val \<Rightarrow> storage \<Rightarrow> storage" where
  "storePreferences p st = (case st of Stored True _ \<Rightarrow> Stored True (stringify p) | _ \<Rightarrow> st)"

section \<open>Addresses\<close>

record url =
  search :: jstr
  hash :: jstr

text \<open>What the browser makes of a path with its query and fragment.\<close>

definition parse_url :: "jstr \<Rightarrow> url" where
  "parse_url href =
    (let q = drop 1 (dropWhile (\<lambda>u. u \<noteq> 63) (takeWhile (\<lambda>u. u \<noteq> 35) href))
     in \<lparr>search = (if q = [] then [] else 63 # stored_query q), hash = dropWhile (\<lambda>u. u \<noteq> 35) href\<rparr>)"

definition currentRoute :: "url \<Rightarrow> jstr option" where
  "currentRoute u = search_get (search u) (js ''doc'')"

definition hrefFor :: "jstr \<Rightarrow> ReaderDocument \<Rightarrow> jstr option" where
  "hrefFor pathname d = map_option (\<lambda>e. pathname @ js ''?doc='' @ e) (encodeURIComponent (route d))"

text \<open>The parts of a path that a relative path leads to.\<close>

fun walk :: "jstr list \<Rightarrow> jstr list \<Rightarrow> jstr list" where
  "walk parts [] = parts"
| "walk parts (segment # segments) =
    (if segment = [] \<or> segment = js ''.'' then walk parts segments
     else if segment = js ''..'' then walk (butlast parts) segments
     else walk (parts @ [segment]) segments)"

text \<open>None when decoding throws, Some None for a link that is not one to a document.\<close>

definition resolveRelativeDocument ::
    "ReaderDocument list \<Rightarrow> ReaderDocument \<Rightarrow> jstr \<Rightarrow> ReaderDocument option option" where
  "resolveRelativeDocument docs current href =
    (let rawPath = hd (split_on 35 href) in
     if rawPath = [] \<or> starts rawPath ''/'' \<or> contains rawPath (js ''://'') then Some None
     else case decodeURIComponent rawPath of
       None \<Rightarrow> None
     | Some decoded \<Rightarrow>
         let parts = walk (butlast (split_on 47 (path current))) (split_on 47 decoded);
             r = replace1 ext_re (\<lambda>_. []) (join [47] parts)
         in Some (List.find (\<lambda>d. route d = r) docs))"

section \<open>The state\<close>

record app =
  ap_active :: ReaderDocument
  ap_query :: jstr
  ap_menu :: bool
  ap_progress :: val
  ap_prefs :: val
  ap_settings :: bool
  ap_title :: jstr
  ap_url :: url
  ap_back :: "url list"
  ap_ahead :: "url list"
  ap_storage :: storage

definition page_title :: "ReaderDocument \<Rightarrow> jstr" where
  "page_title d = title d @ [32, 183] @ js '' Quickspin''"

text \<open>\<open>updateProgress\<close>, which the effect of a new document also runs.\<close>

definition progress_at :: "lib \<Rightarrow> int \<Rightarrow> int \<Rightarrow> int \<Rightarrow> val" where
  "progress_at K scrollHeight innerHeight scrollY =
    (let scrollable = scrollHeight - innerHeight in
     if scrollable > 0 then K ''*'' [K ''/'' [VNum scrollY, VNum scrollable], VNum 100] else VNum 0)"

definition setActive :: "ReaderDocument \<Rightarrow> app \<Rightarrow> app" where
  "setActive d s = s\<lparr>ap_active := d, ap_title := page_title d\<rparr>"

definition setPreferences :: "(val \<Rightarrow> val) \<Rightarrow> app \<Rightarrow> app" where
  "setPreferences f s =
    (let p = f (ap_prefs s) in s\<lparr>ap_prefs := p, ap_storage := storePreferences p (ap_storage s)\<rparr>)"

text \<open>The first render and its effects. Without documents there is no page to show.\<close>

definition app_init :: "lib \<Rightarrow> ReaderDocument list \<Rightarrow> url \<Rightarrow> storage \<Rightarrow> val \<Rightarrow> app option" where
  "app_init K docs u st progress =
    map_option (\<lambda>d.
      let p = loadReaderPreferences K st in
      \<lparr>ap_active = d, ap_query = [], ap_menu = False, ap_progress = progress, ap_prefs = p,
       ap_settings = False, ap_title = page_title d, ap_url = u, ap_back = [], ap_ahead = [],
       ap_storage = storePreferences p st\<rparr>)
      (resolveDocument docs (currentRoute u))"

section \<open>The handlers\<close>

definition pushState :: "jstr \<Rightarrow> app \<Rightarrow> app" where
  "pushState href s = s\<lparr>ap_back := ap_url s # ap_back s, ap_url := parse_url href, ap_ahead := []\<rparr>"

definition replaceState :: "jstr \<Rightarrow> app \<Rightarrow> app" where
  "replaceState href s = s\<lparr>ap_url := parse_url href\<rparr>"

text \<open>A route that cannot be encoded throws before anything is set.\<close>

definition navigate :: "jstr \<Rightarrow> ReaderDocument \<Rightarrow> bool \<Rightarrow> app \<Rightarrow> app" where
  "navigate pathname d replacing s =
    (case hrefFor pathname d of
       None \<Rightarrow> s
     | Some href \<Rightarrow>
         (setActive d (if replacing then replaceState href s else pushState href s))\<lparr>ap_menu := False\<rparr>)"

definition handlePopState :: "ReaderDocument list \<Rightarrow> app \<Rightarrow> app" where
  "handlePopState docs s =
    (case resolveDocument docs (currentRoute (ap_url s)) of Some d \<Rightarrow> setActive d s | None \<Rightarrow> s)"

definition handlePointerDown :: "bool \<Rightarrow> app \<Rightarrow> app" where
  "handlePointerDown inside s = (if ap_settings s \<and> \<not> inside then s\<lparr>ap_settings := False\<rparr> else s)"

text \<open>Whether the default action is prevented, and the state; the tag is that of the focused element.\<close>

definition handleKeyDown :: "jstr \<Rightarrow> jstr option \<Rightarrow> app \<Rightarrow> bool \<times> app" where
  "handleKeyDown key tagName s =
    (let slash = (key = js ''/'' \<and> tagName \<noteq> Some (js ''INPUT'') \<and> tagName \<noteq> Some (js ''TEXTAREA''));
         s1 = (if slash then setPreferences (\<lambda>current. obj [Sp current, At ''readerMode'' (VBool False),
                 At ''sidebarCollapsed'' (VBool False)]) s else s);
         s2 = (if key = js ''Escape'' then s1\<lparr>ap_query := [], ap_menu := False, ap_settings := False\<rparr> else s1)
     in (slash, s2))"

text \<open>A click in the document, on an anchor with that href if on any.\<close>

definition handleDocumentClick ::
    "ReaderDocument list \<Rightarrow> jstr \<Rightarrow> jstr option \<Rightarrow> app \<Rightarrow> bool \<times> app" where
  "handleDocumentClick docs pathname h s =
    (case h of
       None \<Rightarrow> (False, s)
     | Some href \<Rightarrow>
         if href = [] then (False, s)
         else if starts href ''#'' then
           (True, case hrefFor pathname (ap_active s) of None \<Rightarrow> s | Some base \<Rightarrow> replaceState (base @ href) s)
         else case resolveRelativeDocument docs (ap_active s) href of
           Some (Some target) \<Rightarrow> (True, navigate pathname target False s)
         | _ \<Rightarrow> (False, s))"

definition toggleCollapsed :: "app \<Rightarrow> app" where
  "toggleCollapsed = setPreferences (\<lambda>current. obj [Sp current,
     At ''sidebarCollapsed'' (VBool (\<not> truthy (dot current ''sidebarCollapsed'')))])"

definition pickSize :: "val \<Rightarrow> app \<Rightarrow> app" where
  "pickSize option = setPreferences (\<lambda>current. obj [Sp current, At ''fontSize'' (dot option ''value'')])"

definition toggleReaderMode :: "app \<Rightarrow> app" where
  "toggleReaderMode s = (setPreferences (\<lambda>current. obj [Sp current,
     At ''readerMode'' (VBool (\<not> truthy (dot current ''readerMode'')))]) s)\<lparr>ap_settings := False\<rparr>"

section \<open>The documents around the active one\<close>

definition activeIndex :: "ReaderDocument list \<Rightarrow> ReaderDocument \<Rightarrow> int" where
  "activeIndex docs a = (if list_ex (\<lambda>d. path d = path a) docs
     then int (length (takeWhile (\<lambda>d. path d \<noteq> path a) docs)) else - 1)"

definition previous_of :: "ReaderDocument list \<Rightarrow> ReaderDocument \<Rightarrow> ReaderDocument option" where
  "previous_of docs a = (let i = activeIndex docs a in
     if i > 0 then Some (docs ! nat (i - 1)) else None)"

definition next_of :: "ReaderDocument list \<Rightarrow> ReaderDocument \<Rightarrow> ReaderDocument option" where
  "next_of docs a = (let i = activeIndex docs a in
     if i < int (length docs) - 1 then Some (docs ! nat (i + 1)) else None)"

text \<open>The documents the sidebar lists for a query.\<close>

definition filtered :: "lib \<Rightarrow> ReaderDocument list \<Rightarrow> jstr \<Rightarrow> ReaderDocument list" where
  "filtered K docs query =
    (let needle = lower K (trim query) in
     if needle = [] then docs else filter (\<lambda>d. contains (searchText d) needle) docs)"

section \<open>What can happen\<close>

inductive app_step :: "lib \<Rightarrow> ReaderDocument list \<Rightarrow> jstr \<Rightarrow> app \<Rightarrow> app \<Rightarrow> bool" for K docs pn where
  list_item: "d \<in> set (filtered K docs (ap_query s)) \<Longrightarrow> app_step K docs pn s (navigate pn d False s)"
| home: "resolveDocument docs (Some []) = Some d \<Longrightarrow> app_step K docs pn s (navigate pn d False s)"
| turn_previous: "previous_of docs (ap_active s) = Some d \<Longrightarrow> app_step K docs pn s (navigate pn d False s)"
| turn_next: "next_of docs (ap_active s) = Some d \<Longrightarrow> app_step K docs pn s (navigate pn d False s)"
| go_back: "ap_back s = u # us \<Longrightarrow> app_step K docs pn s
    (handlePopState docs (s\<lparr>ap_url := u, ap_back := us, ap_ahead := ap_url s # ap_ahead s\<rparr>))"
| go_ahead: "ap_ahead s = u # us \<Longrightarrow> app_step K docs pn s
    (handlePopState docs (s\<lparr>ap_url := u, ap_ahead := us, ap_back := ap_url s # ap_back s\<rparr>))"
| link: "app_step K docs pn s (snd (handleDocumentClick docs pn h s))"
| key: "app_step K docs pn s (snd (handleKeyDown k t s))"
| pointer: "app_step K docs pn s (handlePointerDown inside s)"
| write_query: "app_step K docs pn s (s\<lparr>ap_query := q\<rparr>)"
| menu: "app_step K docs pn s (s\<lparr>ap_menu := b\<rparr>)"
| collapse: "app_step K docs pn s (toggleCollapsed s)"
| size: "option \<in> set (items fontSizeOptions) \<Longrightarrow> app_step K docs pn s (pickSize option s)"
| settings: "app_step K docs pn s (s\<lparr>ap_settings := \<not> ap_settings s\<rparr>)"
| reader_mode: "app_step K docs pn s (toggleReaderMode s)"
| scroll: "app_step K docs pn s (s\<lparr>ap_progress := progress_at K scrollHeight innerHeight scrollY\<rparr>)"

section \<open>The view of a state\<close>

definition heading_val :: "DocumentHeading \<Rightarrow> val" where
  "heading_val h = obj [At ''depth'' (VNum (int (depth h))), At ''title'' (VStr (hd_title h)), At ''id'' (VStr (hd_id h))]"

fun roadmap_val :: "Roadmap \<Rightarrow> val" where
  "roadmap_val (Future n) = obj [At ''number'' (VStr n), At ''status'' (lit ''future'')]"
| "roadmap_val (Completed c n) = obj [At ''completedOn'' (case c of Some t \<Rightarrow> VStr t | None \<Rightarrow> VUndef),
     At ''number'' (VStr n), At ''status'' (lit ''completed'')]"

definition doc_val :: "ReaderDocument \<Rightarrow> val" where
  "doc_val d = obj [At ''path'' (VStr (path d)), At ''route'' (VStr (route d)), At ''title'' (VStr (title d)),
     At ''navTitle'' (VStr (navTitle d)), At ''roadmap'' (roadmap_val (roadmap d)),
     At ''description'' (VStr (description d)), At ''order'' (VNum (int (order d))),
     At ''readingMinutes'' (VNum (int (readingMinutes d))), At ''headings'' (VArr (map heading_val (headings d))),
     At ''source'' (VStr (source d)), At ''searchText'' (VStr (searchText d)), At ''Component'' (Component d)]"

definition app_view :: "lib \<Rightarrow> ReaderDocument list \<Rightarrow> app \<Rightarrow> val" where
  "app_view K docs s = App_view K (VArr (map doc_val docs)) (doc_val (ap_active s)) (VStr (ap_query s))
     (VBool (ap_menu s)) (ap_progress s) (ap_prefs s) (VBool (ap_settings s))"

end
