(* ===== verification/ReaderLaws.thy ===== *)
theory ReaderLaws
  imports Reader
begin

text \<open>
  The laws of the reader: an address leads back to its document, the state and the address bar
  agree, the preferences are valid and survive a reload, the list is sorted, the page-turner walks
  it, links between documents open them.
\<close>

section \<open>Routes\<close>

definition plain_route :: "jstr \<Rightarrow> bool" where
  "plain_route r \<longleftrightarrow> list_all (\<lambda>u. u < 65536) r \<and> r \<noteq> [] \<and> hd r \<noteq> 47 \<and> last r \<noteq> 47 \<and> \<not> has_ext r"

definition good_docs :: "ReaderDocument list \<Rightarrow> bool" where
  "good_docs docs \<longleftrightarrow> distinct (map route docs) \<and> (\<forall>d \<in> set docs. plain_route (route d))"

lemma find_Some_in: "List.find P xs = Some x \<Longrightarrow> x \<in> set xs \<and> P x"
  by (induction xs) (auto split: if_splits)

lemma resolve_route:
  assumes "good_docs docs" and "d \<in> set docs"
  shows "resolveDocument docs (Some (route d)) = Some d"
proof -
  have p: "plain_route (route d)" using assms by (simp add: good_docs_def)
  have "replace_all slash_re (\<lambda>_. []) (route d) = route d"
    using p by (intro slash_id) (simp add: plain_route_def)
  moreover have "replace1 ext_re (\<lambda>_. []) (route d) = route d"
    using routeFor_id [of "route d"] p by (simp add: routeFor_def plain_route_def)
  ultimately show ?thesis
    using find_distinct [of route docs d] assms by (simp add: resolveDocument_def good_docs_def)
qed

lemma resolve_in: "resolveDocument docs r = Some d \<Longrightarrow> d \<in> set docs"
  by (auto simp: resolveDocument_def Let_def dest!: find_Some_in split: option.splits list.splits)

lemma resolve_total: "docs \<noteq> [] \<Longrightarrow> \<exists>d. resolveDocument docs r = Some d"
  by (auto simp: resolveDocument_def Let_def split: option.splits list.splits)

text \<open>A path has neither a query nor a fragment; an encoded component has no separator in it.\<close>

definition plain_path :: "jstr \<Rightarrow> bool" where
  "plain_path pn \<longleftrightarrow> 63 \<notin> set pn \<and> 35 \<notin> set pn"

lemma encode_free:
  assumes "scalar c"
  shows "35 \<notin> set (encode_point c)"
proof -
  have "35 \<notin> set (percent b)" for b
    by (auto simp: percent_def hex_def split: if_splits)
  moreover have "list_all (\<lambda>b. b < 256) (utf8 c)" using utf8_bytes [OF assms(1)] by (auto simp: list_all_iff)
  ultimately show ?thesis
    by (auto simp: encode_point_def unreserved_def)
qed

lemma encoded_free: "encodeURIComponent s = Some e \<Longrightarrow> 35 \<notin> set e"
  using encode_free by (auto simp: encodeURIComponent_def list_all_iff split: if_splits)

lemma takeWhile_free: "u \<notin> set xs \<Longrightarrow> takeWhile (\<lambda>v. v \<noteq> u) (xs @ ys) = xs @ takeWhile (\<lambda>v. v \<noteq> u) ys"
  by (induction xs) auto

lemma dropWhile_free: "u \<notin> set xs \<Longrightarrow> dropWhile (\<lambda>v. v \<noteq> u) (xs @ ys) = dropWhile (\<lambda>v. v \<noteq> u) ys"
  by (induction xs) auto

lemma parse_href:
  assumes "plain_path pn" and "encodeURIComponent r = Some e" and "h = [] \<or> hd h = 35"
  shows "parse_url (pn @ js ''?doc='' @ e @ h) = \<lparr>search = 63 # stored_query (js ''doc='' @ e), hash = h\<rparr>"
proof -
  have free: "35 \<notin> set (pn @ js ''?doc='' @ e)"
    using assms(1) encoded_free [OF assms(2)] by (auto simp: plain_path_def js_def)
  have h: "takeWhile (\<lambda>v. v \<noteq> 35) h = []" "dropWhile (\<lambda>v. v \<noteq> 35) h = h"
    using assms(3) by (cases h; simp)+
  have "63 \<notin> set pn" using assms(1) by (simp add: plain_path_def)
  then have "dropWhile (\<lambda>v. v \<noteq> 63) (pn @ js ''?doc='' @ e) = js ''?doc='' @ e"
    by (simp add: dropWhile_free js_def)
  then show ?thesis
    using takeWhile_free [OF free, of h] dropWhile_free [OF free, of h] h
    by (simp add: parse_url_def) (simp add: js_def)
qed

lemma currentRoute_href:
  assumes "plain_path pn" and "hrefFor pn d = Some href" and "list_all (\<lambda>u. u < 65536) (route d)"
    and "h = [] \<or> hd h = 35"
  shows "currentRoute (parse_url (href @ h)) = Some (route d)"
proof -
  obtain e where e: "encodeURIComponent (route d) = Some e" and href: "href = pn @ js ''?doc='' @ e"
    using assms(2) by (auto simp: hrefFor_def)
  show ?thesis
    using parse_href [OF assms(1) e assms(4)] search_get_encoded [OF e assms(3)]
    by (simp add: currentRoute_def href)
qed

section \<open>The preferences\<close>

definition sizes :: "string list" where
  "sizes = [''xs'', ''sm'', ''md'', ''lg'', ''xl'']"

definition prefs :: "string \<Rightarrow> bool \<Rightarrow> bool \<Rightarrow> val" where
  "prefs z r c = obj [At ''fontSize'' (lit z), At ''readerMode'' (VBool r), At ''sidebarCollapsed'' (VBool c)]"

definition prefs_ok :: "val \<Rightarrow> bool" where
  "prefs_ok v \<longleftrightarrow> (\<exists>z \<in> set sizes. \<exists>r c. v = prefs z r c)"

lemma prefs_okI: "z \<in> set sizes \<Longrightarrow> prefs_ok (prefs z r c)"
  by (auto simp: prefs_ok_def)

lemma default_prefs: "defaultReaderPreferences = prefs ''md'' False False"
  by (simp add: defaultReaderPreferences_def prefs_def)

lemma size_options: "list_ex (\<lambda>option. dot option ''value'' = x) (items fontSizeOptions) \<longleftrightarrow>
    (\<exists>z \<in> set sizes. x = lit z)"
  by (auto simp: fontSizeOptions_def sizes_def)

lemma load_ok: "prefs_ok (loadReaderPreferences K st)"
proof -
  have d: "prefs_ok defaultReaderPreferences"
    by (simp add: default_prefs prefs_okI sizes_def)
  have "prefs_ok (obj [At ''fontSize'' (if list_ex (\<lambda>option. dot option ''value'' = x) (items fontSizeOptions)
      then x else dot defaultReaderPreferences ''fontSize''), At ''readerMode'' (VBool r),
      At ''sidebarCollapsed'' (VBool c)])" for x r c
  proof (cases "list_ex (\<lambda>option. dot option ''value'' = x) (items fontSizeOptions)")
    case True
    then obtain z where "z \<in> set sizes" "x = lit z" using size_options by blast
    then show ?thesis using True prefs_okI [of z r c] by (simp only: prefs_def if_True)
  next
    case False
    have "dot defaultReaderPreferences ''fontSize'' = lit ''md''"
      by (simp add: default_prefs prefs_def)
    then show ?thesis using False prefs_okI [of "''md''" r c]
      by (simp only: prefs_def if_False) (simp add: sizes_def)
  qed
  then show ?thesis using d
    unfolding loadReaderPreferences_def Let_def
    by (simp split: storage.split option.split)
qed

lemma stringify_prefs:
  "z \<in> set sizes \<Longrightarrow> stringify (prefs z r c) = Some (js (''{'' @ [CHR 0x22] @ ''fontSize'' @ [CHR 0x22] @ '':'' @
     [CHR 0x22] @ z @ [CHR 0x22] @ '','' @ [CHR 0x22] @ ''readerMode'' @ [CHR 0x22] @ '':'' @
     (if r then ''true'' else ''false'') @ '','' @ [CHR 0x22] @ ''sidebarCollapsed'' @ [CHR 0x22] @ '':'' @
     (if c then ''true'' else ''false'') @ ''}''))"
  by (auto simp: sizes_def prefs_def obj_def join_def quote_def js_def quote_point_def units_def
      is_high_def is_low_def scalar_def)

lemma parse_prefs: "z \<in> set sizes \<Longrightarrow> JSON_parse K (the (stringify (prefs z r c))) = Some (prefs z r c)"
  unfolding stringify_prefs option.sel
  by (cases r; cases c)
    (auto simp: sizes_def JSON_parse_def js_def json_space_def prefs_def obj_def)

lemma load_stored:
  assumes "prefs_ok p"
  shows "loadReaderPreferences K (Stored w (stringify p)) = p"
proof -
  obtain z r c where p: "p = prefs z r c" "z \<in> set sizes" using assms by (auto simp: prefs_ok_def)
  obtain t where t: "stringify p = Some t" "t \<noteq> []"
    using stringify_prefs [OF p(2), of r c] p(1) by simp
  then have "JSON_parse K t = Some p" using parse_prefs [OF p(2), of K r c] p(1) by simp
  moreover have "list_ex (\<lambda>option. dot option ''value'' = dot p ''fontSize'') (items fontSizeOptions)"
    using p by (simp add: size_options prefs_def)
  moreover have "\<not> nullish p" by (simp add: p(1) prefs_def obj_def nullish_def)
  ultimately show ?thesis using t
    by (simp add: loadReaderPreferences_def) (simp add: p(1) prefs_def)
qed

section \<open>The state and the address bar\<close>

definition page_ok :: "ReaderDocument list \<Rightarrow> app \<Rightarrow> bool" where
  "page_ok docs s \<longleftrightarrow> ap_active s \<in> set docs \<and>
     resolveDocument docs (currentRoute (ap_url s)) = Some (ap_active s) \<and>
     ap_title s = page_title (ap_active s)"

definition kept :: "val \<Rightarrow> storage \<Rightarrow> bool" where
  "kept p st \<longleftrightarrow> (case st of Stored True c \<Rightarrow> c = stringify p | _ \<Rightarrow> True)"

definition stored_ok :: "app \<Rightarrow> bool" where
  "stored_ok s \<longleftrightarrow> prefs_ok (ap_prefs s) \<and> kept (ap_prefs s) (ap_storage s)"

lemma store_kept: "kept p (storePreferences p st)"
  by (auto simp: kept_def storePreferences_def split: storage.splits bool.splits)

lemma prefs_okE: "prefs_ok v \<Longrightarrow> (\<And>z r c. z \<in> set sizes \<Longrightarrow> v = prefs z r c \<Longrightarrow> P) \<Longrightarrow> P"
  by (auto simp: prefs_ok_def)

lemma page_ok_other [simp]:
  "page_ok docs (s\<lparr>ap_query := q\<rparr>) = page_ok docs s"
  "page_ok docs (s\<lparr>ap_menu := b\<rparr>) = page_ok docs s"
  "page_ok docs (s\<lparr>ap_settings := b\<rparr>) = page_ok docs s"
  "page_ok docs (s\<lparr>ap_progress := v\<rparr>) = page_ok docs s"
  "page_ok docs (setPreferences f s) = page_ok docs s"
  by (simp_all add: page_ok_def setPreferences_def Let_def)

lemma stored_ok_other [simp]:
  "stored_ok (s\<lparr>ap_query := q\<rparr>) = stored_ok s"
  "stored_ok (s\<lparr>ap_menu := b\<rparr>) = stored_ok s"
  "stored_ok (s\<lparr>ap_settings := b\<rparr>) = stored_ok s"
  "stored_ok (s\<lparr>ap_progress := v\<rparr>) = stored_ok s"
  "stored_ok (s\<lparr>ap_url := u, ap_back := us, ap_ahead := us'\<rparr>) = stored_ok s"
  "stored_ok (s\<lparr>ap_url := u\<rparr>) = stored_ok s"
  "stored_ok (s\<lparr>ap_back := us, ap_url := u, ap_ahead := us'\<rparr>) = stored_ok s"
  "stored_ok (s\<lparr>ap_url := u, ap_ahead := us', ap_back := us\<rparr>) = stored_ok s"
  "stored_ok (setActive d s) = stored_ok s"
  by (simp_all add: stored_ok_def setActive_def)

lemma setPreferences_ok:
  "stored_ok s \<Longrightarrow> (\<And>p. prefs_ok p \<Longrightarrow> prefs_ok (f p)) \<Longrightarrow> stored_ok (setPreferences f s)"
  by (simp add: stored_ok_def setPreferences_def Let_def store_kept)

lemma prefs_updates [simp]:
  "obj [Sp (prefs z r c), At ''readerMode'' (VBool b), At ''sidebarCollapsed'' (VBool b')] = prefs z b b'"
  "obj [Sp (prefs z r c), At ''sidebarCollapsed'' (VBool b)] = prefs z r b"
  "obj [Sp (prefs z r c), At ''readerMode'' (VBool b)] = prefs z b c"
  "obj [Sp (prefs z r c), At ''fontSize'' (lit z')] = prefs z' r c"
  by (simp_all add: prefs_def obj_def spread_def)

lemma toggleCollapsed_ok: "stored_ok s \<Longrightarrow> stored_ok (toggleCollapsed s)"
  unfolding toggleCollapsed_def by (rule setPreferences_ok) (auto elim!: prefs_okE intro: prefs_okI)

lemma toggleReaderMode_ok: "stored_ok s \<Longrightarrow> stored_ok (toggleReaderMode s)"
  unfolding toggleReaderMode_def stored_ok_other by (rule setPreferences_ok) (auto elim!: prefs_okE intro: prefs_okI)

lemma pickSize_ok:
  assumes "stored_ok s" and "option \<in> set (items fontSizeOptions)"
  shows "stored_ok (pickSize option s)"
proof -
  have "list_ex (\<lambda>x. dot x ''value'' = dot option ''value'') (items fontSizeOptions)"
    using assms(2) by (auto simp: list_ex_iff)
  then obtain z where "z \<in> set sizes" "dot option ''value'' = lit z" using size_options by blast
  then show ?thesis unfolding pickSize_def
    by (intro setPreferences_ok [OF assms(1)]) (auto elim!: prefs_okE intro: prefs_okI)
qed

lemma handleKeyDown_ok: "stored_ok s \<Longrightarrow> stored_ok (snd (handleKeyDown k t s))"
proof -
  assume ok: "stored_ok s"
  have "stored_ok (setPreferences (\<lambda>current. obj [Sp current, At ''readerMode'' (VBool False),
      At ''sidebarCollapsed'' (VBool False)]) s)"
    by (rule setPreferences_ok [OF ok]) (auto elim!: prefs_okE intro: prefs_okI)
  moreover have "stored_ok (u\<lparr>ap_query := q, ap_menu := m, ap_settings := b\<rparr>) = stored_ok u" for u q m b
    by (simp add: stored_ok_def)
  ultimately show ?thesis using ok by (simp add: handleKeyDown_def Let_def)
qed

lemma handleKeyDown_page: "page_ok docs (snd (handleKeyDown k t s)) = page_ok docs s"
proof -
  have "page_ok docs (u\<lparr>ap_query := q, ap_menu := m, ap_settings := b\<rparr>) = page_ok docs u" for u q m b
    by (simp add: page_ok_def)
  then show ?thesis by (simp add: handleKeyDown_def Let_def)
qed

lemma navigate_page:
  assumes "good_docs docs" and "plain_path pn" and "d \<in> set docs" and "page_ok docs s"
  shows "page_ok docs (navigate pn d replacing s)"
proof (cases "hrefFor pn d")
  case (Some href)
  have "list_all (\<lambda>u. u < 65536) (route d)" using assms(1,3) by (simp add: good_docs_def plain_route_def)
  then have "currentRoute (parse_url href) = Some (route d)"
    using currentRoute_href [OF assms(2) Some, of "[]"] by simp
  then show ?thesis
    using resolve_route [OF assms(1,3)] assms(3) Some
    by (simp add: page_ok_def navigate_def setActive_def replaceState_def pushState_def)
qed (use assms in \<open>simp add: navigate_def\<close>)

lemma navigate_stored: "stored_ok (navigate pn d replacing s) = stored_ok s"
  by (simp add: navigate_def replaceState_def pushState_def split: option.split)

lemma popstate_page: "docs \<noteq> [] \<Longrightarrow> page_ok docs (handlePopState docs s)"
  using resolve_total [of docs "currentRoute (ap_url s)"]
  by (auto simp: page_ok_def handlePopState_def setActive_def dest: resolve_in)

lemma popstate_stored: "stored_ok (handlePopState docs s) = stored_ok s"
  by (simp add: handlePopState_def split: option.split)

lemma relative_in: "resolveRelativeDocument docs cur h = Some (Some d) \<Longrightarrow> d \<in> set docs"
  by (auto simp: resolveRelativeDocument_def Let_def dest!: find_Some_in split: if_splits option.splits)

lemma click_page:
  assumes "good_docs docs" and "plain_path pn" and "page_ok docs s"
  shows "page_ok docs (snd (handleDocumentClick docs pn h s))"
proof -
  have act: "ap_active s \<in> set docs" using assms(3) by (simp add: page_ok_def)
  then have r: "list_all (\<lambda>u. u < 65536) (route (ap_active s))"
    using assms(1) by (simp add: good_docs_def plain_route_def)
  have anchor: "page_ok docs (replaceState (base @ href) s)"
    if "hrefFor pn (ap_active s) = Some base" "starts href ''#''" for base href
  proof -
    have "hd href = 35" using that(2) by (cases href) (auto simp: starts_def js_def)
    then show ?thesis
      using currentRoute_href [OF assms(2) that(1) r, of href] resolve_route [OF assms(1) act] assms(3)
      by (simp add: page_ok_def replaceState_def)
  qed
  show ?thesis
    using anchor assms(3) navigate_page [OF assms(1,2) relative_in assms(3)]
    by (simp add: handleDocumentClick_def split: option.split)
qed

lemma click_stored: "stored_ok (snd (handleDocumentClick docs pn h s)) = stored_ok s"
  by (simp add: handleDocumentClick_def replaceState_def navigate_stored split: option.split)

lemma previous_in: "previous_of docs a = Some d \<Longrightarrow> d \<in> set docs"
proof -
  assume p: "previous_of docs a = Some d"
  define n where "n = length (takeWhile (\<lambda>d. path d \<noteq> path a) docs)"
  have "n \<le> length docs" unfolding n_def by (rule length_takeWhile_le)
  then have "0 < n \<Longrightarrow> nat (int n - 1) < length docs" by simp
  then show ?thesis using p
    by (auto simp: previous_of_def activeIndex_def Let_def n_def [symmetric] split: if_splits)
qed

lemma next_in: "next_of docs a = Some d \<Longrightarrow> d \<in> set docs"
  by (auto simp: next_of_def activeIndex_def Let_def intro!: nth_mem split: if_splits)

lemma filtered_in: "d \<in> set (filtered K docs q) \<Longrightarrow> d \<in> set docs"
  by (auto simp: filtered_def Let_def split: if_splits)

lemma app_step_page:
  assumes "app_step K docs pn s t" and "good_docs docs" and "plain_path pn" and "page_ok docs s"
  shows "page_ok docs t"
  using assms
proof (induction rule: app_step.induct)
  case (list_item d s)
  then show ?case by (intro navigate_page) (auto dest: filtered_in)
next
  case (home d s)
  then show ?case by (intro navigate_page) (auto dest: resolve_in)
next
  case (turn_previous s d)
  then show ?case by (intro navigate_page) (auto dest: previous_in)
next
  case (turn_next s d)
  then show ?case by (intro navigate_page) (auto dest: next_in)
next
  case (go_back s u us)
  then show ?case by (intro popstate_page) (auto simp: page_ok_def)
next
  case (go_ahead s u us)
  then show ?case by (intro popstate_page) (auto simp: page_ok_def)
next
  case (link h s)
  then show ?case by (intro click_page)
qed (simp_all add: handleKeyDown_page handlePointerDown_def toggleCollapsed_def pickSize_def toggleReaderMode_def)

lemma app_step_stored: "app_step K docs pn s t \<Longrightarrow> stored_ok s \<Longrightarrow> stored_ok t"
  by (induction rule: app_step.induct)
    (simp_all add: navigate_stored popstate_stored click_stored handleKeyDown_ok handlePointerDown_def
      toggleCollapsed_ok pickSize_ok toggleReaderMode_ok)

lemma init_ok: "app_init K docs u st v = Some s \<Longrightarrow> page_ok docs s \<and> stored_ok s"
  using store_kept [of "loadReaderPreferences K st" st]
  by (auto simp: app_init_def page_ok_def stored_ok_def load_ok Let_def dest: resolve_in)

lemma reach_stored:
  assumes "app_init K docs u st v = Some s0" and "(app_step K docs pn)\<^sup>*\<^sup>* s0 s"
  shows "stored_ok s"
  using assms(2)
proof (induction rule: rtranclp_induct)
  case base
  show ?case using init_ok [OF assms(1)] by simp
next
  case (step s t)
  show ?case by (rule app_step_stored [OF step(2,3)])
qed

lemma reach_ok:
  assumes "app_init K docs u st v = Some s0" and "good_docs docs" and "plain_path pn"
    and "(app_step K docs pn)\<^sup>*\<^sup>* s0 s"
  shows "page_ok docs s \<and> stored_ok s"
  using assms(4)
proof (induction rule: rtranclp_induct)
  case base
  show ?case by (rule init_ok [OF assms(1)])
next
  case (step s t)
  then show ?case using app_step_page [OF step(2) assms(2,3)] app_step_stored [OF step(2)] by blast
qed

end
