(* ===== verification/LibraryLaws.thy ===== *)
theory LibraryLaws
  imports ReaderLaws
begin

text \<open>
  The laws of the list of documents and of the ways through it: what the module paths of the glob
  make of the routes, the order of the list, the page-turner and its buttons in the view, and the
  relative links.
\<close>

section \<open>From the modules to the routes\<close>

definition module_ok :: "jstr \<Rightarrow> bool" where
  "module_ok m \<longleftrightarrow> (\<exists>p. m = js ''../'' @ p @ js ''.mdx'' \<and> plain_route p)"

lemma filePath_up: "filePath (js ''../'' @ p) = p"
proof -
  have w: "ms (lit_re ''../'') (js ''../'' @ p) 0 [] = [(3, [])]"
    using ms_word [of 0 "js ''../'' @ p" "js ''../''" "[]"] by (simp add: js_def)
  have "match_from (seq [Bol False, lit_re ''../'']) (js ''../'' @ p) 0 = Some (0, 3, [])"
    by (rule match_fromI) (use w in auto)
  then show ?thesis by (simp add: filePath_def replace1_def js_def)
qed

lemma routeFor_module: "routeFor (filePath (js ''../'' @ p @ js ''.mdx'')) = p"
  by (simp add: filePath_up routeFor_append)

lemma mdxDocuments_routes:
  "mdxDocuments K raw mods = Inr (ds, ws) \<Longrightarrow> map route ds = map (\<lambda>(m, _). routeFor (filePath m)) mods"
proof (induction K raw mods arbitrary: ds ws rule: mdxDocuments.induct)
  case (2 K raw m loadModule mods)
  then show ?case
    by (fastforce simp: buildDocument_def Let_def split: sum.splits prod.splits)
qed simp

section \<open>The order of the list\<close>

lemma mset_sort_in [simp]: "mset (sort_in cmp x ys) = add_mset x (mset ys)"
  by (induction ys) auto

lemma mset_js_sort [simp]: "mset (js_sort cmp xs) = mset xs"
  by (induction xs) (auto simp: js_sort_def)

lemma set_js_sort [simp]: "set (js_sort cmp xs) = set xs"
  by (metis mset_js_sort set_mset_mset)

lemma distinct_map_js_sort: "distinct (map f (js_sort cmp xs)) = distinct (map f xs)"
  by (metis mset_js_sort mset_map mset_eq_imp_distinct_iff)

lemma set_sort_in [simp]: "set (sort_in cmp x ys) = insert x (set ys)"
  by (metis mset_sort_in set_mset_mset set_mset_add_mset_insert)

text \<open>A comparison that is total and transitive, as the locale's order of titles is documented to be.\<close>

definition collation :: "('a \<Rightarrow> 'a \<Rightarrow> int) \<Rightarrow> bool" where
  "collation cmp \<longleftrightarrow> (\<forall>a b. cmp a b \<le> 0 \<or> cmp b a \<le> 0) \<and>
     (\<forall>a b c. cmp a b \<le> 0 \<longrightarrow> cmp b c \<le> 0 \<longrightarrow> cmp a c \<le> 0)"

lemma collation_total: "collation cmp \<Longrightarrow> \<not> cmp a b \<le> 0 \<Longrightarrow> cmp b a \<le> 0"
  by (auto simp: collation_def)

lemma collation_trans: "collation cmp \<Longrightarrow> cmp a b \<le> 0 \<Longrightarrow> cmp b c \<le> 0 \<Longrightarrow> cmp a c \<le> 0"
  unfolding collation_def by blast

lemma sorted_sort_in:
  "collation cmp \<Longrightarrow> sorted_wrt (\<lambda>a b. cmp a b \<le> 0) ys \<Longrightarrow> sorted_wrt (\<lambda>a b. cmp a b \<le> 0) (sort_in cmp x ys)"
proof (induction ys)
  case (Cons y ys)
  show ?case
  proof (cases "cmp x y \<le> 0")
    case True
    then show ?thesis using Cons.prems collation_trans [OF Cons.prems(1) True] by simp
  next
    case False
    then show ?thesis using Cons collation_total [OF Cons.prems(1) False] by simp
  qed
qed simp

lemma sorted_js_sort: "collation cmp \<Longrightarrow> sorted_wrt (\<lambda>a b. cmp a b \<le> 0) (js_sort cmp xs)"
  by (induction xs) (simp_all add: js_sort_def sorted_sort_in)

lemma compare_le:
  "compare_documents loc a b \<le> 0 \<longleftrightarrow> order a < order b \<or> order a = order b \<and> loc (title a) (title b) \<le> 0"
  by (auto simp: compare_documents_def)

lemma compare_collation: "collation loc \<Longrightarrow> collation (compare_documents loc)"
  unfolding collation_def [of "compare_documents loc"] compare_le
  by (metis collation_def linorder_neq_iff order.strict_trans)

lemma documents_inv:
  assumes "documents K loc raw mods = Inr docs"
  obtains ds ws where "mdxDocuments K raw mods = Inr (ds, ws)" and "docs = js_sort (compare_documents loc) ds"
  using assms by (auto simp: documents_def split: sum.splits)

lemma documents_good:
  assumes "documents K loc raw mods = Inr docs" and "distinct (map fst mods)"
    and "\<forall>m \<in> set (map fst mods). module_ok m"
  shows "good_docs docs"
proof -
  obtain ds ws where ds: "mdxDocuments K raw mods = Inr (ds, ws)" "docs = js_sort (compare_documents loc) ds"
    using documents_inv [OF assms(1)] .
  let ?r = "\<lambda>m. routeFor (filePath m)"
  have r: "map route ds = map ?r (map fst mods)"
    using mdxDocuments_routes [OF ds(1)] by (simp add: comp_def case_prod_beta)
  have "inj_on ?r (set (map fst mods))"
    using assms(3) by (intro inj_onI) (metis module_ok_def routeFor_module)
  then have "distinct (map route ds)" unfolding r using assms(2) by (metis distinct_map)
  moreover have "plain_route (route d)" if "d \<in> set ds" for d
  proof -
    have "route d \<in> set (map ?r (map fst mods))" using that r by (metis image_eqI set_map)
    then obtain m where m: "m \<in> set (map fst mods)" "route d = ?r m" by (auto simp del: map_map)
    then show ?thesis using assms(3) routeFor_module by (metis module_ok_def)
  qed
  ultimately show ?thesis unfolding ds(2) good_docs_def by (simp add: distinct_map_js_sort)
qed

section \<open>The page-turner\<close>

lemma activeIndex_nth:
  assumes "distinct (map path docs)" and "i < length docs"
  shows "activeIndex docs (docs ! i) = int i"
proof -
  have "takeWhile (\<lambda>d. path d \<noteq> path (docs ! i)) docs = take i docs"
    using assms by (intro takeWhile_eq_take_P_nth) (auto simp: distinct_conv_nth)
  moreover have "list_ex (\<lambda>d. path d = path (docs ! i)) docs"
    using assms(2) by (auto simp: list_ex_iff)
  ultimately show ?thesis using assms(2) by (simp add: activeIndex_def)
qed

lemma next_nth:
  "distinct (map path docs) \<Longrightarrow> i < length docs \<Longrightarrow>
   next_of docs (docs ! i) = (if Suc i < length docs then Some (docs ! Suc i) else None)"
  by (simp add: next_of_def activeIndex_nth Let_def nat_add_distrib)

lemma previous_nth:
  "distinct (map path docs) \<Longrightarrow> i < length docs \<Longrightarrow>
   previous_of docs (docs ! i) = (if 0 < i then Some (docs ! (i - 1)) else None)"
  by (simp add: previous_of_def activeIndex_nth Let_def nat_diff_distrib)

lemma next_path:
  assumes "distinct (map path docs)"
  shows "i + n < length docs \<Longrightarrow> ((\<lambda>a b. next_of docs a = Some b) ^^ n) (docs ! i) (docs ! (i + n))"
  by (induction n) (use next_nth [OF assms] in \<open>auto simp: relcompp_apply\<close>)

text \<open>The buttons of the view are these documents.\<close>

definition turner :: "val \<Rightarrow> val list" where
  "turner view = children_of (children_of (children_of (children_of view ! 3) ! 0) ! 3)"

lemma doc_val_path: "dot (doc_val d) ''path'' = VStr (path d)"
  by (simp add: doc_val_def)

lemma takeWhile_map_length: "length (takeWhile P (map f xs)) = length (takeWhile (P \<circ> f) xs)"
  by (simp add: takeWhile_map)

lemma view_index:
  "jfindIndex (\<lambda>document. dot document ''path'' = dot (doc_val a) ''path'') (VArr (map doc_val docs)) =
   VNum (activeIndex docs a)"
  by (simp add: jfindIndex_def activeIndex_def doc_val_path list_ex_iff takeWhile_map_length comp_def)

lemma truthy_doc [simp]: "truthy (doc_val d)"
  by (simp add: doc_val_def obj_def)

lemma turner_view:
  "turner (app_view K docs s) =
    (let docs' = VArr (map doc_val docs); i = activeIndex docs (ap_active s);
         nav = VFun ''App.navigate'' [VFun ''App.setActive'' [], VFun ''App.setMenuOpen'' []];
         previous = (if 0 < i then item docs' (VNum (i - 1)) else VUndef);
         next = (if i < int (length docs) - 1 then item docs' (VNum (i + 1)) else VUndef)
     in [if truthy previous
         then el (tag ''button'') [At ''className'' (lit ''page-turner__previous''),
             At ''onClick'' (VFun ''App.onClick2'' [nav, previous])]
           [el (comp ''ArrowIcon'') [] [], el (tag ''span'') [] [el (tag ''small'') [] [lit ''Previous''], dot previous ''title'']]
         else el (tag ''span'') [] [],
         if truthy next
         then el (tag ''button'') [At ''className'' (lit ''page-turner__next''),
             At ''onClick'' (VFun ''App.onClick3'' [nav, next])]
           [el (tag ''span'') [] [el (tag ''small'') [] [lit ''Next''], dot next ''title''], el (comp ''ArrowIcon'') [] []]
         else VNull])"
proof -
  have len: "dot (VArr (map doc_val docs)) ''length'' = VNum (int (length docs))" by simp
  show ?thesis
    unfolding app_view_def App_view_def Let_def turner_def
    by (simp only: children_of_elk numeral_3_eq_3 nth_Cons_Suc nth_Cons_0 view_index len jminus.simps(1)
        jplus.simps(1) jless.simps(1))
qed

lemma item_docs: "0 \<le> i \<Longrightarrow> i < int (length docs) \<Longrightarrow> item (VArr (map doc_val docs)) (VNum i) = doc_val (docs ! nat i)"
  by (simp add: nat_less_iff)

lemma view_next:
  "turner (app_view K docs s) ! 1 = (case next_of docs (ap_active s) of
     None \<Rightarrow> VNull
   | Some d \<Rightarrow> el (tag ''button'') [At ''className'' (lit ''page-turner__next''),
       At ''onClick'' (VFun ''App.onClick3'' [VFun ''App.navigate'' [VFun ''App.setActive'' [], VFun ''App.setMenuOpen'' []], doc_val d])]
       [el (tag ''span'') [] [el (tag ''small'') [] [lit ''Next''], VStr (title d)], el (comp ''ArrowIcon'') [] []])"
proof -
  have "- 1 \<le> activeIndex docs (ap_active s)" by (simp add: activeIndex_def)
  then show ?thesis
    by (simp add: turner_view next_of_def Let_def item_docs del: item.simps) (simp add: doc_val_def)
qed

section \<open>Links between documents\<close>

lemma split_on_app: "u \<notin> set e \<Longrightarrow> split_on u (s @ e) = butlast (split_on u s) @ [last (split_on u s) @ e]"
proof (induction s)
  case (Cons x s)
  obtain y ys where y: "split_on u s = y # ys" by (cases "split_on u s") auto
  show ?case using Cons y by (cases ys) auto
qed (simp add: split_on_none)

lemma split_on_snoc: "u \<notin> set e \<Longrightarrow> split_on u (s @ u # e) = split_on u s @ [e]"
proof (induction s)
  case Nil
  then show ?case by (simp add: split_on_none)
next
  case (Cons x s)
  obtain y ys where "split_on u s = y # ys" by (cases "split_on u s") auto
  then show ?case using Cons by auto
qed

lemma join_snoc: "join sep (xs @ [x]) = (if xs = [] then x else join sep xs @ sep @ x)"
  by (cases xs) (auto simp: join_def)

lemma join_one [simp]: "join sep [x] = x"
  by (simp add: join_def)

lemma split_join: "xs \<noteq> [] \<Longrightarrow> \<forall>x \<in> set xs. u \<notin> set x \<Longrightarrow> split_on u (join [u] xs) = xs"
proof (induction xs rule: rev_induct)
  case (snoc x xs)
  then show ?case
    by (cases "xs = []") (auto simp: join_snoc split_on_none split_on_snoc)
qed simp

lemma decode_plain: "37 \<notin> set s \<Longrightarrow> decodeURIComponent s = Some s"
  by (induction s) auto

lemma contains_colon: "58 \<notin> set s \<Longrightarrow> \<not> contains s (js ''://'')"
proof
  assume a: "58 \<notin> set s" and "contains s (js ''://'')"
  then obtain i where t: "take 3 (drop i s) = js ''://''"
    by (auto simp: contains_def list_ex_iff js_def numeral_3_eq_3)
  have "set (take 3 (drop i s)) \<subseteq> set s" by (meson order_trans set_take_subset set_drop_subset)
  then have "58 \<in> set s" unfolding t by (simp add: js_def)
  then show False using a by simp
qed

text \<open>The name of a directory or a file: no separator, no escape, not one of the dots.\<close>

definition segment_ok :: "jstr \<Rightarrow> bool" where
  "segment_ok x \<longleftrightarrow> x \<noteq> [] \<and> x \<noteq> js ''.'' \<and> x \<noteq> js ''..'' \<and> 47 \<notin> set x \<and> 35 \<notin> set x \<and> 37 \<notin> set x \<and> 58 \<notin> set x"

lemma walk_down: "\<forall>x \<in> set xs. x \<noteq> [] \<and> x \<noteq> js ''.'' \<and> x \<noteq> js ''..'' \<Longrightarrow> walk parts xs = parts @ xs"
  by (induction xs arbitrary: parts) auto

lemma walk_up: "walk (keep @ dirs) (replicate (length dirs) (js ''..'') @ xs) = walk keep xs"
  by (induction dirs rule: rev_induct) (simp_all add: butlast_append)

definition ext_ok :: "jstr \<Rightarrow> bool" where
  "ext_ok e \<longleftrightarrow> e = [] \<or> e = js ''.md'' \<or> e = js ''.mdx''"

lemma walk_ext: "segment_ok x \<Longrightarrow> ext_ok e \<Longrightarrow> x @ e \<noteq> [] \<and> x @ e \<noteq> js ''.'' \<and> x @ e \<noteq> js ''..''"
  by (auto simp: segment_ok_def ext_ok_def js_def append_eq_Cons_conv)

lemma set_join: "set (join sep xs) \<subseteq> set sep \<union> \<Union> (set ` set xs)"
  by (cases xs) (auto simp: join_def)

lemma join_app_last: "xs \<noteq> [] \<Longrightarrow> join sep xs @ e = join sep (butlast xs @ [last xs @ e])"
  by (cases xs rule: rev_cases) (auto simp: join_snoc)

lemma relative_link:
  assumes docs: "good_docs docs" "d \<in> set docs"
    and cur: "path cur = join [47] (keep @ dirs @ [x])" "\<forall>y \<in> set (keep @ dirs @ [x]). segment_ok y"
    and target: "route d = join [47] (keep @ segs)" "segs \<noteq> []" "\<forall>y \<in> set segs. segment_ok y"
    and e: "ext_ok e" and frag: "frag = [] \<or> hd frag = 35"
  shows "resolveRelativeDocument docs cur
      (join [47] (replicate (length dirs) (js ''..'') @ segs) @ e @ frag) = Some (Some d)"
proof -
  let ?ups = "replicate (length dirs) (js ''..'')"
  define raw where "raw = join [47] (?ups @ segs) @ e"
  have all: "\<forall>y \<in> set (?ups @ segs). y \<noteq> [] \<and> 47 \<notin> set y \<and> 35 \<notin> set y \<and> 37 \<notin> set y \<and> 58 \<notin> set y"
  proof
    fix y assume "y \<in> set (?ups @ segs)"
    then have "y = js ''..'' \<or> y \<in> set segs" by auto
    then show "y \<noteq> [] \<and> 47 \<notin> set y \<and> 35 \<notin> set y \<and> 37 \<notin> set y \<and> 58 \<notin> set y"
      using target(3) by (fastforce simp: segment_ok_def js_def)
  qed
  have e': "47 \<notin> set e \<and> 35 \<notin> set e \<and> 37 \<notin> set e \<and> 58 \<notin> set e"
    using e by (auto simp: ext_ok_def js_def)
  have raw_units: "u = 47 \<or> (\<exists>y \<in> set (?ups @ segs). u \<in> set y) \<or> u \<in> set e" if "u \<in> set raw" for u
  proof -
    have "u \<in> set (join [47] (?ups @ segs)) \<or> u \<in> set e" using that by (simp add: raw_def)
    then show ?thesis using subsetD [OF set_join, of u "[47]" "?ups @ segs"] by (auto simp del: set_append)
  qed
  have units: "35 \<notin> set raw" "37 \<notin> set raw" "58 \<notin> set raw"
    using raw_units [of 35] raw_units [of 37] raw_units [of 58] all e' by auto
  have split: "split_on 47 raw = ?ups @ butlast segs @ [last segs @ e]"
    using split_on_app [of 47 e "join [47] (?ups @ segs)"] split_join [of "?ups @ segs" 47] all e' target(2)
    by (simp add: raw_def butlast_append)
  have first: "hd (split_on 35 (raw @ frag)) = raw"
  proof (cases frag)
    case (Cons v vs)
    have "hd (split_on 35 (raw @ 35 # vs)) = raw"
      using units(1) by (induction raw) (auto split: list.splits)
    then show ?thesis using frag Cons by simp
  qed (use units(1) in \<open>simp add: split_on_none\<close>)
  have hd: "raw \<noteq> [] \<and> hd raw \<noteq> 47"
  proof -
    obtain y ys where y: "?ups @ segs = y # ys" using target(2) by (cases "?ups @ segs") auto
    then have "y \<noteq> []" "47 \<notin> set y" using all by auto
    then show ?thesis unfolding raw_def y by (cases y) (auto simp: join_def)
  qed
  then have starts: "\<not> starts raw ''/''" by (cases raw) (auto simp: starts_def js_def)
  have parts: "butlast (split_on 47 (path cur)) = keep @ dirs"
    using split_join [of "keep @ dirs @ [x]" 47] cur by (simp add: segment_ok_def butlast_append)
  have last: "segment_ok (last segs)" using target by simp
  have down: "\<forall>y \<in> set (butlast segs @ [last segs @ e]). y \<noteq> [] \<and> y \<noteq> js ''.'' \<and> y \<noteq> js ''..''"
    using target(3) walk_ext [OF last e] by (auto simp: segment_ok_def dest: in_set_butlastD)
  have "walk (keep @ dirs) (split_on 47 raw) = keep @ butlast segs @ [last segs @ e]"
    unfolding split walk_up by (rule walk_down [OF down])
  moreover have "join [47] (keep @ butlast segs @ [last segs @ e]) = route d @ e"
    using join_app_last [of "keep @ segs" "[47]" e] target(1,2) by (simp add: butlast_append)
  moreover have "replace1 ext_re (\<lambda>_. []) (route d @ e) = route d"
  proof (cases "e = []")
    case True
    then show ?thesis using routeFor_id [of "route d"] docs
      by (simp add: routeFor_def good_docs_def plain_route_def)
  next
    case False
    then show ?thesis using routeFor_append [of e "route d"] e by (auto simp: routeFor_def ext_ok_def)
  qed
  moreover have "List.find (\<lambda>y. route y = route d) docs = Some d"
    using find_distinct [of route docs d] docs by (simp add: good_docs_def)
  ultimately have "resolveRelativeDocument docs cur (raw @ frag) = Some (Some d)"
    using hd starts contains_colon [OF units(3)] decode_plain [OF units(2)]
    by (simp add: resolveRelativeDocument_def first parts)
  then show ?thesis by (simp add: raw_def)
qed

end
