(* ===== verification/Mermaid.thy ===== *)
theory Mermaid
  imports Mdx
begin

text \<open>
  The rendering of diagrams in docs/src/mdx-components.tsx: the two caches of the module
  (\<open>mermaidReady\<close>, the promise of the library, and \<open>mermaidRenders\<close>, the promises of the renders by
  source), \<open>loadMermaid\<close> and \<open>renderMermaid\<close>, what settles the promises, and the effect of a diagram
  that waits for one. The library's layout is the argument \<open>lay\<close>, from a render's id and source to
  its error or its SVG.
\<close>

section \<open>The configuration\<close>

text \<open>\<open>token\<close>: a property of the root element's style, or the fallback when it is blank.\<close>

definition token :: "(jstr \<Rightarrow> jstr) \<Rightarrow> string \<Rightarrow> string \<Rightarrow> val" where
  "token style name fallback = jor (VStr (trim (style (js name)))) (lit fallback)"

definition mermaid_config :: "(jstr \<Rightarrow> jstr) \<Rightarrow> val" where
  "mermaid_config style =
    (let ink = token style ''--ink'' ''#18231f'';
         accent = token style ''--accent'' ''#cf5436'';
         gold = token style ''--gold'' ''#caa552''
     in obj [At ''startOnLoad'' (VBool False), At ''theme'' (lit ''base''), At ''fontFamily'' (lit ''inherit''),
       At ''themeVariables'' (obj [
         At ''primaryColor'' (lit ''#f6f1e7''),
         At ''primaryTextColor'' ink,
         At ''primaryBorderColor'' ink,
         At ''lineColor'' accent,
         At ''secondaryColor'' (lit ''#f6f1e7''),
         At ''tertiaryColor'' (lit ''#faf7f0''),
         At ''noteBkgColor'' (lit ''#f3e9d2''),
         At ''noteBorderColor'' gold,
         At ''actorBorder'' ink,
         At ''actorBkg'' (lit ''#f6f1e7''),
         At ''signalColor'' ink,
         At ''signalTextColor'' ink,
         At ''labelBoxBkgColor'' (lit ''#f3e9d2''),
         At ''labelBoxBorderColor'' gold,
         At ''activationBorderColor'' gold,
         At ''activationBkgColor'' (lit ''#faf7f0''),
         At ''clusterBkg'' (lit ''#faf7f0''),
         At ''clusterBorder'' gold,
         At ''edgeLabelBackground'' (lit ''#faf7f0'')])])"

section \<open>The module's state\<close>

text \<open>A reason of a rejection is its \<open>String\<close>, the one thing that is done with it.\<close>

datatype 'a promise = Unsettled | Fulfilled 'a | Rejected jstr

text \<open>A promise in \<open>mermaidRenders\<close> is the number of its job; \<open>swept\<close> is whether the handler that
  takes it out of the map after a rejection has run.\<close>

record job =
  job_id :: jstr
  job_source :: jstr
  outcome :: "jstr promise"
  swept :: bool

record mermaid =
  mermaidReady :: "val promise option"
  asked :: nat
  jobs :: "job list"
  mermaidRenders :: "jstr \<rightharpoonup> nat"

definition mermaid_init :: mermaid where
  "mermaid_init = \<lparr>mermaidReady = None, asked = 0, jobs = [], mermaidRenders = Map.empty\<rparr>"

definition loadMermaid :: "mermaid \<Rightarrow> mermaid" where
  "loadMermaid s = (case mermaidReady s of
     None \<Rightarrow> s\<lparr>mermaidReady := Some Unsettled, asked := Suc (asked s)\<rparr>
   | Some _ \<Rightarrow> s)"

definition renderMermaid :: "jstr \<Rightarrow> jstr \<Rightarrow> mermaid \<Rightarrow> nat \<times> mermaid" where
  "renderMermaid i src s =
    (case mermaidRenders s src of
       Some p \<Rightarrow> (p, s)
     | None \<Rightarrow>
         let s1 = loadMermaid s;
             p = length (jobs s1)
         in (p, s1\<lparr>jobs := jobs s1 @ [\<lparr>job_id = i, job_source = src, outcome = Unsettled, swept = False\<rparr>],
                   mermaidRenders := (mermaidRenders s1)(src \<mapsto> p)\<rparr>))"

text \<open>What the chain of a job settles to once the library has: its error, or that of the layout.\<close>

definition settled :: "(jstr \<Rightarrow> jstr \<Rightarrow> jstr + jstr) \<Rightarrow> val promise \<Rightarrow> job \<Rightarrow> jstr promise" where
  "settled lay ready j =
    (case ready of
       Unsettled \<Rightarrow> Unsettled
     | Rejected e \<Rightarrow> Rejected e
     | Fulfilled _ \<Rightarrow> (case lay (job_id j) (job_source j) of Inl e \<Rightarrow> Rejected e | Inr svg \<Rightarrow> Fulfilled svg))"

definition settle :: "(jstr \<Rightarrow> jstr \<Rightarrow> jstr + jstr) \<Rightarrow> nat \<Rightarrow> mermaid \<Rightarrow> mermaid" where
  "settle lay p s =
    (case mermaidReady s of
       None \<Rightarrow> s
     | Some ready \<Rightarrow> s\<lparr>jobs := (jobs s)[p := (jobs s ! p)\<lparr>outcome := settled lay ready (jobs s ! p)\<rparr>]\<rparr>)"

definition sweep :: "nat \<Rightarrow> mermaid \<Rightarrow> mermaid" where
  "sweep p s = s\<lparr>jobs := (jobs s)[p := (jobs s ! p)\<lparr>swept := True\<rparr>],
     mermaidRenders := (mermaidRenders s)(job_source (jobs s ! p) := None)\<rparr>"

text \<open>What can happen: a diagram asks for a render, the import ends, a job's chain does, a rejected
  job is taken out of the map.\<close>

inductive mermaid_step :: "(jstr \<Rightarrow> jstr \<Rightarrow> jstr + jstr) \<Rightarrow> mermaid \<Rightarrow> mermaid \<Rightarrow> bool" for lay where
  ask: "mermaid_step lay s (snd (renderMermaid i src s))"
| loaded: "mermaidReady s = Some Unsettled \<Longrightarrow>
    mermaid_step lay s (s\<lparr>mermaidReady := Some (Fulfilled (mermaid_config style))\<rparr>)"
| not_loaded: "mermaidReady s = Some Unsettled \<Longrightarrow>
    mermaid_step lay s (s\<lparr>mermaidReady := Some (Rejected e)\<rparr>)"
| settle: "p < length (jobs s) \<Longrightarrow> outcome (jobs s ! p) = Unsettled \<Longrightarrow> mermaid_step lay s (settle lay p s)"
| sweep: "p < length (jobs s) \<Longrightarrow> outcome (jobs s ! p) = Rejected e \<Longrightarrow> \<not> swept (jobs s ! p) \<Longrightarrow>
    mermaid_step lay s (sweep p s)"

inductive_cases mermaid_stepE: "mermaid_step lay s t"

section \<open>The invariant of the caches\<close>

text \<open>The map holds exactly the jobs that were not taken out, one for each source; the library was
  asked for once, by the first job.\<close>

definition jobs_ok :: "(jstr \<Rightarrow> jstr \<Rightarrow> jstr + jstr) \<Rightarrow> job list \<Rightarrow> (jstr \<rightharpoonup> nat) \<Rightarrow> bool" where
  "jobs_ok lay xs m \<longleftrightarrow>
     (\<forall>src p. m src = Some p \<longleftrightarrow> p < length xs \<and> job_source (xs ! p) = src \<and> \<not> swept (xs ! p)) \<and>
     (\<forall>j \<in> set xs. swept j \<longrightarrow> (\<exists>e. outcome j = Rejected e)) \<and>
     (\<forall>j \<in> set xs. \<forall>svg. outcome j = Fulfilled svg \<longrightarrow> lay (job_id j) (job_source j) = Inr svg)"

definition mermaid_ok :: "(jstr \<Rightarrow> jstr \<Rightarrow> jstr + jstr) \<Rightarrow> mermaid \<Rightarrow> bool" where
  "mermaid_ok lay s \<longleftrightarrow>
     asked s = (if mermaidReady s = None then 0 else 1) \<and>
     (jobs s \<noteq> [] \<longrightarrow> mermaidReady s \<noteq> None) \<and> jobs_ok lay (jobs s) (mermaidRenders s)"

lemma jobs_ok_at:
  "jobs_ok lay xs m \<Longrightarrow> m src = Some p \<longleftrightarrow> p < length xs \<and> job_source (xs ! p) = src \<and> \<not> swept (xs ! p)"
  by (simp add: jobs_ok_def)

lemma jobs_ok_swept:
  "jobs_ok lay xs m \<Longrightarrow> p < length xs \<Longrightarrow> swept (xs ! p) \<Longrightarrow> \<exists>e. outcome (xs ! p) = Rejected e"
  by (simp add: jobs_ok_def)

lemma jobs_ok_done:
  "jobs_ok lay xs m \<Longrightarrow> p < length xs \<Longrightarrow> outcome (xs ! p) = Fulfilled svg \<Longrightarrow>
   lay (job_id (xs ! p)) (job_source (xs ! p)) = Inr svg"
  by (simp add: jobs_ok_def)

lemma jobs_ok_snoc:
  assumes ok: "jobs_ok lay xs m" and new: "m (job_source j) = None" "outcome j = Unsettled" "\<not> swept j"
  shows "jobs_ok lay (xs @ [j]) (m(job_source j \<mapsto> length xs))"
proof -
  have "(m(job_source j \<mapsto> length xs)) src = Some p \<longleftrightarrow>
      p < length (xs @ [j]) \<and> job_source ((xs @ [j]) ! p) = src \<and> \<not> swept ((xs @ [j]) ! p)" for src p
    using jobs_ok_at [OF ok, of src p] jobs_ok_at [OF ok, of "job_source j" p] new
    by (cases "p < length xs") (auto simp: nth_append less_Suc_eq)
  then show ?thesis using ok new unfolding jobs_ok_def by simp
qed

lemma jobs_ok_outcome:
  assumes ok: "jobs_ok lay xs m" and p: "p < length xs" "outcome (xs ! p) = Unsettled"
    and x: "\<And>svg. x = Fulfilled svg \<Longrightarrow> lay (job_id (xs ! p)) (job_source (xs ! p)) = Inr svg"
  shows "jobs_ok lay (xs[p := (xs ! p)\<lparr>outcome := x\<rparr>]) m"
proof -
  have "\<not> swept (xs ! p)" using jobs_ok_swept [OF ok p(1)] p(2) by auto
  moreover have "m src = Some q \<longleftrightarrow> q < length (xs[p := (xs ! p)\<lparr>outcome := x\<rparr>]) \<and>
      job_source (xs[p := (xs ! p)\<lparr>outcome := x\<rparr>] ! q) = src \<and>
      \<not> swept (xs[p := (xs ! p)\<lparr>outcome := x\<rparr>] ! q)" for src q
    using jobs_ok_at [OF ok, of src q] p(1) by (auto simp: nth_list_update)
  ultimately show ?thesis using ok x unfolding jobs_ok_def
    by (auto dest!: set_update_subset_insert [THEN subsetD])
qed

lemma jobs_ok_sweep:
  assumes ok: "jobs_ok lay xs m" and p: "p < length xs" "outcome (xs ! p) = Rejected e" "\<not> swept (xs ! p)"
  shows "jobs_ok lay (xs[p := (xs ! p)\<lparr>swept := True\<rparr>]) (m(job_source (xs ! p) := None))"
proof -
  have one: "q = p" if "q < length xs" "job_source (xs ! q) = job_source (xs ! p)" "\<not> swept (xs ! q)" for q
    using jobs_ok_at [OF ok, of "job_source (xs ! p)" q] jobs_ok_at [OF ok, of "job_source (xs ! p)" p]
      that p by simp
  have "(m(job_source (xs ! p) := None)) src = Some q \<longleftrightarrow> q < length (xs[p := (xs ! p)\<lparr>swept := True\<rparr>]) \<and>
      job_source (xs[p := (xs ! p)\<lparr>swept := True\<rparr>] ! q) = src \<and>
      \<not> swept (xs[p := (xs ! p)\<lparr>swept := True\<rparr>] ! q)" for src q
    using jobs_ok_at [OF ok, of src q] p one [of q] by (auto simp: nth_list_update)
  then show ?thesis using ok p(2) nth_mem [OF p(1)] unfolding jobs_ok_def
    by (auto dest!: set_update_subset_insert [THEN subsetD])
qed

lemma mermaid_ok_init: "mermaid_ok lay mermaid_init"
  by (simp add: mermaid_ok_def jobs_ok_def mermaid_init_def)

lemma loadMermaid_simps [simp]:
  "jobs (loadMermaid s) = jobs s" "mermaidRenders (loadMermaid s) = mermaidRenders s"
  "mermaidReady (loadMermaid s) \<noteq> None"
  by (auto simp: loadMermaid_def split: option.splits)

lemma asked_load: "asked s = (if mermaidReady s = None then 0 else 1) \<Longrightarrow> asked (loadMermaid s) = 1"
  by (simp add: loadMermaid_def split: option.splits)

lemma render_ok:
  assumes "mermaid_ok lay s"
  shows "mermaid_ok lay (snd (renderMermaid i src s))"
proof (cases "mermaidRenders s src")
  case None
  let ?j = "\<lparr>job_id = i, job_source = src, outcome = Unsettled, swept = False\<rparr>"
  have "jobs_ok lay (jobs s @ [?j]) ((mermaidRenders s)(src \<mapsto> length (jobs s)))"
    using jobs_ok_snoc [of lay "jobs s" "mermaidRenders s" ?j] assms None by (simp add: mermaid_ok_def)
  then show ?thesis
    using assms None asked_load [of s] by (simp add: mermaid_ok_def renderMermaid_def Let_def)
qed (use assms in \<open>simp add: renderMermaid_def\<close>)

lemma settled_done: "settled lay r j = Fulfilled svg \<Longrightarrow> lay (job_id j) (job_source j) = Inr svg"
  by (auto simp: settled_def split: promise.splits sum.splits)

lemma settle_ok:
  assumes "mermaid_ok lay s" and "p < length (jobs s)" and "outcome (jobs s ! p) = Unsettled"
  shows "mermaid_ok lay (settle lay p s)"
  using assms jobs_ok_outcome [of lay "jobs s" "mermaidRenders s" p] settled_done
  by (auto simp: mermaid_ok_def settle_def split: option.splits)

lemma sweep_ok:
  assumes "mermaid_ok lay s" and "p < length (jobs s)" and "outcome (jobs s ! p) = Rejected e"
    and "\<not> swept (jobs s ! p)"
  shows "mermaid_ok lay (sweep p s)"
  using assms jobs_ok_sweep [of lay "jobs s" "mermaidRenders s" p e]
  by (auto simp: mermaid_ok_def sweep_def)

lemma mermaid_step_ok: "mermaid_step lay s t \<Longrightarrow> mermaid_ok lay s \<Longrightarrow> mermaid_ok lay t"
proof (induction rule: mermaid_step.induct)
  case (ask s i src)
  then show ?case by (rule render_ok)
next
  case (settle p s)
  show ?case by (rule settle_ok [OF settle(3,1,2)])
next
  case (sweep p s e)
  show ?case by (rule sweep_ok [OF sweep(4,1-3)])
qed (auto simp: mermaid_ok_def)

lemma mermaid_reach_ok: "(mermaid_step lay)\<^sup>*\<^sup>* mermaid_init s \<Longrightarrow> mermaid_ok lay s"
proof (induction rule: rtranclp_induct)
  case base
  show ?case by (rule mermaid_ok_init)
next
  case (step s t)
  show ?case by (rule mermaid_step_ok [OF step(2,3)])
qed

section \<open>A memo table\<close>

text \<open>The specification: a table of finished renders that only grows, by one layout of a source
  that it has not.\<close>

definition finished :: "mermaid \<Rightarrow> jstr \<rightharpoonup> jstr" where
  "finished s src = (case mermaidRenders s src of
     None \<Rightarrow> None
   | Some p \<Rightarrow> (case outcome (jobs s ! p) of Fulfilled svg \<Rightarrow> Some svg | _ \<Rightarrow> None))"

definition memo_step :: "(jstr \<Rightarrow> jstr \<Rightarrow> jstr + jstr) \<Rightarrow> (jstr \<rightharpoonup> jstr) \<Rightarrow> (jstr \<rightharpoonup> jstr) \<Rightarrow> bool" where
  "memo_step lay m m' \<longleftrightarrow> m' = m \<or>
     (\<exists>src svg i. m src = None \<and> lay i src = Inr svg \<and> m' = m(src \<mapsto> svg))"

lemma finished_render:
  assumes "mermaid_ok lay s"
  shows "finished (snd (renderMermaid i src s)) = finished s"
proof (cases "mermaidRenders s src")
  case None
  have "p < length (jobs s)" if "mermaidRenders s src' = Some p" for src' p
    using assms that jobs_ok_at by (auto simp: mermaid_ok_def)
  then show ?thesis using None
    by (auto simp: renderMermaid_def Let_def finished_def nth_append fun_eq_iff split: option.splits)
qed (simp add: renderMermaid_def)

lemma live_at:
  "mermaid_ok lay s \<Longrightarrow> p < length (jobs s) \<Longrightarrow> \<not> swept (jobs s ! p) \<Longrightarrow>
   mermaidRenders s src = Some p \<longleftrightarrow> src = job_source (jobs s ! p)"
  using jobs_ok_at [of lay "jobs s" "mermaidRenders s" src p] by (auto simp: mermaid_ok_def)

lemma finished_sweep:
  assumes "mermaid_ok lay s" and "p < length (jobs s)" and "outcome (jobs s ! p) = Rejected e"
    and "\<not> swept (jobs s ! p)"
  shows "finished (sweep p s) = finished s"
proof
  fix src
  show "finished (sweep p s) src = finished s src"
    using live_at [OF assms(1,2,4), of src] assms(2,3)
    by (auto simp: finished_def sweep_def nth_list_update split: option.splits)
qed

lemma finished_settle:
  assumes "mermaid_ok lay s" and "p < length (jobs s)" and "outcome (jobs s ! p) = Unsettled"
  shows "memo_step lay (finished s) (finished (settle lay p s))"
proof (cases "mermaidReady s")
  case (Some r)
  let ?src = "job_source (jobs s ! p)"
  have live: "\<not> swept (jobs s ! p)"
    using assms jobs_ok_swept [of lay "jobs s" "mermaidRenders s" p] by (auto simp: mermaid_ok_def)
  have none: "finished s ?src = None"
    using live_at [OF assms(1,2) live, of ?src] assms(3) by (simp add: finished_def)
  have eq: "finished (settle lay p s) = (finished s)(?src :=
      (case settled lay r (jobs s ! p) of Fulfilled svg \<Rightarrow> Some svg | _ \<Rightarrow> None))"
  proof
    fix src
    show "finished (settle lay p s) src = ((finished s)(?src :=
        (case settled lay r (jobs s ! p) of Fulfilled svg \<Rightarrow> Some svg | _ \<Rightarrow> None))) src"
      using live_at [OF assms(1,2) live, of src] assms(2) Some
      by (auto simp: finished_def settle_def nth_list_update split: option.splits)
  qed
  show ?thesis
  proof (cases "settled lay r (jobs s ! p)")
    case (Fulfilled svg)
    then show ?thesis using eq none settled_done [OF Fulfilled] by (auto simp: memo_step_def)
  qed (use eq none in \<open>auto simp: memo_step_def fun_upd_idem\<close>)
qed (simp add: settle_def memo_step_def)

lemma finished_ready [simp]: "finished (s\<lparr>mermaidReady := r\<rparr>) = finished s"
  by (auto simp: finished_def fun_eq_iff split: option.split)

lemma finished_step: "mermaid_step lay s t \<Longrightarrow> mermaid_ok lay s \<Longrightarrow> memo_step lay (finished s) (finished t)"
proof (induction rule: mermaid_step.induct)
  case (ask s i src)
  then show ?case by (simp add: finished_render memo_step_def)
next
  case (settle p s)
  show ?case by (rule finished_settle [OF settle(3,1,2)])
next
  case (sweep p s e)
  show ?case using finished_sweep [OF sweep(4,1-3)] by (simp add: memo_step_def)
qed (simp_all add: memo_step_def)

section \<open>A failed import\<close>

lemma step_rejected:
  "mermaid_step lay s t \<Longrightarrow> mermaidReady s = Some (Rejected e) \<Longrightarrow> mermaidReady t = Some (Rejected e)"
  by (induction rule: mermaid_step.induct)
    (auto simp: renderMermaid_def loadMermaid_def settle_def sweep_def Let_def split: option.splits)

lemma finished_rejected:
  assumes "mermaid_step lay s t" and "mermaid_ok lay s" and "mermaidReady s = Some (Rejected e)"
  shows "finished t = finished s"
  using assms
proof (induction rule: mermaid_step.induct)
  case (ask s i src)
  then show ?case by (simp add: finished_render)
next
  case (settle p s)
  then show ?case
    by (auto simp: fun_eq_iff finished_def settle_def settled_def nth_list_update split: option.splits)
next
  case (sweep p s e)
  show ?case by (rule finished_sweep [OF sweep(4,1-3)])
qed auto

text \<open>A rejected render is taken out of the map, and the next request makes a new job.\<close>

lemma asks_again:
  assumes "mermaid_ok lay t" and "p < length (jobs t)" and "mermaidReady t = Some (Rejected e)"
    and "outcome (jobs t ! p) = Rejected e'" and "\<not> swept (jobs t ! p)"
    and "renderMermaid i (job_source (jobs t ! p)) (sweep p t) = (q, u)"
  shows "q = length (jobs t) \<and> outcome (jobs u ! q) = Unsettled \<and> asked u = asked t \<and> finished u = finished t
    \<and> outcome (jobs (settle lay q u) ! q) = Rejected e"
proof -
  have "q = length (jobs t) \<and> outcome (jobs u ! q) = Unsettled \<and> asked u = asked t
      \<and> outcome (jobs (settle lay q u) ! q) = Rejected e"
    using assms(3,6) by (auto simp: renderMermaid_def sweep_def loadMermaid_def Let_def settle_def settled_def nth_append)
  moreover have "finished u = finished t"
    using finished_render [OF sweep_ok [OF assms(1,2,4,5)], of i "job_source (jobs t ! p)"]
      finished_sweep [OF assms(1,2,4,5)] assms(6) by simp
  ultimately show ?thesis by blast
qed

section \<open>A diagram\<close>

text \<open>
  The state of a mounted \<open>Mermaid\<close>: the source its effect last ran for, the promise that run waits
  for unless it was cancelled, and \<open>result\<close>. Waits that were cancelled set nothing and are dropped.
\<close>

record diagram =
  dg_source :: jstr
  dg_wait :: "nat option"
  dg_result :: val

definition mermaid_id :: "jstr \<Rightarrow> jstr" where
  "mermaid_id i = js ''mermaid-'' @ replace_all (Cls (\<lambda>u. \<not> (97 \<le> u \<and> u \<le> 122 \<or> 65 \<le> u \<and> u \<le> 90 \<or>
     48 \<le> u \<and> u \<le> 57 \<or> u = 95 \<or> u = 45))) (\<lambda>_. []) i"

definition diagram_effect :: "jstr \<Rightarrow> jstr \<Rightarrow> mermaid \<times> diagram \<Rightarrow> mermaid \<times> diagram" where
  "diagram_effect i code sd =
    (let src = trim code; (p, s) = renderMermaid (mermaid_id i) src (fst sd)
     in (s, (snd sd)\<lparr>dg_source := src, dg_wait := Some p\<rparr>))"

definition diagram_cleanup :: "diagram \<Rightarrow> diagram" where
  "diagram_cleanup d = d\<lparr>dg_wait := None\<rparr>"

definition diagram_deliver :: "mermaid \<Rightarrow> diagram \<Rightarrow> diagram" where
  "diagram_deliver s d =
    (case dg_wait d of
       None \<Rightarrow> d
     | Some p \<Rightarrow> (case outcome (jobs s ! p) of
         Unsettled \<Rightarrow> d
       | Fulfilled svg \<Rightarrow> d\<lparr>dg_wait := None, dg_result := obj [At ''svg'' (VStr svg)]\<rparr>
       | Rejected e \<Rightarrow> d\<lparr>dg_wait := None, dg_result := obj [At ''error'' (VStr e)]\<rparr>))"

inductive diagram_step ::
    "(jstr \<Rightarrow> jstr \<Rightarrow> jstr + jstr) \<Rightarrow> jstr \<Rightarrow> mermaid \<times> diagram \<Rightarrow> mermaid \<times> diagram \<Rightarrow> bool"
  for lay i where
  others: "mermaid_step lay s t \<Longrightarrow> diagram_step lay i (s, d) (t, d)"
| rerun: "diagram_step lay i (s, d) (diagram_effect i code (s, diagram_cleanup d))"
| unmount: "diagram_step lay i (s, d) (s, diagram_cleanup d)"
| deliver: "diagram_step lay i (s, d) (s, diagram_deliver s d)"

inductive_cases diagram_stepE: "diagram_step lay i (s, d) (t, e)"

text \<open>A diagram waits for a job of its own source, so what it comes to show belongs to it.\<close>

definition diagram_ok :: "(jstr \<Rightarrow> jstr \<Rightarrow> jstr + jstr) \<Rightarrow> mermaid \<times> diagram \<Rightarrow> bool" where
  "diagram_ok lay sd \<longleftrightarrow> mermaid_ok lay (fst sd) \<and>
     (\<forall>p. dg_wait (snd sd) = Some p \<longrightarrow>
        p < length (jobs (fst sd)) \<and> job_source (jobs (fst sd) ! p) = dg_source (snd sd))"

lemma step_sources:
  "mermaid_step lay s t \<Longrightarrow> p < length (jobs s) \<Longrightarrow>
   p < length (jobs t) \<and> job_source (jobs t ! p) = job_source (jobs s ! p)"
  by (induction rule: mermaid_step.induct)
    (auto simp: renderMermaid_def Let_def settle_def sweep_def nth_append nth_list_update
      split: option.splits)

lemma renderMermaid_job:
  assumes "mermaid_ok lay s" and "renderMermaid i src s = (p, t)"
  shows "p < length (jobs t) \<and> job_source (jobs t ! p) = src"
  using assms jobs_ok_at [of lay "jobs s" "mermaidRenders s" src p]
  by (cases "mermaidRenders s src") (auto simp: renderMermaid_def Let_def mermaid_ok_def)

lemma diagram_step_ok: "diagram_step lay i sd te \<Longrightarrow> diagram_ok lay sd \<Longrightarrow> diagram_ok lay te"
proof (induction rule: diagram_step.induct)
  case (others s t d)
  then show ?case using step_sources [OF others(1)] mermaid_step_ok [OF others(1)]
    by (auto simp: diagram_ok_def)
next
  case (rerun s d code)
  obtain p t where r: "renderMermaid (mermaid_id i) (trim code) s = (p, t)" by force
  have ok: "mermaid_ok lay s" using rerun by (simp add: diagram_ok_def)
  then show ?case
    using renderMermaid_job [OF ok r] render_ok [OF ok, of "mermaid_id i" "trim code"] r
    by (simp add: diagram_ok_def diagram_effect_def)
next
  case (unmount s d)
  then show ?case by (simp add: diagram_ok_def diagram_cleanup_def)
next
  case (deliver s d)
  then show ?case
    by (auto simp: diagram_ok_def diagram_deliver_def split: option.splits promise.splits)
qed

text \<open>What a fulfilled wait makes the diagram show: the SVG of a layout of its source.\<close>

lemma delivered_svg:
  assumes "diagram_ok lay (s, d)" and "dg_wait d = Some p" and "outcome (jobs s ! p) = Fulfilled svg"
  shows "\<exists>i'. lay i' (dg_source d) = Inr svg"
  using assms jobs_ok_done [of lay "jobs s" "mermaidRenders s" p svg]
  by (auto simp: diagram_ok_def mermaid_ok_def)

end
