(* ===== verification/Icons.thy ===== *)
theory Icons
  imports Js
begin

text \<open>docs/src/icons.tsx: the icons of the reader, one definition per component.\<close>

definition Icon :: "lib \<Rightarrow> props \<Rightarrow> val" where
\<open>Icon K p =
  (let children = attr ''children'' p in
    let props = rest [''children''] p in
    el (tag ''svg'') [At ''viewBox'' (lit ''0 0 24 24''),
      At ''fill'' (lit ''none''),
      At ''stroke'' (lit ''currentColor''),
      At ''strokeWidth'' (lit ''1.8''),
      At ''strokeLinecap'' (lit ''round''),
      At ''strokeLinejoin'' (lit ''round''),
      At ''aria-hidden'' (lit ''true''),
      Sp props]
    [children])\<close>

definition SearchIcon :: "lib \<Rightarrow> props \<Rightarrow> val" where
\<open>SearchIcon K p =
  (let props = VObj p in
    el (comp ''Icon'') [Sp props]
    [el (tag ''circle'') [At ''cx'' (lit ''11''),
        At ''cy'' (lit ''11''),
        At ''r'' (lit ''7'')]
      [],
      el (tag ''path'') [At ''d'' (lit ''m20 20-4-4'')]
      []])\<close>

definition MenuIcon :: "lib \<Rightarrow> props \<Rightarrow> val" where
\<open>MenuIcon K p =
  (let props = VObj p in
    el (comp ''Icon'') [Sp props]
    [el (tag ''path'') [At ''d'' (lit ''M4 7h16M4 12h16M4 17h16'')]
      []])\<close>

definition CloseIcon :: "lib \<Rightarrow> props \<Rightarrow> val" where
\<open>CloseIcon K p =
  (let props = VObj p in
    el (comp ''Icon'') [Sp props]
    [el (tag ''path'') [At ''d'' (lit ''m6 6 12 12M18 6 6 18'')]
      []])\<close>

definition ArrowIcon :: "lib \<Rightarrow> props \<Rightarrow> val" where
\<open>ArrowIcon K p =
  (let props = VObj p in
    el (comp ''Icon'') [Sp props]
    [el (tag ''path'') [At ''d'' (lit ''M5 12h14M13 6l6 6-6 6'')]
      []])\<close>

definition CheckIcon :: "lib \<Rightarrow> props \<Rightarrow> val" where
\<open>CheckIcon K p =
  (let props = VObj p in
    el (comp ''Icon'') [Sp props]
    [el (tag ''path'') [At ''d'' (lit ''m5 12 4 4L19 6'')]
      []])\<close>

definition ChevronIcon :: "lib \<Rightarrow> props \<Rightarrow> val" where
\<open>ChevronIcon K p =
  (let props = VObj p in
    el (comp ''Icon'') [Sp props]
    [el (tag ''path'') [At ''d'' (lit ''m15 18-6-6 6-6'')]
      []])\<close>

definition ReaderModeIcon :: "lib \<Rightarrow> props \<Rightarrow> val" where
\<open>ReaderModeIcon K p =
  (let props = VObj p in
    el (comp ''Icon'') [Sp props]
    [el (tag ''path'') [At ''d'' (lit ''M4 5.5c2.8-.7 5.4 0 8 2.1v11c-2.6-2.1-5.2-2.8-8-2.1z'')]
      [],
      el (tag ''path'') [At ''d'' (lit ''M20 5.5c-2.8-.7-5.4 0-8 2.1v11c2.6-2.1 5.2-2.8 8-2.1z'')]
      []])\<close>

definition SettingsIcon :: "lib \<Rightarrow> props \<Rightarrow> val" where
\<open>SettingsIcon K p =
  (let props = VObj p in
    el (comp ''Icon'') [Sp props]
    [el (tag ''circle'') [At ''cx'' (lit ''12''),
        At ''cy'' (lit ''12''),
        At ''r'' (lit ''3'')]
      [],
      el (tag ''path'') [At ''d'' (lit ''M19.4 15a1.7 1.7 0 0 0 .3 1.9l.1.1-2.8 2.8-.1-.1a1.7 1.7 0 0 0-1.9-.3 1.7 1.7 0 0 0-1 1.6v.2h-4V21a1.7 1.7 0 0 0-1-1.6 1.7 1.7 0 0 0-1.9.3l-.1.1L4.2 17l.1-.1a1.7 1.7 0 0 0 .3-1.9A1.7 1.7 0 0 0 3 14H2.8v-4H3a1.7 1.7 0 0 0 1.6-1 1.7 1.7 0 0 0-.3-1.9L4.2 7 7 4.2l.1.1A1.7 1.7 0 0 0 9 4.6 1.7 1.7 0 0 0 10 3v-.2h4V3a1.7 1.7 0 0 0 1 1.6 1.7 1.7 0 0 0 1.9-.3l.1-.1L19.8 7l-.1.1a1.7 1.7 0 0 0-.3 1.9 1.7 1.7 0 0 0 1.6 1h.2v4H21a1.7 1.7 0 0 0-1.6 1Z'')]
      []])\<close>

text \<open>A caller's attributes win over the defaults of an icon.\<close>

lemma Icon_attributes:
  "distinct (keys p) \<Longrightarrow> k \<in> set (keys p) \<Longrightarrow> k \<noteq> js ''children'' \<Longrightarrow>
   fld k (dot (Icon K p) ''props'') = get k p"
  by (simp add: Icon_def elk_def rest_def get_spread distinct_omit keys_omit attr_def)

end
