(* ===== verification/ReaderProps.thy ===== *)
theory ReaderProps
  imports LibraryLaws Mermaid Icons
begin

text \<open>
  The properties of the documentation reader, from the modules of the documents to the state of
  the application and the components of a document, each with its witness on a small library.
\<close>

section \<open>A small library\<close>

definition plain_lib :: lib where
  "plain_lib f xs =
    (if f = ''toLowerCase'' \<or> f = ''lazy'' \<or> f = ''Children.toArray'' then hd xs
     else if f = ''letterOrNumber'' then (case hd xs of VNum n \<Rightarrow> VBool (48 \<le> n \<and> n \<le> 57 \<or> 97 \<le> n \<and> n \<le> 122) | _ \<Rightarrow> VBool False)
     else VUndef)"

definition by_length :: "jstr \<Rightarrow> jstr \<Rightarrow> int" where
  "by_length a b = int (length a) - int (length b)"

definition few_modules :: "(jstr \<times> val) list" where
  "few_modules = [(js ''../plans/open/02-b.mdx'', VNull), (js ''../plans/open/01-a.mdx'', VNull)]"

lemma few_modules_ok: "distinct (map fst few_modules)" "\<forall>m \<in> set (map fst few_modules). module_ok m"
proof -
  show "distinct (map fst few_modules)" by (simp add: few_modules_def)
  have "js ''../plans/open/02-b.mdx'' = js ''../'' @ js ''plans/open/02-b'' @ js ''.mdx''"
    "js ''../plans/open/01-a.mdx'' = js ''../'' @ js ''plans/open/01-a'' @ js ''.mdx''"
    by (simp_all add: js_def)
  moreover have "plain_route (js ''plans/open/02-b'')" "plain_route (js ''plans/open/01-a'')"
    by (simp_all add: plain_route_def has_ext_def js_def)
  ultimately show "\<forall>m \<in> set (map fst few_modules). module_ok m"
    by (auto simp: few_modules_def module_ok_def)
qed

lemma by_length_collation: "collation by_length"
  by (auto simp: collation_def by_length_def)

lemma few_numbers:
  "exec number_re (filePath (js ''../plans/open/02-b.mdx'')) = Some [(0, js ''plans/open/02-''), (1, js ''02'')]"
  "exec number_re (filePath (js ''../plans/open/01-a.mdx'')) = Some [(0, js ''plans/open/01-''), (1, js ''01'')]"
  by code_simp+

lemma few_open:
  "starts (filePath (js ''../plans/open/02-b.mdx'')) ''plans/open/''"
  "starts (filePath (js ''../plans/open/01-a.mdx'')) ''plans/open/''"
  by code_simp+

lemma few_documents: "\<exists>a b. documents plain_lib by_length (\<lambda>_. None) few_modules = Inr [a, b]"
proof -
  have sort: "\<exists>a b. js_sort cmp [x, y] = [a, b]" for cmp :: "ReaderDocument \<Rightarrow> ReaderDocument \<Rightarrow> int" and x y
    by (simp add: js_sort_def)
  show ?thesis
    by (simp add: documents_def few_modules_def buildDocument_def roadmapFor_def few_numbers few_open
        Let_def sort)
qed

lemma few_routes:
  assumes "documents plain_lib by_length (\<lambda>_. None) few_modules = Inr [a, b]"
  shows "{route a, route b} = {js ''plans/open/02-b'', js ''plans/open/01-a''}"
proof -
  have up: "js ''../plans/open/02-b.mdx'' = js ''../'' @ js ''plans/open/02-b'' @ js ''.mdx''"
    "js ''../plans/open/01-a.mdx'' = js ''../'' @ js ''plans/open/01-a'' @ js ''.mdx''"
    by (simp_all add: js_def)
  obtain ds ws where ds: "mdxDocuments plain_lib (\<lambda>_. None) few_modules = Inr (ds, ws)"
      "[a, b] = js_sort (compare_documents by_length) ds"
    using documents_inv [OF assms] .
  have "route ` set [a, b] = set (map route ds)" using ds(2) by (metis set_js_sort set_map)
  also have "\<dots> = {js ''plans/open/02-b'', js ''plans/open/01-a''}"
    unfolding mdxDocuments_routes [OF ds(1)] few_modules_def
    by (simp only: list.map prod.case up routeFor_module) simp
  finally show ?thesis by simp
qed

section \<open>The documents\<close>

text \<open>
  C27: The list of the reader holds one document for each compiled module, its route the module's
  path without \<open>../\<close> and the extension; it is sorted by the number of the file name and, within a
  number, by the locale's order of the titles; and every document is the one that its own route
  resolves to.
\<close>

theorem documents_listed:
  assumes "documents K loc raw modules = Inr docs" and "collation loc" and "distinct (map fst modules)"
    and "\<forall>m \<in> set (map fst modules). module_ok m"
  shows "mset (map route docs) = mset (map (\<lambda>(m, _). routeFor (filePath m)) modules) \<and>
    sorted_wrt (\<lambda>a b. order a < order b \<or> order a = order b \<and> loc (title a) (title b) \<le> 0) docs \<and>
    (\<forall>d \<in> set docs. resolveDocument docs (Some (route d)) = Some d)"
proof -
  obtain ds ws where ds: "mdxDocuments K raw modules = Inr (ds, ws)" "docs = js_sort (compare_documents loc) ds"
    using documents_inv [OF assms(1)] .
  have "mset (map route docs) = mset (map route ds)" by (simp add: ds(2))
  then show ?thesis
    using mdxDocuments_routes [OF ds(1)] sorted_js_sort [OF compare_collation [OF assms(2)], of ds]
      resolve_route [OF documents_good [OF assms(1,3,4)]]
    by (simp add: ds(2) compare_le)
qed

theorem documents_listed_witness:
  "\<exists>docs. documents plain_lib by_length (\<lambda>_. None) few_modules = Inr docs \<and> length docs = 2 \<and>
     (\<forall>d \<in> set docs. resolveDocument docs (Some (route d)) = Some d)"
proof -
  obtain a b where "documents plain_lib by_length (\<lambda>_. None) few_modules = Inr [a, b]"
    using few_documents by blast
  then show ?thesis
    using documents_listed [OF _ by_length_collation few_modules_ok] by (intro exI [of _ "[a, b]"]) simp
qed

text \<open>
  C29: The anchor of a heading is its text in lower case without the marks of code and emphasis, cut
  into its maximal runs of letters and digits, joined by single dashes: there is no dash at either
  end, and no two in a row.
\<close>

theorem slugify_shape:
  assumes "\<not> letter K 45"
  shows "slugify K value = concat (map units (join [45] (words (letter K)
      (code_points (filter (\<lambda>u. u \<notin> set (js ''`*_'')) (lower K value)))))) \<and>
    (\<forall>w \<in> set (words (letter K) (code_points (filter (\<lambda>u. u \<notin> set (js ''`*_'')) (lower K value)))).
      w \<noteq> [] \<and> 45 \<notin> set w)"
proof -
  have "45 \<notin> set w" if "w \<in> set (words (letter K) s)" for w s
    using words_class [OF that] assms by blast
  then show ?thesis using slugify_words [OF assms, of "value"] words_class by blast
qed

theorem slugify_shape_witness: "slugify plain_lib (js ''-- the *edge* & more!'') = js ''the-edge-more''"
proof -
  have letter: "letter plain_lib c \<longleftrightarrow> 48 \<le> c \<and> c \<le> 57 \<or> 97 \<le> c \<and> c \<le> 122" for c
    by (auto simp: letter_def plain_lib_def)
  have "lower plain_lib s = s" for s by (simp add: lower_def plain_lib_def)
  then show ?thesis
    using conjunct1 [OF slugify_shape [of plain_lib "js ''-- the *edge* & more!''"]]
    by (simp add: letter js_def is_high_def units_def join_def)
qed

section \<open>The links\<close>

text \<open>
  C28: A relative link written in a document, some steps up and then down to a file, with or without
  its extension and with or without a fragment, opens the document at that place.
\<close>

theorem relative_link_opens:
  assumes "documents K loc raw modules = Inr docs" and "distinct (map fst modules)"
    and "\<forall>m \<in> set (map fst modules). module_ok m" and "d \<in> set docs"
    and "path cur = join [47] (keep @ dirs @ [x])" and "\<forall>y \<in> set (keep @ dirs @ [x]). segment_ok y"
    and "route d = join [47] (keep @ segs)" and "segs \<noteq> []" and "\<forall>y \<in> set segs. segment_ok y"
    and "ext_ok e" and "frag = [] \<or> hd frag = 35"
  shows "resolveRelativeDocument docs cur
      (join [47] (replicate (length dirs) (js ''..'') @ segs) @ e @ frag) = Some (Some d)"
  using relative_link [OF documents_good [OF assms(1-3)] assms(4-11)] .

lemma segs_ok:
  "\<forall>y \<in> set [js ''plans'', js ''open'', js ''02-b.mdx'']. segment_ok y" "\<forall>y \<in> set [js ''open'', js ''01-a'']. segment_ok y"
  by (simp_all add: segment_ok_def js_def)

theorem relative_link_opens_witness:
  "\<exists>docs cur d. documents plain_lib by_length (\<lambda>_. None) few_modules = Inr docs \<and>
     route d = js ''plans/open/01-a'' \<and>
     resolveRelativeDocument docs cur (js ''../open/01-a.mdx#top'') = Some (Some d)"
proof -
  obtain a b where docs: "documents plain_lib by_length (\<lambda>_. None) few_modules = Inr [a, b]"
    using few_documents by blast
  have "js ''plans/open/01-a'' \<in> route ` set [a, b]" using few_routes [OF docs] by simp
  then obtain d where d: "d \<in> set [a, b]" "route d = js ''plans/open/01-a''"
    by (elim imageE) (simp only:)
  define cur where "cur = d\<lparr>path := js ''plans/open/02-b.mdx''\<rparr>"
  have p: "path cur = join [47] ([js ''plans''] @ [js ''open''] @ [js ''02-b.mdx''])"
    by (simp add: cur_def join_def js_def)
  have r: "route d = join [47] ([js ''plans''] @ [js ''open'', js ''01-a''])"
    by (simp add: d(2) join_def js_def)
  have s: "\<forall>y \<in> set ([js ''plans''] @ [js ''open''] @ [js ''02-b.mdx'']). segment_ok y"
    using segs_ok(1) by simp
  have e: "ext_ok (js ''.mdx'')" and f: "js ''#top'' = [] \<or> hd (js ''#top'') = 35"
    by (simp_all add: ext_ok_def js_def)
  have "resolveRelativeDocument [a, b] cur (join [47] (replicate (length [js ''open'']) (js ''..'') @
      [js ''open'', js ''01-a'']) @ js ''.mdx'' @ js ''#top'') = Some (Some d)"
    by (rule relative_link_opens [OF docs few_modules_ok d(1) p s r _ segs_ok(2) e f]) simp
  then show ?thesis using docs d(2)
    by (intro exI [of _ "[a, b]"] exI [of _ cur] exI [of _ d]) (simp add: join_def js_def)
qed

text \<open>
  C32: Turning pages reads the whole list: from the document at any place, as many clicks on Next as
  there are documents after it lead to the last one; there the button is gone from the view; and
  Previous undoes Next.
\<close>

theorem page_turner_ends:
  assumes "distinct (map path docs)" and "i < length docs"
  shows "((\<lambda>a b. next_of docs a = Some b) ^^ (length docs - Suc i)) (docs ! i) (last docs) \<and>
    (ap_active s = last docs \<longrightarrow> turner (app_view K docs s) ! 1 = VNull) \<and>
    (\<forall>b. next_of docs (docs ! i) = Some b \<longrightarrow> previous_of docs b = Some (docs ! i))"
proof -
  have l: "last docs = docs ! (length docs - 1)" using assms(2) by (intro last_conv_nth) auto
  have "((\<lambda>a b. next_of docs a = Some b) ^^ (length docs - Suc i)) (docs ! i) (last docs)"
    using next_path [OF assms(1), of i "length docs - Suc i"] assms(2) by (simp add: l)
  moreover have "next_of docs (last docs) = None"
    using next_nth [OF assms(1), of "length docs - 1"] assms(2) by (simp add: l)
  moreover have "turner (app_view K docs s) ! 1 = VNull" if "ap_active s = last docs"
    by (simp only: view_next that calculation(2) option.case)
  ultimately show ?thesis
    using next_nth [OF assms] previous_nth [OF assms(1), of "Suc i"] by (simp split: if_splits)
qed

definition sample_doc :: "jstr \<Rightarrow> ReaderDocument" where
  "sample_doc p = \<lparr>path = p, route = p, title = p, navTitle = p, roadmap = Future p, description = [],
     order = 0, readingMinutes = 1, headings = [], source = [], searchText = [], Component = VNull\<rparr>"

theorem page_turner_ends_witness:
  "((\<lambda>a b. next_of (map sample_doc [[1], [2], [3]]) a = Some b) ^^ 2) (sample_doc [1]) (sample_doc [3])"
  using page_turner_ends [of "map sample_doc [[1], [2], [3]]" 0]
  by (simp add: sample_doc_def numeral_2_eq_2)

section \<open>The application\<close>

text \<open>
  C25: Whatever is clicked, typed or pressed, and however the history is walked, the page shown, the
  address bar and the title agree: the document shown is one of the list, it is the one that a load
  of the current address would show, and the title names it.
\<close>

theorem reader_in_sync:
  assumes "documents K loc raw modules = Inr docs" and "distinct (map fst modules)"
    and "\<forall>m \<in> set (map fst modules). module_ok m" and "plain_path pn"
    and "app_init K docs u st progress = Some s0" and "(app_step K docs pn)\<^sup>*\<^sup>* s0 s"
  shows "ap_active s \<in> set docs \<and> resolveDocument docs (currentRoute (ap_url s)) = Some (ap_active s) \<and>
    ap_title s = page_title (ap_active s)"
  using reach_ok [OF assms(5) documents_good [OF assms(1-3)] assms(4,6)] by (simp add: page_ok_def)

theorem reader_in_sync_witness:
  "\<exists>docs s0 (s :: app). documents plain_lib by_length (\<lambda>_. None) few_modules = Inr docs \<and>
     app_init plain_lib docs \<lparr>search = [], hash = []\<rparr> Denied VUndef = Some s0 \<and>
     ap_active s = docs ! 1 \<and> resolveDocument docs (currentRoute (ap_url s)) = Some (docs ! 1)"
proof -
  obtain a b where docs: "documents plain_lib by_length (\<lambda>_. None) few_modules = Inr [a, b]"
    using few_documents by blast
  note good = documents_good [OF docs few_modules_ok]
  obtain s0 where s0: "app_init plain_lib [a, b] \<lparr>search = [], hash = []\<rparr> Denied VUndef = Some s0"
    using resolve_total [of "[a, b]" "currentRoute \<lparr>search = [], hash = []\<rparr>"] by (auto simp: app_init_def)
  define s where "s = navigate [47] b False s0"
  have "ap_query s0 = []" using s0 by (auto simp: app_init_def Let_def)
  then have "b \<in> set (filtered plain_lib [a, b] (ap_query s0))"
    by (simp add: filtered_def lower_def plain_lib_def trim_def)
  then have step: "app_step plain_lib [a, b] [47] s0 s" unfolding s_def by (rule app_step.list_item)
  have "list_all scalar (code_points (route b))"
  proof -
    have "route b = js ''plans/open/02-b'' \<or> route b = js ''plans/open/01-a''"
      using few_routes [OF docs] by (auto simp: doubleton_eq_iff)
    then show ?thesis by (auto simp: js_def is_high_def is_low_def scalar_def)
  qed
  then have act: "ap_active s = b"
    by (simp add: s_def navigate_def hrefFor_def encodeURIComponent_def setActive_def)
  have "plain_path [47]" by (simp add: plain_path_def)
  from reader_in_sync [OF docs few_modules_ok this s0 r_into_rtranclp [where r = "app_step plain_lib [a, b] [47]", OF step]]
  show ?thesis using docs s0 act by (intro exI [of _ "[a, b]"] exI [of _ s0] exI [of _ s]) simp
qed

text \<open>
  C31: Whatever is in the local storage, malformed or of another shape, the reader starts with a font
  size of its list and two booleans.
\<close>

theorem preferences_valid: "prefs_ok (loadReaderPreferences K st)"
  by (rule load_ok)

text \<open>
  C30: At any moment of a session a reload comes back with the preferences it has, unless the
  storage cannot be written.
\<close>

theorem preferences_survive:
  assumes "app_init K docs u st progress = Some s0" and "(app_step K docs pn)\<^sup>*\<^sup>* s0 s"
    and "ap_storage s = Stored True c"
  shows "loadReaderPreferences K (ap_storage s) = ap_prefs s"
  using reach_stored [OF assms(1,2)] load_stored [of "ap_prefs s" K True] assms(3)
  by (simp add: stored_ok_def kept_def)

theorem preferences_survive_witness:
  "\<exists>s :: app. ap_prefs s = prefs ''md'' False True \<and>
     loadReaderPreferences plain_lib (ap_storage s) = prefs ''md'' False True"
proof -
  let ?docs = "[sample_doc [1]]"
  have "resolveDocument ?docs r = Some (sample_doc [1])" for r
    by (simp add: resolveDocument_def Let_def)
  then obtain s0 where s0: "app_init plain_lib ?docs \<lparr>search = [], hash = []\<rparr> (Stored True None) VUndef = Some s0"
      "ap_prefs s0 = prefs ''md'' False False" "ap_storage s0 = storePreferences (ap_prefs s0) (Stored True None)"
    by (simp add: app_init_def Let_def loadReaderPreferences_def default_prefs)
  define s where "s = toggleCollapsed s0"
  have p: "ap_prefs s = prefs ''md'' False True"
    by (simp add: s_def toggleCollapsed_def setPreferences_def s0(2) Let_def) (simp add: prefs_def)
  have c: "ap_storage s = Stored True (stringify (ap_prefs s))"
    by (simp add: s_def toggleCollapsed_def setPreferences_def s0(3) Let_def storePreferences_def)
  have "app_step plain_lib ?docs [47] s0 s" unfolding s_def by (rule app_step.collapse)
  then have "(app_step plain_lib ?docs [47])\<^sup>*\<^sup>* s0 s" by (rule r_into_rtranclp)
  from preferences_survive [OF s0(1) this c] show ?thesis using p by (intro exI [of _ s]) simp
qed

section \<open>The parts of a document\<close>

text \<open>
  C33: Hints unlock in order: after any clicks on the buttons that are there, as many hints are
  revealed as the clicks say and never more than there are. Every hint has its item under its own
  title; exactly those from the first on are open and hold their own body and check and nothing more,
  the others hold the title alone. Nothing of a locked hint but its title is anywhere in the view: two
  series that differ only there are drawn alike.
\<close>

theorem hints_unlock_in_order:
  assumes "(hint_click K p)\<^sup>*\<^sup>* 0 n"
  shows "0 \<le> n \<and> n \<le> int (length (hints_of K p)) \<and>
    length (hint_items (HintSteps K (VNum n) p)) = length (hints_of K p) \<and>
    (\<forall>i < length (hints_of K p).
      if int i < n then item_open (hints_of K p ! i) (hint_items (HintSteps K (VNum n) p) ! i)
      else item_locked (hints_of K p ! i) (hint_items (HintSteps K (VNum n) p) ! i)) \<and>
    (\<forall>q. same_so_far n (hints_of K p) (hints_of K q) \<longrightarrow>
      HintSteps K (VNum n) q = HintSteps K (VNum n) p)"
  using hint_clicks_bounds [OF assms] hint_items_view [where K = K and p = p and n = n]
    hints_secret [where K = K and p = p and n = n] by metis

definition two_hints :: "string \<Rightarrow> props" where
  "two_hints secret = [(js ''children'', VArr [
     VEl (comp ''Hint'') VUndef [(js ''title'', lit ''first''), (js ''children'', lit ''look'')],
     VEl (comp ''Hint'') VUndef [(js ''title'', lit ''second''), (js ''children'', lit secret)]])]"

theorem hints_unlock_in_order_witness:
  "item_open (hints_of plain_lib (two_hints ''x'') ! 0) (hint_items (HintSteps plain_lib (VNum 1) (two_hints ''x'')) ! 0) \<and>
   item_locked (hints_of plain_lib (two_hints ''x'') ! 1) (hint_items (HintSteps plain_lib (VNum 1) (two_hints ''x'')) ! 1) \<and>
   HintSteps plain_lib (VNum 1) (two_hints ''y'') = HintSteps plain_lib (VNum 1) (two_hints ''x'')"
proof -
  let ?p = "two_hints ''x''"
  have h: "hints_of plain_lib (two_hints z) =
     [VEl (comp ''Hint'') VUndef [(js ''title'', lit ''first''), (js ''children'', lit ''look'')],
      VEl (comp ''Hint'') VUndef [(js ''title'', lit ''second''), (js ''children'', lit z)]]" for z
    by (simp add: hints_of_def two_hints_def attr_def plain_lib_def is_element_def)
  have l: "length (hints_of plain_lib ?p) = 2" by (simp add: h)
  have "reveal_handler \<in> set (hint_buttons (HintSteps plain_lib (VNum 0) ?p))"
    by (simp add: hint_buttons_view l)
  from hint_click.intros [OF this] have "hint_click plain_lib ?p 0 1"
    by (simp add: hint_handler_def)
  then have "(hint_click plain_lib ?p)\<^sup>*\<^sup>* 0 1" by (rule r_into_rtranclp)
  from hints_unlock_in_order [OF this, unfolded l] have i: "\<forall>i < 2. if int i < 1
      then item_open (hints_of plain_lib ?p ! i) (hint_items (HintSteps plain_lib (VNum 1) ?p) ! i)
      else item_locked (hints_of plain_lib ?p ! i) (hint_items (HintSteps plain_lib (VNum 1) ?p) ! i)"
    and q: "same_so_far 1 (hints_of plain_lib ?p) (hints_of plain_lib (two_hints ''y'')) \<Longrightarrow>
      HintSteps plain_lib (VNum 1) (two_hints ''y'') = HintSteps plain_lib (VNum 1) ?p"
    by blast+
  have "same_so_far 1 (hints_of plain_lib ?p) (hints_of plain_lib (two_hints ''y''))"
    by (simp add: h same_so_far_def hint_part_def less_Suc_eq numeral_2_eq_2)
  from q [OF this] spec [OF i, of 0] spec [OF i, of 1] show ?thesis by simp
qed

text \<open>
  C26: The two caches of the diagrams refine a memo table of finished renders that only grows: each
  step of the module, in any order of requests, loads, failures and evictions, leaves the table as
  it is or adds the layout of one source it did not have. The library is asked for at most once,
  and a source whose render is not out of the map is given the same promise again.
\<close>

theorem mermaid_refines_memo:
  assumes "(mermaid_step lay)\<^sup>*\<^sup>* mermaid_init s" and "mermaid_step lay s t"
  shows "memo_step lay (finished s) (finished t) \<and> asked t \<le> 1 \<and>
    (\<forall>p < length (jobs s). \<not> swept (jobs s ! p) \<longrightarrow> renderMermaid i (job_source (jobs s ! p)) s = (p, s))"
proof -
  have s: "mermaid_ok lay s" by (rule mermaid_reach_ok [OF assms(1)])
  have "renderMermaid i (job_source (jobs s ! p)) s = (p, s)" if "p < length (jobs s)" "\<not> swept (jobs s ! p)" for p
    using live_at [OF s that, of "job_source (jobs s ! p)"] by (simp add: renderMermaid_def)
  then show ?thesis
    using finished_step [OF assms(2) s] mermaid_step_ok [OF assms(2) s] by (simp add: mermaid_ok_def)
qed

definition drawn :: "jstr \<Rightarrow> jstr \<Rightarrow> jstr + jstr" where
  "drawn i src = Inr (60 # src)"

definition one_job :: mermaid where
  "one_job = (snd (renderMermaid [97] [103] mermaid_init))\<lparr>mermaidReady := Some (Fulfilled (mermaid_config (\<lambda>_. [])))\<rparr>"

lemma first_ask: "(mermaid_step lay)\<^sup>*\<^sup>* mermaid_init (snd (renderMermaid i src mermaid_init))"
  by (rule r_into_rtranclp) (rule mermaid_step.ask)

lemma one_job_reached: "(mermaid_step drawn)\<^sup>*\<^sup>* mermaid_init one_job"
proof -
  let ?s = "snd (renderMermaid [97] [103] mermaid_init)"
  have "mermaidReady ?s = Some Unsettled"
    by (simp add: renderMermaid_def mermaid_init_def Let_def loadMermaid_def)
  from mermaid_step.loaded [OF this] have "mermaid_step drawn ?s one_job" unfolding one_job_def .
  then show ?thesis by (rule rtranclp.rtrancl_into_rtrancl [OF first_ask])
qed

lemma one_job_pending: "length (jobs one_job) = 1" "outcome (jobs one_job ! 0) = Unsettled"
  by (simp_all add: one_job_def renderMermaid_def mermaid_init_def Let_def loadMermaid_def)

theorem mermaid_refines_memo_witness:
  "memo_step drawn (finished one_job) (finished (settle drawn 0 one_job)) \<and>
   finished one_job [103] = None \<and> finished (settle drawn 0 one_job) [103] = Some [60, 103]"
proof -
  have "mermaid_step drawn one_job (settle drawn 0 one_job)"
    by (rule mermaid_step.settle) (simp_all add: one_job_pending)
  from mermaid_refines_memo [OF one_job_reached this] show ?thesis
    by (simp add: finished_def settle_def settled_def drawn_def one_job_def renderMermaid_def mermaid_init_def
        Let_def loadMermaid_def)
qed

text \<open>
  C34: A failed load of the diagram library is for good. From then on the library is not asked for
  again and no request of the page finishes a render. A failed render is taken out of its cache, so
  the next request for its source makes a new promise, but that one settles to the reason of the
  failed load again.
\<close>

theorem failed_import_sticks:
  assumes "(mermaid_step lay)\<^sup>*\<^sup>* mermaid_init s" and "mermaidReady s = Some (Rejected e)"
    and "(mermaid_step lay)\<^sup>*\<^sup>* s t"
  shows "mermaidReady t = Some (Rejected e) \<and> finished t = finished s \<and> asked t = 1
    \<and> (\<forall>p < length (jobs t). \<forall>e'. outcome (jobs t ! p) = Rejected e' \<longrightarrow> \<not> swept (jobs t ! p) \<longrightarrow>
        (case renderMermaid i (job_source (jobs t ! p)) (sweep p t) of (q, u) \<Rightarrow>
           q = length (jobs t) \<and> outcome (jobs u ! q) = Unsettled \<and> asked u = 1
         \<and> finished u = finished s \<and> outcome (jobs (settle lay q u) ! q) = Rejected e))"
proof -
  have t: "mermaidReady t = Some (Rejected e) \<and> finished t = finished s \<and> mermaid_ok lay t"
    using assms(3)
  proof (induction rule: rtranclp_induct)
    case base
    show ?case using assms(2) mermaid_reach_ok [OF assms(1)] by simp
  next
    case (step t' t)
    then show ?case
      using step_rejected [OF step(2)] finished_rejected [OF step(2)] mermaid_step_ok [OF step(2)] by simp
  qed
  then have one: "asked t = 1" by (simp add: mermaid_ok_def)
  have again: "case renderMermaid i (job_source (jobs t ! p)) (sweep p t) of (q, u) \<Rightarrow>
           q = length (jobs t) \<and> outcome (jobs u ! q) = Unsettled \<and> asked u = 1
         \<and> finished u = finished s \<and> outcome (jobs (settle lay q u) ! q) = Rejected e"
    if p: "p < length (jobs t)" "outcome (jobs t ! p) = Rejected e'" "\<not> swept (jobs t ! p)" for p e'
  proof (cases "renderMermaid i (job_source (jobs t ! p)) (sweep p t)")
    case (Pair q u)
    from asks_again [of lay t p e e' i q u] t p one Pair show ?thesis unfolding Pair prod.case by argo
  qed
  show ?thesis
  proof (intro conjI allI impI)
    show "mermaidReady t = Some (Rejected e)" "finished t = finished s" "asked t = 1" using t one by simp_all
  qed (rule again)
qed

theorem failed_import_sticks_witness:
  "\<exists>t. mermaidReady t = Some (Rejected [101]) \<and> outcome (jobs t ! 0) = Rejected [101] \<and>
     fst (renderMermaid [97] [103] t) = 0 \<and> fst (renderMermaid [97] [103] (sweep 0 t)) = 1"
proof -
  define j where "j = \<lparr>job_id = [97], job_source = [103], outcome = Unsettled, swept = False\<rparr>"
  define s where "s = \<lparr>mermaidReady = Some Unsettled, asked = 1, jobs = [j], mermaidRenders = [[103] \<mapsto> 0]\<rparr>"
  define r where "r = s\<lparr>mermaidReady := Some (Rejected [101])\<rparr>"
  define t where "t = r\<lparr>jobs := [j\<lparr>outcome := Rejected [101]\<rparr>]\<rparr>"
  have "s = snd (renderMermaid [97] [103] mermaid_init)"
    by (simp add: s_def j_def renderMermaid_def mermaid_init_def Let_def loadMermaid_def)
  then have "(mermaid_step drawn)\<^sup>*\<^sup>* mermaid_init s" using first_ask by simp
  moreover have "mermaid_step drawn s r" unfolding r_def by (rule mermaid_step.not_loaded) (simp add: s_def)
  ultimately have reach: "(mermaid_step drawn)\<^sup>*\<^sup>* mermaid_init r" by (rule rtranclp.rtrancl_into_rtrancl)
  have "mermaid_step drawn r (settle drawn 0 r)" by (rule mermaid_step.settle) (simp_all add: r_def s_def j_def)
  moreover have "settle drawn 0 r = t" by (simp add: settle_def settled_def t_def r_def s_def)
  ultimately have "(mermaid_step drawn)\<^sup>*\<^sup>* r t" by simp
  moreover have "mermaidReady r = Some (Rejected [101])" by (simp add: r_def)
  ultimately have c: "mermaidReady t = Some (Rejected [101])"
      "fst (renderMermaid [97] (job_source (jobs t ! 0)) (sweep 0 t)) = length (jobs t)"
    using failed_import_sticks [OF reach, of "[101]" t "[97]"] by (auto simp: t_def j_def split_beta)
  have "job_source (jobs t ! 0) = [103]" "length (jobs t) = 1" "outcome (jobs t ! 0) = Rejected [101]"
    "fst (renderMermaid [97] [103] t) = 0"
    by (simp_all add: t_def r_def s_def j_def renderMermaid_def)
  with c show ?thesis by metis
qed

end
