(* ===== verification/Mobile.thy ===== *)
theory Mobile
  imports Js
begin

text \<open>
  docs/src/hooks/use-mobile.ts: the hook's state, its listener and its answer. The listener runs
  when the media query changes its answer, which is less often than the width does.
\<close>

definition MOBILE_BREAKPOINT :: int where "MOBILE_BREAKPOINT = 768"

text \<open>Whether the query of the hook matches a window of this width.\<close>

definition mobile_query :: "int \<Rightarrow> bool" where
  "mobile_query innerWidth \<longleftrightarrow> innerWidth \<le> MOBILE_BREAKPOINT - 1"

definition mobile_onChange :: "int \<Rightarrow> bool option" where
  "mobile_onChange innerWidth = Some (innerWidth < MOBILE_BREAKPOINT)"

definition useIsMobile :: "bool option \<Rightarrow> bool" where
  "useIsMobile isMobile = (case isMobile of Some b \<Rightarrow> b | None \<Rightarrow> False)"

text \<open>The width of the window and the state: before the effect it is undefined.\<close>

inductive mobile_step :: "int \<times> bool option \<Rightarrow> int \<times> bool option \<Rightarrow> bool" where
  effect: "mobile_step (w, s) (w, mobile_onChange w)"
| resize: "mobile_step (w, s) (w', if s \<noteq> None \<and> mobile_query w' \<noteq> mobile_query w then mobile_onChange w' else s)"

lemma mobile_step_ok:
  "mobile_step a b \<Longrightarrow> snd a \<in> {None, mobile_onChange (fst a)} \<Longrightarrow> snd b \<in> {None, mobile_onChange (fst b)}"
  by (induction rule: mobile_step.induct) (auto simp: mobile_onChange_def mobile_query_def)

text \<open>The answer follows the width from the first effect on, and is False before.\<close>

lemma mobile_follows:
  "mobile_step\<^sup>*\<^sup>* (w, None) (w', s) \<Longrightarrow> useIsMobile s \<longleftrightarrow> s \<noteq> None \<and> w' < MOBILE_BREAKPOINT"
proof -
  assume "mobile_step\<^sup>*\<^sup>* (w, None) (w', s)"
  then have "snd (w', s) \<in> {None, mobile_onChange (fst (w', s))}"
    by (induction rule: rtranclp_induct) (auto dest: mobile_step_ok)
  then show ?thesis by (auto simp: useIsMobile_def mobile_onChange_def)
qed

end
