(* ===== verification/Spec2Isabelle.thy ===== *)
theory Spec2Isabelle
  imports SpecProps StoreProps RefDaemon UiProps ReaderProps Mobile
begin

text \<open>
  Quickspin runs sandboxes: containers with a lease, kept by a reconciler. A Go daemon holds the desired
  state in SQLite and drives Docker (internal/); a React reader shows the project's plans (docs/). This
  development models the daemon's packages from the errors up to the reconciler, and the whole of
  the reader with its component kit, and proves what makes them correct.

  How the program works. The control plane writes intents: a row per sandbox with its state, spec,
  expiry and version, and one event per transition. A pass of the reconciler lists the rows and the
  containers, joins them by sandbox id, decides one action per pair and carries it out through the
  runtime interface, writing the new state back under the version it read. The reader makes a list of
  documents from modules the bundler collects, shows one of them by the address, and keeps its
  preferences in the local storage; the documents are drawn by MDX components over the kit.

  \<^bold>\<open>Theories and code\<close>

  \<^item> Prelude: strings, 64-bit integers, float comparison, list lemmas, the rewrite collections. Errs:
    internal/errs and each package's errors.go; an error is \<open>goerr option\<close>, nil is \<open>None\<close>, \<open>errors_Is\<close>
    searches the chain.
  \<^item> RuntimeSpec: internal/runtime (\<open>Spec\<close>, \<open>Info\<close>, \<open>ExecResult\<close>, \<open>Spec_Validate\<close>, the path checks of
    file_info.go, the ids of ids.go). RuntimeIface: the interface \<open>runtime.Runtime\<close> as the record
    \<open>runtime_ops\<close> with the locales \<open>runtime_contract\<close> (under any fault) and \<open>live_runtime\<close> (when the
    backend answers).
  \<^item> Sandbox: internal/sandbox (states, ttl, \<open>SpecFile\<close>, \<open>parseMemory\<close>, \<open>Resolve\<close>). Events:
    internal/events, with \<open>replay\<close>, the abstract history the store is held to.
  \<^item> Store: internal/store/sqlite, each statement and each method with its transaction; StoreLaws: the
    invariant \<open>db_ok\<close> and what each method does to it; StoreSpec: the interface \<open>store_ops\<close>, the
    locales \<open>store_contract\<close> and \<open>live_store\<close>, and their interpretation on the SQLite model
    (\<open>sql\<close>, \<open>sql_live\<close>). Control: internal/control over any store that keeps the contract.
    StoreProps: their properties.
  \<^item> TarFiles: docker/file_archive.go. DockerParts: labels.go, translate.go, stream.go and the functions
    of docker.go that have no receiver. Docker: every method of docker.go over \<open>'d daemon\<close>, the record
    of the Engine API's calls on a daemon state. DockerLaws: the locales \<open>docker_daemon\<close> and
    \<open>calm_daemon\<close> state the laws the API documents, and two sublocales prove that the backend then keeps
    \<open>runtime_contract\<close> and \<open>live_runtime\<close>. SpecProps: properties of specs, paths and archives.
  \<^item> Reconciler: internal/reconciler. ReconcilerLaws: the locales \<open>guarded\<close> and \<open>converging\<close> join a store and
    a runtime; the pass is proved there once. RefDaemon: \<open>docker_files\<close>, the law of file copies, and an
    executable daemon that keeps every law; it interprets all of these locales (\<open>ref\<close>, \<open>ref_files\<close>,
    \<open>sys\<close>), so the laws are consistent and the contracts hold of the SQLite store with the Docker
    backend.
  \<^item> Js: the values, operators and elements of JavaScript and React the site uses; Regex, Uri, Json:
    regular expressions, URL coding, JSON. Ui and UiLayout, UiControls, UiOverlays, UiMenus, UiMessages,
    UiField, UiCarousel, UiChart, UiSidebar: docs/src/components/ui, one function per component from
    its props to its element; Ui states the contract \<open>kit_ok\<close> of a thin component. UiProps: their
    properties. Mobile: hooks/use-mobile.ts.
  \<^item> Documents, DocLaws: documents.tsx. Mdx, Mermaid, Icons: mdx-components.tsx (Mermaid has the caches and
    jobs of the diagrams) and icons.tsx. Reader, ReaderView: App.tsx, its state with every handler and
    effect, and its view. ReaderLaws, LibraryLaws: the lemmas on them. ReaderProps: the properties.

  \<^bold>\<open>What is proved\<close>

  \<^item> The tables: over any history of calls and faults the event log replays to the rows, writes are
    atomic and guarded by the version, states only advance, keyed creation is idempotent (C1, C5 to C9).
  \<^item> The pass: two passes repair any drift, a pass under faults makes at most one legal transition per
    row and never leaves two containers for an id, what needs no action is left alone, and a container
    that cannot be recorded is removed again (C2 to C4, C10).
  \<^item> The backend: destroy leaves nothing, a written file reads back, exec output is exactly the first
    bytes of what was delivered, a command past its deadline is killed (C11 to C14).
  \<^item> Intents and specs: leases stay in their bounds, renewals touch one live row, destroy always
    succeeds, which paths and specs are accepted, what an archive and a listing can name (C15 to C24).
  \<^item> The reader: page, address and title agree at every moment; the document list, links, anchors,
    preferences, page-turner, hints and diagrams (C25 to C34).
  \<^item> The kit: the contract of every thin component, providers, field errors, the sidebar's cookie and
    toggles, the carousel's listeners (C35 to C40).

  Some of these state a flaw of the code as it is: C17 (a pending sandbox is reported destroyed), C21
  (NaN passes as a processor share), C23 (a short interval panics), C24 (negative memory wraps), C34 (a
  failed import is never tried again), C39 (toggles before a render), C40 (listeners are left).

  \<^bold>\<open>Faults, order, bounds\<close>

  A fault is an input. \<open>dbio\<close> says for one store call which round trip to the driver fails; the daemon's
  record may answer anything its laws allow; theorems are over all of them unless they ask for a
  driver or daemon that answers (\<open>sq_calm\<close>, \<open>calm_daemon\<close>). The order in which Go walks a map is the
  argument \<open>perm\<close>, any permutation. Concurrency between the reconciler and the API is the interleaving
  of store transactions, \<open>db_step\<close>, in any order. Recursion is
  structural or has its measure, with two counts: \<open>awaitExecExit\<close> polls \<open>dk_Polls\<close> times, the ticks left
  until the context that bounds it is done, which is finite since every such context has a timeout;
  the regular expressions need no fuel, because a repetition must consume. Integers wrap at 64 bits
  where the source multiplies (\<open>wrap64\<close>); times and durations are unbounded integers.

  \<^bold>\<open>Not modelled\<close>

  \<^item> The HTTP server and its client, the command line, the daemon's wiring, the migrations, test fakes;
    logging, stack traces, closing of connections, the goroutine of the reconciler.
  \<^item> Go's Unicode case and white space: \<open>ToLower\<close> and \<open>TrimSpace\<close> are those of ASCII. The messages of
    \<open>ResolveTTL\<close> and \<open>Spec_Validate\<close> leave out the offending values; their sentinels are kept.
  \<^item> In the store the spec column holds the document itself: marshalling and unmarshalling are the identity,
    so the branch of \<open>scanSandboxRow\<close> for invalid JSON in the column, and the replacement of bytes that
    are not UTF-8, do not occur. In \<open>GetSandboxes\<close> and \<open>GetSandboxEvents\<close> an error of the query, of a scan or
    of the iteration is one error. Opening, closing and migrating the database are left out.
  \<^item> \<open>docker_New\<close> starts with a logger and a client that are there; the branches for nil are left out. The
    daemon, the SDK, the contexts, the UUID package and the SQLite driver are arguments with laws.
  \<^item> The packages below the kit (radix, recharts, embla, tailwind-merge and others) are the argument
    \<open>K\<close>, any function; where JavaScript throws a TypeError on undefined, as \<open>ChartTooltipContent\<close> would on
    a missing configuration, a read yields undefined. The layout of mermaid is a function of a render's
    id and its source. Scrolling, focus and animation are the browser's.
\<close>

section \<open>The way of an exec\<close>

text \<open>
  Where an exec stands once its output stream is attached: the state of the daemon then, the container
  and the exec. \<open>None\<close> is an exec that failed before.
\<close>

definition exec_attached ::
  "('u, 'd) docker \<Rightarrow> 'd \<Rightarrow> string \<Rightarrow> string list \<Rightarrow> ExecOpts \<Rightarrow> ('d \<times> string \<times> string) option" where
  "exec_attached B d i cmd opts =
     (case getContainerBysandboxID B (dk_Begin (dr_client B) d (exec_timeout_of opts)) i of
        (_, Inl _) \<Rightarrow> None
      | (d1, Inr c) \<Rightarrow>
     (case dk_ExecCreate (dr_client B) d1 (c_ID c) \<lparr>eo_attach = True, eo_Cmd = cmd,
             eo_Env = envToArgs (exec_env opts), eo_WorkingDir = exec_workdir opts\<rparr> of
        (_, Inl _) \<Rightarrow> None
      | (d2, Inr eid) \<Rightarrow>
     (case dk_ExecAttach (dr_client B) d2 eid of
        (_, Some _) \<Rightarrow> None
      | (d3, None) \<Rightarrow> Some (d3, c_ID c, eid))))"

lemma docker_Exec_attached:
  "exec_attached B d i cmd opts = Some (d3, cid, eid) \<Longrightarrow>
     docker_Exec B d i cmd opts = exec_stream (dr_client B) d3 cid eid i cmd opts"
  by (auto simp: exec_attached_def docker_Exec_def Let_def split: prod.splits sum.splits option.splits)

lemma docker_Exec_unattached:
  "exec_attached B d i cmd opts = None \<Longrightarrow> docker_Exec B d i cmd opts = (d', r, res) \<Longrightarrow>
     res \<noteq> None \<and> r = exec_result (- 1) (copy_frames [])"
  by (auto simp: exec_attached_def docker_Exec_def Let_def split: prod.splits sum.splits option.splits)

lemma exec_stream_frames:
  assumes "dk_Stream D d eid = (d1, frames, stop)" and "exec_stream D d cid eid i cmd opts = (d', r, res)"
  shows "\<exists>code. r = exec_result code (copy_frames frames) \<and> (res \<noteq> None \<longrightarrow> code = - 1)
    \<and> (res = None \<longrightarrow> stop = CopyDone None \<and> awaitExecExit D (ctx_err D) (dk_Polls D d1) d1 eid = (d', Inr code))"
  using assms by (auto simp: exec_stream_def Let_def abandon_def split: prod.splits stream_end.splits option.splits sum.splits)

text \<open>What the frames carry of standard output or of standard error.\<close>

definition stream_of :: "bool \<Rightarrow> (bool \<times> string) list \<Rightarrow> string" where
  "stream_of err frames = concat (map snd (filter (\<lambda>f. fst f = err) frames))"

section \<open>Samples\<close>

lemma ref_docker_wok: "docker_wok ref_docker rd_cs ref_ok (ref_state fails)"
  by (simp add: docker_wok_def ref_ok_def ref_state_def one_each_def List.map_filter_simps)

definition sample_reconciler :: "db \<Rightarrow> (sqlite, refd) reconciler" where
  "sample_reconciler d = \<lparr>mu = False, rec_store = sample_sqlite d, rec_runtime = ref_state []\<rparr>"

lemma sample_reconciler_sel [simp]:
  "rec_store (sample_reconciler d) = sample_sqlite d" "rec_runtime (sample_reconciler d) = ref_state []"
  "mu (sample_reconciler d) = False"
  by (simp_all add: sample_reconciler_def)

lemma sample_sqlite_ok: "sq_ok (sample_sqlite sample_created)" "sq_ok (sample_sqlite sample_running)"
  by (simp_all add: sq_ok_def sample_sqlite_def sample_created_ok sample_running_ok)

lemma sample_obs: "docker_obs ref_docker rd_cs (ref_state fails) i = None"
  by (simp add: docker_obs_def ref_state_def)

lemma sample_row_at: "sq_row (sample_sqlite d) i = find_row d i"
  by (simp add: sq_row_def sample_sqlite_def)

lemma sample_created_only: "find_row sample_created i = Some r \<Longrightarrow> i = ''sbx_a1'' \<and> r = sample_row"
  unfolding sample_created_def sample_create
  by (auto simp: empty_db_def find_row_def inserted_def new_row_def sample_row_def NewSandboxID_def sandboxIDPrefix_def
      split: if_splits)

lemma sample_usable: "docker_usable ref_docker ''sbx_a1''"
  by (simp add: docker_usable_def ref_docker_def ref_uuid_def ValidateSandboxID_def CutPrefix_def sandboxIDPrefix_def)

lemma sample_quiet: "sys.quiet (sample_sqlite sample_created, ref_state [])"
proof -
  have "sq_calm (sample_sqlite sample_created)" "ref_calm (ref_state [])"
    by (simp_all add: sq_calm_def sample_sqlite_def ref_calm_def ref_state_def)
  moreover have "docker_usable ref_docker i" if "find_row sample_created i = Some r" for i r
    using sample_created_only [OF that] sample_usable by simp
  ultimately show ?thesis
    using sample_sqlite_ok(1) ref_docker_wok [of "[]"] by (auto simp: sys.quiet_def sample_row_at)
qed

text \<open>A daemon that runs the container of one sandbox and has output for an exec in it.\<close>

definition sample_serving :: refd where
  "sample_serving = (ref_state [])\<lparr>
     rd_cs := [\<lparr>c_ID = ''c'', c_Labels = managedLabels ''sbx_a1'', c_State = ''running'', c_Created = 1\<rparr>],
     rd_next := 2, rd_frames := [(False, ''one''), (True, ''warn''), (False, ''two'')], rd_exit := 7\<rparr>"

definition sample_full_disk :: sqlite where
  "sample_full_disk = (sample_sqlite sample_created)\<lparr>sq_io := (\<lambda>_. no_fault\<lparr>io_commit := Some ''disk full''\<rparr>)\<rparr>"

lemma sample_resolves: "\<exists>sp. ResolveValidated (Some empty_SpecFile) = Inr sp \<and> Spec_Validate sp = None"
proof -
  have p: "parseMemory DefaultMemory = Inr 536870912" by code_simp
  then show ?thesis
    by (simp add: ResolveValidated_def Resolve_def empty_SpecFile_def NewSpec_def Spec_Validate_def
        DefaultImage_def DefaultCPUs_def DefaultPidsLimit_def MinCPULimit_def MinMemoryLimit_def)
qed

lemma sample_attached:
  "exec_attached ref_docker (sample_serving\<lparr>rd_stream_end := stop\<rparr>) ''sbx_a1'' cmd opts
     = Some (sample_serving\<lparr>rd_stream_end := stop\<rparr>, ''c'', ''exec'')"
proof -
  have v: "ValidateSandboxID ref_uuid ''sbx_a1'' = None"
    by (simp add: ref_uuid_def ValidateSandboxID_def CutPrefix_def sandboxIDPrefix_def)
  then have "managedSandboxID ref_uuid (managedLabels ''sbx_a1'') = Some ''sbx_a1''" by simp
  moreover from id_filter [OF v, of "managedLabels ''sbx_a1''"] this
  have "\<forall>f\<in>set (labelFilter (managedLabels ''sbx_a1'')). filter_matches (managedLabels ''sbx_a1'') f" by simp
  ultimately show ?thesis
    using v by (simp add: exec_attached_def getContainerBysandboxID_def Let_def ref_docker_def ref_client_def ref_list_def
        ref_exec_create_def sample_serving_def ref_state_def)
qed

section \<open>The reconciler on the store and the Docker backend\<close>

text \<open>
  C3: One reconciliation pass is safe under every fault of the driver and of the daemon: it makes no
  row and deletes none, and it moves each row by at most one legal lifecycle transition; the tables
  stay consistent and no sandbox id ever gets a second container.
\<close>

theorem pass_safe_under_faults:
  assumes "docker_daemon B containers dok" and "sq_ok (rec_store rc)" and "docker_wok B containers dok (rec_runtime rc)"
    and "\<And>xs. mset (perm xs) = mset xs"
    and "ReconcileOnce sqlite_ops (docker_ops B) perm now rc = (rc', res)"
  shows "sq_ok (rec_store rc') \<and> docker_wok B containers dok (rec_runtime rc')
    \<and> (\<forall>i. case sq_row (rec_store rc) i of
          None \<Rightarrow> sq_row (rec_store rc') i = None
        | Some r \<Rightarrow> sq_row (rec_store rc') i = Some r
            \<or> (\<exists>to t. CanTransition (sb_state r) to = None \<and> sq_row (rec_store rc') i = Some (bump t to r)))"
  using guarded.once_safe [OF guarded_docker [OF assms(1)] assms(2,3,4,5)]
  by (auto simp: guarded.pass_step_def [OF guarded_docker [OF assms(1)]] split: option.split)

lemma pass_safe_under_faults_witness:
  "\<exists>rc' res. ReconcileOnce sqlite_ops (docker_ops ref_docker) (\<lambda>xs. xs) 100 (sample_reconciler sample_created) = (rc', res)
     \<and> docker_wok ref_docker rd_cs ref_ok (rec_runtime rc')"
proof -
  obtain rc' res where o: "ReconcileOnce sqlite_ops (docker_ops ref_docker) (\<lambda>xs. xs) 100 (sample_reconciler sample_created) = (rc', res)"
    by (cases "ReconcileOnce sqlite_ops (docker_ops ref_docker) (\<lambda>xs. xs) 100 (sample_reconciler sample_created)")
  from pass_safe_under_faults [OF ref.docker_daemon_axioms _ _ _ o] sample_sqlite_ok(1) ref_docker_wok o
  show ?thesis by auto
qed

text \<open>
  C4: A pass never touches what is healthy. A sandbox whose row and container need no action, such as
  a running row within its lifetime with a running container, has the same row and the same container
  after the pass, whatever else the pass does and whatever fails.
\<close>

theorem healthy_untouched:
  assumes "docker_daemon B containers dok" and "sq_ok (rec_store rc)" and "docker_wok B containers dok (rec_runtime rc)"
    and "\<And>xs. mset (perm xs) = mset xs"
    and "ReconcileOnce sqlite_ops (docker_ops B) perm now rc = (rc', Inr acts)"
    and "decideReconcileAction (sq_row (rec_store rc) i) (docker_obs B containers (rec_runtime rc) i) now = ActionNone"
  shows "sq_row (rec_store rc') i = sq_row (rec_store rc) i
    \<and> docker_obs B containers (rec_runtime rc') i = docker_obs B containers (rec_runtime rc) i"
  by (rule guarded.once_untouched [OF guarded_docker [OF assms(1)] assms(2,3,4,5,6)])

lemma healthy_untouched_witness:
  "\<exists>rc' acts. ReconcileOnce sqlite_ops (docker_ops ref_docker) (\<lambda>xs. xs) 100 (sample_reconciler sample_created) = (rc', Inr acts)
     \<and> sq_row (rec_store rc') ''other'' = None"
proof -
  have q: "sys.quiet (rec_store (sample_reconciler sample_created), rec_runtime (sample_reconciler sample_created))"
    using sample_quiet by simp
  from sys.once_live [OF q, of "\<lambda>xs. xs" 100] obtain rc' acts where
    o: "ReconcileOnce sqlite_ops (docker_ops ref_docker) (\<lambda>xs. xs) 100 (sample_reconciler sample_created) = (rc', Inr acts)"
    by auto
  have none: "sq_row (sample_sqlite sample_created) ''other'' = None"
    using sample_created_only [of "''other''"] by (cases "find_row sample_created ''other''") (auto simp: sample_row_at)
  have d: "decideReconcileAction (sq_row (rec_store (sample_reconciler sample_created)) ''other'')
      (docker_obs ref_docker rd_cs (rec_runtime (sample_reconciler sample_created)) ''other'') 100 = ActionNone"
    by (simp add: none sample_obs decideReconcileAction_def)
  from healthy_untouched [OF ref.docker_daemon_axioms _ _ _ o d] sample_sqlite_ok(1) ref_docker_wok o none
  show ?thesis by auto
qed

text \<open>
  C2: Reconciliation converges. When the driver and the daemon answer and the ids are well formed,
  three passes at one time all complete, and the third decides no action at all: two passes repair
  any drift between the tables and the containers, including orphans, expired sandboxes, stopped
  containers and specs that do not resolve.
\<close>

theorem reconciliation_converges:
  assumes "calm_daemon B containers dok dcalm" and "sq_ok (rec_store rc)" and "sq_calm (rec_store rc)"
    and "docker_wok B containers dok (rec_runtime rc)" and "dcalm (rec_runtime rc)"
    and "\<And>i r. sq_row (rec_store rc) i = Some r \<Longrightarrow> docker_usable B i"
    and "\<not> mu rc" and "\<And>xs. mset (perm xs) = mset xs"
  shows "\<exists>rc1 a1 rc2 a2 rc3. ReconcileOnce sqlite_ops (docker_ops B) perm now rc = (rc1, Inr a1)
    \<and> ReconcileOnce sqlite_ops (docker_ops B) perm now rc1 = (rc2, Inr a2)
    \<and> ReconcileOnce sqlite_ops (docker_ops B) perm now rc2 = (rc3, Inr [])"
proof (rule converging.converges [OF converging_docker [OF assms(1)] _ assms(7,8)])
  show "converging.quiet sq_ok sq_row sq_calm (docker_wok B containers dok) dcalm (docker_usable B)
      (rec_store rc, rec_runtime rc)"
    using assms(2-6) by (auto simp: converging.quiet_def [OF converging_docker [OF assms(1)]])
qed

lemma reconciliation_converges_witness:
  "\<exists>rc1 a1 rc2 a2 rc3.
     ReconcileOnce sqlite_ops (docker_ops ref_docker) (\<lambda>xs. xs) 100 (sample_reconciler sample_created) = (rc1, Inr a1)
   \<and> ReconcileOnce sqlite_ops (docker_ops ref_docker) (\<lambda>xs. xs) 100 rc1 = (rc2, Inr a2)
   \<and> ReconcileOnce sqlite_ops (docker_ops ref_docker) (\<lambda>xs. xs) 100 rc2 = (rc3, Inr [])"
  by (rule reconciliation_converges [OF ref.calm_daemon_axioms])
    (use sample_quiet in \<open>auto simp: sys.quiet_def\<close>)

text \<open>
  C10: When a container was created but its sandbox could not be recorded as running, the row is as it
  was and the container does not stay: it is gone again, or removing it failed as well and the error
  returned carries that failure.
\<close>

theorem unrecorded_container_removed:
  assumes "docker_daemon B containers dok" and "sq_ok s" and "docker_wok B containers dok d"
    and "docker_obs B containers d (sb_sandbox_id r) = None"
    and "ResolveValidated (Some (sb_spec r)) = Inr sp"
    and "docker_Create B d (sb_sandbox_id r) sp = (d1, Inr x)"
    and "act_create sqlite_ops (docker_ops B) r (s, d) = ((s', d'), Some e)"
  shows "sq_row s' = sq_row s \<and> (docker_obs B containers d' (sb_sandbox_id r) = None
    \<or> (\<exists>de. docker_Destroy B d1 (sb_sandbox_id r) = (d', Some de) \<and> (\<forall>t. errors_Is de t \<longrightarrow> errors_Is e t)))"
  using guarded.create_undone [OF guarded_docker [OF assms(1)] assms(2-5) _ assms(7)] assms(6) by simp

lemma unrecorded_container_removed_witness:
  "\<exists>s' d' e. act_create sqlite_ops (docker_ops ref_docker) sample_row (sample_full_disk, ref_state []) = ((s', d'), Some e)
     \<and> sq_row s' = sq_row sample_full_disk \<and> docker_obs ref_docker rd_cs d' ''sbx_a1'' = None"
proof -
  have i: "sb_sandbox_id sample_row = ''sbx_a1''" by (simp add: sample_row_def)
  have ok: "sq_ok sample_full_disk" using sample_sqlite_ok(1) by (simp add: sample_full_disk_def sq_ok_def)
  obtain sp where sp: "ResolveValidated (Some (sb_spec sample_row)) = Inr sp" and v: "Spec_Validate sp = None"
    using sample_resolves by (auto simp: sample_row_def)
  obtain d1 res where c: "docker_Create ref_docker (ref_state []) (sb_sandbox_id sample_row) sp = (d1, res)"
    by (cases "docker_Create ref_docker (ref_state []) (sb_sandbox_id sample_row) sp")
  from ref.Create_calm [OF _ c] sample_usable v i obtain x where x: "res = Inr x" and calm1: "ref_calm d1"
    by (auto simp: ref_calm_def ref_state_def)
  obtain s1 u where u: "so_UpdateSandboxState sqlite_ops sample_full_disk ''sbx_a1'' Pending Running
      ''reconciler created container'' 1 = (s1, u)"
    by (cases "so_UpdateSandboxState sqlite_ops sample_full_disk ''sbx_a1'' Pending Running ''reconciler created container'' 1")
  have "\<exists>e. u = Inl e"
    using u by (cases u) (auto simp: sample_full_disk_def sqlite_ops_def sq_write_def Let_def sample_sqlite_def
        UpdateSandboxState_def split: prod.splits option.splits sum.splits if_splits)
  then obtain ue where ue: "u = Inl ue" by blast
  obtain d2 de where dd: "docker_Destroy ref_docker d1 (sb_sandbox_id sample_row) = (d2, de)"
    by (cases "docker_Destroy ref_docker d1 (sb_sandbox_id sample_row)")
  from ref.Destroy_calm [OF calm1 dd] sample_usable i have de: "de = None" by simp
  have ver: "sb_version sample_row = 1" by (simp add: sample_row_def)
  obtain s' d' e where a: "act_create sqlite_ops (docker_ops ref_docker) sample_row (sample_full_disk, ref_state []) = ((s', d'), Some e)"
    and d': "d' = d2"
    using sp c x u ue dd de i ver by (auto simp: act_create_def Let_def)
  have none: "docker_obs ref_docker rd_cs (ref_state []) (sb_sandbox_id sample_row) = None" by (rule sample_obs)
  from unrecorded_container_removed [OF ref.docker_daemon_axioms ok ref_docker_wok none sp c [unfolded x] a]
  show ?thesis using a dd de d' i by auto
qed

text \<open>
  The join of the two snapshots does not depend on the order in which Go walks its map: for any
  two orders it is the same list, sorted by sandbox id, with one item for every id that has a row or a
  container, holding that row and that container.
\<close>

theorem join_order_independent:
  assumes "distinct (map sb_sandbox_id sbxs)" and "distinct (map info_id infos)"
    and "\<And>xs. mset (perm xs) = mset xs" and "\<And>xs. mset (perm' xs) = mset xs"
  shows "pairSnapshots perm sbxs infos = pairSnapshots perm' sbxs infos
    \<and> sorted (map item_id (pairSnapshots perm sbxs infos)) \<and> distinct (map item_id (pairSnapshots perm sbxs infos))
    \<and> set (map item_id (pairSnapshots perm sbxs infos)) = sb_sandbox_id ` set sbxs \<union> info_id ` set infos
    \<and> (\<forall>r\<in>set sbxs. \<lparr>desired = Some r, observed = find (\<lambda>x. info_id x = sb_sandbox_id r) infos\<rparr>
          \<in> set (pairSnapshots perm sbxs infos))"
proof -
  have p: "pairSnapshots perm sbxs infos = sort_key item_id (joined sbxs infos)"
    "pairSnapshots perm' sbxs infos = sort_key item_id (joined sbxs infos)"
    by (rule pairSnapshots_joined [OF assms(1)], simp add: assms(3,4))+
  have ids: "set (map item_id (joined sbxs infos)) = sb_sandbox_id ` set sbxs \<union> info_id ` set infos"
    unfolding joined_ids by (auto simp: orphan_ids_def)
  have look: "info_map infos i = find (\<lambda>x. info_id x = i) infos" for i
  proof (rule option_eqI)
    fix x
    show "info_map infos i = Some x \<longleftrightarrow> find (\<lambda>x. info_id x = i) infos = Some x"
      using find_distinct [OF assms(2)] by (auto simp: info_map_Some [OF assms(2)] find_Some_iff)
  qed
  have "row_item infos r \<in> set (joined sbxs infos)" if "r \<in> set sbxs" for r
    using that by (simp add: joined_def)
  then show ?thesis
    using ids joined_distinct [OF assms(1), of infos] by (simp add: p look row_item_def distinct_map)
qed

lemma join_order_independent_witness:
  "pairSnapshots rev [] [\<lparr>info_id = ''b'', info_state = StateRunning, info_created = 1\<rparr>,
      \<lparr>info_id = ''a'', info_state = StateRunning, info_created = 1\<rparr>]
   = pairSnapshots (\<lambda>xs. xs) [] [\<lparr>info_id = ''b'', info_state = StateRunning, info_created = 1\<rparr>,
      \<lparr>info_id = ''a'', info_state = StateRunning, info_created = 1\<rparr>]"
  using join_order_independent [of "[]" "[\<lparr>info_id = ''b'', info_state = StateRunning, info_created = 1\<rparr>,
      \<lparr>info_id = ''a'', info_state = StateRunning, info_created = 1\<rparr>]" rev "\<lambda>xs. xs"] by simp

section \<open>The Docker backend\<close>

text \<open>
  C13: Whatever the daemon does, what an exec returns is bounded and honest. When the output stream was
  attached, standard output and standard error hold, up to the cap, exactly the first bytes of the
  frames the daemon delivered for each, and each truncation flag is set exactly when bytes were dropped;
  when it was not, there is an error and no output. An error comes with exit code -1; success means the
  stream ended without one and carries the exit code that the daemon reported.
\<close>

theorem exec_output_bounded:
  assumes "docker_Exec B d i cmd opts = (d', r, res)"
  shows "length (res_stdout r) \<le> MaxStreamBytes \<and> length (res_stderr r) \<le> MaxStreamBytes
    \<and> (res \<noteq> None \<longrightarrow> res_exit r = - 1)
    \<and> (case exec_attached B d i cmd opts of
         None \<Rightarrow> res \<noteq> None \<and> res_stdout r = [] \<and> res_stderr r = []
           \<and> \<not> res_stdout_truncated r \<and> \<not> res_stderr_truncated r
       | Some (d3, cid, eid) \<Rightarrow>
          (case dk_Stream (dr_client B) d3 eid of (d4, frames, stop) \<Rightarrow>
             res_stdout r = take MaxStreamBytes (stream_of False frames)
           \<and> res_stderr r = take MaxStreamBytes (stream_of True frames)
           \<and> (res_stdout_truncated r \<longleftrightarrow> MaxStreamBytes < length (stream_of False frames))
           \<and> (res_stderr_truncated r \<longleftrightarrow> MaxStreamBytes < length (stream_of True frames))
           \<and> (res = None \<longrightarrow> stop = CopyDone None
                \<and> awaitExecExit (dr_client B) (ctx_err (dr_client B)) (dk_Polls (dr_client B) d4) d4 eid
                    = (d', Inr (res_exit r)))))"
proof (cases "exec_attached B d i cmd opts")
  case None
  from docker_Exec_unattached [OF this assms] None show ?thesis
    by (auto simp: exec_result_def copy_frames_def newCappedWriter_def)
next
  case (Some t)
  obtain d3 cid eid where t: "t = (d3, cid, eid)" by (cases t)
  obtain d4 frames stop where f: "dk_Stream (dr_client B) d3 eid = (d4, frames, stop)"
    by (cases "dk_Stream (dr_client B) d3 eid")
  from docker_Exec_attached [OF Some [unfolded t]] assms
  have "exec_stream (dr_client B) d3 cid eid i cmd opts = (d', r, res)" by simp
  from exec_stream_frames [OF f this] show ?thesis
    by (auto simp: Some t f exec_result_def copy_frames_def cw_writes_eq stream_of_def)
qed

lemma exec_output_bounded_witness:
  "\<exists>d' r. docker_Exec ref_docker sample_serving ''sbx_a1'' [''ls''] \<lparr>exec_env = [], exec_workdir = [], exec_timeout = 0\<rparr> = (d', r, None)
     \<and> res_stdout r = ''onetwo'' \<and> res_stderr r = ''warn'' \<and> res_exit r = 7 \<and> \<not> res_stdout_truncated r"
proof -
  let ?o = "\<lparr>exec_env = [], exec_workdir = [], exec_timeout = 0\<rparr>"
  have att: "exec_attached ref_docker sample_serving ''sbx_a1'' [''ls''] ?o = Some (sample_serving, ''c'', ''exec'')"
    using sample_attached [of "CopyDone None" "[''ls'']" ?o] by (simp add: sample_serving_def ref_state_def)
  obtain d' r where e: "docker_Exec ref_docker sample_serving ''sbx_a1'' [''ls''] ?o = (d', r, None)"
    unfolding docker_Exec_attached [OF att]
    by (simp add: exec_stream_def Let_def ref_docker_def ref_client_def sample_serving_def ref_state_def numeral_3_eq_3)
  have s: "dk_Stream (dr_client ref_docker) sample_serving ''exec'' = (sample_serving, rd_frames sample_serving, CopyDone None)"
    "awaitExecExit (dr_client ref_docker) err n sample_serving ''exec'' = (sample_serving, Inr 7)" for err n
    by (cases n; simp add: ref_docker_def ref_client_def sample_serving_def ref_state_def)+
  have "stream_of False (rd_frames sample_serving) = ''onetwo''" "stream_of True (rd_frames sample_serving) = ''warn''"
    by (simp_all add: stream_of_def sample_serving_def)
  with exec_output_bounded [OF e] e show ?thesis by (simp add: att s MaxStreamBytes_def)
qed

text \<open>
  C14: A command that outlives its deadline is reaped. When the deadline interrupts the output of an
  attached exec, whose caller is still there, the daemon is asked, under a deadline of its own, to run
  pkill in the same container, with a pattern that is literally the abandoned command line, and is
  waited for. The outcome is the output written so far with exit code -1 and an error that is the exec
  timeout and, joined to it, the reason when the kill could not be created, started or followed, or
  the kill error when pkill ended with anything but 0 or 1.
\<close>

theorem exec_timeout_reaped:
  assumes "exec_attached B d i cmd opts = Some (d3, cid, eid)" and "D = dr_client B"
    and "dk_Stream D d3 eid = (d4, frames, CopyInterrupted)" and "dk_ParentErr D d4 = None"
    and "dk_FinalErr D d4 = Some (Sentinel ContextDeadlineExceeded)"
    and "dk_ExecCreate D (dk_Detach D d4 execKillTimeout) cid \<lparr>eo_attach = False,
           eo_Cmd = [''pkill'', ''-f'', ''-x'', ''--'', QuoteMeta (Join '' '' cmd)],
           eo_Env = envToArgs (exec_env opts), eo_WorkingDir = exec_workdir opts\<rparr> = (d5, kid)"
  shows "literal_of (QuoteMeta (Join '' '' cmd)) = Some (Join '' '' cmd)
    \<and> (\<exists>d' e. docker_Exec B d i cmd opts = (d', exec_result (- 1) (copy_frames frames), Some e)
        \<and> errors_Is e RuntimeErrExecTimeout
        \<and> (case kid of
             Inl ce \<Rightarrow> d' = d5 \<and> (\<forall>t. errors_Is e t \<longleftrightarrow> t = RuntimeErrExecTimeout \<or> errors_Is ce t)
           | Inr k \<Rightarrow> (case dk_ExecStart D d5 k of
               (d6, Some se) \<Rightarrow> d' = d6 \<and> (\<forall>t. errors_Is e t \<longleftrightarrow> t = RuntimeErrExecTimeout \<or> errors_Is se t)
             | (d6, None) \<Rightarrow> (case awaitExecExit D (ctx_err D) (dk_Polls D d6) d6 k of
                 (d7, Inl ie) \<Rightarrow> d' = d7 \<and> (\<forall>t. errors_Is e t \<longleftrightarrow> t = RuntimeErrExecTimeout \<or> errors_Is ie t)
               | (d7, Inr code) \<Rightarrow> d' = d7 \<and> (\<forall>t. errors_Is e t \<longleftrightarrow>
                   t = RuntimeErrExecTimeout \<or> code \<notin> {0, 1} \<and> t = RuntimeErrExecNotKilled)))))"
proof -
  define cause where "cause = exec_doneErr D i d4 ''while streaming output''"
  have cause: "errors_Is cause t \<longleftrightarrow> t = RuntimeErrExecTimeout" for t
    using assms(4,5) by (auto simp: cause_def exec_doneErr_def classifyExecDone_def)
  have x: "docker_Exec B d i cmd opts = abandon D d4 cid i cmd opts (copy_frames frames) cause"
    using assms(2,3) by (simp add: docker_Exec_attached [OF assms(1)] exec_stream_def Let_def cause_def)
  show ?thesis
    unfolding x abandon_def
    using assms(6) by (auto simp: killExec_def pkillCommand_def Let_def classifyPkillExit_def literal_QuoteMeta cause
        split: sum.splits prod.splits option.splits)
qed

lemma exec_timeout_reaped_witness:
  "\<exists>d' e. docker_Exec ref_docker (sample_serving\<lparr>rd_stream_end := CopyInterrupted\<rparr>) ''sbx_a1'' [''sleep'', ''9'']
        \<lparr>exec_env = [], exec_workdir = [], exec_timeout = 1\<rparr> = (d', exec_result (- 1) (copy_frames (rd_frames sample_serving)), Some e)
     \<and> rd_kills d' = [[''pkill'', ''-f'', ''-x'', ''--'', ''sleep 9'']] \<and> errors_Is e RuntimeErrExecTimeout"
proof -
  let ?d = "sample_serving\<lparr>rd_stream_end := CopyInterrupted\<rparr>"
  let ?o = "\<lparr>exec_env = [], exec_workdir = [], exec_timeout = 1\<rparr>"
  let ?k = "?d\<lparr>rd_kills := [[''pkill'', ''-f'', ''-x'', ''--'', ''sleep 9'']]\<rparr>"
  have "QuoteMeta (Join '' '' [''sleep'', ''9'']) = ''sleep 9''" by code_simp
  then have q: "QuoteMeta ''sleep 9'' = ''sleep 9''" by simp
  have a: "dk_Stream ref_client ?d ''exec'' = (?d, rd_frames sample_serving, CopyInterrupted)" "dk_ParentErr ref_client ?d = None"
    "dk_FinalErr ref_client ?d = Some (Sentinel ContextDeadlineExceeded)"
    "dk_ExecCreate ref_client (dk_Detach ref_client ?d execKillTimeout) ''c'' \<lparr>eo_attach = False,
       eo_Cmd = [''pkill'', ''-f'', ''-x'', ''--'', QuoteMeta (Join '' '' [''sleep'', ''9''])],
       eo_Env = envToArgs (exec_env ?o), eo_WorkingDir = exec_workdir ?o\<rparr> = (?k, Inr ''kill'')"
    by (simp_all add: ref_client_def ref_exec_create_def sample_serving_def ref_state_def q)
  have c: "ref_client = dr_client ref_docker" by (simp add: ref_docker_def)
  from exec_timeout_reaped [OF sample_attached [of CopyInterrupted "[''sleep'', ''9'']" ?o] c a] show ?thesis
    by (auto simp: ref_client_def numeral_3_eq_3)
qed

text \<open>
  C11: A destroy that reports success leaves no container of that sandbox: the next listing does not
  show it and inspecting it fails, whatever the daemon did in between; every other sandbox is listed
  as before.
\<close>

theorem destroyed_is_gone:
  assumes "docker_daemon B containers dok" and "docker_wok B containers dok d"
    and "docker_Destroy B d i = (d1, None)" and "docker_List B d1 = (d2, Inr infos)" and "docker_Inspect B d2 i = (d3, res)"
  shows "i \<notin> info_id ` set infos \<and> (\<exists>e. res = Inl e)
    \<and> (\<forall>x. info_id x \<noteq> i \<longrightarrow> (x \<in> set infos \<longleftrightarrow> docker_obs B containers d (info_id x) = Some x))"
proof -
  note fr = docker_daemon.Destroy_frame [OF assms(1,2,3)]
  then have w1: "docker_wok B containers dok d1" and o1: "docker_obs B containers d1 i = None" by auto
  note li = docker_daemon.List_Inr [OF assms(1) w1 assms(4)]
  note lf = docker_daemon.List_frame [OF assms(1) w1 assms(4)]
  have "i \<notin> info_id ` set infos"
  proof
    assume "i \<in> info_id ` set infos"
    then obtain x where "x \<in> set infos" "info_id x = i" by blast
    with conjunct2 [OF li] have "docker_obs B containers d1 i = Some x" by blast
    with o1 show False by simp
  qed
  moreover have "\<exists>e. res = Inl e"
  proof (cases "getContainerBysandboxID B d2 i")
    case (Pair d4 g)
    from lf have w2: "docker_wok B containers dok d2" by simp
    from lf o1 have "docker_obs B containers d2 i = None" by simp
    then have none: "\<forall>c\<in>set (containers d2). sid (dr_uuid B) c \<noteq> Some i"
      by (simp add: docker_obs_def obs_in_None)
    have "\<nexists>c. g = Inr c" using docker_daemon.get_frame [OF assms(1) w2 Pair] none by blast
    with Pair assms(5) show ?thesis by (cases g) (auto simp: docker_Inspect_def)
  qed
  moreover have "x \<in> set infos \<longleftrightarrow> docker_obs B containers d (info_id x) = Some x" if "info_id x \<noteq> i" for x
    using conjunct2 [OF li] fr that by metis
  ultimately show ?thesis by blast
qed

lemma destroyed_is_gone_witness:
  "\<exists>d1 d2 infos. docker_Destroy ref_docker sample_serving ''sbx_a1'' = (d1, None) \<and> docker_List ref_docker d1 = (d2, Inr infos)
     \<and> ''sbx_a1'' \<notin> info_id ` set infos \<and> docker_obs ref_docker rd_cs sample_serving ''sbx_a1'' \<noteq> None"
proof -
  have calm: "ref_calm sample_serving" by (simp add: ref_calm_def sample_serving_def ref_state_def)
  have v: "managedSandboxID ref_uuid (managedLabels ''sbx_a1'') = Some ''sbx_a1''"
    by (simp add: ref_uuid_def ValidateSandboxID_def CutPrefix_def sandboxIDPrefix_def)
  then have wok: "docker_wok ref_docker rd_cs ref_ok sample_serving"
    by (simp add: docker_wok_def ref_ok_def one_each_def List.map_filter_simps sample_serving_def ref_state_def split: option.split)
  have obs: "docker_obs ref_docker rd_cs sample_serving ''sbx_a1'' \<noteq> None"
    using v by (simp add: docker_obs_def obs_in_None sample_serving_def ref_docker_def sid_def summary_info_None del: not_None_eq)
  obtain d1 r where d: "docker_Destroy ref_docker sample_serving ''sbx_a1'' = (d1, r)"
    by (cases "docker_Destroy ref_docker sample_serving ''sbx_a1''")
  from ref.Destroy_calm [OF calm d] sample_usable have r: "r = None" "ref_calm d1" by auto
  obtain d2 l where l: "docker_List ref_docker d1 = (d2, l)" by (cases "docker_List ref_docker d1")
  from ref.List_calm [OF r(2) l] obtain infos where i: "l = Inr infos" by blast
  obtain d3 res where n: "docker_Inspect ref_docker d2 ''sbx_a1'' = (d3, res)" by (cases "docker_Inspect ref_docker d2 ''sbx_a1''")
  from destroyed_is_gone [OF ref.docker_daemon_axioms wok d [unfolded r] l [unfolded i] n] d l r i obs show ?thesis by blast
qed

text \<open>
  C12: What a file read returns is what the last write put there: after a write to a path of a sandbox
  succeeded, a read of that path that succeeds returns exactly the bytes written.
\<close>

theorem write_then_read:
  assumes "docker_files B containers dok file_at" and "docker_wok B containers dok d"
    and "docker_WriteFile B d i p content mode = (d1, None)" and "docker_ReadFile B d1 i p = (d2, Inr x)"
  shows "x = content"
  by (rule docker_files.write_read [OF assms])

lemma write_then_read_witness:
  "\<exists>d d1 d2 x. docker_WriteFile ref_docker d ''sbx_a1'' ''/a'' ''hi'' 420 = (d1, None)
     \<and> docker_ReadFile ref_docker d1 ''sbx_a1'' ''/a'' = (d2, Inr x) \<and> x = ''hi''"
proof -
  let ?c = "\<lparr>c_ID = [], c_Labels = managedLabels ''sbx_a1'', c_State = ''running'', c_Created = 1\<rparr>"
  let ?d = "(ref_state [])\<lparr>rd_cs := [?c], rd_next := 1\<rparr>"
  have u: "ValidateSandboxID (dr_uuid ref_docker) ''sbx_a1'' = None" using sample_usable by (simp add: docker_usable_def)
  have m: "managedSandboxID (dr_uuid ref_docker) (managedLabels ''sbx_a1'') = Some ''sbx_a1''" using u by simp
  have w: "docker_wok ref_docker rd_cs ref_ok ?d"
    by (simp add: docker_wok_def ref_ok_def ref_state_def one_each_def List.map_filter_simps split: option.split)
  have g: "getContainerBysandboxID ref_docker d ''sbx_a1'' = (d, Inr ?c)" if "rd_cs d = [?c]" "rd_fails d = []" for d
    using that u m id_filter [OF u, of "managedLabels ''sbx_a1''"]
    by (simp add: getContainerBysandboxID_def Let_def ref_docker_def ref_client_def ref_list_def)
  have "ValidateRead ''/a'' = None" by code_simp
  then have v: "ValidateRead ''/a'' = None" "ValidateWrite ''/a'' ''hi'' = None" by (simp_all add: ValidateWrite_def MaxFileSize_def)
  have b: "Base ''/a'' = ''a''" by code_simp
  have cl: "dr_client ref_docker = ref_client" by (simp add: ref_docker_def)
  let ?d1 = "?d\<lparr>rd_files := [(([], ''/a''), 420, ''hi'')]\<rparr>"
  have wr: "docker_WriteFile ref_docker ?d ''sbx_a1'' ''/a'' ''hi'' 420 = (?d1, None)"
    using v g [of ?d] by (simp add: docker_WriteFile_def Let_def cl ref_client_def ref_state_def fileArchive_def
        WriteHeader_def slash_def ref_copyto_def Perm_def)
  have rd: "docker_ReadFile ref_docker ?d1 ''sbx_a1'' ''/a'' = (?d1, Inr ''hi'')"
    using v g [of ?d1] by (simp add: docker_ReadFile_def Let_def cl ref_client_def ref_state_def ref_copyfrom_def
        fileUnarchive_def MaxFileSize_def b)
  from write_then_read [OF ref_files.docker_files_axioms w wr rd] wr rd show ?thesis by blast
qed

section \<open>The timer of the reconciler\<close>

text \<open>
  C23: The delay before the next pass is the configured interval plus less than a tenth of it, when the
  interval is at least ten nanoseconds and a tenth more still fits in 64 bits. Below ten nanoseconds
  the tenth is zero and the draw of the jitter panics.
\<close>

theorem reset_delay_bounds:
  assumes "0 < interval" and "interval * 11 < 10 * 2 ^ 63"
  shows "if interval < 10 then reset_delay interval rnd = None
    else \<exists>t. reset_delay interval rnd = Some t \<and> interval \<le> t \<and> t < interval + interval div 10"
proof (cases "interval < 10")
  case True
  with assms(1) have "quot interval 10 = 0" by (simp add: quot_nonneg)
  with True show ?thesis by (simp add: reset_delay_def)
next
  case False
  let ?n = "interval div 10"
  have n: "quot interval 10 = ?n" "0 < ?n" using False by (simp_all add: quot_nonneg)
  have j: "0 \<le> int rnd mod ?n" "int rnd mod ?n < ?n" using n(2) by simp_all
  have "int64 (interval + int rnd mod ?n)" using j assms by (auto simp: int64_def)
  with n j False show ?thesis by (simp add: reset_delay_def Let_def)
qed

lemma reset_delay_bounds_witness:
  "reset_delay 9 5 = None \<and> (\<exists>t. reset_delay defaultInterval 12345 = Some t \<and> t < defaultInterval + defaultInterval div 10)"
  using reset_delay_bounds [of 9 5] reset_delay_bounds [of defaultInterval 12345]
  by (auto simp: defaultInterval_def Second_def)

end
